(* ===== verification/Prelude.thy ===== *)
theory Prelude
  imports Main "HOL-Library.Monad_Syntax" "HOL-Library.Char_ord" "HOL-Library.List_Lexorder"
    "HOL-Library.Sublist"
begin

text \<open>
  Generic vocabulary shared by all components: bytes and strings, the two C library
  routines the headers call on raw memory, checked (asserted) computations, and lemmas on
  lists, options and maps.

  Conventions of the whole development:
  \<^item> a byte is a \<^typ>\<open>char\<close>, compared by its unsigned value as \<open>memcmp\<close> does;
    \<open>std::string\<close> values are char lists and may contain any byte, also NUL;
  \<^item> a computation that can violate an \<open>assert\<close> or read outside its buffer returns an
    option, with None for the violation; sequencing is the option monad;
  \<^item> a \<open>size_t\<close> is a \<^typ>\<open>nat\<close> where no operation can leave the range of 64 bits,
    and a 64-bit word or an explicit \<open>mod\<close> where one can.
\<close>

named_theorems slice_simps \<open>facts on slices used by the clients of slice.h\<close>
named_theorems status_simps \<open>fields of the status values built by status.h and io_status.h\<close>
named_theorems wf_intros \<open>every operation keeps its component's invariant\<close>

type_synonym byte = char
type_synonym bytes = string

definition NUL :: byte where
  "NUL = CHR 0x00"

definition byte_val :: "byte \<Rightarrow> int" where
  "byte_val c = int (of_char c :: nat)"

lemma byte_val_inject [simp]: "byte_val x = byte_val y \<longleftrightarrow> x = y"
  by (simp add: byte_val_def)

lemma byte_val_less [simp]: "byte_val x < byte_val y \<longleftrightarrow> x < y"
  by (simp add: byte_val_def less_char_def)

text \<open>\<open>assert(P)\<close> in front of a computation.\<close>

definition asserting :: "bool \<Rightarrow> 'a \<Rightarrow> 'a option" where
  "asserting P x = (if P then Some x else None)"

lemma asserting_simps [simp]:
  "asserting True x = Some x" "asserting False x = None"
  "asserting P x = Some y \<longleftrightarrow> P \<and> y = x" "asserting P x = None \<longleftrightarrow> \<not> P"
  by (auto simp: asserting_def)

section \<open>The C library routines on raw memory\<close>

text \<open>
  \<open>memcmp(p, q, n)\<close> over the readable bytes behind both pointers: only the sign of the
  result is specified by the C standard, and only the sign is used. Reading past the end
  of a buffer is undefined behaviour (None).
\<close>

fun memcmp :: "bytes \<Rightarrow> bytes \<Rightarrow> nat \<Rightarrow> int option" where
  "memcmp p q 0 = Some 0"
| "memcmp (x # p) (y # q) (Suc n) =
     (if x = y then memcmp p q n else Some (if byte_val x < byte_val y then -1 else 1))"
| "memcmp p q (Suc n) = None"

text \<open>\<open>strlen(p)\<close>; without a terminator it runs off the buffer.\<close>

fun strlen :: "bytes \<Rightarrow> nat option" where
  "strlen [] = None"
| "strlen (c # p) = (if c = NUL then Some 0 else map_option Suc (strlen p))"

lemma memcmp_defined: "n \<le> length p \<Longrightarrow> n \<le> length q \<Longrightarrow> \<exists>r. memcmp p q n = Some r"
  by (induction p q n rule: memcmp.induct) auto

lemma memcmp_zero:
  "n \<le> length p \<Longrightarrow> n \<le> length q \<Longrightarrow> memcmp p q n = Some 0 \<longleftrightarrow> take n p = take n q"
  by (induction p q n rule: memcmp.induct) auto

lemma strlen_terminated: "NUL \<notin> set s \<Longrightarrow> strlen (s @ NUL # t) = Some (length s)"
  by (induction s) auto

lemma strlen_bound: "strlen p = Some n \<Longrightarrow> n < length p"
  by (induction p arbitrary: n) (auto split: if_splits)

section \<open>Lists, options and maps\<close>

lemma take_length_prefix: "length x \<le> length s \<Longrightarrow> take (length x) s = x \<longleftrightarrow> prefix x s"
  by (metis append_eq_conv_conj prefix_def)

lemma drop_length_suffix:
  assumes "length x \<le> length s"
  shows "drop (length s - length x) s = x \<longleftrightarrow> suffix x s"
proof
  assume "drop (length s - length x) s = x"
  then show "suffix x s" by (metis suffix_drop)
next
  assume "suffix x s"
  then obtain z where "s = z @ x" by (auto simp: suffix_def)
  then show "drop (length s - length x) s = x" by simp
qed

lemma if_less_min: "(if a < b then a else b) = min a (b :: 'a :: linorder)"
  by (auto simp: min_def)

text \<open>The sign of a three-way comparison is determined by its three implications.\<close>

lemma three_way_iff:
  fixes r :: int and p q :: "'a :: linorder"
  assumes "r < 0 \<longrightarrow> p < q" "0 < r \<longrightarrow> q < p" "r = 0 \<longrightarrow> p = q"
  shows "r < 0 \<longleftrightarrow> p < q" "r = 0 \<longleftrightarrow> p = q" "0 < r \<longleftrightarrow> q < p"
  using assms by (cases r "0 :: int" rule: linorder_cases; auto)+

lemma map_of_distinct_SomeI:
  "distinct (map fst m) \<Longrightarrow> (k, v) \<in> set m \<Longrightarrow> map_of m k = Some v"
  by simp

text \<open>A separator that occurs in neither head splits a concatenation uniquely.\<close>

lemma append_sep_inject:
  assumes "x \<notin> set a" and "x \<notin> set b"
  shows "a @ x # u = b @ x # v \<longleftrightarrow> a = b \<and> u = v"
  using assms
proof (induction a arbitrary: b)
  case Nil
  then show ?case by (cases b) auto
next
  case (Cons c a)
  then show ?case by (cases b) auto
qed

section \<open>Decimal digits\<close>

definition digit :: "char \<Rightarrow> bool" where
  "digit c \<longleftrightarrow> c \<in> set ''0123456789''"

definition digit_val :: "char \<Rightarrow> nat" where
  "digit_val c = of_char c - 48"

definition digit_char :: "nat \<Rightarrow> char" where
  "digit_char n = char_of (n + 48)"

fun show_nat :: "nat \<Rightarrow> string" where
  "show_nat n = (if n < 10 then [digit_char n] else show_nat (n div 10) @ [digit_char (n mod 10)])"

declare show_nat.simps [simp del]

definition show_int :: "int \<Rightarrow> string" where
  "show_int i = (if i < 0 then CHR ''-'' # show_nat (nat (- i)) else show_nat (nat i))"

definition read_nat :: "string \<Rightarrow> nat" where
  "read_nat s = foldl (\<lambda>n c. 10 * n + digit_val c) 0 s"

lemma digit_char_cases: "n < 10 \<Longrightarrow> digit (digit_char n) \<and> digit_val (digit_char n) = n"
proof -
  have "\<forall>n \<in> set [0..<10]. digit (digit_char n) \<and> digit_val (digit_char n) = n" by code_simp
  then show "n < 10 \<Longrightarrow> digit (digit_char n) \<and> digit_val (digit_char n) = n" by simp
qed

lemma read_nat_append [simp]: "read_nat (s @ [c]) = 10 * read_nat s + digit_val c"
  by (simp add: read_nat_def)

lemma show_nat_digits: "\<forall>c \<in> set (show_nat n). digit c"
proof (induction n rule: show_nat.induct)
  case (1 n)
  then show ?case
    using digit_char_cases [of n] digit_char_cases [of "n mod 10"]
    by (subst show_nat.simps) auto
qed

lemma read_show_nat: "read_nat (show_nat n) = n"
proof (induction n rule: show_nat.induct)
  case (1 n)
  show ?case
  proof (cases "n < 10")
    case True
    then show ?thesis
      using digit_char_cases [of n] by (simp add: show_nat.simps [of n] read_nat_def)
  next
    case False
    then show ?thesis
      using 1 digit_char_cases [of "n mod 10"] by (simp add: show_nat.simps [of n])
  qed
qed

lemma show_nat_nonempty: "show_nat n \<noteq> []"
  by (subst show_nat.simps) simp

end
