(* ===== verification/SliceData.thy ===== *)
theory SliceData
  imports Prelude
begin

text \<open>
  \<open>class Slice\<close> of include/rocksdb/slice.h: a pointer into external storage and a size.

  A pointer is modelled by the bytes readable from it to the end of its storage (None is
  \<open>nullptr\<close>), so pointer arithmetic drops bytes and a read past the storage is the
  undefined behaviour None. \<open>slice_ok\<close> is the contract of the class (the storage holds
  at least \<open>size_\<close> bytes) and \<open>slice_bytes\<close> the byte string a slice denotes.
\<close>

section \<open>State and constructors\<close>

record Slice =
  sl_data :: "bytes option"
  sl_size :: nat

text \<open>The storage readable behind the pointer (nothing behind a null pointer).\<close>

definition storage :: "Slice \<Rightarrow> bytes" where
  "storage s = (case sl_data s of None \<Rightarrow> [] | Some p \<Rightarrow> p)"

definition slice_ok :: "Slice \<Rightarrow> bool" where
  "slice_ok s \<longleftrightarrow> sl_size s \<le> length (storage s)"

definition slice_bytes :: "Slice \<Rightarrow> bytes" where
  "slice_bytes s = take (sl_size s) (storage s)"

definition Slice_empty :: Slice where
  "Slice_empty = \<lparr>sl_data = Some [NUL], sl_size = 0\<rparr>"

definition Slice_ptr :: "bytes option \<Rightarrow> nat \<Rightarrow> Slice" where
  "Slice_ptr d n = \<lparr>sl_data = d, sl_size = n\<rparr>"

text \<open>\<open>std::string::data()\<close> is NUL terminated, \<open>std::string_view::data()\<close> is not.\<close>

definition Slice_string :: "bytes \<Rightarrow> Slice" where
  "Slice_string s = \<lparr>sl_data = Some (s @ [NUL]), sl_size = length s\<rparr>"

definition Slice_string_view :: "bytes \<Rightarrow> Slice" where
  "Slice_string_view sv = \<lparr>sl_data = Some sv, sl_size = length sv\<rparr>"

definition Slice_cstr :: "bytes option \<Rightarrow> Slice option" where
  "Slice_cstr s = (case s of
       None \<Rightarrow> Some \<lparr>sl_data = None, sl_size = 0\<rparr>
     | Some p \<Rightarrow> do { n \<leftarrow> strlen p; Some \<lparr>sl_data = Some p, sl_size = n\<rparr> })"

record SliceParts =
  parts :: "Slice list"
  num_parts :: int

definition SliceParts_empty :: SliceParts where
  "SliceParts_empty = \<lparr>parts = [], num_parts = 0\<rparr>"

section \<open>Operations\<close>

definition slice_size :: "Slice \<Rightarrow> nat" where
  "slice_size s = sl_size s"

definition slice_is_empty :: "Slice \<Rightarrow> bool" where
  "slice_is_empty s \<longleftrightarrow> sl_size s = 0"

definition slice_nth :: "Slice \<Rightarrow> nat \<Rightarrow> byte option" where
  "slice_nth s n = (if n < sl_size s \<and> n < length (storage s) then Some (storage s ! n) else None)"

definition slice_clear :: "Slice \<Rightarrow> Slice" where
  "slice_clear s = s\<lparr>sl_data := Some [NUL], sl_size := 0\<rparr>"

definition remove_prefix :: "nat \<Rightarrow> Slice \<Rightarrow> Slice option" where
  "remove_prefix n s =
     asserting (n \<le> sl_size s)
       (s\<lparr>sl_data := map_option (drop n) (sl_data s), sl_size := sl_size s - n\<rparr>)"

definition remove_suffix :: "nat \<Rightarrow> Slice \<Rightarrow> Slice option" where
  "remove_suffix n s = asserting (n \<le> sl_size s) (s\<lparr>sl_size := sl_size s - n\<rparr>)"

definition ToStringView :: "Slice \<Rightarrow> bytes" where
  "ToStringView s = take (sl_size s) (storage s)"

definition starts_with :: "Slice \<Rightarrow> Slice \<Rightarrow> bool option" where
  "starts_with s x =
     (if sl_size x \<le> sl_size s
      then do { r \<leftarrow> memcmp (storage s) (storage x) (sl_size x); Some (r = 0) }
      else Some False)"

definition ends_with :: "Slice \<Rightarrow> Slice \<Rightarrow> bool option" where
  "ends_with s x =
     (if sl_size x \<le> sl_size s
      then do { r \<leftarrow> memcmp (drop (sl_size s - sl_size x) (storage s)) (storage x) (sl_size x);
                Some (r = 0) }
      else Some False)"

definition slice_eq :: "Slice \<Rightarrow> Slice \<Rightarrow> bool option" where
  "slice_eq x y =
     (if sl_size x = sl_size y
      then do { r \<leftarrow> memcmp (storage x) (storage y) (sl_size x); Some (r = 0) }
      else Some False)"

definition slice_neq :: "Slice \<Rightarrow> Slice \<Rightarrow> bool option" where
  "slice_neq x y = map_option Not (slice_eq x y)"

definition compare :: "Slice \<Rightarrow> Slice \<Rightarrow> int option" where
  "compare a b =
     (if sl_data a \<noteq> None \<and> sl_data b \<noteq> None then
        let min_len = (if sl_size a < sl_size b then sl_size a else sl_size b) in
        do { r \<leftarrow> memcmp (storage a) (storage b) min_len;
             Some (if r = 0
                   then (if sl_size a < sl_size b then -1
                         else if sl_size b < sl_size a then 1 else r)
                   else r) }
      else None)"

text \<open>The loop of \<open>difference_offset\<close>, from offset \<open>off\<close>.\<close>

function difference_loop :: "bytes \<Rightarrow> bytes \<Rightarrow> nat \<Rightarrow> nat \<Rightarrow> nat option" where
  "difference_loop p q len off =
     (if off < len then
        if off < length p \<and> off < length q then
          if p ! off \<noteq> q ! off then Some off else difference_loop p q len (Suc off)
        else None
      else Some off)"
  by pat_completeness auto
termination
  by (relation "measure (\<lambda>(p, q, len, off). len - off)") auto

declare difference_loop.simps [simp del]

definition difference_offset :: "Slice \<Rightarrow> Slice \<Rightarrow> nat option" where
  "difference_offset a b =
     difference_loop (storage a) (storage b)
       (if sl_size a < sl_size b then sl_size a else sl_size b) 0"

section \<open>The denoted byte string\<close>

lemma slice_bytes_constructors [simp, slice_simps]:
  "slice_bytes Slice_empty = []"
  "slice_bytes (Slice_string s) = s"
  "slice_bytes (Slice_string_view s) = s"
  by (simp_all add: slice_bytes_def storage_def Slice_empty_def Slice_string_def
      Slice_string_view_def)

lemma slice_ok_constructors [simp, wf_intros]:
  "slice_ok Slice_empty" "slice_ok (Slice_string s)" "slice_ok (Slice_string_view s)"
  by (simp_all add: slice_ok_def storage_def Slice_empty_def Slice_string_def
      Slice_string_view_def)

lemma sl_data_constructors [simp]:
  "sl_data Slice_empty \<noteq> None" "sl_data (Slice_string s) \<noteq> None"
  "sl_data (Slice_string_view s) \<noteq> None"
  by (simp_all add: Slice_empty_def Slice_string_def Slice_string_view_def)

lemma length_slice_bytes: "slice_ok s \<Longrightarrow> length (slice_bytes s) = sl_size s"
  by (simp add: slice_ok_def slice_bytes_def)

lemma ToStringView_bytes: "ToStringView s = slice_bytes s"
  by (simp add: ToStringView_def slice_bytes_def)

lemma Slice_cstr_bytes:
  assumes "NUL \<notin> set s"
  obtains x where "Slice_cstr (Some (s @ NUL # t)) = Some x" "slice_ok x" "slice_bytes x = s"
  using assms by (force simp: Slice_cstr_def strlen_terminated slice_ok_def slice_bytes_def
      storage_def)

lemma slice_nth_bytes:
  "slice_ok s \<Longrightarrow> n < sl_size s \<Longrightarrow> slice_nth s n = Some (slice_bytes s ! n)"
  by (simp add: slice_nth_def slice_bytes_def slice_ok_def)

lemma storage_remove_prefix:
  "remove_prefix n s = Some t \<Longrightarrow> storage t = drop n (storage s) \<and> sl_size t = sl_size s - n"
  by (auto simp: remove_prefix_def storage_def split: option.splits)

lemma remove_prefix_bytes:
  "remove_prefix n s = Some t \<Longrightarrow> slice_bytes t = drop n (slice_bytes s)"
  by (auto simp: slice_bytes_def drop_take dest: storage_remove_prefix)

lemma remove_suffix_bytes:
  "slice_ok s \<Longrightarrow> remove_suffix n s = Some t \<Longrightarrow>
     slice_bytes t = take (sl_size s - n) (slice_bytes s)"
  by (auto simp: remove_suffix_def slice_bytes_def storage_def slice_ok_def)

lemma remove_prefix_ok [wf_intros]: "slice_ok s \<Longrightarrow> remove_prefix n s = Some t \<Longrightarrow> slice_ok t"
  by (auto simp: slice_ok_def dest!: storage_remove_prefix)

lemma remove_suffix_ok [wf_intros]: "slice_ok s \<Longrightarrow> remove_suffix n s = Some t \<Longrightarrow> slice_ok t"
  by (auto simp: slice_ok_def remove_suffix_def storage_def)

section \<open>Comparisons\<close>

lemma memcmp_take:
  "n \<le> i \<Longrightarrow> n \<le> j \<Longrightarrow> memcmp (take i p) (take j q) n = memcmp p q n"
proof (induction n arbitrary: p q i j)
  case (Suc n)
  then show ?case by (cases p; cases q; cases i; cases j) auto
qed simp

lemma memcmp_drop_take:
  "k + n \<le> i \<Longrightarrow> n \<le> j \<Longrightarrow> memcmp (drop k (take i p)) (take j q) n = memcmp (drop k p) q n"
  by (simp add: drop_take memcmp_take)

lemma memcmp_lex:
  "memcmp p q (min (length p) (length q)) = Some r \<Longrightarrow>
     (r < 0 \<longrightarrow> p < q) \<and> (0 < r \<longrightarrow> q < p) \<and>
     (r = 0 \<longrightarrow> (length p < length q \<longrightarrow> p < q) \<and> (length q < length p \<longrightarrow> q < p) \<and>
                 (length p = length q \<longrightarrow> p = q))"
  by (induction p q rule: list_induct2') (auto split: if_splits)

lemma starts_with_spec [slice_simps]:
  assumes "slice_ok s" "slice_ok x"
  shows "starts_with s x = Some (prefix (slice_bytes x) (slice_bytes s))"
proof (cases "sl_size x \<le> sl_size s")
  case True
  let ?n = "sl_size x"
  from assms True obtain r where r: "memcmp (storage s) (storage x) ?n = Some r"
    using memcmp_defined [of ?n "storage s" "storage x"] by (auto simp: slice_ok_def)
  have "r = 0 \<longleftrightarrow> take ?n (storage s) = slice_bytes x"
    using assms True r memcmp_zero [of ?n "storage s" "storage x"]
    by (simp add: slice_ok_def slice_bytes_def)
  also have "\<dots> \<longleftrightarrow> prefix (slice_bytes x) (slice_bytes s)"
    using assms True take_length_prefix [of "slice_bytes x" "slice_bytes s"]
    by (simp add: length_slice_bytes) (simp add: slice_bytes_def min_def)
  finally show ?thesis using True r by (simp add: starts_with_def)
next
  case False
  with assms show ?thesis
    by (auto simp: starts_with_def length_slice_bytes dest: prefix_length_le)
qed

lemma ends_with_spec [slice_simps]:
  assumes "slice_ok s" "slice_ok x"
  shows "ends_with s x = Some (suffix (slice_bytes x) (slice_bytes s))"
proof (cases "sl_size x \<le> sl_size s")
  case True
  let ?n = "sl_size x" and ?k = "sl_size s - sl_size x"
  have eq: "memcmp (drop ?k (storage s)) (storage x) ?n
      = memcmp (drop ?k (slice_bytes s)) (slice_bytes x) ?n"
    using True by (simp add: slice_bytes_def memcmp_drop_take)
  from assms True obtain r where
    r: "memcmp (drop ?k (slice_bytes s)) (slice_bytes x) ?n = Some r"
    using memcmp_defined [of ?n "drop ?k (slice_bytes s)" "slice_bytes x"]
    by (auto simp: length_slice_bytes)
  have "r = 0 \<longleftrightarrow> drop ?k (slice_bytes s) = slice_bytes x"
    using assms True r memcmp_zero [of ?n "drop ?k (slice_bytes s)" "slice_bytes x"]
    by (simp add: length_slice_bytes)
  also have "\<dots> \<longleftrightarrow> suffix (slice_bytes x) (slice_bytes s)"
    using assms True drop_length_suffix [of "slice_bytes x" "slice_bytes s"]
    by (simp add: length_slice_bytes)
  finally show ?thesis using True r eq by (simp add: ends_with_def)
next
  case False
  with assms show ?thesis
    by (auto simp: ends_with_def length_slice_bytes dest: suffix_length_le)
qed

lemma slice_eq_spec [slice_simps]:
  assumes "slice_ok x" "slice_ok y"
  shows "slice_eq x y = Some (slice_bytes x = slice_bytes y)"
proof (cases "sl_size x = sl_size y")
  case True
  from assms True obtain r where r: "memcmp (storage x) (storage y) (sl_size x) = Some r"
    using memcmp_defined [of "sl_size x" "storage x" "storage y"] by (auto simp: slice_ok_def)
  with assms True show ?thesis
    using memcmp_zero [of "sl_size x" "storage x" "storage y"]
    by (simp add: slice_eq_def slice_ok_def slice_bytes_def)
next
  case False
  with assms show ?thesis
    by (simp add: slice_eq_def) (metis length_slice_bytes)
qed

lemma slice_neq_spec [slice_simps]:
  "slice_ok x \<Longrightarrow> slice_ok y \<Longrightarrow> slice_neq x y = Some (slice_bytes x \<noteq> slice_bytes y)"
  by (simp add: slice_neq_def slice_eq_spec)

text \<open>A slice one may compare: within its storage and not null.\<close>

definition comparable :: "Slice \<Rightarrow> bool" where
  "comparable s \<longleftrightarrow> slice_ok s \<and> sl_data s \<noteq> None"

lemma comparable_constructors [simp]:
  "comparable Slice_empty" "comparable (Slice_string s)" "comparable (Slice_string_view s)"
  by (simp_all add: comparable_def)

lemma compare_order:
  assumes "comparable a" "comparable b"
  obtains r where "compare a b = Some r"
    "r < 0 \<longleftrightarrow> slice_bytes a < slice_bytes b" "r = 0 \<longleftrightarrow> slice_bytes a = slice_bytes b"
    "0 < r \<longleftrightarrow> slice_bytes b < slice_bytes a"
proof -
  let ?p = "slice_bytes a" and ?q = "slice_bytes b"
  let ?n = "min (length ?p) (length ?q)"
  have len: "length ?p = sl_size a" "length ?q = sl_size b"
    using assms by (auto simp: comparable_def length_slice_bytes)
  from memcmp_defined [of ?n ?p ?q] obtain r where r: "memcmp ?p ?q ?n = Some r" by auto
  let ?r = "if r = 0 then (if sl_size a < sl_size b then -1
              else if sl_size b < sl_size a then 1 else r) else r"
  have n: "(if sl_size a < sl_size b then sl_size a else sl_size b) = ?n"
    using len by simp
  have "memcmp (storage a) (storage b) ?n = Some r"
    using r len by (simp add: slice_bytes_def memcmp_take)
  then have c: "compare a b = Some ?r"
    using assms unfolding compare_def Let_def n by (auto simp: comparable_def)
  have lt: "?r < 0 \<longrightarrow> ?p < ?q" and gt: "0 < ?r \<longrightarrow> ?q < ?p" and eq: "?r = 0 \<longrightarrow> ?p = ?q"
    using memcmp_lex [OF r] len by auto
  show ?thesis
  proof (rule that [OF c])
    show "?r < 0 \<longleftrightarrow> ?p < ?q" "?r = 0 \<longleftrightarrow> ?p = ?q" "0 < ?r \<longleftrightarrow> ?q < ?p"
      by (rule three_way_iff [OF lt gt eq])+
  qed
qed

section \<open>The first difference\<close>

lemma difference_loop_bounds:
  assumes "difference_loop p q len off = Some k" "off \<le> len"
  shows "off \<le> k \<and> k \<le> len"
  using assms
proof (induction p q len off rule: difference_loop.induct)
  case (1 p q len off)
  then show ?case
    by (simp add: difference_loop.simps [of p q len off] split: if_splits)
qed

lemma difference_loop_lcp:
  assumes "len \<le> length p" "len \<le> length q" "off \<le> len"
  shows "difference_loop p q len off
    = Some (off + length (longest_common_prefix (drop off (take len p)) (drop off (take len q))))"
  using assms
proof (induction p q len off rule: difference_loop.induct)
  case (1 p q len off)
  show ?case
  proof (cases "off < len")
    case True
    then have "drop off (take len p) = p ! off # drop (Suc off) (take len p)"
      "drop off (take len q) = q ! off # drop (Suc off) (take len q)"
      using "1.prems" by (simp_all add: Cons_nth_drop_Suc [symmetric])
    then show ?thesis
      using True "1.prems" "1.IH" by (simp add: difference_loop.simps [of p q len off])
  next
    case False
    with "1.prems" show ?thesis by (simp add: difference_loop.simps [of p q len len])
  qed
qed

lemma longest_common_prefix_take:
  "longest_common_prefix (take (min (length p) (length q)) p) (take (min (length p) (length q)) q)
     = longest_common_prefix p q"
  by (induction p q rule: longest_common_prefix.induct) auto

lemma difference_offset_lcp:
  assumes "slice_ok a" "slice_ok b"
  shows "difference_offset a b
    = Some (length (longest_common_prefix (slice_bytes a) (slice_bytes b)))"
proof -
  let ?n = "min (sl_size a) (sl_size b)"
  have "?n \<le> length (storage a)" "?n \<le> length (storage b)"
    using assms by (auto simp: slice_ok_def)
  then have "difference_offset a b = Some (length (longest_common_prefix
      (take ?n (storage a)) (take ?n (storage b))))"
    using difference_loop_lcp [of ?n "storage a" "storage b" 0]
    by (simp add: difference_offset_def if_less_min)
  moreover have "take ?n (storage a) = take (min (length (slice_bytes a)) (length (slice_bytes b)))
      (slice_bytes a)"
    "take ?n (storage b) = take (min (length (slice_bytes a)) (length (slice_bytes b)))
      (slice_bytes b)"
    using assms by (simp_all add: length_slice_bytes) (simp_all add: slice_bytes_def)
  ultimately show ?thesis by (simp add: longest_common_prefix_take)
qed

section \<open>Properties\<close>

text \<open>
  \<open>Slice::compare\<close> is defined on all slices with non-null data and orders them exactly as
  their bytes are ordered lexicographically by unsigned value, a proper prefix first.
\<close>

theorem compare_lexicographic:
  assumes "comparable a" "comparable b"
  shows "\<exists>r. compare a b = Some r \<and> (r < 0 \<longleftrightarrow> slice_bytes a < slice_bytes b) \<and>
    (r = 0 \<longleftrightarrow> slice_bytes a = slice_bytes b) \<and> (0 < r \<longleftrightarrow> slice_bytes b < slice_bytes a)"
  using compare_order [OF assms] by metis

theorem compare_lexicographic_witness:
  "\<exists>r. compare (Slice_string ''ab'') (Slice_string [CHR 0x61, CHR 0x62, CHR 0xFF]) = Some r \<and> r < 0"
proof -
  have "''ab'' < [CHR 0x61, CHR 0x62, CHR 0xFF]" by code_simp
  then show ?thesis
    using compare_lexicographic [of "Slice_string ''ab''" "Slice_string [CHR 0x61, CHR 0x62, CHR 0xFF]"]
    by auto
qed

text \<open>
  \<open>starts_with\<close>, \<open>ends_with\<close> and \<open>operator==\<close> never read outside a well-formed slice and
  decide that one byte string is a prefix of, a suffix of, or equal to the other.
\<close>

theorem slice_tests:
  assumes "slice_ok s" "slice_ok x"
  shows "starts_with s x = Some (prefix (slice_bytes x) (slice_bytes s)) \<and>
    ends_with s x = Some (suffix (slice_bytes x) (slice_bytes s)) \<and>
    slice_eq s x = Some (slice_bytes s = slice_bytes x)"
  using starts_with_spec [OF assms] ends_with_spec [OF assms] slice_eq_spec [OF assms] by simp

theorem slice_tests_witness:
  "starts_with (Slice_string ''abcd'') (Slice_ptr (Some ''abcd'') 2) = Some True"
  using slice_tests [of "Slice_string ''abcd''" "Slice_ptr (Some ''abcd'') 2"]
  by (simp add: slice_ok_def Slice_ptr_def slice_bytes_def storage_def Slice_string_def numeral_2_eq_2)

text \<open>
  \<open>difference_offset\<close> is the length of the longest common prefix of the two byte strings.
\<close>

theorem difference_offset_longest_common_prefix:
  assumes "slice_ok a" "slice_ok b"
  shows "difference_offset a b
    = Some (length (longest_common_prefix (slice_bytes a) (slice_bytes b)))"
  by (rule difference_offset_lcp [OF assms])

theorem difference_offset_longest_common_prefix_witness:
  "difference_offset (Slice_string ''abx'') (Slice_string ''aby'') = Some 2"
  using difference_offset_longest_common_prefix [of "Slice_string ''abx''" "Slice_string ''aby''"]
  by simp

end
