(* ===== verification/StatusModel.thy ===== *)
theory StatusModel
  imports SliceData
begin

text \<open>
  \<open>class Status\<close> of include/rocksdb/status.h: the result of every fallible operation.

  The record has the class's fields (in the default build, without
  \<open>ROCKSDB_ASSERT_STATUS_CHECKED\<close>, so without \<open>checked_\<close>). The message is the C
  string behind \<open>state_\<close>, with its terminator; None is the null pointer. Two members are
  declared here and defined elsewhere, so they are parameters: the constructor that
  formats a message (\<open>mk\<close>, of type \<open>msg_ctor\<close>) and \<open>CopyState\<close> (\<open>cs\<close>). The locale
  \<open>message_constructor\<close> states what clients rely on of the former.
\<close>

named_theorems status_defs \<open>definitions of the status factories and predicates\<close>

section \<open>State\<close>

datatype Code =
    kOk | kNotFound | kCorruption | kNotSupported | kInvalidArgument | kIOError
  | kMergeInProgress | kIncomplete | kShutdownInProgress | kTimedOut | kAborted | kBusy
  | kExpired | kTryAgain | kCompactionTooLarge | kColumnFamilyDropped | kMaxCode

datatype SubCode =
    kNone | kMutexTimeout | kLockTimeout | kLockLimit | kNoSpace | kDeadlock | kStaleFile
  | kMemoryLimit | kSpaceLimit | kPathNotFound | KMergeOperandsInsufficientCapacity
  | kManualCompactionPaused | kOverwritten | kTxnNotPrepared | kIOFenced
  | kMergeOperatorFailed | kMergeOperandThresholdExceeded | kMaxSubCode

datatype Severity =
    kNoError | kSoftError | kHardError | kFatalError | kUnrecoverableError | kMaxSeverity

record Status =
  st_code :: Code
  st_subcode :: SubCode
  st_sev :: Severity
  st_retryable :: bool
  st_data_loss :: bool
  st_scope :: nat
  st_state :: "bytes option"

type_synonym msg_ctor = "Code \<Rightarrow> SubCode \<Rightarrow> Slice \<Rightarrow> Slice \<Rightarrow> Severity \<Rightarrow> Status"

section \<open>Constructors\<close>

definition Status_default :: Status where
  "Status_default = \<lparr>st_code = kOk, st_subcode = kNone, st_sev = kNoError,
     st_retryable = False, st_data_loss = False, st_scope = 0, st_state = None\<rparr>"

definition Status_code :: "Code \<Rightarrow> SubCode \<Rightarrow> Status" where
  "Status_code c sc = \<lparr>st_code = c, st_subcode = sc, st_sev = kNoError,
     st_retryable = False, st_data_loss = False, st_scope = 0, st_state = None\<rparr>"

definition Status_io :: "Code \<Rightarrow> SubCode \<Rightarrow> bool \<Rightarrow> bool \<Rightarrow> nat \<Rightarrow> Status" where
  "Status_io c sc retryable data_loss scope = \<lparr>st_code = c, st_subcode = sc, st_sev = kNoError,
     st_retryable = retryable, st_data_loss = data_loss, st_scope = scope, st_state = None\<rparr>"

definition Status_sev_msg :: "msg_ctor \<Rightarrow> Code \<Rightarrow> SubCode \<Rightarrow> Severity \<Rightarrow> Slice \<Rightarrow> Status" where
  "Status_sev_msg mk c sc sev msg = mk c sc msg (Slice_string []) sev"

definition Status_copy :: "(bytes \<Rightarrow> bytes) \<Rightarrow> Status \<Rightarrow> Status" where
  "Status_copy cs s = \<lparr>st_code = st_code s, st_subcode = st_subcode s, st_sev = st_sev s,
     st_retryable = st_retryable s, st_data_loss = st_data_loss s, st_scope = st_scope s,
     st_state = (case st_state s of None \<Rightarrow> None | Some m \<Rightarrow> Some (cs m))\<rparr>"

definition Status_copy_sev :: "(bytes \<Rightarrow> bytes) \<Rightarrow> Status \<Rightarrow> Severity \<Rightarrow> Status" where
  "Status_copy_sev cs s sev = \<lparr>st_code = st_code s, st_subcode = st_subcode s, st_sev = sev,
     st_retryable = st_retryable s, st_data_loss = st_data_loss s, st_scope = st_scope s,
     st_state = (case st_state s of None \<Rightarrow> None | Some m \<Rightarrow> Some (cs m))\<rparr>"

text \<open>
  Assignments take the aliasing test \<open>this == &s\<close> as the argument \<open>same\<close>. The moving
  forms return the new \<open>*this\<close> and the state left in the source.
\<close>

definition Status_assign :: "(bytes \<Rightarrow> bytes) \<Rightarrow> bool \<Rightarrow> Status \<Rightarrow> Status \<Rightarrow> Status" where
  "Status_assign cs same this s =
     (if \<not> same then
        this\<lparr>st_code := st_code s, st_subcode := st_subcode s, st_sev := st_sev s,
             st_retryable := st_retryable s, st_data_loss := st_data_loss s,
             st_scope := st_scope s,
             st_state := (case st_state s of None \<Rightarrow> None | Some m \<Rightarrow> Some (cs m))\<rparr>
      else this)"

definition Status_move_assign :: "bool \<Rightarrow> Status \<Rightarrow> Status \<Rightarrow> Status \<times> Status" where
  "Status_move_assign same this s =
     (if \<not> same then
        (this\<lparr>st_code := st_code s, st_subcode := st_subcode s, st_sev := st_sev s,
              st_retryable := st_retryable s, st_data_loss := st_data_loss s,
              st_scope := st_scope s, st_state := st_state s\<rparr>,
         s\<lparr>st_code := kOk, st_subcode := kNone, st_sev := kNoError, st_retryable := False,
           st_data_loss := False, st_scope := 0, st_state := None\<rparr>)
      else (this, this))"

definition Status_move :: "Status \<Rightarrow> Status \<times> Status" where
  "Status_move s = Status_move_assign False Status_default s"

definition Status_eq :: "Status \<Rightarrow> Status \<Rightarrow> bool" where
  "Status_eq x y \<longleftrightarrow> st_code x = st_code y"

definition Status_neq :: "Status \<Rightarrow> Status \<Rightarrow> bool" where
  "Status_neq x y \<longleftrightarrow> \<not> Status_eq x y"

definition getState :: "Status \<Rightarrow> bytes option" where
  "getState s = st_state s"

definition Status_OK :: Status where [status_defs]:
  "Status_OK = Status_default"

section \<open>Factories\<close>

definition OkOverwritten :: "Status" where [status_defs]:
  "OkOverwritten = Status_code kOk kOverwritten"

definition OkMergeOperandThresholdExceeded :: "Status" where [status_defs]:
  "OkMergeOperandThresholdExceeded = Status_code kOk kMergeOperandThresholdExceeded"

definition NotFound_msg :: "msg_ctor \<Rightarrow> Slice \<Rightarrow> Slice \<Rightarrow> Status" where [status_defs]:
  "NotFound_msg mk msg msg2 = mk kNotFound kNone msg msg2 kNoError"

definition NotFound :: "SubCode \<Rightarrow> Status" where [status_defs]:
  "NotFound msg = Status_code kNotFound msg"

definition NotFound_sc_msg :: "msg_ctor \<Rightarrow> SubCode \<Rightarrow> Slice \<Rightarrow> Slice \<Rightarrow> Status" where [status_defs]:
  "NotFound_sc_msg mk sc msg msg2 = mk kNotFound sc msg msg2 kNoError"

definition Corruption_msg :: "msg_ctor \<Rightarrow> Slice \<Rightarrow> Slice \<Rightarrow> Status" where [status_defs]:
  "Corruption_msg mk msg msg2 = mk kCorruption kNone msg msg2 kNoError"

definition Corruption :: "SubCode \<Rightarrow> Status" where [status_defs]:
  "Corruption msg = Status_code kCorruption msg"

definition NotSupported_msg :: "msg_ctor \<Rightarrow> Slice \<Rightarrow> Slice \<Rightarrow> Status" where [status_defs]:
  "NotSupported_msg mk msg msg2 = mk kNotSupported kNone msg msg2 kNoError"

text \<open>The status \<open>Status::NotSupported\<close> of a text.\<close>

definition not_supported :: "msg_ctor \<Rightarrow> string \<Rightarrow> Status" where
  "not_supported mk text = NotSupported_msg mk (Slice_string text) Slice_empty"

definition NotSupported :: "SubCode \<Rightarrow> Status" where [status_defs]:
  "NotSupported msg = Status_code kNotSupported msg"

definition InvalidArgument_msg :: "msg_ctor \<Rightarrow> Slice \<Rightarrow> Slice \<Rightarrow> Status" where [status_defs]:
  "InvalidArgument_msg mk msg msg2 = mk kInvalidArgument kNone msg msg2 kNoError"

text \<open>The status \<open>Status::InvalidArgument\<close> of a text.\<close>

definition invalid_argument :: "msg_ctor \<Rightarrow> string \<Rightarrow> Status" where
  "invalid_argument mk text = InvalidArgument_msg mk (Slice_string text) Slice_empty"

definition InvalidArgument :: "SubCode \<Rightarrow> Status" where [status_defs]:
  "InvalidArgument msg = Status_code kInvalidArgument msg"

definition IOError_msg :: "msg_ctor \<Rightarrow> Slice \<Rightarrow> Slice \<Rightarrow> Status" where [status_defs]:
  "IOError_msg mk msg msg2 = mk kIOError kNone msg msg2 kNoError"

definition IOError :: "SubCode \<Rightarrow> Status" where [status_defs]:
  "IOError msg = Status_code kIOError msg"

definition MergeInProgress_msg :: "msg_ctor \<Rightarrow> Slice \<Rightarrow> Slice \<Rightarrow> Status" where [status_defs]:
  "MergeInProgress_msg mk msg msg2 = mk kMergeInProgress kNone msg msg2 kNoError"

definition MergeInProgress :: "SubCode \<Rightarrow> Status" where [status_defs]:
  "MergeInProgress msg = Status_code kMergeInProgress msg"

definition Incomplete_msg :: "msg_ctor \<Rightarrow> Slice \<Rightarrow> Slice \<Rightarrow> Status" where [status_defs]:
  "Incomplete_msg mk msg msg2 = mk kIncomplete kNone msg msg2 kNoError"

definition Incomplete :: "SubCode \<Rightarrow> Status" where [status_defs]:
  "Incomplete msg = Status_code kIncomplete msg"

definition ShutdownInProgress :: "SubCode \<Rightarrow> Status" where [status_defs]:
  "ShutdownInProgress msg = Status_code kShutdownInProgress msg"

definition ShutdownInProgress_msg :: "msg_ctor \<Rightarrow> Slice \<Rightarrow> Slice \<Rightarrow> Status" where [status_defs]:
  "ShutdownInProgress_msg mk msg msg2 = mk kShutdownInProgress kNone msg msg2 kNoError"

definition Aborted :: "SubCode \<Rightarrow> Status" where [status_defs]:
  "Aborted msg = Status_code kAborted msg"

definition Aborted_msg :: "msg_ctor \<Rightarrow> Slice \<Rightarrow> Slice \<Rightarrow> Status" where [status_defs]:
  "Aborted_msg mk msg msg2 = mk kAborted kNone msg msg2 kNoError"

definition Busy :: "SubCode \<Rightarrow> Status" where [status_defs]:
  "Busy msg = Status_code kBusy msg"

definition Busy_msg :: "msg_ctor \<Rightarrow> Slice \<Rightarrow> Slice \<Rightarrow> Status" where [status_defs]:
  "Busy_msg mk msg msg2 = mk kBusy kNone msg msg2 kNoError"

definition TimedOut :: "SubCode \<Rightarrow> Status" where [status_defs]:
  "TimedOut msg = Status_code kTimedOut msg"

definition TimedOut_msg :: "msg_ctor \<Rightarrow> Slice \<Rightarrow> Slice \<Rightarrow> Status" where [status_defs]:
  "TimedOut_msg mk msg msg2 = mk kTimedOut kNone msg msg2 kNoError"

definition Expired :: "SubCode \<Rightarrow> Status" where [status_defs]:
  "Expired msg = Status_code kExpired msg"

definition Expired_msg :: "msg_ctor \<Rightarrow> Slice \<Rightarrow> Slice \<Rightarrow> Status" where [status_defs]:
  "Expired_msg mk msg msg2 = mk kExpired kNone msg msg2 kNoError"

definition TryAgain :: "SubCode \<Rightarrow> Status" where [status_defs]:
  "TryAgain msg = Status_code kTryAgain msg"

definition TryAgain_msg :: "msg_ctor \<Rightarrow> Slice \<Rightarrow> Slice \<Rightarrow> Status" where [status_defs]:
  "TryAgain_msg mk msg msg2 = mk kTryAgain kNone msg msg2 kNoError"

definition CompactionTooLarge :: "SubCode \<Rightarrow> Status" where [status_defs]:
  "CompactionTooLarge msg = Status_code kCompactionTooLarge msg"

definition CompactionTooLarge_msg :: "msg_ctor \<Rightarrow> Slice \<Rightarrow> Slice \<Rightarrow> Status" where [status_defs]:
  "CompactionTooLarge_msg mk msg msg2 = mk kCompactionTooLarge kNone msg msg2 kNoError"

definition ColumnFamilyDropped :: "SubCode \<Rightarrow> Status" where [status_defs]:
  "ColumnFamilyDropped msg = Status_code kColumnFamilyDropped msg"

definition ColumnFamilyDropped_msg :: "msg_ctor \<Rightarrow> Slice \<Rightarrow> Slice \<Rightarrow> Status" where [status_defs]:
  "ColumnFamilyDropped_msg mk msg msg2 = mk kColumnFamilyDropped kNone msg msg2 kNoError"

definition NoSpace :: "Status" where [status_defs]:
  "NoSpace = Status_code kIOError kNoSpace"

definition NoSpace_msg :: "msg_ctor \<Rightarrow> Slice \<Rightarrow> Slice \<Rightarrow> Status" where [status_defs]:
  "NoSpace_msg mk msg msg2 = mk kIOError kNoSpace msg msg2 kNoError"

definition MemoryLimit :: "Status" where [status_defs]:
  "MemoryLimit = Status_code kAborted kMemoryLimit"

definition MemoryLimit_msg :: "msg_ctor \<Rightarrow> Slice \<Rightarrow> Slice \<Rightarrow> Status" where [status_defs]:
  "MemoryLimit_msg mk msg msg2 = mk kAborted kMemoryLimit msg msg2 kNoError"

definition SpaceLimit :: "Status" where [status_defs]:
  "SpaceLimit = Status_code kIOError kSpaceLimit"

definition SpaceLimit_msg :: "msg_ctor \<Rightarrow> Slice \<Rightarrow> Slice \<Rightarrow> Status" where [status_defs]:
  "SpaceLimit_msg mk msg msg2 = mk kIOError kSpaceLimit msg msg2 kNoError"

definition PathNotFound :: "Status" where [status_defs]:
  "PathNotFound = Status_code kIOError kPathNotFound"

definition PathNotFound_msg :: "msg_ctor \<Rightarrow> Slice \<Rightarrow> Slice \<Rightarrow> Status" where [status_defs]:
  "PathNotFound_msg mk msg msg2 = mk kIOError kPathNotFound msg msg2 kNoError"

definition TxnNotPrepared :: "Status" where [status_defs]:
  "TxnNotPrepared = Status_code kInvalidArgument kTxnNotPrepared"

definition TxnNotPrepared_msg :: "msg_ctor \<Rightarrow> Slice \<Rightarrow> Slice \<Rightarrow> Status" where [status_defs]:
  "TxnNotPrepared_msg mk msg msg2 = mk kInvalidArgument kTxnNotPrepared msg msg2 kNoError"

section \<open>Predicates\<close>

definition status_ok :: "Status \<Rightarrow> bool" where [status_defs]:
  "status_ok s \<longleftrightarrow> st_code s = kOk"

definition IsOkOverwritten :: "Status \<Rightarrow> bool" where [status_defs]:
  "IsOkOverwritten s \<longleftrightarrow> st_code s = kOk \<and> st_subcode s = kOverwritten"

definition IsOkMergeOperandThresholdExceeded :: "Status \<Rightarrow> bool" where [status_defs]:
  "IsOkMergeOperandThresholdExceeded s \<longleftrightarrow> st_code s = kOk \<and> st_subcode s = kMergeOperandThresholdExceeded"

definition IsNotFound :: "Status \<Rightarrow> bool" where [status_defs]:
  "IsNotFound s \<longleftrightarrow> st_code s = kNotFound"

definition IsCorruption :: "Status \<Rightarrow> bool" where [status_defs]:
  "IsCorruption s \<longleftrightarrow> st_code s = kCorruption"

definition IsNotSupported :: "Status \<Rightarrow> bool" where [status_defs]:
  "IsNotSupported s \<longleftrightarrow> st_code s = kNotSupported"

definition IsInvalidArgument :: "Status \<Rightarrow> bool" where [status_defs]:
  "IsInvalidArgument s \<longleftrightarrow> st_code s = kInvalidArgument"

definition IsIOError :: "Status \<Rightarrow> bool" where [status_defs]:
  "IsIOError s \<longleftrightarrow> st_code s = kIOError"

definition IsMergeInProgress :: "Status \<Rightarrow> bool" where [status_defs]:
  "IsMergeInProgress s \<longleftrightarrow> st_code s = kMergeInProgress"

definition IsIncomplete :: "Status \<Rightarrow> bool" where [status_defs]:
  "IsIncomplete s \<longleftrightarrow> st_code s = kIncomplete"

definition IsShutdownInProgress :: "Status \<Rightarrow> bool" where [status_defs]:
  "IsShutdownInProgress s \<longleftrightarrow> st_code s = kShutdownInProgress"

definition IsTimedOut :: "Status \<Rightarrow> bool" where [status_defs]:
  "IsTimedOut s \<longleftrightarrow> st_code s = kTimedOut"

definition IsAborted :: "Status \<Rightarrow> bool" where [status_defs]:
  "IsAborted s \<longleftrightarrow> st_code s = kAborted"

definition IsLockLimit :: "Status \<Rightarrow> bool" where [status_defs]:
  "IsLockLimit s \<longleftrightarrow> st_code s = kAborted \<and> st_subcode s = kLockLimit"

definition IsBusy :: "Status \<Rightarrow> bool" where [status_defs]:
  "IsBusy s \<longleftrightarrow> st_code s = kBusy"

definition IsDeadlock :: "Status \<Rightarrow> bool" where [status_defs]:
  "IsDeadlock s \<longleftrightarrow> st_code s = kBusy \<and> st_subcode s = kDeadlock"

definition IsExpired :: "Status \<Rightarrow> bool" where [status_defs]:
  "IsExpired s \<longleftrightarrow> st_code s = kExpired"

definition IsTryAgain :: "Status \<Rightarrow> bool" where [status_defs]:
  "IsTryAgain s \<longleftrightarrow> st_code s = kTryAgain"

definition IsCompactionTooLarge :: "Status \<Rightarrow> bool" where [status_defs]:
  "IsCompactionTooLarge s \<longleftrightarrow> st_code s = kCompactionTooLarge"

definition IsColumnFamilyDropped :: "Status \<Rightarrow> bool" where [status_defs]:
  "IsColumnFamilyDropped s \<longleftrightarrow> st_code s = kColumnFamilyDropped"

definition IsNoSpace :: "Status \<Rightarrow> bool" where [status_defs]:
  "IsNoSpace s \<longleftrightarrow> (st_code s = kIOError) \<and> (st_subcode s = kNoSpace)"

definition IsMemoryLimit :: "Status \<Rightarrow> bool" where [status_defs]:
  "IsMemoryLimit s \<longleftrightarrow> (st_code s = kAborted) \<and> (st_subcode s = kMemoryLimit)"

definition IsPathNotFound :: "Status \<Rightarrow> bool" where [status_defs]:
  "IsPathNotFound s \<longleftrightarrow> (st_code s = kIOError \<or> st_code s = kNotFound) \<and> (st_subcode s = kPathNotFound)"

definition IsManualCompactionPaused :: "Status \<Rightarrow> bool" where [status_defs]:
  "IsManualCompactionPaused s \<longleftrightarrow> (st_code s = kIncomplete) \<and> (st_subcode s = kManualCompactionPaused)"

definition IsTxnNotPrepared :: "Status \<Rightarrow> bool" where [status_defs]:
  "IsTxnNotPrepared s \<longleftrightarrow> (st_code s = kInvalidArgument) \<and> (st_subcode s = kTxnNotPrepared)"

definition IsIOFenced :: "Status \<Rightarrow> bool" where [status_defs]:
  "IsIOFenced s \<longleftrightarrow> (st_code s = kIOError) \<and> (st_subcode s = kIOFenced)"

section \<open>Combining\<close>

definition UpdateIfOk :: "Status \<Rightarrow> Status \<Rightarrow> Status \<times> Status" where
  "UpdateIfOk this s =
     (if st_code this = kOk then Status_move_assign False this s else (this, s))"

definition UpdateIfOk_copy :: "(bytes \<Rightarrow> bytes) \<Rightarrow> Status \<Rightarrow> Status \<Rightarrow> Status" where
  "UpdateIfOk_copy cs this s = fst (UpdateIfOk this (Status_copy cs s))"

section \<open>Copies and moves\<close>

lemma Status_copy_id: "(\<And>m. cs m = m) \<Longrightarrow> Status_copy cs s = s"
  by (simp add: Status_copy_def split: option.split)

lemma Status_copy_code [simp, status_simps]: "st_code (Status_copy cs s) = st_code s"
  by (simp add: Status_copy_def)

lemma Status_copy_sev_fields:
  "st_sev (Status_copy_sev cs s sev) = sev"
  "Status_copy_sev cs s (st_sev s) = Status_copy cs s"
  by (simp_all add: Status_copy_sev_def Status_copy_def)

lemma Status_move_assign_moves:
  "Status_move_assign False this s = (s, Status_default)"
  by (simp add: Status_move_assign_def Status_default_def)

lemma Status_move_moves: "Status_move s = (s, Status_default)"
  by (simp add: Status_move_def Status_move_assign_moves)

lemma Status_assign_copies: "Status_assign cs False this s = Status_copy cs s"
  by (simp add: Status_assign_def Status_copy_def)

lemma Status_eq_equiv:
  "Status_eq s s" "Status_eq s t \<Longrightarrow> Status_eq t s" "Status_eq s t \<Longrightarrow> Status_eq t u \<Longrightarrow> Status_eq s u"
  by (simp_all add: Status_eq_def)

lemma status_ok_default [simp, status_simps]: "status_ok Status_default" "status_ok Status_OK"
  by (simp_all add: status_defs Status_default_def)

lemma status_ok_code [simp, status_simps]: "status_ok (Status_code c sc) \<longleftrightarrow> c = kOk"
  by (simp add: status_defs Status_code_def)

section \<open>UpdateIfOk keeps the left-most error\<close>

lemma UpdateIfOk_fst: "fst (UpdateIfOk this s) = (if status_ok this then s else this)"
  by (simp add: UpdateIfOk_def status_ok_def Status_move_assign_moves)

lemma UpdateIfOk_copy_id:
  "(\<And>m. cs m = m) \<Longrightarrow> UpdateIfOk_copy cs this s = fst (UpdateIfOk this s)"
  by (simp add: UpdateIfOk_copy_def Status_copy_id)

text \<open>\<open>a.UpdateIfOk(b1). \<dots> .UpdateIfOk(bn)\<close>.\<close>

fun UpdateIfOk_chain :: "Status \<Rightarrow> Status list \<Rightarrow> Status" where
  "UpdateIfOk_chain this [] = this"
| "UpdateIfOk_chain this (s # ss) = UpdateIfOk_chain (fst (UpdateIfOk this s)) ss"

lemma UpdateIfOk_chain_error: "\<not> status_ok this \<Longrightarrow> UpdateIfOk_chain this ss = this"
  by (induction ss) (simp_all add: UpdateIfOk_fst)

lemma UpdateIfOk_chain_find:
  "UpdateIfOk_chain this ss
     = (case find (\<lambda>s. \<not> status_ok s) (this # ss) of Some e \<Rightarrow> e | None \<Rightarrow> last (this # ss))"
proof (induction ss arbitrary: this)
  case (Cons s ss)
  then show ?case
    by (cases "status_ok this")
      (auto simp: UpdateIfOk_fst UpdateIfOk_chain_error split: option.split)
qed simp

section \<open>The contract of the message constructor\<close>

text \<open>
  What clients of the factories rely on: an error built from a code, a sub-code and a
  message carries that code, sub-code and severity. (The code must be a proper error:
  a message on a success status violates an assertion of the constructor.)
\<close>

locale message_constructor =
  fixes mk :: msg_ctor
  assumes mk_code: "c \<noteq> kOk \<Longrightarrow> sc \<noteq> kMaxSubCode \<Longrightarrow> st_code (mk c sc m1 m2 sev) = c"
    and mk_subcode: "c \<noteq> kOk \<Longrightarrow> sc \<noteq> kMaxSubCode \<Longrightarrow> st_subcode (mk c sc m1 m2 sev) = sc"
begin

lemma factory_fields [status_simps]:
  "st_code (NotFound_msg mk msg msg2) = kNotFound \<and> st_subcode (NotFound_msg mk msg msg2) = kNone"
  "st_code (Corruption_msg mk msg msg2) = kCorruption \<and> st_subcode (Corruption_msg mk msg msg2) = kNone"
  "st_code (NotSupported_msg mk msg msg2) = kNotSupported \<and> st_subcode (NotSupported_msg mk msg msg2) = kNone"
  "st_code (InvalidArgument_msg mk msg msg2) = kInvalidArgument \<and> st_subcode (InvalidArgument_msg mk msg msg2) = kNone"
  "st_code (IOError_msg mk msg msg2) = kIOError \<and> st_subcode (IOError_msg mk msg msg2) = kNone"
  "st_code (MergeInProgress_msg mk msg msg2) = kMergeInProgress \<and> st_subcode (MergeInProgress_msg mk msg msg2) = kNone"
  "st_code (Incomplete_msg mk msg msg2) = kIncomplete \<and> st_subcode (Incomplete_msg mk msg msg2) = kNone"
  "st_code (ShutdownInProgress_msg mk msg msg2) = kShutdownInProgress \<and> st_subcode (ShutdownInProgress_msg mk msg msg2) = kNone"
  "st_code (Aborted_msg mk msg msg2) = kAborted \<and> st_subcode (Aborted_msg mk msg msg2) = kNone"
  "st_code (Busy_msg mk msg msg2) = kBusy \<and> st_subcode (Busy_msg mk msg msg2) = kNone"
  "st_code (TimedOut_msg mk msg msg2) = kTimedOut \<and> st_subcode (TimedOut_msg mk msg msg2) = kNone"
  "st_code (Expired_msg mk msg msg2) = kExpired \<and> st_subcode (Expired_msg mk msg msg2) = kNone"
  "st_code (TryAgain_msg mk msg msg2) = kTryAgain \<and> st_subcode (TryAgain_msg mk msg msg2) = kNone"
  "st_code (CompactionTooLarge_msg mk msg msg2) = kCompactionTooLarge \<and> st_subcode (CompactionTooLarge_msg mk msg msg2) = kNone"
  "st_code (ColumnFamilyDropped_msg mk msg msg2) = kColumnFamilyDropped \<and> st_subcode (ColumnFamilyDropped_msg mk msg msg2) = kNone"
  "st_code (NoSpace_msg mk msg msg2) = kIOError \<and> st_subcode (NoSpace_msg mk msg msg2) = kNoSpace"
  "st_code (MemoryLimit_msg mk msg msg2) = kAborted \<and> st_subcode (MemoryLimit_msg mk msg msg2) = kMemoryLimit"
  "st_code (SpaceLimit_msg mk msg msg2) = kIOError \<and> st_subcode (SpaceLimit_msg mk msg msg2) = kSpaceLimit"
  "st_code (PathNotFound_msg mk msg msg2) = kIOError \<and> st_subcode (PathNotFound_msg mk msg msg2) = kPathNotFound"
  "st_code (TxnNotPrepared_msg mk msg msg2) = kInvalidArgument \<and> st_subcode (TxnNotPrepared_msg mk msg msg2) = kTxnNotPrepared"
  by (simp_all add: status_defs mk_code mk_subcode)

lemma factory_not_ok:
  assumes "c \<noteq> kOk" "sc \<noteq> kMaxSubCode"
  shows "\<not> status_ok (mk c sc m1 m2 sev)"
  using assms by (simp add: status_ok_def mk_code)

end

section \<open>Properties\<close>

text \<open>
  A chain \<open>a.UpdateIfOk(b).UpdateIfOk(c)...\<close> ends in the left-most non-OK status of the chain,
  and in its last status where all are OK, as the comment on \<open>UpdateIfOk\<close> says.
\<close>

theorem UpdateIfOk_leftmost_error:
  "UpdateIfOk_chain this ss
     = (case find (\<lambda>s. \<not> status_ok s) (this # ss) of Some e \<Rightarrow> e | None \<Rightarrow> last (this # ss))"
  by (rule UpdateIfOk_chain_find)

text \<open>
  The code predicates partition the statuses: every status answers true to exactly one of
  \<open>ok()\<close> and the predicates that test the code alone, except the out-of-range code \<open>kMaxCode\<close>,
  which answers true to none.
\<close>

theorem status_predicates_partition:
  "length (filter (\<lambda>P. P s)
     [status_ok, IsNotFound, IsCorruption, IsNotSupported, IsInvalidArgument, IsIOError,
      IsMergeInProgress, IsIncomplete, IsShutdownInProgress, IsTimedOut, IsAborted, IsBusy,
      IsExpired, IsTryAgain, IsCompactionTooLarge, IsColumnFamilyDropped])
   = (if st_code s = kMaxCode then 0 else 1)"
  by (cases "st_code s") (simp_all add: status_defs status_ok_def)

text \<open>A constructor of messages that keeps none, for the witnesses.\<close>

definition plain_ctor :: msg_ctor where
  "plain_ctor c sc m1 m2 sev = Status_code c sc"

lemma plain_ctor: "message_constructor plain_ctor"
  by unfold_locales (simp_all add: plain_ctor_def Status_code_def)

end
