(* ===== verification/OptionType.thy ===== *)
theory OptionType
  imports StatusModel "HOL-Library.Word"
begin

unbundle bit_operations_syntax

text \<open>
  The option descriptors of include/rocksdb/utilities/options_type.h and the controls
  \<open>ConfigOptions\<close> of include/rocksdb/convenience.h: the flag words, the predicates on
  descriptors, the sanity levels, enumerations as options, and the constructors of
  \<open>OptionTypeInfo\<close>.

  A descriptor is polymorphic in the type \<open>'a\<close> of the option it describes: the \<open>void*\<close>
  of a handler becomes the old value of the option, and the handler returns the new one.
  \<open>'db\<close> and \<open>'cf\<close> are the option structs a validator reads. An \<open>unordered_map\<close> is an
  association list with distinct keys, in the unspecified order of its iteration.
\<close>

section \<open>ConfigOptions\<close>

datatype SanityLevel = kSanityLevelNone | kSanityLevelLooselyCompatible | kSanityLevelExactMatch

definition SanityLevel_val :: "SanityLevel \<Rightarrow> nat" where
  "SanityLevel_val l = (case l of kSanityLevelNone \<Rightarrow> 0x01
     | kSanityLevelLooselyCompatible \<Rightarrow> 0x02 | kSanityLevelExactMatch \<Rightarrow> 0xFF)"

lemma SanityLevel_val_inject [simp]: "SanityLevel_val a = SanityLevel_val b \<longleftrightarrow> a = b"
  by (cases a; cases b) (simp_all add: SanityLevel_val_def)

instantiation SanityLevel :: linorder
begin

definition less_eq_SanityLevel :: "SanityLevel \<Rightarrow> SanityLevel \<Rightarrow> bool" where
  "a \<le> b \<longleftrightarrow> SanityLevel_val a \<le> SanityLevel_val b"

definition less_SanityLevel :: "SanityLevel \<Rightarrow> SanityLevel \<Rightarrow> bool" where
  "a < b \<longleftrightarrow> SanityLevel_val a < SanityLevel_val b"

instance
  by standard (auto simp: less_eq_SanityLevel_def less_SanityLevel_def)

end

datatype Depth = kDepthDefault | kDepthShallow | kDepthDetailed

type_synonym handle = "nat option" \<comment> \<open>an opaque pointer, None for null\<close>

record ConfigOptions =
  ignore_unknown_options :: bool
  ignore_unsupported_options :: bool
  input_strings_escaped :: bool
  invoke_prepare_options :: bool
  mutable_options_only :: bool
  co_delimiter :: string
  co_depth :: Depth
  sanity_level :: SanityLevel
  file_readahead_size :: nat
  co_env :: handle
  co_registry :: handle

text \<open>The member initialisers; the environment and the registry come from elsewhere.\<close>

definition ConfigOptions_init :: "handle \<Rightarrow> handle \<Rightarrow> ConfigOptions" where
  "ConfigOptions_init env registry = \<lparr>ignore_unknown_options = False,
     ignore_unsupported_options = True, input_strings_escaped = True,
     invoke_prepare_options = True, mutable_options_only = False, co_delimiter = '';'',
     co_depth = kDepthDefault, sanity_level = kSanityLevelExactMatch,
     file_readahead_size = 512 * 1024, co_env = env, co_registry = registry\<rparr>"

definition IsShallow :: "ConfigOptions \<Rightarrow> bool" where
  "IsShallow c \<longleftrightarrow> co_depth c = kDepthShallow"

definition IsDetailed :: "ConfigOptions \<Rightarrow> bool" where
  "IsDetailed c \<longleftrightarrow> co_depth c = kDepthDetailed"

definition IsCheckDisabled :: "ConfigOptions \<Rightarrow> bool" where
  "IsCheckDisabled c \<longleftrightarrow> sanity_level c = kSanityLevelNone"

definition IsCheckEnabled :: "ConfigOptions \<Rightarrow> SanityLevel \<Rightarrow> bool" where
  "IsCheckEnabled c level \<longleftrightarrow> level > kSanityLevelNone \<and> level \<le> sanity_level c"

section \<open>Types, verification kinds and flags\<close>

datatype OptionType =
    kBoolean | kInt | kInt32T | kInt64T | kUInt | kUInt8T | kUInt32T | kUInt64T | kSizeT
  | kDouble | kAtomicInt | kString | kCompactionStyle | kCompactionPri | kCompressionType
  | kCompactionStopStyle | kChecksumType | kEncodingType | kEnv | kEnum | kStruct | kVector
  | kConfigurable | kCustomizable | kEncodedString | kTemperature | kArray | kUnknown

datatype OptionVerificationType =
    kNormal | kByName | kByNameAllowNull | kByNameAllowFromNull | kDeprecated | kAlias

type_synonym OptionTypeFlags = "32 word"

definition OTF_None :: OptionTypeFlags where [simp]: "OTF_None = 0x00"
definition OTF_CompareDefault :: OptionTypeFlags where [simp]: "OTF_CompareDefault = 0x0"
definition OTF_CompareNever :: OptionTypeFlags where
  [simp]: "OTF_CompareNever = of_nat (SanityLevel_val kSanityLevelNone)"
definition OTF_CompareLoose :: OptionTypeFlags where
  [simp]: "OTF_CompareLoose = of_nat (SanityLevel_val kSanityLevelLooselyCompatible)"
definition OTF_CompareExact :: OptionTypeFlags where
  [simp]: "OTF_CompareExact = of_nat (SanityLevel_val kSanityLevelExactMatch)"
definition OTF_Mutable :: OptionTypeFlags where [simp]: "OTF_Mutable = 0x0100"
definition OTF_RawPointer :: OptionTypeFlags where [simp]: "OTF_RawPointer = 0x0200"
definition OTF_Shared :: OptionTypeFlags where [simp]: "OTF_Shared = 0x0400"
definition OTF_Unique :: OptionTypeFlags where [simp]: "OTF_Unique = 0x0800"
definition OTF_AllowNull :: OptionTypeFlags where [simp]: "OTF_AllowNull = 0x1000"
definition OTF_DontSerialize :: OptionTypeFlags where [simp]: "OTF_DontSerialize = 0x2000"
definition OTF_DontPrepare :: OptionTypeFlags where [simp]: "OTF_DontPrepare = 0x4000"
definition OTF_StringNameOnly :: OptionTypeFlags where [simp]: "OTF_StringNameOnly = 0x8000"

definition OTF_or :: "OptionTypeFlags \<Rightarrow> OptionTypeFlags \<Rightarrow> OptionTypeFlags" where
  "OTF_or a b = a OR b"

definition OTF_and :: "OptionTypeFlags \<Rightarrow> OptionTypeFlags \<Rightarrow> OptionTypeFlags" where
  "OTF_and a b = a AND b"

section \<open>Enumerations and their names\<close>

definition ParseEnum :: "(string \<times> 't) list \<Rightarrow> string \<Rightarrow> 't \<Rightarrow> bool \<times> 't" where
  "ParseEnum type_map type value =
     (case map_of type_map type of Some v \<Rightarrow> (True, v) | None \<Rightarrow> (False, value))"

fun SerializeEnum :: "(string \<times> 't) list \<Rightarrow> 't \<Rightarrow> string \<Rightarrow> bool \<times> string" where
  "SerializeEnum [] type value = (False, value)"
| "SerializeEnum ((name, v) # rest) type value =
     (if v = type then (True, name) else SerializeEnum rest type value)"

section \<open>Descriptors\<close>

type_synonym 'a ParseFunc = "ConfigOptions \<Rightarrow> string \<Rightarrow> string \<Rightarrow> 'a \<Rightarrow> Status \<times> 'a"
type_synonym 'a SerializeFunc = "ConfigOptions \<Rightarrow> string \<Rightarrow> 'a \<Rightarrow> string \<Rightarrow> Status \<times> string"
type_synonym 'a EqualsFunc = "ConfigOptions \<Rightarrow> string \<Rightarrow> 'a \<Rightarrow> 'a \<Rightarrow> string \<Rightarrow> bool \<times> string"
type_synonym 'a PrepareFunc = "ConfigOptions \<Rightarrow> string \<Rightarrow> 'a \<Rightarrow> Status \<times> 'a"
type_synonym ('a, 'db, 'cf) ValidateFunc = "'db \<Rightarrow> 'cf \<Rightarrow> string \<Rightarrow> 'a \<Rightarrow> Status"

record ('a, 'db, 'cf) OptionTypeInfo =
  oti_offset :: int
  parse_func :: "'a ParseFunc option"
  serialize_func :: "'a SerializeFunc option"
  equals_func :: "'a EqualsFunc option"
  prepare_func :: "'a PrepareFunc option"
  validate_func :: "('a, 'db, 'cf) ValidateFunc option"
  oti_type :: OptionType
  oti_verification :: OptionVerificationType
  oti_flags :: OptionTypeFlags

definition OTI_simple :: "int \<Rightarrow> OptionType \<Rightarrow> ('a, 'db, 'cf) OptionTypeInfo" where
  "OTI_simple offset type = \<lparr>oti_offset = offset, parse_func = None, serialize_func = None,
     equals_func = None, prepare_func = None, validate_func = None, oti_type = type,
     oti_verification = kNormal, oti_flags = OTF_None\<rparr>"

definition OTI_flags ::
    "int \<Rightarrow> OptionType \<Rightarrow> OptionVerificationType \<Rightarrow> OptionTypeFlags \<Rightarrow> ('a, 'db, 'cf) OptionTypeInfo" where
  "OTI_flags offset type verification flags = \<lparr>oti_offset = offset, parse_func = None,
     serialize_func = None, equals_func = None, prepare_func = None, validate_func = None,
     oti_type = type, oti_verification = verification, oti_flags = flags\<rparr>"

definition OTI_parse ::
    "int \<Rightarrow> OptionType \<Rightarrow> OptionVerificationType \<Rightarrow> OptionTypeFlags \<Rightarrow> 'a ParseFunc \<Rightarrow>
       ('a, 'db, 'cf) OptionTypeInfo" where
  "OTI_parse offset type verification flags p = \<lparr>oti_offset = offset, parse_func = Some p,
     serialize_func = None, equals_func = None, prepare_func = None, validate_func = None,
     oti_type = type, oti_verification = verification, oti_flags = flags\<rparr>"

definition OTI_funcs ::
    "int \<Rightarrow> OptionType \<Rightarrow> OptionVerificationType \<Rightarrow> OptionTypeFlags \<Rightarrow> 'a ParseFunc \<Rightarrow>
       'a SerializeFunc \<Rightarrow> 'a EqualsFunc \<Rightarrow> ('a, 'db, 'cf) OptionTypeInfo" where
  "OTI_funcs offset type verification flags p s e = \<lparr>oti_offset = offset, parse_func = Some p,
     serialize_func = Some s, equals_func = Some e, prepare_func = None, validate_func = None,
     oti_type = type, oti_verification = verification, oti_flags = flags\<rparr>"

definition SetParseFunc where
  "SetParseFunc f (i :: ('a, 'db, 'cf) OptionTypeInfo) = i\<lparr>parse_func := Some f\<rparr>"

definition SetSerializeFunc where
  "SetSerializeFunc f (i :: ('a, 'db, 'cf) OptionTypeInfo) = i\<lparr>serialize_func := Some f\<rparr>"

definition SetEqualsFunc where
  "SetEqualsFunc f (i :: ('a, 'db, 'cf) OptionTypeInfo) = i\<lparr>equals_func := Some f\<rparr>"

definition SetPrepareFunc where
  "SetPrepareFunc f (i :: ('a, 'db, 'cf) OptionTypeInfo) = i\<lparr>prepare_func := Some f\<rparr>"

definition SetValidateFunc where
  "SetValidateFunc f (i :: ('a, 'db, 'cf) OptionTypeInfo) = i\<lparr>validate_func := Some f\<rparr>"

section \<open>Predicates on descriptors\<close>

definition FlagEnabled :: "('a, 'db, 'cf) OptionTypeInfo \<Rightarrow> OptionTypeFlags \<Rightarrow> bool" where
  "FlagEnabled i otf \<longleftrightarrow> OTF_and (oti_flags i) otf = otf"

definition VerificationIs :: "('a, 'db, 'cf) OptionTypeInfo \<Rightarrow> OptionVerificationType \<Rightarrow> bool" where
  "VerificationIs i ovf \<longleftrightarrow> oti_verification i = ovf"

definition IsMutable :: "('a, 'db, 'cf) OptionTypeInfo \<Rightarrow> bool" where
  "IsMutable i = FlagEnabled i OTF_Mutable"

definition IsEditable :: "('a, 'db, 'cf) OptionTypeInfo \<Rightarrow> ConfigOptions \<Rightarrow> bool" where
  "IsEditable i opts = (if mutable_options_only opts then IsMutable i else True)"

definition IsDeprecated :: "('a, 'db, 'cf) OptionTypeInfo \<Rightarrow> bool" where
  "IsDeprecated i = VerificationIs i kDeprecated"

definition IsAlias :: "('a, 'db, 'cf) OptionTypeInfo \<Rightarrow> bool" where
  "IsAlias i = VerificationIs i kAlias"

text \<open>The level as the number the cast yields: a mask of the flags need not be an enumerator.\<close>

definition GetSanityLevel :: "('a, 'db, 'cf) OptionTypeInfo \<Rightarrow> nat" where
  "GetSanityLevel i =
     (if IsDeprecated i \<or> IsAlias i then SanityLevel_val kSanityLevelNone
      else let match = OTF_and (oti_flags i) OTF_CompareExact in
           if match = OTF_CompareDefault then SanityLevel_val kSanityLevelExactMatch
           else unat match mod 256)"

definition IsConfigurable :: "('a, 'db, 'cf) OptionTypeInfo \<Rightarrow> bool" where
  "IsConfigurable i \<longleftrightarrow> oti_type i = kConfigurable \<or> oti_type i = kCustomizable"

definition IsCustomizable :: "('a, 'db, 'cf) OptionTypeInfo \<Rightarrow> bool" where
  "IsCustomizable i \<longleftrightarrow> oti_type i = kCustomizable"

definition IsStruct :: "('a, 'db, 'cf) OptionTypeInfo \<Rightarrow> bool" where
  "IsStruct i \<longleftrightarrow> oti_type i = kStruct"

definition ShouldSerialize :: "('a, 'db, 'cf) OptionTypeInfo \<Rightarrow> bool" where
  "ShouldSerialize i =
     (if IsDeprecated i \<or> IsAlias i then False
      else if FlagEnabled i OTF_DontSerialize then False else True)"

definition ShouldPrepare :: "('a, 'db, 'cf) OptionTypeInfo \<Rightarrow> bool" where
  "ShouldPrepare i =
     (if IsDeprecated i \<or> IsAlias i then False
      else if FlagEnabled i OTF_DontPrepare then False
      else prepare_func i \<noteq> None \<or> IsConfigurable i)"

definition ShouldValidate :: "('a, 'db, 'cf) OptionTypeInfo \<Rightarrow> bool" where
  "ShouldValidate i =
     (if IsDeprecated i \<or> IsAlias i then False
      else validate_func i \<noteq> None \<or> IsConfigurable i)"

definition CanBeNull :: "('a, 'db, 'cf) OptionTypeInfo \<Rightarrow> bool" where
  "CanBeNull i \<longleftrightarrow> FlagEnabled i OTF_AllowNull \<or> VerificationIs i kByNameAllowNull
     \<or> VerificationIs i kByNameAllowFromNull"

definition IsSharedPtr :: "('a, 'db, 'cf) OptionTypeInfo \<Rightarrow> bool" where
  "IsSharedPtr i = FlagEnabled i OTF_Shared"

definition IsUniquePtr :: "('a, 'db, 'cf) OptionTypeInfo \<Rightarrow> bool" where
  "IsUniquePtr i = FlagEnabled i OTF_Unique"

definition IsRawPtr :: "('a, 'db, 'cf) OptionTypeInfo \<Rightarrow> bool" where
  "IsRawPtr i = FlagEnabled i OTF_RawPointer"

definition IsByName :: "('a, 'db, 'cf) OptionTypeInfo \<Rightarrow> bool" where
  "IsByName i \<longleftrightarrow> oti_verification i = kByName \<or> oti_verification i = kByNameAllowNull
     \<or> oti_verification i = kByNameAllowFromNull"

section \<open>Descriptors of enumerations, structs and customizable objects\<close>

definition Enum_parse :: "msg_ctor \<Rightarrow> (string \<times> 't) list option \<Rightarrow> 't ParseFunc" where
  "Enum_parse mk enum_map = (\<lambda>opts name value addr.
     case enum_map of
       None \<Rightarrow> (NotSupported_msg mk (Slice_string ''No enum mapping '') (Slice_string name), addr)
     | Some m \<Rightarrow> (case ParseEnum m value addr of
           (True, v) \<Rightarrow> (Status_OK, v)
         | (False, v) \<Rightarrow>
             (InvalidArgument_msg mk (Slice_string ''No mapping for enum '') (Slice_string name), v)))"

definition Enum_serialize :: "msg_ctor \<Rightarrow> (string \<times> 't) list option \<Rightarrow> 't SerializeFunc" where
  "Enum_serialize mk enum_map = (\<lambda>opts name addr value.
     case enum_map of
       None \<Rightarrow> (NotSupported_msg mk (Slice_string ''No enum mapping '') (Slice_string name), value)
     | Some m \<Rightarrow> (case SerializeEnum m addr value of
           (True, v) \<Rightarrow> (Status_OK, v)
         | (False, v) \<Rightarrow>
             (InvalidArgument_msg mk (Slice_string ''No mapping for enum '') (Slice_string name), v)))"

definition Enum_equals :: "'t EqualsFunc" where
  "Enum_equals = (\<lambda>opts name addr1 addr2 mismatch. (addr1 = addr2, mismatch))"

definition OTI_Enum ::
    "msg_ctor \<Rightarrow> int \<Rightarrow> (string \<times> 't) list option \<Rightarrow> OptionTypeFlags \<Rightarrow> OptionVerificationType \<Rightarrow>
       ('t, 'db, 'cf) OptionTypeInfo" where
  "OTI_Enum mk offset enum_map flags verification =
     SetEqualsFunc Enum_equals (SetSerializeFunc (Enum_serialize mk enum_map)
       (SetParseFunc (Enum_parse mk enum_map) (OTI_flags offset kEnum verification flags)))"

text \<open>
  The struct handlers forward to \<open>ParseStruct\<close>, \<open>SerializeStruct\<close> and \<open>StructsAreEqual\<close>,
  which are declared only: they are the parameters \<open>ps\<close>, \<open>ss\<close> and \<open>se\<close>, applied to the
  struct's name and map.
\<close>

definition OTI_Struct ::
    "(string \<Rightarrow> 'm \<Rightarrow> 'a ParseFunc) \<Rightarrow> (string \<Rightarrow> 'm \<Rightarrow> 'a SerializeFunc) \<Rightarrow>
     (string \<Rightarrow> 'm \<Rightarrow> 'a EqualsFunc) \<Rightarrow> string \<Rightarrow> 'm \<Rightarrow> int \<Rightarrow> OptionVerificationType \<Rightarrow>
       OptionTypeFlags \<Rightarrow> ('a, 'db, 'cf) OptionTypeInfo" where
  "OTI_Struct ps ss se struct_name struct_map offset verification flags =
     SetEqualsFunc (se struct_name struct_map) (SetSerializeFunc (ss struct_name struct_map)
       (SetParseFunc (ps struct_name struct_map) (OTI_flags offset kStruct verification flags)))"

definition OTI_Struct_parse where
  "OTI_Struct_parse ps ss se struct_name struct_map offset verification flags p =
     SetParseFunc p (OTI_Struct ps ss se struct_name struct_map offset verification flags)"

definition kIdPropName :: string where
  "kIdPropName = ''id''"

definition kIdPropSuffix :: string where
  "kIdPropSuffix = ''.id''"

text \<open>
  The three pointer kinds of a customizable object: the pointee is an optional object (None
  is the null pointer) and \<open>create\<close> is the class's \<open>CreateFromString\<close>.
\<close>

definition AsCustomSharedPtr ::
    "(ConfigOptions \<Rightarrow> string \<Rightarrow> 'o option \<Rightarrow> Status \<times> 'o option) \<Rightarrow> int \<Rightarrow>
       OptionVerificationType \<Rightarrow> OptionTypeFlags \<Rightarrow> ('o option, 'db, 'cf) OptionTypeInfo" where
  "AsCustomSharedPtr create offset ovt flags =
     SetParseFunc (\<lambda>opts name value shared.
         if name = kIdPropName \<and> value = [] then (Status_OK, None) else create opts value shared)
       (OTI_flags offset kCustomizable ovt (OTF_or flags OTF_Shared))"

definition AsCustomSharedPtr_funcs where
  "AsCustomSharedPtr_funcs create offset ovt flags sf ef =
     SetEqualsFunc ef (SetSerializeFunc sf (AsCustomSharedPtr create offset ovt flags))"

definition AsCustomUniquePtr ::
    "(ConfigOptions \<Rightarrow> string \<Rightarrow> 'o option \<Rightarrow> Status \<times> 'o option) \<Rightarrow> int \<Rightarrow>
       OptionVerificationType \<Rightarrow> OptionTypeFlags \<Rightarrow> ('o option, 'db, 'cf) OptionTypeInfo" where
  "AsCustomUniquePtr create offset ovt flags =
     SetParseFunc (\<lambda>opts name value unique.
         if name = kIdPropName \<and> value = [] then (Status_OK, None) else create opts value unique)
       (OTI_flags offset kCustomizable ovt (OTF_or flags OTF_Unique))"

definition AsCustomUniquePtr_funcs where
  "AsCustomUniquePtr_funcs create offset ovt flags sf ef =
     SetEqualsFunc ef (SetSerializeFunc sf (AsCustomUniquePtr create offset ovt flags))"

definition AsCustomRawPtr ::
    "(ConfigOptions \<Rightarrow> string \<Rightarrow> 'o option \<Rightarrow> Status \<times> 'o option) \<Rightarrow> int \<Rightarrow>
       OptionVerificationType \<Rightarrow> OptionTypeFlags \<Rightarrow> ('o option, 'db, 'cf) OptionTypeInfo" where
  "AsCustomRawPtr create offset ovt flags =
     SetParseFunc (\<lambda>opts name value pointer.
         if name = kIdPropName \<and> value = [] then (Status_OK, None) else create opts value pointer)
       (OTI_flags offset kCustomizable ovt (OTF_or flags OTF_RawPointer))"

definition AsCustomRawPtr_funcs where
  "AsCustomRawPtr_funcs create offset ovt flags sf ef =
     SetEqualsFunc ef (SetSerializeFunc sf (AsCustomRawPtr create offset ovt flags))"

text \<open>
  \<open>AsRawPointer\<close> reads one of four layouts at the option's address; \<open>slot\<close> is what the
  memory there holds under each of them.
\<close>

record 'o option_slot =
  as_unique :: "'o option"
  as_shared :: "'o option"
  as_raw :: "'o option"
  as_value :: 'o

definition AsRawPointer :: "('a, 'db, 'cf) OptionTypeInfo \<Rightarrow> 'o option_slot option \<Rightarrow> 'o option" where
  "AsRawPointer i base_addr = (case base_addr of
       None \<Rightarrow> None
     | Some slot \<Rightarrow>
         if IsUniquePtr i then as_unique slot
         else if IsSharedPtr i then as_shared slot
         else if IsRawPtr i then as_raw slot
         else Some (as_value slot))"

section \<open>Flag words\<close>

lemmas option_predicates = FlagEnabled_def VerificationIs_def IsMutable_def IsDeprecated_def
  IsAlias_def ShouldSerialize_def ShouldPrepare_def ShouldValidate_def CanBeNull_def
  IsSharedPtr_def IsUniquePtr_def IsRawPtr_def IsByName_def IsStruct_def IsConfigurable_def
  IsCustomizable_def OTF_and_def OTF_or_def

lemmas option_constructors = OTI_simple_def OTI_flags_def OTI_parse_def OTI_funcs_def
  SetParseFunc_def SetSerializeFunc_def SetEqualsFunc_def SetPrepareFunc_def SetValidateFunc_def
  OTI_Enum_def OTI_Struct_def AsCustomSharedPtr_def AsCustomUniquePtr_def AsCustomRawPtr_def

lemma and_eq_iff_bits: "(a :: 'w :: len word) AND b = b \<longleftrightarrow> (\<forall>n. bit b n \<longrightarrow> bit a n)"
  by (auto simp: bit_eq_iff bit_and_iff dest: bit_imp_le_length)

lemma FlagEnabled_bits: "FlagEnabled i f \<longleftrightarrow> (\<forall>n. bit f n \<longrightarrow> bit (oti_flags i) n)"
  by (simp add: FlagEnabled_def OTF_and_def and_eq_iff_bits)

lemma FlagEnabled_or: "FlagEnabled i (OTF_or f g) \<longleftrightarrow> FlagEnabled i f \<and> FlagEnabled i g"
  by (auto simp: FlagEnabled_bits OTF_or_def bit_or_iff)

lemma FlagEnabled_none: "FlagEnabled i OTF_None"
  by (simp add: FlagEnabled_bits)

lemma OTI_flags_enabled:
  "FlagEnabled (OTI_flags off ty ver (OTF_or f g)) f" "FlagEnabled (OTI_flags off ty ver (OTF_or f g)) g"
  by (simp_all add: FlagEnabled_bits OTI_flags_def OTF_or_def bit_or_iff)

lemma or_and_high:
  "m AND 0xFF = (0 :: 32 word) \<Longrightarrow> (m OR c) AND 0xFF = c AND 0xFF"
  by (simp add: word_ao_dist)

lemma GetSanityLevel_compare:
  assumes "m AND 0xFF = 0" "\<not> IsDeprecated i" "\<not> IsAlias i"
    and "oti_flags i = OTF_or m (of_nat (SanityLevel_val l))"
  shows "GetSanityLevel i = SanityLevel_val l"
  using assms by (cases l)
    (simp_all add: GetSanityLevel_def OTF_and_def OTF_or_def or_and_high SanityLevel_val_def Let_def)

lemma GetSanityLevel_default:
  assumes "oti_flags i AND 0xFF = 0" "\<not> IsDeprecated i" "\<not> IsAlias i"
  shows "GetSanityLevel i = SanityLevel_val kSanityLevelExactMatch"
  using assms by (simp add: GetSanityLevel_def OTF_and_def SanityLevel_val_def)

section \<open>Enumerations round trip\<close>

lemma SerializeEnum_found:
  "SerializeEnum m v x = (True, s) \<Longrightarrow> (s, v) \<in> set m"
  by (induction m v x rule: SerializeEnum.induct) (auto split: if_splits)

lemma SerializeEnum_total:
  "v \<in> snd ` set m \<Longrightarrow> \<exists>s. SerializeEnum m v x = (True, s)"
  by (induction m v x rule: SerializeEnum.induct) auto

lemma SerializeEnum_missing:
  "v \<notin> snd ` set m \<Longrightarrow> SerializeEnum m v x = (False, x)"
  by (induction m v x rule: SerializeEnum.induct) (auto simp: image_iff)

lemma ParseEnum_entry:
  "distinct (map fst m) \<Longrightarrow> (s, v) \<in> set m \<Longrightarrow> ParseEnum m s x = (True, v)"
  by (simp add: ParseEnum_def)

lemma ParseEnum_found: "ParseEnum m s x = (True, v) \<Longrightarrow> (s, v) \<in> set m"
  by (auto simp: ParseEnum_def split: option.splits dest: map_of_SomeD)

lemma OTI_Enum_handlers:
  "parse_func (OTI_Enum mk off m fl ver) = Some (Enum_parse mk m)"
  "serialize_func (OTI_Enum mk off m fl ver) = Some (Enum_serialize mk m)"
  "equals_func (OTI_Enum mk off m fl ver) = Some Enum_equals"
  by (simp_all add: option_constructors)

lemma Enum_serialize_parse:
  assumes "distinct (map fst m)" "v \<in> snd ` set m"
  obtains s where "Enum_serialize mk (Some m) opts name v buf = (Status_OK, s)"
    "Enum_parse mk (Some m) opts name s old = (Status_OK, v)"
proof -
  from SerializeEnum_total [OF assms(2)] obtain s where s: "SerializeEnum m v buf = (True, s)"
    by blast
  then have "ParseEnum m s old = (True, v)"
    using ParseEnum_entry [OF assms(1) SerializeEnum_found] by blast
  with s that show ?thesis by (simp add: Enum_serialize_def Enum_parse_def)
qed

section \<open>Properties\<close>

text \<open>
  An option of enumeration type reads back what it writes: for a mapping without duplicate
  names and a mapped value, the handlers \<open>OptionTypeInfo::Enum\<close> installs serialize the value to a
  name that they parse to the same value.
\<close>

theorem enum_option_round_trip:
  assumes "distinct (map fst m)" "v \<in> snd ` set m"
  shows "\<exists>s ser par.
    serialize_func (OTI_Enum mk off (Some m) fl ver :: ('t, 'db, 'cf) OptionTypeInfo) = Some ser \<and>
    parse_func (OTI_Enum mk off (Some m) fl ver :: ('t, 'db, 'cf) OptionTypeInfo) = Some par \<and>
    ser opts name v buf = (Status_OK, s) \<and> par opts name s old = (Status_OK, v)"
  using Enum_serialize_parse [OF assms, of mk opts name buf old] OTI_Enum_handlers by metis

theorem enum_option_round_trip_witness:
  "\<forall>opts. \<exists>s. Enum_serialize (\<lambda>c sc m1 m2 sev. Status_code c sc) (Some [(''a'', 1 :: nat), (''b'', 2)])
      opts ''o'' 2 [] = (Status_OK, s) \<and>
    Enum_parse (\<lambda>c sc m1 m2 sev. Status_code c sc) (Some [(''a'', 1 :: nat), (''b'', 2)])
      opts ''o'' s 0 = (Status_OK, 2)"
  using enum_option_round_trip [of "[(''a'', 1 :: nat), (''b'', 2)]" 2
      "\<lambda>c sc m1 m2 sev. Status_code c sc" 0 OTF_None kNormal]
  by (simp add: OTI_Enum_handlers)

text \<open>
  The sanity level of an option that is neither deprecated nor an alias: with no comparison
  flag it is an exact match, and with the comparison flag of a level, next to any flags that are
  not comparison flags, it is that level.
\<close>

theorem sanity_level_of_flags:
  assumes "m AND 0xFF = 0" "\<not> IsDeprecated i" "\<not> IsAlias i"
    and "oti_flags i = (case l of None \<Rightarrow> m | Some l \<Rightarrow> OTF_or m (of_nat (SanityLevel_val l)))"
  shows "GetSanityLevel i
    = SanityLevel_val (case l of None \<Rightarrow> kSanityLevelExactMatch | Some l \<Rightarrow> l)"
  using assms GetSanityLevel_compare [of m i] GetSanityLevel_default [of i]
  by (cases l) simp_all

theorem sanity_level_of_flags_witness:
  "GetSanityLevel (OTI_flags 0 kInt kNormal (OTF_or OTF_Mutable OTF_CompareLoose)
     :: (nat, nat, nat) OptionTypeInfo) = SanityLevel_val kSanityLevelLooselyCompatible"
  using sanity_level_of_flags [of OTF_Mutable "OTI_flags 0 kInt kNormal (OTF_or OTF_Mutable OTF_CompareLoose)
     :: (nat, nat, nat) OptionTypeInfo" "Some kSanityLevelLooselyCompatible"]
  by (simp add: OTI_flags_def IsDeprecated_def IsAlias_def VerificationIs_def OTF_Mutable_def
      OTF_CompareLoose_def)

text \<open>
  The constructors for customizable pointers mark the option as customizable with the ownership
  they are named after, keep every flag of the caller, and let \<open>name == "id"\<close> with an empty value
  reset the pointer.
\<close>

theorem custom_pointer_options:
  "IsCustomizable (AsCustomSharedPtr create off ver fl) \<and> IsSharedPtr (AsCustomSharedPtr create off ver fl) \<and>
   FlagEnabled (AsCustomSharedPtr create off ver fl) fl \<and>
   IsCustomizable (AsCustomUniquePtr create off ver fl) \<and> IsUniquePtr (AsCustomUniquePtr create off ver fl) \<and>
   FlagEnabled (AsCustomUniquePtr create off ver fl) fl \<and>
   IsCustomizable (AsCustomRawPtr create off ver fl) \<and> IsRawPtr (AsCustomRawPtr create off ver fl) \<and>
   FlagEnabled (AsCustomRawPtr create off ver fl) fl \<and>
   map_option (\<lambda>f. f opts kIdPropName [] old) (parse_func (AsCustomSharedPtr create off ver fl))
     = Some (Status_OK, None) \<and>
   map_option (\<lambda>f. f opts kIdPropName [] old) (parse_func (AsCustomUniquePtr create off ver fl))
     = Some (Status_OK, None)"
  by (auto simp: option_predicates option_constructors bit.conj_disj_distrib2 and.assoc
      ac_simps bit_eq_iff bit_simps)

end
