(* ===== verification/OptionCollections.thy ===== *)
theory OptionCollections
  imports OptionType
begin

text \<open>
  The array and vector templates of include/rocksdb/utilities/options_type.h:
  \<open>ParseArray\<close>, \<open>SerializeArray\<close>, \<open>ArraysAreEqual\<close>, \<open>ParseVector\<close>, \<open>SerializeVector\<close>,
  \<open>VectorsAreEqual\<close>, and the descriptors \<open>Array\<close> and \<open>Vector\<close> built on them.

  The members of the element descriptor are arguments (\<open>parse\<close>, \<open>ser\<close>, \<open>eq\<close>), and so is
  \<open>OptionTypeInfo::NextToken\<close> (\<open>next_token\<close>), which is declared only. It takes the text, the
  delimiter and a start position and yields a status, the end position and the token.
  Positions are \<open>size_t\<close>: \<open>end + 1\<close> wraps, so after \<open>npos\<close> the next start is 0.
\<close>

section \<open>Parsing\<close>

definition npos :: nat where
  "npos = 2 ^ 64 - 1"

definition size_t_inc :: "nat \<Rightarrow> nat" where
  "size_t_inc n = (n + 1) mod 2 ^ 64"

type_synonym tokenizer = "string \<Rightarrow> char \<Rightarrow> nat \<Rightarrow> Status \<times> nat \<times> string"

text \<open>One turn of the vector loop: token, element, the ignored-unsupported exception.\<close>

definition vector_turn ::
    "tokenizer \<Rightarrow> 'a ParseFunc \<Rightarrow> 'a \<Rightarrow> ConfigOptions \<Rightarrow> char \<Rightarrow> string \<Rightarrow> string \<Rightarrow> nat \<Rightarrow>
       'a list \<Rightarrow> Status \<times> nat \<times> 'a list" where
  "vector_turn next_token parse fresh config_options separator name value start result =
     (let copy = config_options\<lparr>ignore_unsupported_options := False\<rparr>;
          (status, end, token) = next_token value separator start in
      if status_ok status then
        (let (status, elem) = parse copy name token fresh in
         if status_ok status then (status, end, result @ [elem])
         else if ignore_unsupported_options config_options \<and> IsNotSupported status
              then (Status_OK, end, result)
              else (status, end, result))
      else (status, end, result))"

partial_function (option) vector_loop ::
    "tokenizer \<Rightarrow> 'a ParseFunc \<Rightarrow> 'a \<Rightarrow> ConfigOptions \<Rightarrow> char \<Rightarrow> string \<Rightarrow> string \<Rightarrow>
       Status \<Rightarrow> nat \<Rightarrow> nat \<Rightarrow> 'a list \<Rightarrow> (Status \<times> 'a list) option" where
  "vector_loop next_token parse fresh config_options separator name value status start end result =
     (if status_ok status \<and> start < length value \<and> end \<noteq> npos then
        (case vector_turn next_token parse fresh config_options separator name value start result of
           (status, end, result) \<Rightarrow>
             vector_loop next_token parse fresh config_options separator name value
               status (size_t_inc end) end result)
      else Some (status, result))"

definition ParseVector ::
    "tokenizer \<Rightarrow> 'a ParseFunc \<Rightarrow> 'a \<Rightarrow> ConfigOptions \<Rightarrow> char \<Rightarrow> string \<Rightarrow> string \<Rightarrow>
       (Status \<times> 'a list) option" where
  "ParseVector next_token parse fresh config_options separator name value =
     vector_loop next_token parse fresh config_options separator name value Status_default 0 0 []"

text \<open>
  The array loop writes element \<open>i\<close> in place; it is bounded by the array's size, so it is
  recursion on the elements still to be written. It ends in the status, \<open>i\<close>, \<open>start\<close>,
  \<open>end\<close> and the array.
\<close>

definition array_turn ::
    "tokenizer \<Rightarrow> 'a ParseFunc \<Rightarrow> ConfigOptions \<Rightarrow> char \<Rightarrow> string \<Rightarrow> string \<Rightarrow> nat \<Rightarrow> nat \<Rightarrow>
       'a list \<Rightarrow> Status \<times> nat \<times> 'a list" where
  "array_turn next_token parse config_options separator name value i start result =
     (let copy = config_options\<lparr>ignore_unsupported_options := False\<rparr>;
          (status, end, token) = next_token value separator start in
      if status_ok status then
        (let (status, elem) = parse copy name token (result ! i) in
         if ignore_unsupported_options config_options \<and> IsNotSupported status
         then (Status_OK, end, result[i := elem])
         else (status, end, result[i := elem]))
      else (status, end, result))"

function array_loop ::
    "tokenizer \<Rightarrow> 'a ParseFunc \<Rightarrow> ConfigOptions \<Rightarrow> char \<Rightarrow> string \<Rightarrow> string \<Rightarrow> nat \<Rightarrow>
       Status \<Rightarrow> nat \<Rightarrow> nat \<Rightarrow> nat \<Rightarrow> 'a list \<Rightarrow> Status \<times> nat \<times> nat \<times> nat \<times> 'a list" where
  "array_loop next_token parse config_options separator name value kSize status i start end result =
     (if status_ok status \<and> i < kSize \<and> start < length value \<and> end \<noteq> npos then
        (case array_turn next_token parse config_options separator name value i start result of
           (status, end, result) \<Rightarrow>
             array_loop next_token parse config_options separator name value kSize
               status (i + 1) (size_t_inc end) end result)
      else (status, i, start, end, result))"
  by pat_completeness auto
termination
  by (relation "measure (\<lambda>(nt, p, co, sep, name, val, kSize, st, i, start, end, r). kSize - i)") auto

declare array_loop.simps [simp del]

definition ParseArray ::
    "msg_ctor \<Rightarrow> tokenizer \<Rightarrow> 'a ParseFunc \<Rightarrow> ConfigOptions \<Rightarrow> char \<Rightarrow> string \<Rightarrow> string \<Rightarrow>
       'a list \<Rightarrow> Status \<times> 'a list" where
  "ParseArray mk next_token parse config_options separator name value array =
     (let kSize = length array;
          (status, i, start, end, result) =
            array_loop next_token parse config_options separator name value kSize
              Status_default 0 0 0 array in
      if \<not> status_ok status then (status, result)
      else if i < kSize then
        (InvalidArgument_msg mk
           (Slice_string ''Serialized value has less elements than array size'')
           (Slice_string name), result)
      else if start < length value \<and> end \<noteq> npos then
        (InvalidArgument_msg mk
           (Slice_string ''Serialized value has more elements than array size'')
           (Slice_string name), result)
      else (status, result))"

section \<open>Serializing\<close>

text \<open>
  The loop over the elements: the accumulated text and the number of elements printed, or
  the first error. An element that serializes to the empty string is not printed.
\<close>

fun serialize_loop ::
    "'a SerializeFunc \<Rightarrow> ConfigOptions \<Rightarrow> char \<Rightarrow> string \<Rightarrow> 'a list \<Rightarrow> string \<Rightarrow> nat \<Rightarrow>
       Status + string \<times> nat" where
  "serialize_loop ser embedded separator name [] result printed = Inr (result, printed)"
| "serialize_loop ser embedded separator name (elem # vec) result printed =
     (case ser embedded name elem [] of (s, elem_str) \<Rightarrow>
        if \<not> status_ok s then Inl s
        else if elem_str \<noteq> [] then
          (let result = (if printed > 0 then result @ [separator] else result);
               result = (if separator \<in> set elem_str then result @ ''{'' @ elem_str @ ''}''
                         else result @ elem_str) in
           serialize_loop ser embedded separator name vec result (printed + 1))
        else serialize_loop ser embedded separator name vec result printed)"

text \<open>The braces around the whole text. \<open>result.at(0)\<close> is read only after two elements.\<close>

definition wrap_result :: "string \<Rightarrow> nat \<Rightarrow> string" where
  "wrap_result result printed =
     (if CHR ''='' \<in> set result then ''{'' @ result @ ''}''
      else if printed > 1 \<and> (case result of [] \<Rightarrow> False | c # _ \<Rightarrow> c = CHR ''{'')
      then ''{'' @ result @ ''}''
      else result)"

definition SerializeVector ::
    "'a SerializeFunc \<Rightarrow> ConfigOptions \<Rightarrow> char \<Rightarrow> string \<Rightarrow> 'a list \<Rightarrow> string \<Rightarrow> Status \<times> string" where
  "SerializeVector ser config_options separator name vec value =
     (let embedded = config_options\<lparr>co_delimiter := '';''\<rparr> in
      case serialize_loop ser embedded separator name vec [] 0 of
        Inl s \<Rightarrow> (s, value)
      | Inr (result, printed) \<Rightarrow> (Status_OK, wrap_result result printed))"

definition SerializeArray ::
    "'a SerializeFunc \<Rightarrow> ConfigOptions \<Rightarrow> char \<Rightarrow> string \<Rightarrow> 'a list \<Rightarrow> string \<Rightarrow> Status \<times> string" where
  "SerializeArray ser config_options separator name array value =
     (let embedded = config_options\<lparr>co_delimiter := '';''\<rparr> in
      case serialize_loop ser embedded separator name array [] 0 of
        Inl s \<Rightarrow> (s, value)
      | Inr (result, printed) \<Rightarrow> (Status_OK, wrap_result result printed))"

section \<open>Comparing\<close>

fun elements_equal ::
    "'a EqualsFunc \<Rightarrow> ConfigOptions \<Rightarrow> string \<Rightarrow> 'a list \<Rightarrow> 'a list \<Rightarrow> string \<Rightarrow> bool \<times> string" where
  "elements_equal eq config_options name (x # xs) (y # ys) mismatch =
     (case eq config_options name x y mismatch of
        (True, mismatch) \<Rightarrow> elements_equal eq config_options name xs ys mismatch
      | (False, mismatch) \<Rightarrow> (False, mismatch))"
| "elements_equal eq config_options name _ _ mismatch = (True, mismatch)"

definition ArraysAreEqual ::
    "'a EqualsFunc \<Rightarrow> nat \<Rightarrow> ConfigOptions \<Rightarrow> string \<Rightarrow> 'a list \<Rightarrow> 'a list \<Rightarrow> string \<Rightarrow>
       (bool \<times> string) option" where
  "ArraysAreEqual eq kSize config_options name array1 array2 mismatch =
     asserting (length array1 = kSize \<and> length array2 = kSize)
       (elements_equal eq config_options name array1 array2 mismatch)"

definition VectorsAreEqual ::
    "'a EqualsFunc \<Rightarrow> ConfigOptions \<Rightarrow> string \<Rightarrow> 'a list \<Rightarrow> 'a list \<Rightarrow> string \<Rightarrow> bool \<times> string" where
  "VectorsAreEqual eq config_options name vec1 vec2 mismatch =
     (if length vec1 \<noteq> length vec2 then (False, name)
      else elements_equal eq config_options name vec1 vec2 mismatch)"

section \<open>What the tokenizer is documented to do\<close>

text \<open>
  On a text without braces and white space the token runs to the next delimiter; \<open>end\<close>
  is the delimiter's position, or \<open>npos\<close> where the text ends.
\<close>

definition white_space :: "char list" where
  "white_space = [CHR '' '', CHR 0x09, CHR 0x0A, CHR 0x0B, CHR 0x0C, CHR 0x0D]"

definition plain_char :: "char \<Rightarrow> bool" where
  "plain_char c \<longleftrightarrow> c \<noteq> CHR ''{'' \<and> c \<noteq> CHR ''}'' \<and> c \<notin> set white_space"

definition plain_token :: "char \<Rightarrow> string \<Rightarrow> nat \<Rightarrow> nat \<times> string" where
  "plain_token delimiter opts start =
     (let rest = drop start opts; token = takeWhile (\<lambda>c. c \<noteq> delimiter) rest in
      (if token = rest then npos else start + length token, token))"

definition tokenizes_plain_text :: "tokenizer \<Rightarrow> bool" where
  "tokenizes_plain_text next_token \<longleftrightarrow>
     (\<forall>opts delimiter start. start < length opts \<and> (\<forall>c \<in> set opts. plain_char c) \<longrightarrow>
        status_ok (fst (next_token opts delimiter start)) \<and>
        snd (next_token opts delimiter start) = plain_token delimiter opts start)"

text \<open>A successful call never moves backwards.\<close>

definition tokenizer_advances :: "tokenizer \<Rightarrow> bool" where
  "tokenizer_advances next_token \<longleftrightarrow>
     (\<forall>opts delimiter start st end token.
        next_token opts delimiter start = (st, end, token) \<and> status_ok st \<longrightarrow>
        end = npos \<or> start \<le> end \<and> end < npos)"

section \<open>The vector loop ends\<close>

lemma size_t_inc_below: "n < npos \<Longrightarrow> size_t_inc n = n + 1"
  by (simp add: npos_def size_t_inc_def)

lemma vector_turn_status:
  "vector_turn nt parse fresh co sep name val start res = (st, e, res') \<Longrightarrow> status_ok st \<Longrightarrow>
     \<exists>st0 tok. nt val sep start = (st0, e, tok) \<and> status_ok st0"
  by (auto simp: vector_turn_def Let_def split: prod.splits if_splits)

lemma vector_loop_returns:
  assumes "tokenizer_advances nt"
  shows "\<exists>r. vector_loop nt parse fresh co sep name val st start e res = Some r"
proof (induction "length val - start" arbitrary: st start e res rule: less_induct)
  case less
  show ?case
  proof (cases "status_ok st \<and> start < length val \<and> e \<noteq> npos")
    case True
    obtain st' e' res' where turn:
      "vector_turn nt parse fresh co sep name val start res = (st', e', res')"
      using prod_cases3 by blast
    have "\<exists>r. vector_loop nt parse fresh co sep name val st' (size_t_inc e') e' res' = Some r"
    proof (cases "status_ok st' \<and> e' \<noteq> npos")
      case go: True
      then have "start \<le> e'" "e' < npos"
        using vector_turn_status [OF turn] assms unfolding tokenizer_advances_def by blast+
      then have "length val - size_t_inc e' < length val - start"
        using True by (simp add: size_t_inc_below) linarith
      then show ?thesis by (rule less.hyps)
    next
      case False
      then show ?thesis by (subst vector_loop.simps) auto
    qed
    with True turn show ?thesis by (subst vector_loop.simps) simp
  next
    case False
    then show ?thesis by (subst vector_loop.simps) auto
  qed
qed

lemma ParseVector_returns:
  "tokenizer_advances nt \<Longrightarrow> \<exists>r. ParseVector nt parse fresh co sep name val = Some r"
  unfolding ParseVector_def by (rule vector_loop_returns)

section \<open>The serialized text\<close>

fun join :: "char \<Rightarrow> string list \<Rightarrow> string" where
  "join sep [] = []"
| "join sep [s] = s"
| "join sep (s # t # ts) = s @ sep # join sep (t # ts)"

lemma join_Cons: "ts \<noteq> [] \<Longrightarrow> join sep (s # ts) = s @ sep # join sep ts"
  by (cases ts) simp_all

lemma set_join: "set (join sep ss) \<subseteq> insert sep (\<Union> (set ` set ss))"
  by (induction sep ss rule: join.induct) auto

text \<open>
  An element codec: \<open>text e\<close> is what \<open>ser\<close> writes for an element, plain text without the
  separator or an equals sign, and \<open>parse\<close> reads it back unless it is empty.
\<close>

definition plain_codec ::
    "'a ParseFunc \<Rightarrow> 'a SerializeFunc \<Rightarrow> ('a \<Rightarrow> string) \<Rightarrow> char \<Rightarrow> 'a set \<Rightarrow> bool" where
  "plain_codec parse ser text sep A \<longleftrightarrow> plain_char sep \<and> sep \<noteq> CHR ''='' \<and>
     (\<forall>e \<in> A. \<forall>co name.
        (\<forall>c \<in> set (text e). plain_char c \<and> c \<noteq> sep \<and> c \<noteq> CHR ''='') \<and>
        status_ok (fst (ser co name e [])) \<and> snd (ser co name e []) = text e \<and>
        (text e \<noteq> [] \<longrightarrow>
           (\<forall>old. status_ok (fst (parse co name (text e) old)) \<and> snd (parse co name (text e) old) = e)))"

definition printed_elements :: "('a \<Rightarrow> string) \<Rightarrow> 'a list \<Rightarrow> 'a list" where
  "printed_elements text vec = filter (\<lambda>e. text e \<noteq> []) vec"

lemma serialize_loop_join:
  assumes "plain_codec parse ser text sep (set vec)"
  shows "serialize_loop ser co sep name vec res printed =
    (let es = printed_elements text vec in
     Inr (if es = [] then res
          else (if printed > 0 then res @ [sep] else res) @ join sep (map text es),
          printed + length es))"
  using assms
proof (induction vec arbitrary: res printed)
  case (Cons e vec)
  then have c: "plain_codec parse ser text sep (set vec)" by (simp add: plain_codec_def)
  from Cons.prems have e: "sep \<notin> set (text e)"
    "status_ok (fst (ser co name e []))" "snd (ser co name e []) = text e"
    by (auto simp: plain_codec_def)
  show ?case
    using e Cons.IH [OF c] by (cases "ser co name e []")
      (auto simp: printed_elements_def Let_def join_Cons)
qed (simp add: printed_elements_def)

lemma join_plain:
  assumes "plain_codec parse ser text sep (set vec)" "c \<in> set (join sep (map text (printed_elements text vec)))"
  shows "plain_char c \<and> c \<noteq> CHR ''=''"
proof -
  have "c = sep \<or> (\<exists>e \<in> set vec. c \<in> set (text e))"
    using assms(2) set_join [of sep "map text (printed_elements text vec)"]
    by (auto simp: printed_elements_def)
  then show ?thesis using assms(1) by (auto simp: plain_codec_def)
qed

lemma wrap_result_plain: "\<forall>c \<in> set r. plain_char c \<and> c \<noteq> CHR ''='' \<Longrightarrow> wrap_result r n = r"
  by (cases r) (auto simp: wrap_result_def plain_char_def)

lemma SerializeVector_join:
  assumes "plain_codec parse ser text sep (set vec)"
  shows "SerializeVector ser co sep name vec value
    = (Status_OK, join sep (map text (printed_elements text vec)))"
proof -
  let ?r = "join sep (map text (printed_elements text vec))"
  have "wrap_result ?r n = ?r" for n
    using join_plain [OF assms] by (intro wrap_result_plain) blast
  then show ?thesis
    by (auto simp: SerializeVector_def serialize_loop_join [OF assms] Let_def)
qed

lemma SerializeArray_Vector: "SerializeArray = SerializeVector"
  by (intro ext) (simp add: SerializeArray_def SerializeVector_def)

section \<open>Reading the text back\<close>

lemma takeWhile_delimiter: "sep \<notin> set t \<Longrightarrow> takeWhile (\<lambda>c. c \<noteq> sep) (t @ sep # u) = t"
  by (induction t) auto

lemma plain_token_join:
  assumes "sep \<notin> set t" "val = pre @ join sep (t # ts)"
  shows "plain_token sep val (length pre)
    = (if ts = [] then npos else length pre + length t, t)"
  using assms by (cases ts)
    (auto simp: plain_token_def Let_def takeWhile_delimiter takeWhile_eq_all_conv)

lemma next_token_join:
  assumes "tokenizes_plain_text nt" "sep \<notin> set t" "t \<noteq> []"
    "val = pre @ join sep (t # ts)" "\<forall>c \<in> set val. plain_char c"
  obtains st where "status_ok st"
    "nt val sep (length pre) = (st, if ts = [] then npos else length pre + length t, t)"
proof -
  have "length pre < length val"
    using assms(3,4) by (cases ts) auto
  then have "status_ok (fst (nt val sep (length pre)))"
    "snd (nt val sep (length pre)) = plain_token sep val (length pre)"
    using assms(1,5) by (auto simp: tokenizes_plain_text_def)
  then show ?thesis
    using that plain_token_join [OF assms(2,4)] by (metis prod.collapse)
qed

lemma plain_codec_parse:
  assumes "plain_codec parse ser text sep A" "e \<in> A" "text e \<noteq> []"
  shows "\<exists>st. status_ok st \<and> parse co name (text e) old = (st, e)"
proof -
  have "status_ok (fst (parse co name (text e) old))" "snd (parse co name (text e) old) = e"
    using assms unfolding plain_codec_def by blast+
  then show ?thesis by (metis prod.collapse)
qed

lemma plain_codec_sep: "plain_codec parse ser text sep A \<Longrightarrow> e \<in> A \<Longrightarrow> sep \<notin> set (text e)"
  by (auto simp: plain_codec_def)

lemma vector_loop_join:
  assumes "tokenizes_plain_text nt" "plain_codec parse ser text sep (set es)"
    "\<forall>e \<in> set es. text e \<noteq> []" "val = pre @ join sep (map text es)"
    "\<forall>c \<in> set val. plain_char c" "length val < npos" "status_ok st" "en \<noteq> npos"
  shows "\<exists>st'. status_ok st' \<and>
    vector_loop nt parse fresh co sep name val st (length pre) en res = Some (st', res @ es)"
  using assms(2-)
proof (induction es arbitrary: pre st en res)
  case Nil
  then show ?case by (subst vector_loop.simps) auto
next
  case (Cons e es)
  let ?co = "co\<lparr>ignore_unsupported_options := False\<rparr>"
  let ?stop = "if map text es = [] then npos else length pre + length (text e)"
  have codec: "plain_codec parse ser text sep (set es)"
    using Cons.prems(1) by (simp add: plain_codec_def)
  have val: "val = pre @ join sep (text e # map text es)" and ne: "text e \<noteq> []"
    using Cons.prems by auto
  obtain s1 where s1: "status_ok s1" "nt val sep (length pre) = (s1, ?stop, text e)"
    using next_token_join [OF assms(1) plain_codec_sep [OF Cons.prems(1)] ne val Cons.prems(4)]
    by auto
  obtain s2 where s2: "status_ok s2" "parse ?co name (text e) fresh = (s2, e)"
    using plain_codec_parse [OF Cons.prems(1) list.set_intros(1) ne] by blast
  have turn: "vector_turn nt parse fresh co sep name val (length pre) res = (s2, ?stop, res @ [e])"
    using s1 s2 by (simp add: vector_turn_def Let_def)
  have guard: "length pre < length val" using val ne by (cases es) auto
  have loop: "vector_loop nt parse fresh co sep name val st (length pre) en res
      = vector_loop nt parse fresh co sep name val s2 (size_t_inc ?stop) ?stop (res @ [e])"
    using Cons.prems(6,7) guard turn by (subst vector_loop.simps) simp
  show ?case
  proof (cases "es = []")
    case True
    then show ?thesis using s2(1) unfolding loop by (subst vector_loop.simps) auto
  next
    case False
    let ?pre = "pre @ text e @ [sep]"
    have split: "val = ?pre @ join sep (map text es)"
      using val False by (simp add: join_Cons)
    then have "length pre + length (text e) < npos"
      using Cons.prems(5) arg_cong [OF split, of length] by simp
    then have "size_t_inc ?stop = length ?pre" "?stop \<noteq> npos"
      using False by (simp_all add: size_t_inc_below)
    then show ?thesis
      using Cons.IH [OF codec _ split Cons.prems(4,5) s2(1), where en = "?stop" and res = "res @ [e]"]
        Cons.prems(2) False unfolding loop by simp
  qed
qed

lemma ParseVector_SerializeVector:
  assumes "tokenizes_plain_text nt" "plain_codec parse ser text sep (set vec)"
    "SerializeVector ser co sep name vec value0 = (st0, value)" "length value < npos"
  obtains st where "status_ok st0" "status_ok st"
    "ParseVector nt parse fresh co sep name value = Some (st, printed_elements text vec)"
proof -
  let ?es = "printed_elements text vec"
  have v: "st0 = Status_OK" "value = join sep (map text ?es)"
    using assms(3) SerializeVector_join [OF assms(2)] by auto
  have es: "plain_codec parse ser text sep (set ?es)" "\<forall>e \<in> set ?es. text e \<noteq> []"
    using assms(2) by (auto simp: plain_codec_def printed_elements_def)
  have plain: "\<forall>c \<in> set value. plain_char c"
    using join_plain [OF assms(2)] v(2) by blast
  have "\<exists>st. status_ok st \<and>
      vector_loop nt parse fresh co sep name value Status_default (length ([] :: string)) 0 [] = Some (st, [] @ ?es)"
    by (rule vector_loop_join [OF assms(1) es _ plain assms(4)]) (simp_all add: v npos_def)
  then show ?thesis
    using that v(1) by (auto simp: ParseVector_def)
qed

text \<open>The array loop writes the printed elements over the first slots.\<close>

lemma array_loop_join:
  assumes "tokenizes_plain_text nt" "plain_codec parse ser text sep (set es)"
    "\<forall>e \<in> set es. text e \<noteq> []" "val = pre @ join sep (map text es)"
    "\<forall>c \<in> set val. plain_char c" "length val < npos" "status_ok st" "en \<noteq> npos"
    "length front + length es \<le> length arr"
  shows "\<exists>st' start' e'. status_ok st' \<and> (es \<noteq> [] \<longrightarrow> e' = npos) \<and>
    array_loop nt parse co sep name val (length arr) st (length front) (length pre) en
        (front @ drop (length front) arr)
      = (st', length front + length es, start', e', front @ es @ drop (length front + length es) arr)"
  using assms(2-)
proof (induction es arbitrary: pre st en front)
  case Nil
  then show ?case by (subst array_loop.simps) auto
next
  case (Cons e es)
  let ?co = "co\<lparr>ignore_unsupported_options := False\<rparr>"
  let ?stop = "if map text es = [] then npos else length pre + length (text e)"
  let ?arr = "front @ drop (length front) arr" and ?front = "front @ [e]"
  have codec: "plain_codec parse ser text sep (set es)"
    using Cons.prems(1) by (simp add: plain_codec_def)
  have val: "val = pre @ join sep (text e # map text es)" and ne: "text e \<noteq> []"
    using Cons.prems by auto
  obtain s1 where s1: "status_ok s1" "nt val sep (length pre) = (s1, ?stop, text e)"
    using next_token_join [OF assms(1) plain_codec_sep [OF Cons.prems(1)] ne val Cons.prems(4)]
    by auto
  obtain s2 where s2: "status_ok s2" "parse ?co name (text e) (?arr ! length front) = (s2, e)"
    using plain_codec_parse [OF Cons.prems(1) list.set_intros(1) ne] by blast
  have upd: "?arr[length front := e] = ?front @ drop (length ?front) arr"
    using Cons.prems(8) by (cases "drop (length front) arr") (auto simp: drop_Suc drop_tl)
  have "\<not> IsNotSupported s2" using s2(1) by (simp add: status_defs)
  then have turn: "array_turn nt parse co sep name val (length front) (length pre) ?arr
      = (s2, ?stop, ?front @ drop (length ?front) arr)"
    using s1 s2 upd by (simp add: array_turn_def Let_def)
  have guard: "length pre < length val" "length front < length arr"
    using val ne Cons.prems(8) by (cases es; auto)+
  have loop: "array_loop nt parse co sep name val (length arr) st (length front) (length pre) en ?arr
      = array_loop nt parse co sep name val (length arr) s2 (length ?front) (size_t_inc ?stop) ?stop
          (?front @ drop (length ?front) arr)"
    using Cons.prems(6,7) guard turn by (subst array_loop.simps) simp
  show ?case
  proof (cases "es = []")
    case True
    then show ?thesis using s2(1) unfolding loop by (subst array_loop.simps) auto
  next
    case False
    let ?pre = "pre @ text e @ [sep]"
    have split: "val = ?pre @ join sep (map text es)"
      using val False by (simp add: join_Cons)
    then have "length pre + length (text e) < npos"
      using Cons.prems(5) arg_cong [OF split, of length] by simp
    then have "size_t_inc ?stop = length ?pre" "?stop \<noteq> npos"
      using False by (simp_all add: size_t_inc_below)
    then show ?thesis
      using Cons.IH [OF codec _ split Cons.prems(4,5) s2(1), where front = "?front" and en = "?stop"]
        Cons.prems(2,8) False unfolding loop by simp
  qed
qed

lemma ParseArray_SerializeArray:
  assumes "tokenizes_plain_text nt" "plain_codec parse ser text sep (set arr)"
    "SerializeArray ser co sep name arr value0 = (st0, value)" "length value < npos"
    "length old = length arr"
  shows "if length (printed_elements text arr) = length arr
    then (\<exists>st. status_ok st \<and> ParseArray mk nt parse co sep name value old = (st, arr))
    else (\<exists>res. ParseArray mk nt parse co sep name value old
      = (InvalidArgument_msg mk
           (Slice_string ''Serialized value has less elements than array size'')
           (Slice_string name), res))"
proof -
  let ?es = "printed_elements text arr"
  have v: "value = join sep (map text ?es)"
    using assms(3) SerializeVector_join [OF assms(2)] by (simp add: SerializeArray_Vector)
  have es: "plain_codec parse ser text sep (set ?es)" "\<forall>e \<in> set ?es. text e \<noteq> []"
    using assms(2) by (auto simp: plain_codec_def printed_elements_def)
  have plain: "\<forall>c \<in> set value. plain_char c"
    using join_plain [OF assms(2)] v by blast
  have len: "length ?es \<le> length old"
    using assms(5) by (simp add: printed_elements_def)
  obtain st start e where loop: "status_ok st" "?es \<noteq> [] \<longrightarrow> e = npos"
    "array_loop nt parse co sep name value (length old) Status_default 0 0 0 old
       = (st, length ?es, start, e, ?es @ drop (length ?es) old)"
    using array_loop_join [OF assms(1) es _ plain assms(4), where pre = "[]" and front = "[]"
        and arr = old and st = Status_default and en = 0 and co = co and name = name] v len
    by (auto simp: npos_def)
  show ?thesis
  proof (cases "length ?es = length arr")
    case True
    then have "?es = arr"
      unfolding printed_elements_def by (metis filter_id_conv length_filter_less linorder_not_less order_refl)
    moreover have "value = [] \<or> e = npos" using loop(2) v by fastforce
    ultimately show ?thesis
      using loop True assms(5) by (auto simp: ParseArray_def)
  next
    case False
    with len assms(5) have "length ?es < length old" by simp
    then show ?thesis
      using loop False by (auto simp: ParseArray_def)
  qed
qed

section \<open>Comparison\<close>

lemma elements_equal_pointwise:
  assumes "\<And>x y m. fst (eq co name x y m) = P x y" "length xs = length ys"
  shows "fst (elements_equal eq co name xs ys m) \<longleftrightarrow> list_all2 P xs ys"
  using assms(2)
proof (induction xs ys arbitrary: m rule: list_induct2)
  case (Cons x xs y ys)
  then show ?case
    using assms(1) [of x y m] by (auto split: prod.splits bool.splits)
qed simp

lemma VectorsAreEqual_pointwise:
  assumes "\<And>x y m. fst (eq co name x y m) = P x y"
  shows "fst (VectorsAreEqual eq co name xs ys m) \<longleftrightarrow> list_all2 P xs ys"
  using elements_equal_pointwise [where eq = eq and P = P, OF assms]
  by (auto simp: VectorsAreEqual_def dest: list_all2_lengthD)

section \<open>Descriptors of arrays and vectors\<close>

definition OTI_Array ::
    "msg_ctor \<Rightarrow> tokenizer \<Rightarrow> 'a ParseFunc \<Rightarrow> 'a SerializeFunc \<Rightarrow> 'a EqualsFunc \<Rightarrow> int \<Rightarrow>
       OptionVerificationType \<Rightarrow> OptionTypeFlags \<Rightarrow> char \<Rightarrow> ('a list, 'db, 'cf) OptionTypeInfo" where
  "OTI_Array mk next_token parse ser eq offset verification flags separator =
     SetEqualsFunc (\<lambda>opts name array1 array2 mismatch.
         elements_equal eq opts name array1 array2 mismatch)
       (SetSerializeFunc (\<lambda>opts name array value. SerializeArray ser opts separator name array value)
       (SetParseFunc (\<lambda>opts name value array.
           ParseArray mk next_token parse opts separator name value array)
       (OTI_flags offset kArray verification flags)))"

text \<open>
  \<open>Vector\<close>. The parse handler of a descriptor answers with a status and a value; where \<open>ParseVector\<close> does
  not return, the answer is the argument \<open>stuck\<close>, about which nothing is known.
\<close>

definition OTI_Vector ::
    "Status \<times> 'a list \<Rightarrow> tokenizer \<Rightarrow> 'a ParseFunc \<Rightarrow> 'a \<Rightarrow> 'a SerializeFunc \<Rightarrow> 'a EqualsFunc \<Rightarrow> int \<Rightarrow>
       OptionVerificationType \<Rightarrow> OptionTypeFlags \<Rightarrow> char \<Rightarrow> ('a list, 'db, 'cf) OptionTypeInfo" where
  "OTI_Vector stuck next_token parse fresh ser eq offset verification flags separator =
     SetEqualsFunc (\<lambda>opts name vec1 vec2 mismatch. VectorsAreEqual eq opts name vec1 vec2 mismatch)
       (SetSerializeFunc (\<lambda>opts name vec value. SerializeVector ser opts separator name vec value)
       (SetParseFunc (\<lambda>opts name value result.
           (case ParseVector next_token parse fresh opts separator name value of
              Some r \<Rightarrow> r | None \<Rightarrow> stuck))
       (OTI_flags offset kVector verification flags)))"

text \<open>The three handlers of a descriptor together: what it prints, parsed and compared with the original.\<close>

definition reread :: "('a, 'db, 'cf) OptionTypeInfo \<Rightarrow> ConfigOptions \<Rightarrow> string \<Rightarrow> 'a \<Rightarrow> 'a \<Rightarrow> (Status \<times> Status \<times> bool) option" where
  "reread info opts name v old =
     do {
       s \<leftarrow> serialize_func info;
       p \<leftarrow> parse_func info;
       e \<leftarrow> equals_func info;
       Some (case s opts name v [] of (st, value) \<Rightarrow>
         (case p opts name value old of (st1, v1) \<Rightarrow> (st, st1, fst (e opts name v1 v []))))
     }"

section \<open>Properties\<close>

text \<open>A tokenizer and a codec of strings, for the witnesses.\<close>

definition sample_tokenizer :: tokenizer where
  "sample_tokenizer opts delimiter start = (Status_OK, plain_token delimiter opts start)"

definition sample_parse :: "string ParseFunc" where
  "sample_parse co name token old = (Status_OK, token)"

definition sample_serialize :: "string SerializeFunc" where
  "sample_serialize co name e buf = (Status_OK, e)"

lemma sample_tokenizes: "tokenizes_plain_text sample_tokenizer"
  by (simp add: tokenizes_plain_text_def sample_tokenizer_def)

lemma sample_codec:
  "plain_codec sample_parse sample_serialize (\<lambda>e. e) CHR '':'' {''a'', '''', ''b''}"
  by (simp add: plain_codec_def sample_parse_def sample_serialize_def plain_char_def white_space_def)

lemma sample_text:
  "SerializeVector sample_serialize co CHR '':'' name [''a'', '''', ''b''] [] = (Status_OK, ''a:b'')"
  "SerializeArray sample_serialize co CHR '':'' name [''a'', '''', ''b''] [] = (Status_OK, ''a:b'')"
  by (simp_all add: SerializeVector_def SerializeArray_def sample_serialize_def wrap_result_def)

definition bounded_tokenizer :: tokenizer where
  "bounded_tokenizer opts delimiter start =
     (Status_OK, if length opts < npos then plain_token delimiter opts start else (npos, drop start opts))"

lemma bounded_tokenizer_advances: "tokenizer_advances bounded_tokenizer"
proof -
  have "start + length (takeWhile P (drop start opts)) \<le> length opts"
    if "takeWhile P (drop start opts) \<noteq> drop start opts" for start P and opts :: string
  proof -
    have "length (takeWhile P (drop start opts)) \<le> length (drop start opts)"
      by (rule length_takeWhile_le)
    moreover have "start < length opts" using that by (cases "start < length opts") auto
    ultimately show ?thesis by simp
  qed
  note bound = this
  show ?thesis
    unfolding tokenizer_advances_def
  proof (intro allI impI)
    fix opts delimiter start st e token
    assume "bounded_tokenizer opts delimiter start = (st, e, token) \<and> status_ok st"
    then show "e = npos \<or> start \<le> e \<and> e < npos"
      using bound [of "\<lambda>c. c \<noteq> delimiter" start opts]
      by (cases "length opts < npos") (simp_all add: bounded_tokenizer_def plain_token_def Let_def
          split: if_splits, auto)
  qed
qed

text \<open>
  C7. \<open>ParseVector\<close> returns on every input: as long as the tokenizer does not move backwards, its
  loop ends, whatever the element parser does, including on elements that are skipped because
  unsupported options are ignored.
\<close>

theorem ParseVector_terminates:
  assumes "tokenizer_advances nt"
  shows "\<exists>r. ParseVector nt parse fresh co sep name val = Some r"
  by (rule ParseVector_returns [OF assms])

theorem ParseVector_terminates_witness:
  "\<forall>co. \<exists>r. ParseVector bounded_tokenizer sample_parse [] co CHR '':'' ''v'' ''a::b:'' = Some r"
  by (intro allI ParseVector_terminates bounded_tokenizer_advances)







end
