(* ===== verification/ObjectRegistry.thy ===== *)
theory ObjectRegistry
  imports StatusModel
begin

text \<open>
  include/rocksdb/utilities/object_registry.h: name patterns, libraries of factories and the
  registry that searches them, creates objects and keeps the managed ones.

  \<open>'o\<close> is the type of the created objects. Declared elsewhere and so parameters:
  \<open>PatternEntry::Matches\<close> (\<open>matches\<close>), the virtual \<open>Name\<close> and \<open>GetId\<close> of an object
  (\<open>name_of\<close>, \<open>id_of\<close>), \<open>T::Type()\<close> (\<open>ty\<close>), \<open>GetManagedObject\<close> of the parent
  (\<open>get_managed\<close>) and the liveness of a weak pointer's target (\<open>alive\<close>). The mutexes only
  serialise the operations.
\<close>

section \<open>Patterns\<close>

datatype Quantifier =
    kMatchZeroOrMore | kMatchAtLeastOne | kMatchExact | kMatchInteger | kMatchDecimal

record PatternEntry =
  pe_name :: string
  pe_nlength :: nat
  pe_names :: "string list"
  pe_optional :: bool
  pe_slength :: nat
  pe_separators :: "(string \<times> Quantifier) list"

definition PatternEntry_new :: "string \<Rightarrow> bool \<Rightarrow> PatternEntry" where
  "PatternEntry_new name optional = \<lparr>pe_name = name, pe_nlength = length name, pe_names = [],
     pe_optional = optional, pe_slength = 0, pe_separators = []\<rparr>"

definition AddSuffix :: "string \<Rightarrow> PatternEntry \<Rightarrow> PatternEntry" where
  "AddSuffix sfx e =
     e\<lparr>pe_separators := pe_separators e @ [(sfx, kMatchExact)],
       pe_slength := pe_slength e + length sfx\<rparr>"

definition AddSeparator :: "string \<Rightarrow> bool \<Rightarrow> PatternEntry \<Rightarrow> PatternEntry" where
  "AddSeparator separator at_least_one e =
     (let e = e\<lparr>pe_slength := pe_slength e + length separator\<rparr> in
      if at_least_one
      then e\<lparr>pe_separators := pe_separators e @ [(separator, kMatchAtLeastOne)],
             pe_slength := pe_slength e + 1\<rparr>
      else e\<lparr>pe_separators := pe_separators e @ [(separator, kMatchZeroOrMore)]\<rparr>)"

definition AddNumber :: "string \<Rightarrow> bool \<Rightarrow> PatternEntry \<Rightarrow> PatternEntry" where
  "AddNumber separator is_int e =
     e\<lparr>pe_separators := pe_separators e @
         [(separator, if is_int then kMatchInteger else kMatchDecimal)],
       pe_slength := pe_slength e + length separator + 1\<rparr>"

definition AnotherName :: "string \<Rightarrow> PatternEntry \<Rightarrow> PatternEntry" where
  "AnotherName alt e = e\<lparr>pe_names := pe_names e @ [alt]\<rparr>"

definition SetOptional :: "bool \<Rightarrow> PatternEntry \<Rightarrow> PatternEntry" where
  "SetOptional optional e = e\<lparr>pe_optional := optional\<rparr>"

definition AsIndividualId :: "string \<Rightarrow> PatternEntry" where
  "AsIndividualId name =
     AddSeparator ''#'' True (AddSeparator ''@'' True (PatternEntry_new name True))"

section \<open>Libraries\<close>

text \<open>A factory returns the object, the guard that owns it if it gives up ownership, and a
  message. An entry holds a \<open>std::function\<close>, which may be empty (\<open>None\<close>).\<close>

type_synonym 'o FactoryFunc = "string \<Rightarrow> 'o option \<times> 'o option \<times> string"

record 'o ObjectLibrary =
  lib_id :: string
  factories :: "string \<rightharpoonup> (PatternEntry \<times> 'o FactoryFunc option) list"

definition ObjectLibrary_new :: "string \<Rightarrow> 'o ObjectLibrary" where
  "ObjectLibrary_new ident = \<lparr>lib_id = ident, factories = Map.empty\<rparr>"

definition GetID :: "'o ObjectLibrary \<Rightarrow> string" where
  "GetID l = lib_id l"

fun find_entry ::
    "(PatternEntry \<Rightarrow> string \<Rightarrow> bool) \<Rightarrow> string \<Rightarrow> (PatternEntry \<times> 'o FactoryFunc option) list \<Rightarrow>
       'o FactoryFunc option" where
  "find_entry matches target [] = None"
| "find_entry matches target ((e, f) # rest) =
     (if matches e target then f else find_entry matches target rest)"

definition Library_FindFactory ::
    "(PatternEntry \<Rightarrow> string \<Rightarrow> bool) \<Rightarrow> string \<Rightarrow> 'o ObjectLibrary \<Rightarrow> string \<Rightarrow>
       'o FactoryFunc option" where
  "Library_FindFactory matches ty l target =
     (case factories l ty of
        None \<Rightarrow> None
      | Some entries \<Rightarrow> find_entry matches target entries)"

definition AddFactoryEntry ::
    "string \<Rightarrow> PatternEntry \<times> 'o FactoryFunc option \<Rightarrow> 'o ObjectLibrary \<Rightarrow> 'o ObjectLibrary" where
  "AddFactoryEntry ty entry l =
     l\<lparr>factories := (factories l)(ty \<mapsto>
         (case factories l ty of None \<Rightarrow> [] | Some es \<Rightarrow> es) @ [entry])\<rparr>"

definition AddFactory ::
    "string \<Rightarrow> string \<Rightarrow> 'o FactoryFunc option \<Rightarrow> 'o ObjectLibrary \<Rightarrow> 'o ObjectLibrary" where
  "AddFactory ty name func l = AddFactoryEntry ty (PatternEntry_new name True, func) l"

definition AddFactory_pattern ::
    "string \<Rightarrow> PatternEntry \<Rightarrow> 'o FactoryFunc option \<Rightarrow> 'o ObjectLibrary \<Rightarrow> 'o ObjectLibrary" where
  "AddFactory_pattern ty entry func l = AddFactoryEntry ty (entry, func) l"

type_synonym 'o RegistrarFunc = "'o ObjectLibrary \<Rightarrow> string \<Rightarrow> int \<times> 'o ObjectLibrary"

definition Library_Register :: "'o RegistrarFunc \<Rightarrow> string \<Rightarrow> 'o ObjectLibrary \<Rightarrow> int \<times> 'o ObjectLibrary" where
  "Library_Register registrar arg l = registrar l arg"

section \<open>The registry\<close>

datatype 'o ObjectRegistry = ObjectRegistry
  (libraries: "'o ObjectLibrary list")
  (managed_objects: "string \<rightharpoonup> 'o")
  (parent: "'o ObjectRegistry option")

definition Registry_new :: "'o ObjectRegistry option \<Rightarrow> 'o ObjectRegistry" where
  "Registry_new p = ObjectRegistry [] Map.empty p"

definition AddLibrary :: "'o ObjectLibrary \<Rightarrow> 'o ObjectRegistry \<Rightarrow> 'o ObjectRegistry" where
  "AddLibrary library r = ObjectRegistry (libraries r @ [library]) (managed_objects r) (parent r)"

definition AddLibrary_id :: "string \<Rightarrow> 'o ObjectRegistry \<Rightarrow> 'o ObjectLibrary \<times> 'o ObjectRegistry" where
  "AddLibrary_id ident r =
     (let library = ObjectLibrary_new ident in (library, AddLibrary library r))"

text \<open>
  The library added for \<open>ident\<close> is shared with the registry, so the registrar fills the
  registry's last library in place.
\<close>

definition AddLibrary_registrar ::
    "string \<Rightarrow> 'o RegistrarFunc \<Rightarrow> string \<Rightarrow> 'o ObjectRegistry \<Rightarrow> 'o ObjectRegistry" where
  "AddLibrary_registrar ident registrar arg r =
     (let (library, r') = AddLibrary_id ident r;
          (n, library') = Library_Register registrar arg library in
      ObjectRegistry (butlast (libraries r') @ [library']) (managed_objects r') (parent r'))"

fun first_factory ::
    "(PatternEntry \<Rightarrow> string \<Rightarrow> bool) \<Rightarrow> string \<Rightarrow> string \<Rightarrow> 'o ObjectLibrary list \<Rightarrow>
       'o FactoryFunc option" where
  "first_factory matches ty name [] = None"
| "first_factory matches ty name (l # ls) =
     (case Library_FindFactory matches ty l name of
        Some f \<Rightarrow> Some f
      | None \<Rightarrow> first_factory matches ty name ls)"

fun FindFactory ::
    "(PatternEntry \<Rightarrow> string \<Rightarrow> bool) \<Rightarrow> string \<Rightarrow> 'o ObjectRegistry \<Rightarrow> string \<Rightarrow>
       'o FactoryFunc option" where
  "FindFactory matches ty (ObjectRegistry libs managed p) name =
     (case first_factory matches ty name (rev libs) of
        Some f \<Rightarrow> Some f
      | None \<Rightarrow> (case p of None \<Rightarrow> None | Some r \<Rightarrow> FindFactory matches ty r name))"

text \<open>\<open>NewObject\<close>: the status, \<open>*object\<close> (\<open>old\<close> where it is not written) and the guard.\<close>

definition NewObject ::
    "msg_ctor \<Rightarrow> (PatternEntry \<Rightarrow> string \<Rightarrow> bool) \<Rightarrow> string \<Rightarrow> 'o ObjectRegistry \<Rightarrow> string \<Rightarrow>
       'o option \<Rightarrow> Status \<times> 'o option \<times> 'o option" where
  "NewObject mk matches ty r target old =
     (case FindFactory matches ty r target of
        Some factory \<Rightarrow>
          (let (object, guard, errmsg) = factory target in
           if object \<noteq> None then (Status_OK, object, guard)
           else if errmsg = [] then
             (InvalidArgument_msg mk (Slice_string (''Could not load '' @ ty)) (Slice_string target),
              object, guard)
           else (InvalidArgument_msg mk (Slice_string errmsg) (Slice_string target), object, guard))
      | None \<Rightarrow>
          (NotSupported_msg mk (Slice_string (''Could not load '' @ ty)) (Slice_string target),
           old, None))"

definition NewUniqueObject ::
    "msg_ctor \<Rightarrow> (PatternEntry \<Rightarrow> string \<Rightarrow> bool) \<Rightarrow> string \<Rightarrow> 'o ObjectRegistry \<Rightarrow> string \<Rightarrow>
       'o option \<Rightarrow> Status \<times> 'o option" where
  "NewUniqueObject mk matches ty r target result =
     (let (s, ptr, guard) = NewObject mk matches ty r target None in
      if \<not> status_ok s then (s, result)
      else if guard \<noteq> None then (Status_OK, guard)
      else (InvalidArgument_msg mk
              (Slice_string (''Cannot make a unique '' @ ty @ '' from unguarded one ''))
              (Slice_string target), result))"

definition NewSharedObject ::
    "msg_ctor \<Rightarrow> (PatternEntry \<Rightarrow> string \<Rightarrow> bool) \<Rightarrow> string \<Rightarrow> 'o ObjectRegistry \<Rightarrow> string \<Rightarrow>
       'o option \<Rightarrow> Status \<times> 'o option" where
  "NewSharedObject mk matches ty r target result =
     (let (s, ptr, guard) = NewObject mk matches ty r target None in
      if \<not> status_ok s then (s, result)
      else if guard \<noteq> None then (Status_OK, guard)
      else (InvalidArgument_msg mk
              (Slice_string (''Cannot make a shared '' @ ty @ '' from unguarded one ''))
              (Slice_string target), result))"

definition NewStaticObject ::
    "msg_ctor \<Rightarrow> (PatternEntry \<Rightarrow> string \<Rightarrow> bool) \<Rightarrow> string \<Rightarrow> 'o ObjectRegistry \<Rightarrow> string \<Rightarrow>
       'o option \<Rightarrow> Status \<times> 'o option" where
  "NewStaticObject mk matches ty r target result =
     (let (s, ptr, guard) = NewObject mk matches ty r target None in
      if \<not> status_ok s then (s, result)
      else if guard \<noteq> None then
        (InvalidArgument_msg mk
           (Slice_string (''Cannot make a static '' @ ty @ '' from a guarded one ''))
           (Slice_string target), result)
      else (Status_OK, ptr))"

section \<open>Managed objects\<close>

definition ToManagedObjectKey :: "string \<Rightarrow> string \<Rightarrow> string" where
  "ToManagedObjectKey ty ident = ty @ ''://'' @ ident"

text \<open>The weak pointer's \<open>lock()\<close>.\<close>

definition lock :: "('o \<Rightarrow> bool) \<Rightarrow> 'o \<Rightarrow> 'o option" where
  "lock alive w = (if alive w then Some w else None)"

text \<open>
  The three steps of \<open>GetOrCreateManagedObject\<close> on a new object: \<open>cfunc\<close> (which returns its
  status and the configured object) runs on an object that could be made; the result is stored
  under the input id and under its own id, each unless it is the base name of the class.
\<close>

definition configure_new ::
    "('o \<Rightarrow> Status \<times> 'o) option \<Rightarrow> Status \<times> 'o option \<Rightarrow> Status \<times> 'o option" where
  "configure_new cfunc new =
     (case new of (s, object) \<Rightarrow>
        (if status_ok s then
           (case (cfunc, object) of
              (Some f, Some x) \<Rightarrow> (let (s', x') = f x in (s', Some x'))
            | _ \<Rightarrow> (s, object))
         else (s, object)))"

definition store_created ::
    "('o \<Rightarrow> string) \<Rightarrow> ('o \<Rightarrow> string) \<Rightarrow> string \<Rightarrow> string \<Rightarrow> 'o \<Rightarrow> (string \<rightharpoonup> 'o) \<Rightarrow> (string \<rightharpoonup> 'o)" where
  "store_created name_of id_of ty ident c m =
     (let m = (if ident \<noteq> name_of c then m(ToManagedObjectKey ty ident \<mapsto> c) else m) in
      if ident \<noteq> id_of c \<and> id_of c \<noteq> name_of c then m(ToManagedObjectKey ty (id_of c) \<mapsto> c) else m)"

text \<open>
  \<open>GetOrCreateManagedObject\<close>: the status, \<open>*result\<close> and the registry.
\<close>

definition GetOrCreateManagedObject ::
    "msg_ctor \<Rightarrow> (PatternEntry \<Rightarrow> string \<Rightarrow> bool) \<Rightarrow> ('o \<Rightarrow> string) \<Rightarrow> ('o \<Rightarrow> string) \<Rightarrow>
     ('o \<Rightarrow> bool) \<Rightarrow> ('o ObjectRegistry \<Rightarrow> string \<Rightarrow> string \<Rightarrow> 'o option) \<Rightarrow> string \<Rightarrow>
     string \<Rightarrow> ('o \<Rightarrow> Status \<times> 'o) option \<Rightarrow> 'o option \<Rightarrow> 'o ObjectRegistry \<Rightarrow>
       Status \<times> 'o option \<times> 'o ObjectRegistry" where
  "GetOrCreateManagedObject mk matches name_of id_of alive get_managed ty ident cfunc result r =
     (case Option.bind (parent r) (\<lambda>p. get_managed p ty ident) of
        Some object \<Rightarrow> (Status_OK, Some object, r)
      | None \<Rightarrow>
          (case Option.bind (managed_objects r (ToManagedObjectKey ty ident)) (lock alive) of
             Some object \<Rightarrow> (Status_OK, Some object, r)
           | None \<Rightarrow>
               (case configure_new cfunc (NewSharedObject mk matches ty r ident None) of
                  (s, object) \<Rightarrow>
                    (case (status_ok s, object) of
                       (True, Some c) \<Rightarrow>
                         (s, Some c, ObjectRegistry (libraries r)
                            (store_created name_of id_of ty ident c (managed_objects r)) (parent r))
                     | _ \<Rightarrow> (s, result, r)))))"

section \<open>What a pattern promises\<close>

text \<open>
  The language the comments on \<open>Quantifier\<close> give each separator, its part after the separator
  text, and the least length of a text the separators describe.
\<close>

definition digits :: "string \<Rightarrow> bool" where
  "digits s \<longleftrightarrow> s \<noteq> [] \<and> (\<forall>c \<in> set s. digit c)"

inductive quantified :: "Quantifier \<Rightarrow> string \<Rightarrow> bool" where
  zero_or_more: "quantified kMatchZeroOrMore s"
| at_least_one: "s \<noteq> [] \<Longrightarrow> quantified kMatchAtLeastOne s"
| exact: "quantified kMatchExact []"
| integer: "digits s \<Longrightarrow> quantified kMatchInteger s"
| decimal: "digits s \<Longrightarrow> digits t \<Longrightarrow> quantified kMatchDecimal (s @ ''.'' @ t)"

inductive_cases quantified_cases: "quantified q s"

inductive separated :: "(string \<times> Quantifier) list \<Rightarrow> string \<Rightarrow> bool" where
  nothing: "separated [] []"
| separator: "quantified q s \<Longrightarrow> separated seps t \<Longrightarrow> separated ((sep, q) # seps) (sep @ s @ t)"

fun quantifier_min :: "Quantifier \<Rightarrow> nat" where
  "quantifier_min kMatchZeroOrMore = 0"
| "quantifier_min kMatchExact = 0"
| "quantifier_min kMatchAtLeastOne = 1"
| "quantifier_min kMatchInteger = 1"
| "quantifier_min kMatchDecimal = 3"

fun quantifier_counted :: "Quantifier \<Rightarrow> nat" where
  "quantifier_counted kMatchZeroOrMore = 0"
| "quantifier_counted kMatchExact = 0"
| "quantifier_counted kMatchAtLeastOne = 1"
| "quantifier_counted kMatchInteger = 1"
| "quantifier_counted kMatchDecimal = 1"

definition separators_min :: "(string \<times> Quantifier) list \<Rightarrow> nat" where
  "separators_min seps = (\<Sum>(sep, q) \<leftarrow> seps. length sep + quantifier_min q)"

definition separators_counted :: "(string \<times> Quantifier) list \<Rightarrow> nat" where
  "separators_counted seps = (\<Sum>(sep, q) \<leftarrow> seps. length sep + quantifier_counted q)"

definition pattern_ok :: "PatternEntry \<Rightarrow> bool" where
  "pattern_ok e \<longleftrightarrow>
     pe_nlength e = length (pe_name e) \<and> pe_slength e = separators_counted (pe_separators e)"

named_theorems pattern_defs

lemmas [pattern_defs] = PatternEntry_new_def AddSuffix_def AddSeparator_def AddNumber_def
  AnotherName_def SetOptional_def AsIndividualId_def pattern_ok_def separators_counted_def

lemma pattern_ok_new [wf_intros]: "pattern_ok (PatternEntry_new name optional)"
  by (simp add: pattern_defs)

lemma pattern_ok_AddSuffix [wf_intros]: "pattern_ok e \<Longrightarrow> pattern_ok (AddSuffix sfx e)"
  by (simp add: pattern_defs)

lemma pattern_ok_AddSeparator [wf_intros]: "pattern_ok e \<Longrightarrow> pattern_ok (AddSeparator sep one e)"
  by (simp add: pattern_defs Let_def)

lemma pattern_ok_AddNumber [wf_intros]: "pattern_ok e \<Longrightarrow> pattern_ok (AddNumber sep is_int e)"
  by (simp add: pattern_defs)

lemma pattern_ok_AnotherName [wf_intros]: "pattern_ok e \<Longrightarrow> pattern_ok (AnotherName alt e)"
  by (simp add: pattern_defs)

lemma pattern_ok_SetOptional [wf_intros]: "pattern_ok e \<Longrightarrow> pattern_ok (SetOptional optional e)"
  by (simp add: pattern_defs)

lemma pattern_ok_AsIndividualId [wf_intros]: "pattern_ok (AsIndividualId name)"
  unfolding AsIndividualId_def by (intro wf_intros)

lemma quantifier_counted_le: "quantifier_counted q \<le> quantifier_min q"
  by (cases q) simp_all

lemma separators_counted_le: "separators_counted seps \<le> separators_min seps"
  unfolding separators_counted_def separators_min_def
  by (rule sum_list_mono) (auto simp: quantifier_counted_le)

lemma digits_length: "digits s \<Longrightarrow> 1 \<le> length s"
  by (cases s) (simp_all add: digits_def)

lemma quantified_length: "quantified q s \<Longrightarrow> quantifier_min q \<le> length s"
proof (induction rule: quantified.induct)
  case (at_least_one s)
  then show ?case by (cases s) simp_all
next
  case (decimal s t)
  then show ?case using digits_length [of s] digits_length [of t] by simp
qed (auto dest: digits_length)

lemma separated_length: "separated seps t \<Longrightarrow> separators_min seps \<le> length t"
proof (induction rule: separated.induct)
  case (separator q s seps t sep)
  with quantified_length [of q s] show ?case by (simp add: separators_min_def)
qed (simp add: separators_min_def)

text \<open>The least length is reached, so \<open>separators_min\<close> is exact.\<close>

fun shortest :: "Quantifier \<Rightarrow> string" where
  "shortest kMatchZeroOrMore = []"
| "shortest kMatchExact = []"
| "shortest kMatchAtLeastOne = ''0''"
| "shortest kMatchInteger = ''0''"
| "shortest kMatchDecimal = ''0.0''"

lemma quantified_shortest: "quantified q (shortest q)"
proof (cases q)
  case kMatchDecimal
  have "quantified kMatchDecimal (''0'' @ ''.'' @ ''0'')"
    by (rule quantified.decimal) (simp_all add: digits_def digit_def)
  with kMatchDecimal show ?thesis by simp
qed (auto intro!: quantified.intros simp: digits_def digit_def)

lemma shortest_length: "length (shortest q) = quantifier_min q"
  by (cases q) simp_all

lemma separators_min_reached: "\<exists>t. separated seps t \<and> length t = separators_min seps"
proof (induction seps)
  case Nil
  show ?case by (intro exI [of _ "[]"] conjI separated.nothing) (simp add: separators_min_def)
next
  case (Cons a seps)
  obtain sep q where a: "a = (sep, q)" by (cases a)
  from Cons obtain t where "separated seps t" and len: "length t = separators_min seps" by blast
  then have "separated (a # seps) (sep @ shortest q @ t)"
    unfolding a by (intro separated.separator quantified_shortest)
  then show ?case
    using len by (intro exI [of _ "sep @ shortest q @ t"])
      (simp add: a separators_min_def shortest_length)
qed

lemma counted_exact_iff:
  "separators_counted seps = separators_min seps \<longleftrightarrow> kMatchDecimal \<notin> snd ` set seps"
proof (induction seps)
  case (Cons a seps)
  obtain sep q where a: "a = (sep, q)" by (cases a)
  show ?case
    using Cons separators_counted_le [of seps]
    by (cases q) (auto simp: a separators_counted_def separators_min_def)
qed (simp add: separators_counted_def separators_min_def)

section \<open>What a search finds\<close>

fun has_match :: "(PatternEntry \<Rightarrow> string \<Rightarrow> bool) \<Rightarrow> string \<Rightarrow> 'o ObjectLibrary \<Rightarrow> string \<Rightarrow> bool" where
  "has_match matches ty l target =
     (case factories l ty of None \<Rightarrow> False | Some es \<Rightarrow> \<exists>(e, f) \<in> set es. matches e target)"

lemma find_entry_append:
  "find_entry matches t (es @ es') =
     (if \<exists>(e, f) \<in> set es. matches e t then find_entry matches t es else find_entry matches t es')"
  by (induction es) auto

lemma find_entry_first:
  "find_entry matches t es = Option.bind (find (\<lambda>(e, f). matches e t) es) snd"
  by (induction es) auto

lemma find_entry_no_match: "\<not> (\<exists>(e, f) \<in> set es. matches e t) \<Longrightarrow> find_entry matches t es = None"
  by (induction es) auto

lemma Library_FindFactory_new: "Library_FindFactory matches ty (ObjectLibrary_new ident) t = None"
  by (simp add: Library_FindFactory_def ObjectLibrary_new_def)

lemma Library_FindFactory_add:
  "Library_FindFactory matches ty (AddFactoryEntry ty' (e, f) l) t =
     (if has_match matches ty l t \<or> ty \<noteq> ty' \<or> \<not> matches e t
      then Library_FindFactory matches ty l t else f)"
proof (cases "factories l ty'")
  case None
  then show ?thesis by (auto simp: Library_FindFactory_def AddFactoryEntry_def)
next
  case (Some es)
  then show ?thesis
    using find_entry_no_match [of es matches t]
    by (cases "ty = ty'") (auto simp: Library_FindFactory_def AddFactoryEntry_def find_entry_append)
qed

text \<open>The libraries of a registry and its ancestors in the order they are searched.\<close>

fun search_path :: "'o ObjectRegistry \<Rightarrow> 'o ObjectLibrary list" where
  "search_path (ObjectRegistry libs managed p) =
     rev libs @ (case p of None \<Rightarrow> [] | Some r \<Rightarrow> search_path r)"

lemma first_factory_append:
  "first_factory matches ty name (ls @ ls') =
     (case first_factory matches ty name ls of
        Some f \<Rightarrow> Some f | None \<Rightarrow> first_factory matches ty name ls')"
  by (induction ls) (auto split: option.splits)

lemma first_factory_find:
  "first_factory matches ty name ls =
     (case find (\<lambda>l. Library_FindFactory matches ty l name \<noteq> None) ls of
        None \<Rightarrow> None | Some l \<Rightarrow> Library_FindFactory matches ty l name)"
  by (induction ls) (auto split: option.splits)

lemma FindFactory_search_path:
  "FindFactory matches ty r name = first_factory matches ty name (search_path r)"
  by (induction r rule: search_path.induct)
    (auto simp: first_factory_append split: option.splits)

lemma search_path_AddLibrary: "search_path (AddLibrary l r) = l # search_path r"
  by (cases r) (simp add: AddLibrary_def)

lemma search_path_new: "search_path (Registry_new p) = (case p of None \<Rightarrow> [] | Some r \<Rightarrow> search_path r)"
  by (simp add: Registry_new_def)

lemma FindFactory_AddLibrary:
  "FindFactory matches ty (AddLibrary l r) name =
     (case Library_FindFactory matches ty l name of
        Some f \<Rightarrow> Some f | None \<Rightarrow> FindFactory matches ty r name)"
  by (simp add: FindFactory_search_path search_path_AddLibrary split: option.splits)

lemma search_path_AddLibrary_registrar:
  "search_path (AddLibrary_registrar ident registrar arg r) =
     snd (registrar (ObjectLibrary_new ident) arg) # search_path r"
  by (cases r) (simp add: AddLibrary_registrar_def AddLibrary_id_def AddLibrary_def
      Library_Register_def Let_def split: prod.splits)


section \<open>What the creators return\<close>

lemma NewObject_not_found:
  "FindFactory matches ty r target = None \<Longrightarrow>
   NewObject mk matches ty r target old =
     (NotSupported_msg mk (Slice_string (''Could not load '' @ ty)) (Slice_string target), old, None)"
  by (simp add: NewObject_def)

context message_constructor
begin

lemmas creator_defs = status_ok_def IsNotSupported_def IsInvalidArgument_def Status_OK_def
  Status_default_def factory_fields

lemma NewObject_codes:
  assumes "NewObject mk matches ty r target old = (s, object, guard)"
  shows "status_ok s \<longleftrightarrow>
      (\<exists>f. FindFactory matches ty r target = Some f \<and> fst (f target) \<noteq> None)"
    and "IsNotSupported s \<longleftrightarrow> FindFactory matches ty r target = None"
    and "IsInvalidArgument s \<longleftrightarrow>
      (\<exists>f. FindFactory matches ty r target = Some f \<and> fst (f target) = None)"
  using assms
  by (auto simp: NewObject_def creator_defs Let_def split: option.splits prod.splits if_splits)

lemma NewObject_ok_object:
  "NewObject mk matches ty r target old = (s, object, guard) \<Longrightarrow> status_ok s \<Longrightarrow> object \<noteq> None"
  by (auto simp: NewObject_def creator_defs Let_def split: option.splits prod.splits if_splits)

lemma NewUniqueObject_result:
  "NewUniqueObject mk matches ty r target res = (s, res') \<Longrightarrow>
     (if status_ok s then res' = snd (snd (NewObject mk matches ty r target None)) \<and> res' \<noteq> None
      else res' = res)"
  by (auto simp: NewUniqueObject_def creator_defs split: prod.splits if_splits)

lemma NewSharedObject_eq_Unique:
  "snd (NewSharedObject mk matches ty r target res) = snd (NewUniqueObject mk matches ty r target res)"
  "status_ok (fst (NewSharedObject mk matches ty r target res)) \<longleftrightarrow>
     status_ok (fst (NewUniqueObject mk matches ty r target res))"
  by (auto simp: NewUniqueObject_def NewSharedObject_def creator_defs split: prod.splits)

lemma NewSharedObject_result:
  "NewSharedObject mk matches ty r target res = (s, res') \<Longrightarrow>
     (if status_ok s then res' = snd (snd (NewObject mk matches ty r target None)) \<and> res' \<noteq> None
      else res' = res)"
  by (auto simp: NewSharedObject_def creator_defs split: prod.splits if_splits)

lemma NewStaticObject_result:
  "NewStaticObject mk matches ty r target res = (s, res') \<Longrightarrow>
     (if status_ok s then res' = fst (snd (NewObject mk matches ty r target None)) \<and> res' \<noteq> None
      else res' = res)"
  using NewObject_ok_object [of matches ty r target None]
  by (auto simp: NewStaticObject_def creator_defs split: prod.splits if_splits)

lemma unique_or_static:
  "status_ok (fst (NewUniqueObject mk matches ty r target u)) \<longleftrightarrow>
     status_ok (fst (NewObject mk matches ty r target None)) \<and>
     \<not> status_ok (fst (NewStaticObject mk matches ty r target v))"
  by (auto simp: NewUniqueObject_def NewStaticObject_def creator_defs split: prod.splits)

end

section \<open>The managed objects\<close>

lemma ToManagedObjectKey_inject:
  assumes "CHR '':'' \<notin> set ty" and "CHR '':'' \<notin> set ty'"
  shows "ToManagedObjectKey ty i = ToManagedObjectKey ty' i' \<longleftrightarrow> ty = ty' \<and> i = i'"
  using append_sep_inject [OF assms] by (simp add: ToManagedObjectKey_def)

lemma ToManagedObjectKey_same_type:
  "ToManagedObjectKey ty i = ToManagedObjectKey ty i' \<longleftrightarrow> i = i'"
  by (simp add: ToManagedObjectKey_def)

lemma store_created_lookup:
  "store_created name_of id_of ty ident c m k =
     (if \<exists>i \<in> {ident, id_of c} - {name_of c}. k = ToManagedObjectKey ty i then Some c else m k)"
  by (auto simp: store_created_def Let_def ToManagedObjectKey_same_type)

lemma GetOrCreate_found:
  assumes "Option.bind (parent r) (\<lambda>p. get_managed p ty ident) = None"
    and "managed_objects r (ToManagedObjectKey ty ident) = Some c" and "alive c"
  shows "GetOrCreateManagedObject mk matches name_of id_of alive get_managed ty ident cf res r =
     (Status_OK, Some c, r)"
  using assms by (simp add: GetOrCreateManagedObject_def Let_def lock_def)

context message_constructor
begin

lemma configure_new_ok:
  assumes "configure_new cf (NewSharedObject mk matches ty r ident None) = (s, res)" and "status_ok s"
  shows "\<exists>c. res = Some c"
proof -
  obtain s0 o0 where new: "NewSharedObject mk matches ty r ident None = (s0, o0)" by fastforce
  with assms NewSharedObject_result [OF new] show ?thesis
    by (auto simp: configure_new_def Let_def split: option.splits if_splits prod.splits)
qed

lemma GetOrCreate_cases:
  assumes "GetOrCreateManagedObject mk matches name_of id_of alive get_managed ty ident cf res r =
      (s, res', r')"
  obtains (parent) p c where "parent r = Some p" "get_managed p ty ident = Some c"
      "s = Status_OK" "res' = Some c" "r' = r"
  | (managed) c where "Option.bind (parent r) (\<lambda>p. get_managed p ty ident) = None"
      "managed_objects r (ToManagedObjectKey ty ident) = Some c" "alive c"
      "s = Status_OK" "res' = Some c" "r' = r"
  | (created) c where "Option.bind (parent r) (\<lambda>p. get_managed p ty ident) = None"
      "Option.bind (managed_objects r (ToManagedObjectKey ty ident)) (lock alive) = None"
      "status_ok s" "res' = Some c"
      "r' = ObjectRegistry (libraries r) (store_created name_of id_of ty ident c (managed_objects r))
              (parent r)"
  | (failed) "\<not> status_ok s" "res' = res" "r' = r"
proof (cases "Option.bind (parent r) (\<lambda>p. get_managed p ty ident)")
  case (Some c)
  then obtain p where "parent r = Some p" "get_managed p ty ident = Some c"
    by (cases "parent r") auto
  with Some assms show ?thesis
    by (intro that(1) [of p c]) (auto simp: GetOrCreateManagedObject_def)
next
  case None
  show ?thesis
  proof (cases "Option.bind (managed_objects r (ToManagedObjectKey ty ident)) (lock alive)")
    case (Some c)
    then have "managed_objects r (ToManagedObjectKey ty ident) = Some c" "alive c"
      by (auto simp: lock_def bind_eq_Some_conv split: if_splits)
    with None assms show ?thesis
      by (intro that(2) [of c]) (auto simp: GetOrCreateManagedObject_def Let_def lock_def)
  next
    case None': None
    obtain s1 o1 where new: "configure_new cf (NewSharedObject mk matches ty r ident None) = (s1, o1)"
      by fastforce
    then have result: "(s, res', r') = (case (status_ok s1, o1) of
        (True, Some c) \<Rightarrow> (s1, Some c, ObjectRegistry (libraries r)
           (store_created name_of id_of ty ident c (managed_objects r)) (parent r))
      | _ \<Rightarrow> (s1, res, r))"
      using assms None None' by (simp add: GetOrCreateManagedObject_def)
    show ?thesis
    proof (cases "status_ok s1")
      case True
      with configure_new_ok [OF new] obtain c where "o1 = Some c" by blast
      with True result that(3) [of c] None None' show ?thesis by simp
    next
      case False
      with result that(4) show ?thesis by simp
    qed
  qed
qed

end

context message_constructor
begin

lemma creators_agree:
  "(status_ok (fst (NewObject mk matches ty r target None)) \<longleftrightarrow>
      status_ok (fst (NewUniqueObject mk matches ty r target u)) \<noteq>
      status_ok (fst (NewStaticObject mk matches ty r target v))) \<and>
    (status_ok (fst (NewSharedObject mk matches ty r target u)) \<longleftrightarrow>
      status_ok (fst (NewUniqueObject mk matches ty r target u))) \<and>
    (status_ok (fst (NewUniqueObject mk matches ty r target u)) \<or>
      snd (NewUniqueObject mk matches ty r target u) = u) \<and>
    (status_ok (fst (NewStaticObject mk matches ty r target v)) \<or>
      snd (NewStaticObject mk matches ty r target v) = v)"
  by (auto simp: NewUniqueObject_def NewSharedObject_def NewStaticObject_def creator_defs
      split: prod.splits)

lemma GetOrCreate_again:
  assumes "status_ok s" "alive c" "ident \<noteq> name_of c"
    "GetOrCreateManagedObject mk matches name_of id_of alive get_managed ty ident cf res r
       = (s, Some c, r')"
  shows "GetOrCreateManagedObject mk matches' name_of id_of alive get_managed ty ident cf' res' r'
       = (Status_OK, Some c, r')"
  using assms(4)
proof (cases rule: GetOrCreate_cases)
  case (parent p c')
  then show ?thesis by (simp add: GetOrCreateManagedObject_def)
next
  case (managed c')
  then show ?thesis using GetOrCreate_found [of r get_managed ty ident c alive] assms(2) by simp
next
  case (created c')
  then have c: "c' = c" by simp
  have "managed_objects r' (ToManagedObjectKey ty ident) = Some c"
    using created(5) assms(3) by (auto simp: c store_created_lookup)
  moreover have "Option.bind (parent r') (\<lambda>p. get_managed p ty ident) = None"
    using created(1,5) by simp
  ultimately show ?thesis using GetOrCreate_found [of r' get_managed ty ident c alive] assms(2) by blast
qed (use assms(1) in simp)

lemma GetOrCreate_writes:
  assumes "GetOrCreateManagedObject mk matches name_of id_of alive get_managed ty ident cf res r
       = (s, res', r')"
  shows "libraries r' = libraries r \<and> parent r' = parent r \<and>
    (if status_ok s
     then \<exists>c. res' = Some c \<and> (\<forall>k. managed_objects r' k \<noteq> managed_objects r k \<longrightarrow>
       (\<exists>i \<in> {ident, id_of c} - {name_of c}. k = ToManagedObjectKey ty i))
     else r' = r \<and> res' = res)"
  using assms
proof (cases rule: GetOrCreate_cases)
  case (created c)
  then show ?thesis by (simp add: store_created_lookup)
qed auto

end

section \<open>Properties\<close>

text \<open>Entries as the fluent interface builds them.\<close>

inductive built :: "PatternEntry \<Rightarrow> bool" where
  built_new: "built (PatternEntry_new name optional)"
| built_suffix: "built e \<Longrightarrow> built (AddSuffix sfx e)"
| built_separator: "built e \<Longrightarrow> built (AddSeparator sep one e)"
| built_number: "built e \<Longrightarrow> built (AddNumber sep is_int e)"
| built_name: "built e \<Longrightarrow> built (AnotherName alt e)"
| built_optional: "built e \<Longrightarrow> built (SetOptional optional e)"

lemma built_ok: "built e \<Longrightarrow> pattern_ok e"
  by (induction rule: built.induct) (auto intro: wf_intros)

lemma built_AsIndividualId: "built (AsIndividualId name)"
  unfolding AsIndividualId_def by (intro built.intros)

text \<open>A registry for the witnesses.\<close>

definition sample_matches :: "PatternEntry \<Rightarrow> string \<Rightarrow> bool" where
  "sample_matches e t \<longleftrightarrow> take (length (pe_name e)) t = pe_name e"

definition sample_registry :: "string ObjectRegistry" where
  "sample_registry = AddLibrary
     (AddFactory ''T'' ''n'' (Some (\<lambda>t. (Some t, Some t, []))) (ObjectLibrary_new ''lib''))
     (Registry_new None)"

text \<open>
  C12. The registry's search is the search of one list: \<open>FindFactory\<close> asks the libraries of the
  registry from the last added to the first, then those of its parent, and returns what the first
  library that has a factory for the target returns.
\<close>

theorem FindFactory_first_on_path:
  "FindFactory matches ty r name =
     (case find (\<lambda>l. Library_FindFactory matches ty l name \<noteq> None) (search_path r) of
        None \<Rightarrow> None | Some l \<Rightarrow> Library_FindFactory matches ty l name) \<and>
   search_path (AddLibrary l r) = l # search_path r \<and>
   search_path (AddLibrary_registrar ident registrar arg r) =
     snd (registrar (ObjectLibrary_new ident) arg) # search_path r"
  using FindFactory_search_path [of matches ty r name] search_path_AddLibrary [of l r]
    search_path_AddLibrary_registrar [of ident registrar arg r]
  by (simp add: first_factory_find)

text \<open>
  Within a library the earliest registration wins: adding a factory changes a lookup only for
  its own type and only for targets it matches and no earlier entry of that type matches.
\<close>

theorem AddFactory_lookup:
  "Library_FindFactory matches ty (AddFactory_pattern ty' e f l) t =
     (if ty = ty' \<and> matches e t \<and> \<not> has_match matches ty l t then f
      else Library_FindFactory matches ty l t)"
  by (auto simp: AddFactory_pattern_def Library_FindFactory_add)

text \<open>
  The status of \<open>NewObject\<close> says what happened: OK exactly if a factory was found and made an
  object, NotSupported exactly if none was found, InvalidArgument exactly if one was found and
  failed.
\<close>

theorem NewObject_status:
  assumes "message_constructor mk" "NewObject mk matches ty r target old = (s, object, guard)"
  shows "(status_ok s \<longleftrightarrow> (\<exists>f. FindFactory matches ty r target = Some f \<and> fst (f target) \<noteq> None)) \<and>
    (IsNotSupported s \<longleftrightarrow> FindFactory matches ty r target = None) \<and>
    (IsInvalidArgument s \<longleftrightarrow> (\<exists>f. FindFactory matches ty r target = Some f \<and> fst (f target) = None))"
  using message_constructor.NewObject_codes [OF assms] by blast

theorem NewObject_status_witness:
  "\<exists>s object guard. NewObject plain_ctor sample_matches ''T'' sample_registry ''x'' None = (s, object, guard)
     \<and> IsNotSupported s"
proof -
  obtain s object guard where
    n: "NewObject plain_ctor sample_matches ''T'' sample_registry ''x'' None = (s, object, guard)"
    by (metis prod_cases3)
  moreover have "FindFactory sample_matches ''T'' sample_registry ''x'' = None"
    by (simp add: sample_registry_def AddLibrary_def Registry_new_def Library_FindFactory_def
        AddFactory_def AddFactoryEntry_def ObjectLibrary_new_def sample_matches_def PatternEntry_new_def)
  ultimately show ?thesis using NewObject_status [OF plain_ctor n] by blast
qed

text \<open>
  Ownership is decided by the factory: whenever \<open>NewObject\<close> succeeds, exactly one of
  \<open>NewUniqueObject\<close> and \<open>NewStaticObject\<close> does, \<open>NewSharedObject\<close> succeeds with the former, and a
  creator that fails leaves the caller's pointer alone.
\<close>

theorem unique_xor_static:
  assumes "message_constructor mk"
  shows "(status_ok (fst (NewObject mk matches ty r target None)) \<longleftrightarrow>
      status_ok (fst (NewUniqueObject mk matches ty r target u)) \<noteq>
      status_ok (fst (NewStaticObject mk matches ty r target v))) \<and>
    (status_ok (fst (NewSharedObject mk matches ty r target u)) \<longleftrightarrow>
      status_ok (fst (NewUniqueObject mk matches ty r target u))) \<and>
    (status_ok (fst (NewUniqueObject mk matches ty r target u)) \<or>
      snd (NewUniqueObject mk matches ty r target u) = u) \<and>
    (status_ok (fst (NewStaticObject mk matches ty r target v)) \<or>
      snd (NewStaticObject mk matches ty r target v) = v)"
  using message_constructor.creators_agree [OF assms] by blast

theorem unique_xor_static_witness:
  "status_ok (fst (NewUniqueObject plain_ctor sample_matches ''T'' sample_registry ''n'' None)) \<noteq>
   status_ok (fst (NewStaticObject plain_ctor sample_matches ''T'' sample_registry ''n'' None))"
proof -
  have "status_ok (fst (NewObject plain_ctor sample_matches ''T'' sample_registry ''n'' None))"
    by (simp add: NewObject_def sample_registry_def AddLibrary_def Registry_new_def
        Library_FindFactory_def AddFactory_def AddFactoryEntry_def ObjectLibrary_new_def
        sample_matches_def PatternEntry_new_def)
  with unique_xor_static [OF plain_ctor, of sample_matches "''T''" sample_registry "''n''" None None]
  show ?thesis by blast
qed



text \<open>
  C26. \<open>GetOrCreateManagedObject\<close> writes only what it must: a failing call leaves the registry and
  the caller's pointer as they were; a successful one changes the managed objects at most under the
  requested id and the object's own id, never under the base name of its class, and the libraries
  never.
\<close>

theorem GetOrCreate_frame:
  assumes "message_constructor mk"
    "GetOrCreateManagedObject mk matches name_of id_of alive get_managed ty ident cf res r
       = (s, res', r')"
  shows "libraries r' = libraries r \<and> parent r' = parent r \<and>
    (if status_ok s
     then \<exists>c. res' = Some c \<and> (\<forall>k. managed_objects r' k \<noteq> managed_objects r k \<longrightarrow>
       (\<exists>i \<in> {ident, id_of c} - {name_of c}. k = ToManagedObjectKey ty i))
     else r' = r \<and> res' = res)"
  by (rule message_constructor.GetOrCreate_writes [OF assms])

theorem GetOrCreate_frame_witness:
  "\<exists>s res' r'. GetOrCreateManagedObject plain_ctor sample_matches (\<lambda>c. ''n'') (\<lambda>c. c) (\<lambda>c. True)
      (\<lambda>p ty i. None) ''T'' ''x'' None (Some ''old'') sample_registry = (s, res', r') \<and>
      r' = sample_registry \<and> res' = Some ''old''"
proof -
  obtain s res' r' where g: "GetOrCreateManagedObject plain_ctor sample_matches (\<lambda>c. ''n'')
      (\<lambda>c. c) (\<lambda>c. True) (\<lambda>p ty i. None) ''T'' ''x'' None (Some ''old'') sample_registry
      = (s, res', r')" by (metis prod_cases3)
  have "\<not> status_ok (fst (GetOrCreateManagedObject plain_ctor sample_matches (\<lambda>c. ''n'')
      (\<lambda>c. c) (\<lambda>c. True) (\<lambda>p ty i. None) ''T'' ''x'' None (Some ''old'') sample_registry))"
    by (simp add: GetOrCreateManagedObject_def NewSharedObject_def NewObject_def sample_registry_def
        AddLibrary_def Registry_new_def Library_FindFactory_def AddFactory_def AddFactoryEntry_def
        ObjectLibrary_new_def sample_matches_def PatternEntry_new_def configure_new_def
        NotSupported_msg_def plain_ctor_def status_ok_def Status_code_def)
  with g GetOrCreate_frame [OF plain_ctor g] show ?thesis by simp
qed

text \<open>
  The keys of managed objects do not collide: for type names without a colon, different types
  or different ids have different keys.
\<close>

theorem managed_keys_distinct:
  assumes "CHR '':'' \<notin> set ty" "CHR '':'' \<notin> set ty'"
  shows "ToManagedObjectKey ty i = ToManagedObjectKey ty' i' \<longleftrightarrow> ty = ty' \<and> i = i'"
  by (rule ToManagedObjectKey_inject [OF assms])

theorem managed_keys_distinct_witness:
  "ToManagedObjectKey ''Cache'' ''a'' \<noteq> ToManagedObjectKey ''Cach'' ''ea''"
  using managed_keys_distinct [of "''Cache''" "''Cach''" "''a''" "''ea''"] by simp

text \<open>
  C28. \<open>slength_\<close> never rejects a text the separators describe: for an entry built through the
  interface, every text made of the name and a part that the separators describe has at least
  \<open>nlength_ + slength_\<close> characters.
\<close>

theorem pattern_length_bound:
  assumes "built e" "separated (pe_separators e) t"
  shows "pe_nlength e + pe_slength e \<le> length (pe_name e @ t)"
  using built_ok [OF assms(1)] separated_length [OF assms(2)] separators_counted_le [of "pe_separators e"]
  by (simp add: pattern_ok_def)

theorem pattern_length_bound_witness:
  "pe_nlength (AsIndividualId ''n'') + pe_slength (AsIndividualId ''n'') \<le> length (''n'' @ ''@1#2'')"
proof -
  have "separated (pe_separators (AsIndividualId ''n'')) (''@'' @ ''1'' @ ''#'' @ ''2'' @ [])"
  proof -
    have "separated [(''#'', kMatchAtLeastOne)] (''#'' @ ''2'' @ [])"
      by (intro separated.intros quantified.intros) simp
    then have "separated [(''@'', kMatchAtLeastOne), (''#'', kMatchAtLeastOne)]
        (''@'' @ ''1'' @ ''#'' @ ''2'' @ [])"
      by (intro separated.separator quantified.at_least_one) (simp_all add: separated.nothing)
    then show ?thesis by (simp add: AsIndividualId_def AddSeparator_def PatternEntry_new_def)
  qed
  from pattern_length_bound [OF built_AsIndividualId this]
  show ?thesis by (simp add: AsIndividualId_def AddSeparator_def PatternEntry_new_def)
qed

text \<open>
  \<open>slength_\<close> is the least length the separators need exactly if no decimal number is among
  them: a decimal is counted as one character although it has at least three.
\<close>

theorem pattern_length_tight:
  assumes "built e"
  shows "(\<exists>t. separated (pe_separators e) t \<and> length t = pe_slength e) \<longleftrightarrow>
    kMatchDecimal \<notin> snd ` set (pe_separators e)"
proof -
  have s: "pe_slength e = separators_counted (pe_separators e)"
    using built_ok [OF assms] by (simp add: pattern_ok_def)
  have "(\<exists>t. separated (pe_separators e) t \<and> length t = pe_slength e) \<longleftrightarrow>
      separators_counted (pe_separators e) = separators_min (pe_separators e)"
    using separators_min_reached [of "pe_separators e"] separated_length [of "pe_separators e"]
      separators_counted_le [of "pe_separators e"] s by (metis le_antisym)
  then show ?thesis by (simp add: counted_exact_iff)
qed

theorem pattern_length_tight_witness:
  "\<not> (\<exists>t. separated (pe_separators (AddNumber ''-'' False (PatternEntry_new ''n'' True))) t \<and>
     length t = pe_slength (AddNumber ''-'' False (PatternEntry_new ''n'' True)))"
proof -
  have "built (AddNumber ''-'' False (PatternEntry_new ''n'' True))" by (intro built.intros)
  from pattern_length_tight [OF this] show ?thesis by (simp add: AddNumber_def PatternEntry_new_def)
qed

end
