(* ===== verification/CustomizableModel.thy ===== *)
theory CustomizableModel
  imports ObjectRegistry OptionType
begin

text \<open>
  \<open>class Customizable\<close> of include/rocksdb/customizable.h and the creation functions of
  include/rocksdb/utilities/customizable_util.h, the clients of the object registry.

  A customizable object is its address and the results of the virtual functions its class may
  override; \<open>Inner\<close> makes it a chain. The creation functions take the registry of the options
  (\<open>r\<close>) and, declared elsewhere, \<open>Customizable::GetOptionsMap\<close> (\<open>get_map\<close>),
  \<open>Customizable::ConfigureNewObject\<close> (\<open>configure\<close>) and \<open>Configurable::ConfigureFromMap\<close>
  (\<open>from_map\<close>), which return their status with what they write. The names of the functions that
  \<open>ObjectRegistry\<close> has too end in \<open>_configured\<close>.
\<close>

section \<open>Customizable objects\<close>

datatype 'p Customizable = Customizable
  (cz_this: 'p)
  (cz_Name: string)
  (cz_NickName: "string option")
  (cz_GetId: string)
  (cz_IsInstanceOf: "string \<Rightarrow> bool")
  (cz_own_options: "string \<Rightarrow> 'p option")
  (cz_Inner: "'p Customizable option")

definition GetId_default :: "string \<Rightarrow> string" where
  "GetId_default name = name"

definition NickName_default :: "string option" where
  "NickName_default = Some []"

definition IsInstanceOf_default :: "string \<Rightarrow> string option \<Rightarrow> string \<Rightarrow> bool" where
  "IsInstanceOf_default own_name own_nickname name =
     (if name = [] then False
      else if name = own_name then True
      else (case own_nickname of None \<Rightarrow> False | Some nickname \<Rightarrow> name = nickname))"

definition Inner_default :: "'p Customizable option" where
  "Inner_default = None"

text \<open>An object whose class overrides \<open>Name\<close> and \<open>NickName\<close> and may wrap another one.\<close>

definition Customizable_new ::
    "'p \<Rightarrow> string \<Rightarrow> string option \<Rightarrow> (string \<Rightarrow> 'p option) \<Rightarrow> 'p Customizable option \<Rightarrow>
       'p Customizable" where
  "Customizable_new this name nickname options inner =
     Customizable this name nickname (GetId_default name) (IsInstanceOf_default name nickname)
       options inner"

fun Customizable_GetOptionsPtr :: "'p Customizable \<Rightarrow> string \<Rightarrow> 'p option" where
  "Customizable_GetOptionsPtr (Customizable this n nick i inst options inner) name =
     (case options name of
        Some ptr \<Rightarrow> Some ptr
      | None \<Rightarrow> (case inner of
                  Some c \<Rightarrow> Customizable_GetOptionsPtr c name
                | None \<Rightarrow> None))"

text \<open>\<open>CheckedCast<T>\<close>, where \<open>kClassName\<close> is \<open>T::kClassName()\<close>: the address cast to \<open>T\<close>.\<close>

fun CheckedCast :: "string \<Rightarrow> 'p Customizable \<Rightarrow> 'p option" where
  "CheckedCast kClassName (Customizable this n nick i inst options inner) =
     (if inst kClassName then Some this
      else (case inner of
              Some c \<Rightarrow> CheckedCast kClassName c
            | None \<Rightarrow> None))"

section \<open>Creating configured objects\<close>

type_synonym options_map = "(string \<times> string) list"
type_synonym 'o configure_fn = "ConfigOptions \<Rightarrow> 'o option \<Rightarrow> options_map \<Rightarrow> Status \<times> 'o option"
type_synonym 'o options_fn =
  "ConfigOptions \<Rightarrow> 'o option \<Rightarrow> string \<Rightarrow> Status \<times> string \<times> options_map"

definition cannot_reset :: "msg_ctor \<Rightarrow> Status" where
  "cannot_reset mk = NotSupported_msg mk (Slice_string ''Cannot reset object '') Slice_empty"

definition NewSharedObject_configured ::
    "msg_ctor \<Rightarrow> (PatternEntry \<Rightarrow> string \<Rightarrow> bool) \<Rightarrow> string \<Rightarrow> 'o configure_fn \<Rightarrow>
     'o ObjectRegistry \<Rightarrow> ConfigOptions \<Rightarrow> string \<Rightarrow> options_map \<Rightarrow> 'o option \<Rightarrow>
       Status \<times> 'o option" where
  "NewSharedObject_configured mk matches ty configure r cfg ident opt_map result =
     (if ident \<noteq> [] then
        (case NewSharedObject mk matches ty r ident result of
           (status, result) \<Rightarrow>
             (if ignore_unsupported_options cfg \<and> IsNotSupported status then (Status_OK, result)
              else if status_ok status then configure cfg result opt_map
              else (status, result)))
      else if opt_map = [] then (Status_OK, None)
      else (cannot_reset mk, result))"

definition NewUniqueObject_configured ::
    "msg_ctor \<Rightarrow> (PatternEntry \<Rightarrow> string \<Rightarrow> bool) \<Rightarrow> string \<Rightarrow> 'o configure_fn \<Rightarrow>
     'o ObjectRegistry \<Rightarrow> ConfigOptions \<Rightarrow> string \<Rightarrow> options_map \<Rightarrow> 'o option \<Rightarrow>
       Status \<times> 'o option" where
  "NewUniqueObject_configured mk matches ty configure r cfg ident opt_map result =
     (if ident \<noteq> [] then
        (case NewUniqueObject mk matches ty r ident result of
           (status, result) \<Rightarrow>
             (if ignore_unsupported_options cfg \<and> IsNotSupported status then (Status_OK, result)
              else if status_ok status then configure cfg result opt_map
              else (status, result)))
      else if opt_map = [] then (Status_OK, None)
      else (cannot_reset mk, result))"

definition NewStaticObject_configured ::
    "msg_ctor \<Rightarrow> (PatternEntry \<Rightarrow> string \<Rightarrow> bool) \<Rightarrow> string \<Rightarrow> 'o configure_fn \<Rightarrow>
     'o ObjectRegistry \<Rightarrow> ConfigOptions \<Rightarrow> string \<Rightarrow> options_map \<Rightarrow> 'o option \<Rightarrow>
       Status \<times> 'o option" where
  "NewStaticObject_configured mk matches ty configure r cfg ident opt_map result =
     (if ident \<noteq> [] then
        (case NewStaticObject mk matches ty r ident result of
           (status, result) \<Rightarrow>
             (if ignore_unsupported_options cfg \<and> IsNotSupported status then (Status_OK, result)
              else if status_ok status then configure cfg result opt_map
              else (status, result)))
      else if opt_map = [] then (Status_OK, None)
      else (cannot_reset mk, result))"

text \<open>
  The creation of managed objects also returns the registry. \<open>name_of\<close>, \<open>id_of\<close>, \<open>alive\<close> and
  \<open>get_managed\<close> are the parameters of \<open>GetOrCreateManagedObject\<close>.
\<close>

definition NewManagedObject ::
    "msg_ctor \<Rightarrow> (PatternEntry \<Rightarrow> string \<Rightarrow> bool) \<Rightarrow> ('o \<Rightarrow> string) \<Rightarrow> ('o \<Rightarrow> string) \<Rightarrow>
     ('o \<Rightarrow> bool) \<Rightarrow> ('o ObjectRegistry \<Rightarrow> string \<Rightarrow> string \<Rightarrow> 'o option) \<Rightarrow> string \<Rightarrow>
     (ConfigOptions \<Rightarrow> options_map \<Rightarrow> 'o \<Rightarrow> Status \<times> 'o) \<Rightarrow> 'o ObjectRegistry \<Rightarrow> ConfigOptions \<Rightarrow>
     string \<Rightarrow> options_map \<Rightarrow> 'o option \<Rightarrow> Status \<times> 'o option \<times> 'o ObjectRegistry" where
  "NewManagedObject mk matches name_of id_of alive get_managed ty from_map r cfg ident opt_map result =
     (if ident \<noteq> [] then
        (case GetOrCreateManagedObject mk matches name_of id_of alive get_managed ty ident
                (Some (from_map cfg opt_map)) result r of
           (status, result, r) \<Rightarrow>
             (if ignore_unsupported_options cfg \<and> IsNotSupported status
              then (Status_OK, result, r) else (status, result, r)))
      else (cannot_reset mk, result, r))"

definition LoadSharedObject ::
    "msg_ctor \<Rightarrow> (PatternEntry \<Rightarrow> string \<Rightarrow> bool) \<Rightarrow> string \<Rightarrow> 'o options_fn \<Rightarrow> 'o configure_fn \<Rightarrow>
     'o ObjectRegistry \<Rightarrow> ConfigOptions \<Rightarrow> string \<Rightarrow> 'o option \<Rightarrow> Status \<times> 'o option" where
  "LoadSharedObject mk matches ty get_map configure r cfg val result =
     (case get_map cfg result val of
        (status, ident, opt_map) \<Rightarrow>
          (if \<not> status_ok status then (status, result)
           else NewSharedObject_configured mk matches ty configure r cfg ident opt_map result))"

definition LoadUniqueObject ::
    "msg_ctor \<Rightarrow> (PatternEntry \<Rightarrow> string \<Rightarrow> bool) \<Rightarrow> string \<Rightarrow> 'o options_fn \<Rightarrow> 'o configure_fn \<Rightarrow>
     'o ObjectRegistry \<Rightarrow> ConfigOptions \<Rightarrow> string \<Rightarrow> 'o option \<Rightarrow> Status \<times> 'o option" where
  "LoadUniqueObject mk matches ty get_map configure r cfg val result =
     (case get_map cfg result val of
        (status, ident, opt_map) \<Rightarrow>
          (if \<not> status_ok status then (status, result)
           else NewUniqueObject_configured mk matches ty configure r cfg ident opt_map result))"

definition LoadStaticObject ::
    "msg_ctor \<Rightarrow> (PatternEntry \<Rightarrow> string \<Rightarrow> bool) \<Rightarrow> string \<Rightarrow> 'o options_fn \<Rightarrow> 'o configure_fn \<Rightarrow>
     'o ObjectRegistry \<Rightarrow> ConfigOptions \<Rightarrow> string \<Rightarrow> 'o option \<Rightarrow> Status \<times> 'o option" where
  "LoadStaticObject mk matches ty get_map configure r cfg val result =
     (case get_map cfg result val of
        (status, ident, opt_map) \<Rightarrow>
          (if \<not> status_ok status then (status, result)
           else NewStaticObject_configured mk matches ty configure r cfg ident opt_map result))"

definition LoadManagedObject ::
    "msg_ctor \<Rightarrow> (PatternEntry \<Rightarrow> string \<Rightarrow> bool) \<Rightarrow> ('o \<Rightarrow> string) \<Rightarrow> ('o \<Rightarrow> string) \<Rightarrow>
     ('o \<Rightarrow> bool) \<Rightarrow> ('o ObjectRegistry \<Rightarrow> string \<Rightarrow> string \<Rightarrow> 'o option) \<Rightarrow> string \<Rightarrow>
     'o options_fn \<Rightarrow> (ConfigOptions \<Rightarrow> options_map \<Rightarrow> 'o \<Rightarrow> Status \<times> 'o) \<Rightarrow>
     'o ObjectRegistry \<Rightarrow> ConfigOptions \<Rightarrow> string \<Rightarrow> 'o option \<Rightarrow>
       Status \<times> 'o option \<times> 'o ObjectRegistry" where
  "LoadManagedObject mk matches name_of id_of alive get_managed ty get_map from_map r cfg val result =
     (case get_map cfg None val of
        (status, ident, opt_map) \<Rightarrow>
          (if \<not> status_ok status then (status, result, r)
           else if val = [] then (Status_OK, None, r)
           else NewManagedObject mk matches name_of id_of alive get_managed ty from_map r cfg
                  ident opt_map result))"

section \<open>Chains of wrapped objects\<close>

fun inner_chain :: "'p Customizable \<Rightarrow> 'p Customizable list" where
  "inner_chain (Customizable this n nick i inst options inner) =
     Customizable this n nick i inst options inner #
       (case inner of Some c \<Rightarrow> inner_chain c | None \<Rightarrow> [])"

lemma CheckedCast_find:
  "CheckedCast cls c = map_option cz_this (find (\<lambda>d. cz_IsInstanceOf d cls) (inner_chain c))"
  by (induction cls c rule: CheckedCast.induct) (auto split: option.splits)

lemma GetOptionsPtr_find:
  "Customizable_GetOptionsPtr c name =
     Option.bind (find (\<lambda>d. cz_own_options d name \<noteq> None) (inner_chain c)) (\<lambda>d. cz_own_options d name)"
  by (induction c name rule: Customizable_GetOptionsPtr.induct) (auto split: option.splits)

lemma inner_chain_new:
  "inner_chain (Customizable_new this n nick options inner) =
     Customizable_new this n nick options inner #
       (case inner of Some c \<Rightarrow> inner_chain c | None \<Rightarrow> [])"
  by (simp add: Customizable_new_def)

lemma new_IsInstanceOf:
  "cz_IsInstanceOf (Customizable_new this n nick options inner) cls \<longleftrightarrow>
     cls \<noteq> [] \<and> (cls = n \<or> nick = Some cls)"
  by (auto simp: Customizable_new_def IsInstanceOf_default_def split: option.splits)

lemma find_None_all: "find P xs = None \<longleftrightarrow> (\<forall>x \<in> set xs. \<not> P x)"
  by (induction xs) auto

lemma find_Some_mem: "find P xs = Some x \<Longrightarrow> x \<in> set xs \<and> P x"
  by (induction xs) (auto split: if_splits)

section \<open>What the creation functions return\<close>

text \<open>
  The three creation functions are one scheme over the registry's creators, \<open>configured\<close>. What
  the scheme relies on is the locale \<open>object_creator\<close>: a creator that fails keeps the caller's
  pointer, and it reports NotSupported exactly for unknown types.
\<close>

definition configured ::
    "(string \<Rightarrow> 'o option \<Rightarrow> Status \<times> 'o option) \<Rightarrow> msg_ctor \<Rightarrow> 'o configure_fn \<Rightarrow> ConfigOptions \<Rightarrow>
     string \<Rightarrow> options_map \<Rightarrow> 'o option \<Rightarrow> Status \<times> 'o option" where
  "configured create mk configure cfg ident opts res =
     (if ident = [] then (if opts = [] then (Status_OK, None) else (cannot_reset mk, res))
      else if ignore_unsupported_options cfg \<and> IsNotSupported (fst (create ident res))
      then (Status_OK, snd (create ident res))
      else if status_ok (fst (create ident res)) then configure cfg (snd (create ident res)) opts
      else create ident res)"

lemma creation_is_configured:
  "NewSharedObject_configured mk matches ty configure r =
     configured (NewSharedObject mk matches ty r) mk configure"
  "NewUniqueObject_configured mk matches ty configure r =
     configured (NewUniqueObject mk matches ty r) mk configure"
  "NewStaticObject_configured mk matches ty configure r =
     configured (NewStaticObject mk matches ty r) mk configure"
  by (auto simp: fun_eq_iff configured_def NewSharedObject_configured_def
      NewUniqueObject_configured_def NewStaticObject_configured_def split: prod.splits)

locale object_creator =
  fixes create :: "string \<Rightarrow> 'o option \<Rightarrow> Status \<times> 'o option"
    and known :: "string \<Rightarrow> bool"
  assumes create_unknown: "IsNotSupported (fst (create ident res)) \<longleftrightarrow> \<not> known ident"
    and create_failed: "\<not> status_ok (fst (create ident res)) \<Longrightarrow> snd (create ident res) = res"
    and create_object: "status_ok (fst (create ident res)) \<Longrightarrow> snd (create ident res) \<noteq> None"
begin

lemma configured_unknown:
  assumes "ident \<noteq> []" "\<not> known ident"
  shows "snd (configured create mk configure cfg ident opts res) = res"
    and "st_code (fst (configured create mk configure cfg ident opts res)) =
      (if ignore_unsupported_options cfg then kOk else kNotSupported)"
proof -
  have code: "st_code (fst (create ident res)) = kNotSupported"
    using create_unknown [of ident res] assms(2) by (simp add: IsNotSupported_def)
  then have "snd (create ident res) = res" by (intro create_failed) (simp add: status_ok_def)
  with code show "snd (configured create mk configure cfg ident opts res) = res"
    and "st_code (fst (configured create mk configure cfg ident opts res)) =
      (if ignore_unsupported_options cfg then kOk else kNotSupported)"
    using assms(1)
    by (simp_all add: configured_def IsNotSupported_def status_ok_def Status_OK_def Status_default_def)
qed

lemma configured_created:
  assumes "ident \<noteq> []" "create ident res = (s, Some x)" "status_ok s"
  shows "configured create mk configure cfg ident opts res = configure cfg (Some x) opts"
  using assms by (simp add: configured_def status_ok_def IsNotSupported_def)

lemma configured_rejected:
  assumes "ident \<noteq> []" "known ident" "\<not> status_ok (fst (create ident res))"
  shows "configured create mk configure cfg ident opts res = (fst (create ident res), res)"
proof -
  have "\<not> IsNotSupported (fst (create ident res))" using create_unknown assms(2) by simp
  then show ?thesis using assms(1,3) create_failed [OF assms(3)]
    by (auto simp: configured_def prod_eq_iff)
qed

text \<open>Without \<open>ignore_unsupported_options\<close>, a creation that reports OK configured a new object.\<close>

lemma configured_ok_new:
  assumes "ident \<noteq> []" "\<not> ignore_unsupported_options cfg"
    "status_ok (fst (configured create mk configure cfg ident opts res))"
  shows "known ident \<and>
    (\<exists>x. snd (create ident res) = Some x \<and>
      configured create mk configure cfg ident opts res = configure cfg (Some x) opts)"
proof -
  have ok: "status_ok (fst (create ident res))"
    using assms by (auto simp: configured_def split: if_splits)
  with create_object obtain x where "snd (create ident res) = Some x" by blast
  moreover have "known ident"
    using ok create_unknown [of ident res] by (auto simp: status_ok_def IsNotSupported_def)
  ultimately show ?thesis using assms ok by (simp add: configured_def)
qed

end

lemma object_creator_results:
  assumes "\<And>ident res s res'. create ident res = (s, res') \<Longrightarrow>
      (if status_ok s then res' \<noteq> None else res' = res)"
    and "\<And>ident res. IsNotSupported (fst (create ident res)) \<longleftrightarrow> \<not> known ident"
  shows "object_creator create known"
proof
  fix ident and res :: "'a option"
  note result = assms(1) [of ident res, OF prod.collapse [symmetric]]
  show "IsNotSupported (fst (create ident res)) \<longleftrightarrow> \<not> known ident" by (rule assms(2))
  show "\<not> status_ok (fst (create ident res)) \<Longrightarrow> snd (create ident res) = res"
    using result by simp
  show "status_ok (fst (create ident res)) \<Longrightarrow> snd (create ident res) \<noteq> None"
    using result by (metis (full_types))
qed

context message_constructor
begin

lemma creators_supported:
  "IsNotSupported (fst (NewSharedObject mk matches ty r ident res)) \<longleftrightarrow>
     FindFactory matches ty r ident = None"
  "IsNotSupported (fst (NewUniqueObject mk matches ty r ident res)) \<longleftrightarrow>
     FindFactory matches ty r ident = None"
  "IsNotSupported (fst (NewStaticObject mk matches ty r ident res)) \<longleftrightarrow>
     FindFactory matches ty r ident = None"
  by (auto simp: NewSharedObject_def NewUniqueObject_def NewStaticObject_def NewObject_def
      creator_defs Let_def split: prod.splits option.splits)

lemmas creator_results = NewSharedObject_result NewUniqueObject_result NewStaticObject_result

lemma registry_creators:
  "object_creator (NewSharedObject mk matches ty r) (\<lambda>i. FindFactory matches ty r i \<noteq> None)"
  "object_creator (NewUniqueObject mk matches ty r) (\<lambda>i. FindFactory matches ty r i \<noteq> None)"
  "object_creator (NewStaticObject mk matches ty r) (\<lambda>i. FindFactory matches ty r i \<noteq> None)"
  by (rule object_creator_results; auto simp: creators_supported dest: creator_results)+

end

sublocale message_constructor \<subseteq>
  shared: object_creator "NewSharedObject mk matches ty r" "\<lambda>i. FindFactory matches ty r i \<noteq> None"
  for matches ty r
  by (rule registry_creators)

sublocale message_constructor \<subseteq>
  unique: object_creator "NewUniqueObject mk matches ty r" "\<lambda>i. FindFactory matches ty r i \<noteq> None"
  for matches ty r
  by (rule registry_creators)

sublocale message_constructor \<subseteq>
  static: object_creator "NewStaticObject mk matches ty r" "\<lambda>i. FindFactory matches ty r i \<noteq> None"
  for matches ty r
  by (rule registry_creators)

context message_constructor
begin

lemma loads_of_unknown:
  assumes "ident \<noteq> []" "FindFactory matches ty r ident = None"
    "get_map cfg res val = (s, ident, opts)" "status_ok s"
  shows "\<forall>load \<in> {LoadSharedObject, LoadUniqueObject, LoadStaticObject}.
    snd (load mk matches ty get_map configure r cfg val res) = res \<and>
    st_code (fst (load mk matches ty get_map configure r cfg val res)) =
      (if ignore_unsupported_options cfg then kOk else kNotSupported)"
  using assms(2-4) shared.configured_unknown [OF assms(1), of matches ty r]
    unique.configured_unknown [OF assms(1), of matches ty r]
    static.configured_unknown [OF assms(1), of matches ty r]
  by (auto simp: LoadSharedObject_def LoadUniqueObject_def LoadStaticObject_def creation_is_configured)

lemma loads_ok_new:
  assumes "ident \<noteq> []" "\<not> ignore_unsupported_options cfg"
    "get_map cfg res val = (s, ident, opts)"
    "load \<in> {LoadSharedObject, LoadUniqueObject, LoadStaticObject}"
    "status_ok (fst (load mk matches ty get_map configure r cfg val res))"
  shows "\<exists>x. load mk matches ty get_map configure r cfg val res = configure cfg (Some x) opts"
proof -
  from assms(4) consider "load = LoadSharedObject" | "load = LoadUniqueObject"
    | "load = LoadStaticObject" by blast
  then show ?thesis
  proof cases
    case 1
    then show ?thesis
      using assms(3,5) shared.configured_ok_new [OF assms(1,2), of matches ty r mk configure opts res]
      by (auto simp: LoadSharedObject_def creation_is_configured split: if_splits)
  next
    case 2
    then show ?thesis
      using assms(3,5) unique.configured_ok_new [OF assms(1,2), of matches ty r mk configure opts res]
      by (auto simp: LoadUniqueObject_def creation_is_configured split: if_splits)
  next
    case 3
    then show ?thesis
      using assms(3,5) static.configured_ok_new [OF assms(1,2), of matches ty r mk configure opts res]
      by (auto simp: LoadStaticObject_def creation_is_configured split: if_splits)
  qed
qed

end

context message_constructor
begin

lemma managed_again:
  assumes "NewManagedObject mk matches name_of id_of alive get_managed ty from_map r cfg ident opts res
       = (s, Some c, r')"
    "status_ok s" "\<not> ignore_unsupported_options cfg" "alive c" "ident \<noteq> name_of c"
  shows "NewManagedObject mk matches' name_of id_of alive get_managed ty from_map' r' cfg' ident opts' res'
       = (Status_OK, Some c, r')"
proof -
  have ident: "ident \<noteq> []"
    using assms(1,2) by (auto simp: NewManagedObject_def cannot_reset_def creator_defs)
  then have "GetOrCreateManagedObject mk matches name_of id_of alive get_managed ty ident
      (Some (from_map cfg opts)) res r = (s, Some c, r')"
    using assms(1,3) by (simp add: NewManagedObject_def split: prod.splits)
  from GetOrCreate_again [OF assms(2,4,5) this] ident show ?thesis
    by (simp add: NewManagedObject_def IsNotSupported_def Status_OK_def Status_default_def)
qed

lemma managed_new_failed:
  assumes "ident \<noteq> []" "Option.bind (parent r) (\<lambda>p. get_managed p ty ident) = None"
    "Option.bind (managed_objects r (ToManagedObjectKey ty ident)) (lock alive) = None"
    "FindFactory matches ty r ident = Some f" "f ident = (Some x, Some g, msg)"
    "from_map cfg opts g = (s, g')" "\<not> status_ok s"
  shows "NewManagedObject mk matches name_of id_of alive get_managed ty from_map r cfg ident opts res
       = ((if ignore_unsupported_options cfg \<and> IsNotSupported s then Status_OK else s), res, r)"
  using assms
  by (simp add: NewManagedObject_def GetOrCreateManagedObject_def configure_new_def
      NewSharedObject_def NewObject_def creator_defs)

end

section \<open>Properties\<close>

text \<open>
  \<open>CheckedCast\<close> and \<open>GetOptionsPtr\<close> search the chain of wrapped objects from the outside in: the
  cast yields the first object that is an instance of the class, the lookup the first registered
  pointer. A wrapper that overrides only its names is transparent to every other class.
\<close>

theorem CheckedCast_first_on_chain:
  "CheckedCast cls c = map_option cz_this (find (\<lambda>d. cz_IsInstanceOf d cls) (inner_chain c)) \<and>
   Customizable_GetOptionsPtr c name =
     Option.bind (find (\<lambda>d. cz_own_options d name \<noteq> None) (inner_chain c))
       (\<lambda>d. cz_own_options d name) \<and>
   CheckedCast cls (Customizable_new this n nick options (Some c)) =
     (if cls \<noteq> [] \<and> (cls = n \<or> nick = Some cls) then Some this else CheckedCast cls c)"
proof -
  have "CheckedCast cls (Customizable_new this n nick options (Some c)) =
     (if cls \<noteq> [] \<and> (cls = n \<or> nick = Some cls) then Some this else CheckedCast cls c)"
    using new_IsInstanceOf [of this n nick options "Some c" cls]
    by (simp add: Customizable_new_def)
  then show ?thesis using CheckedCast_find GetOptionsPtr_find by blast
qed

text \<open>
  Loading an object whose type no library knows: with \<open>ignore_unsupported_options\<close> (the default)
  the load reports OK and keeps the caller's old object, without it NotSupported, again keeping the
  old object. This is so for shared, unique and static objects.
\<close>

theorem unknown_type_keeps_object:
  assumes "message_constructor mk" "FindFactory matches ty r ident = None" "ident \<noteq> []"
    "get_map cfg res val = (s, ident, opts)" "status_ok s"
  shows "snd (LoadSharedObject mk matches ty get_map configure r cfg val res) = res \<and>
    snd (LoadUniqueObject mk matches ty get_map configure r cfg val res) = res \<and>
    snd (LoadStaticObject mk matches ty get_map configure r cfg val res) = res \<and>
    (\<forall>load \<in> {LoadSharedObject, LoadUniqueObject, LoadStaticObject}.
       st_code (fst (load mk matches ty get_map configure r cfg val res)) =
         (if ignore_unsupported_options cfg then kOk else kNotSupported))"
proof -
  have "\<forall>load \<in> {LoadSharedObject, LoadUniqueObject, LoadStaticObject}.
    snd (load mk matches ty get_map configure r cfg val res) = res \<and>
    st_code (fst (load mk matches ty get_map configure r cfg val res)) =
      (if ignore_unsupported_options cfg then kOk else kNotSupported)"
    by (rule message_constructor.loads_of_unknown [OF assms(1,3,2)]) (fact assms)+
  then show ?thesis by blast
qed

theorem unknown_type_keeps_object_witness:
  "LoadSharedObject plain_ctor sample_matches ''T'' (\<lambda>cfg res v. (Status_OK, v, []))
     (\<lambda>cfg x opts. (Status_OK, x)) sample_registry (ConfigOptions_init None None) ''x'' (Some ''old'')
   = (Status_OK, Some ''old'')"
proof -
  let ?load = "LoadSharedObject plain_ctor sample_matches ''T'' (\<lambda>cfg res v. (Status_OK, v, []))
     (\<lambda>cfg x opts. (Status_OK, x)) sample_registry (ConfigOptions_init None None) ''x'' (Some ''old'')"
  have none: "FindFactory sample_matches ''T'' sample_registry ''x'' = None"
    by (simp add: sample_registry_def AddLibrary_def Registry_new_def Library_FindFactory_def
        AddFactory_def AddFactoryEntry_def ObjectLibrary_new_def sample_matches_def PatternEntry_new_def)
  have "snd ?load = Some ''old''"
    using unknown_type_keeps_object [OF plain_ctor none, where res = "Some ''old''" and val = "''x''"
        and get_map = "\<lambda>cfg res v. (Status_OK, v, [])" and configure = "\<lambda>cfg x opts. (Status_OK, x)"]
    by simp
  moreover have "fst ?load = Status_OK"
    by (simp add: LoadSharedObject_def NewSharedObject_configured_def NewSharedObject_def
        NewObject_not_found none plain_ctor_def NotSupported_msg_def Status_code_def status_ok_def
        IsNotSupported_def ConfigOptions_init_def Status_OK_def Status_default_def)
  ultimately show ?thesis by (metis prod.collapse)
qed

text \<open>
  Loading an object whose type has a factory: with a factory that hands over a guarded object,
  the shared and unique loads return exactly what configuring that object yields, and the static
  load rejects it and keeps the caller's pointer; with a factory that keeps its object, the static
  load configures it and the other two reject it.
\<close>

theorem load_configures_created_object:
  assumes "message_constructor mk" "FindFactory matches ty r ident = Some f" "ident \<noteq> []"
    "f ident = (Some x, guard, msg)" "get_map cfg res val = (s, ident, opts)" "status_ok s"
  shows "(if guard \<noteq> None
     then LoadSharedObject mk matches ty get_map configure r cfg val res = configure cfg guard opts \<and>
       LoadUniqueObject mk matches ty get_map configure r cfg val res = configure cfg guard opts \<and>
       snd (LoadStaticObject mk matches ty get_map configure r cfg val res) = res \<and>
       IsInvalidArgument (fst (LoadStaticObject mk matches ty get_map configure r cfg val res))
     else LoadStaticObject mk matches ty get_map configure r cfg val res = configure cfg (Some x) opts \<and>
       (\<forall>load \<in> {LoadSharedObject, LoadUniqueObject}.
         snd (load mk matches ty get_map configure r cfg val res) = res \<and>
         IsInvalidArgument (fst (load mk matches ty get_map configure r cfg val res))))"
  using assms(2-6)
  by (simp add: message_constructor.creator_defs [OF assms(1)] LoadSharedObject_def LoadUniqueObject_def LoadStaticObject_def
      NewSharedObject_configured_def NewUniqueObject_configured_def NewStaticObject_configured_def
      NewSharedObject_def NewUniqueObject_def NewStaticObject_def NewObject_def)

lemma sample_lookup: "FindFactory sample_matches ''T'' sample_registry ''n'' = Some (\<lambda>t. (Some t, Some t, []))"
  by (simp add: sample_registry_def AddLibrary_def Registry_new_def Library_FindFactory_def
      AddFactory_def AddFactoryEntry_def ObjectLibrary_new_def sample_matches_def PatternEntry_new_def)

lemma sample_fields: "managed_objects sample_registry = Map.empty" "parent sample_registry = None"
  by (simp_all add: sample_registry_def AddLibrary_def Registry_new_def)

theorem load_configures_created_object_witness:
  "LoadSharedObject plain_ctor sample_matches ''T'' (\<lambda>cfg res v. (Status_OK, v, [(''a'', ''1'')]))
     (\<lambda>cfg x opts. (Status_OK, map_option (\<lambda>n. n @ ''!'') x)) sample_registry
     (ConfigOptions_init None None) ''n'' None = (Status_OK, Some ''n!'')"
  using load_configures_created_object [OF plain_ctor sample_lookup, where val = "''n''"
      and get_map = "\<lambda>cfg res v. (Status_OK, v, [(''a'', ''1'')])"
      and configure = "\<lambda>cfg x opts. (Status_OK, map_option (\<lambda>n. n @ ''!'') x)"
      and cfg = "ConfigOptions_init None None" and res = None and guard = "Some ''n''"
      and x = "''n''" and s = Status_OK and opts = "[(''a'', ''1'')]" and msg = "[]"]
  by simp

text \<open>
  A managed object exists once per id: after a load created or found a live object under an id
  that is not the base name of its class, a load whose text names the same id returns that object
  as it is, whatever options, factories and configuration it comes with, and changes nothing.
\<close>

theorem LoadManaged_same_object:
  assumes "message_constructor mk"
    "get_map cfg None val = (s1, ident, opts)" "val \<noteq> []"
    "LoadManagedObject mk matches name_of id_of alive get_managed ty get_map from_map r cfg val res
       = (s, Some c, r')" "status_ok s" "\<not> ignore_unsupported_options cfg"
    "alive c" "ident \<noteq> name_of c"
    "get_map' cfg' None val' = (s1', ident, opts')" "status_ok s1'" "val' \<noteq> []"
  shows "LoadManagedObject mk matches' name_of id_of alive get_managed ty get_map' from_map' r' cfg'
       val' res' = (Status_OK, Some c, r')"
proof -
  have "NewManagedObject mk matches name_of id_of alive get_managed ty from_map r cfg ident opts res
      = (s, Some c, r')"
    using assms(2-5) by (auto simp: LoadManagedObject_def split: if_splits)
  from message_constructor.managed_again [OF assms(1) this assms(5-8)] assms(9-11) show ?thesis
    by (simp add: LoadManagedObject_def)
qed

theorem LoadManaged_same_object_witness:
  "\<exists>r'. LoadManagedObject plain_ctor (\<lambda>e t. False) (\<lambda>c. ''N'') (\<lambda>c. c) (\<lambda>c. True) (\<lambda>p ty i. None)
     ''T'' (\<lambda>cfg res v. (Status_OK, ''n'', [(''a'', ''2'')])) (\<lambda>cfg opts x. (Status_OK, x)) r'
     (ConfigOptions_init None None) ''id=n;a=2'' None = (Status_OK, Some ''n!'', r')
   \<and> managed_objects r' ''T://n'' = Some ''n!''"
proof -
  let ?cfg = "(ConfigOptions_init None None)\<lparr>ignore_unsupported_options := False\<rparr>"
  have "\<exists>r'. LoadManagedObject plain_ctor sample_matches (\<lambda>c. ''N'') (\<lambda>c. c) (\<lambda>c. True)
      (\<lambda>p ty i. None) ''T'' (\<lambda>cfg res v. (Status_OK, v, [])) (\<lambda>cfg opts x. (Status_OK, x @ ''!''))
      sample_registry ?cfg ''n'' None = (Status_OK, Some ''n!'', r')
    \<and> managed_objects r' ''T://n'' = Some ''n!''"
    by (simp add: LoadManagedObject_def NewManagedObject_def GetOrCreateManagedObject_def
        configure_new_def NewSharedObject_def NewObject_def sample_lookup store_created_def
        sample_fields ToManagedObjectKey_def)
  then obtain r' where r': "LoadManagedObject plain_ctor sample_matches (\<lambda>c. ''N'') (\<lambda>c. c) (\<lambda>c. True)
      (\<lambda>p ty i. None) ''T'' (\<lambda>cfg res v. (Status_OK, v, [])) (\<lambda>cfg opts x. (Status_OK, x @ ''!''))
      sample_registry ?cfg ''n'' None = (Status_OK, Some ''n!'', r')"
    "managed_objects r' ''T://n'' = Some ''n!''" by blast
  have "LoadManagedObject plain_ctor (\<lambda>e t. False) (\<lambda>c. ''N'') (\<lambda>c. c) (\<lambda>c. True) (\<lambda>p ty i. None)
     ''T'' (\<lambda>cfg res v. (Status_OK, ''n'', [(''a'', ''2'')])) (\<lambda>cfg opts x. (Status_OK, x)) r'
     (ConfigOptions_init None None) ''id=n;a=2'' None = (Status_OK, Some ''n!'', r')"
    by (rule LoadManaged_same_object [OF plain_ctor _ _ r'(1), where ?s1.0 = Status_OK
          and ident = "''n''" and opts = "[]" and s1' = Status_OK and opts' = "[(''a'', ''2'')]"])
      (simp_all add: status_ok_def Status_OK_def Status_default_def)
  with r'(2) show ?thesis by blast
qed

text \<open>
  C27. \<open>ignore_unsupported_options\<close> reaches further for managed objects: if the factory knows the
  type but configuring the new object fails with NotSupported, the managed creation reports OK
  without storing or returning the object, while the shared creation reports the failure. Every
  other failure is reported by both.
\<close>

theorem managed_swallows_configuration_failure:
  assumes "message_constructor mk" "ident \<noteq> []"
    "Option.bind (parent r) (\<lambda>p. get_managed p ty ident) = None"
    "Option.bind (managed_objects r (ToManagedObjectKey ty ident)) (lock alive) = None"
    "FindFactory matches ty r ident = Some f" "f ident = (Some x, Some g, msg)"
    "from_map cfg opts g = (s, g')" "configure cfg (Some g) opts = (s, Some g')" "\<not> status_ok s"
  shows "NewManagedObject mk matches name_of id_of alive get_managed ty from_map r cfg ident opts res
       = ((if ignore_unsupported_options cfg \<and> IsNotSupported s then Status_OK else s), res, r) \<and>
     NewSharedObject_configured mk matches ty configure r cfg ident opts res = (s, Some g')"
proof -
  have "NewSharedObject mk matches ty r ident res = (Status_OK, Some g)"
    using assms(5,6) by (simp add: NewSharedObject_def NewObject_def
        message_constructor.creator_defs [OF assms(1)])
  then have "NewSharedObject_configured mk matches ty configure r cfg ident opts res = (s, Some g')"
    using assms(2,8) by (simp add: NewSharedObject_configured_def
        message_constructor.creator_defs [OF assms(1)])
  moreover have "NewManagedObject mk matches name_of id_of alive get_managed ty from_map r cfg ident opts res
       = ((if ignore_unsupported_options cfg \<and> IsNotSupported s then Status_OK else s), res, r)"
    by (rule message_constructor.managed_new_failed) (fact assms)+
  ultimately show ?thesis by simp
qed

theorem managed_swallows_configuration_failure_witness:
  "NewManagedObject plain_ctor sample_matches (\<lambda>c. ''N'') (\<lambda>c. c) (\<lambda>c. True) (\<lambda>p ty i. None) ''T''
     (\<lambda>cfg opts x. (NotSupported kNone, x)) sample_registry (ConfigOptions_init None None) ''n''
     [(''a'', ''1'')] None = (Status_OK, None, sample_registry)"
proof -
  have "Option.bind (managed_objects sample_registry (ToManagedObjectKey ''T'' ''n'')) (lock (\<lambda>c. True))
      = None" "Option.bind (parent sample_registry) (\<lambda>p. None) = (None :: string option)"
    by (simp_all add: sample_fields)
  from managed_swallows_configuration_failure [OF plain_ctor _ this(2,1) sample_lookup,
      where from_map = "\<lambda>cfg opts x. (NotSupported kNone, x)"
      and configure = "\<lambda>cfg x opts. (NotSupported kNone, x)" and name_of = "\<lambda>c. ''N''"
      and id_of = "\<lambda>c. c" and cfg = "ConfigOptions_init None None" and opts = "[(''a'', ''1'')]"
      and res = None and x = "''n''" and g = "''n''" and g' = "''n''" and msg = "[]"
      and s = "NotSupported kNone"]
  show ?thesis
    by (simp add: status_ok_def IsNotSupported_def NotSupported_def Status_code_def
        ConfigOptions_init_def)
qed

end
