(* ===== verification/ComparatorModel.thy ===== *)
theory ComparatorModel
  imports SliceData
begin

text \<open>
  include/rocksdb/comparator.h. A comparator object is a \<open>Comparator\<close>: its timestamp size and
  the virtual functions its class may override. \<open>Compare\<close> is pure virtual in the code, so a field
  with no default; \<open>Comparator_new\<close> installs the defaults of the base class for the rest. The
  locale \<open>three_way\<close> is the contract of \<open>CompareInterface\<close>, interpreted on
  \<open>Slice::compare\<close> (the order the builtin bytewise comparator is documented to use) and on its
  reverse.
\<close>

section \<open>Operations\<close>

record Comparator =
  timestamp_size_field :: nat
  Compare :: "Slice \<Rightarrow> Slice \<Rightarrow> int"
  Equal :: "Slice \<Rightarrow> Slice \<Rightarrow> bool"
  IsSameLengthImmediateSuccessor :: "Slice \<Rightarrow> Slice \<Rightarrow> bool"
  CanKeysWithDifferentByteContentsBeEqual :: bool
  TimestampToString :: "Slice \<Rightarrow> string"
  CompareTimestamp :: "Slice \<Rightarrow> Slice \<Rightarrow> int"
  CompareWithoutTimestamp_ts :: "Slice \<Rightarrow> bool \<Rightarrow> Slice \<Rightarrow> bool \<Rightarrow> int"
  EqualWithoutTimestamp :: "Slice \<Rightarrow> Slice \<Rightarrow> bool"

definition Equal_default :: "(Slice \<Rightarrow> Slice \<Rightarrow> int) \<Rightarrow> Slice \<Rightarrow> Slice \<Rightarrow> bool" where
  "Equal_default cmp a b \<longleftrightarrow> cmp a b = 0"

definition IsSameLengthImmediateSuccessor_default :: "Slice \<Rightarrow> Slice \<Rightarrow> bool" where
  "IsSameLengthImmediateSuccessor_default s t \<longleftrightarrow> False"

definition CanKeysWithDifferentByteContentsBeEqual_default :: bool where
  "CanKeysWithDifferentByteContentsBeEqual_default = True"

definition TimestampToString_default :: "Slice \<Rightarrow> string" where
  "TimestampToString_default timestamp = ''''"

definition CompareTimestamp_default :: "Slice \<Rightarrow> Slice \<Rightarrow> int" where
  "CompareTimestamp_default ts1 ts2 = 0"

definition CompareWithoutTimestamp_ts_default ::
    "(Slice \<Rightarrow> Slice \<Rightarrow> int) \<Rightarrow> Slice \<Rightarrow> bool \<Rightarrow> Slice \<Rightarrow> bool \<Rightarrow> int" where
  "CompareWithoutTimestamp_ts_default cmp a a_has_ts b b_has_ts = cmp a b"

definition EqualWithoutTimestamp_default ::
    "(Slice \<Rightarrow> bool \<Rightarrow> Slice \<Rightarrow> bool \<Rightarrow> int) \<Rightarrow> Slice \<Rightarrow> Slice \<Rightarrow> bool" where
  "EqualWithoutTimestamp_default cwt a b \<longleftrightarrow> 0 = cwt a True b True"

definition Comparator_new :: "nat \<Rightarrow> (Slice \<Rightarrow> Slice \<Rightarrow> int) \<Rightarrow> Comparator" where
  "Comparator_new ts_sz cmp = \<lparr>timestamp_size_field = ts_sz, Compare = cmp,
     Equal = Equal_default cmp,
     IsSameLengthImmediateSuccessor = IsSameLengthImmediateSuccessor_default,
     CanKeysWithDifferentByteContentsBeEqual = CanKeysWithDifferentByteContentsBeEqual_default,
     TimestampToString = TimestampToString_default,
     CompareTimestamp = CompareTimestamp_default,
     CompareWithoutTimestamp_ts = CompareWithoutTimestamp_ts_default cmp,
     EqualWithoutTimestamp =
       EqualWithoutTimestamp_default (CompareWithoutTimestamp_ts_default cmp)\<rparr>"

text \<open>Copying copies the timestamp size only; the class, so the functions, is the target's.\<close>

definition Comparator_copy :: "Comparator \<Rightarrow> Comparator \<Rightarrow> Comparator" where
  "Comparator_copy orig this = this\<lparr>timestamp_size_field := timestamp_size_field orig\<rparr>"

definition Comparator_assign :: "bool \<Rightarrow> Comparator \<Rightarrow> Comparator \<Rightarrow> Comparator" where
  "Comparator_assign same_object rhs this =
     (if \<not> same_object then this\<lparr>timestamp_size_field := timestamp_size_field rhs\<rparr> else this)"

definition GetRootComparator_default :: "Comparator \<Rightarrow> Comparator" where
  "GetRootComparator_default c = c"

definition timestamp_size :: "Comparator \<Rightarrow> nat" where
  "timestamp_size c = timestamp_size_field c"

definition GetMaxTimestamp_default :: "Comparator \<Rightarrow> Slice option" where
  "GetMaxTimestamp_default c =
     (if timestamp_size c = 0 then Some Slice_empty else asserting False Slice_empty)"

definition GetMinTimestamp_default :: "Comparator \<Rightarrow> Slice option" where
  "GetMinTimestamp_default c =
     (if timestamp_size c = 0 then Some Slice_empty else asserting False Slice_empty)"

definition CompareWithoutTimestamp :: "Comparator \<Rightarrow> Slice \<Rightarrow> Slice \<Rightarrow> int" where
  "CompareWithoutTimestamp c a b = CompareWithoutTimestamp_ts c a True b True"

section \<open>The contract of a three-way comparison\<close>

locale three_way =
  fixes valid :: "'a \<Rightarrow> bool" and cmp :: "'a \<Rightarrow> 'a \<Rightarrow> int"
  assumes flip: "valid a \<Longrightarrow> valid b \<Longrightarrow> cmp a b < 0 \<longleftrightarrow> 0 < cmp b a"
    and le_trans: "valid a \<Longrightarrow> valid b \<Longrightarrow> valid c \<Longrightarrow> cmp a b \<le> 0 \<Longrightarrow> cmp b c \<le> 0 \<Longrightarrow> cmp a c \<le> 0"
begin

lemma zero_sym: "valid a \<Longrightarrow> valid b \<Longrightarrow> cmp a b = 0 \<longleftrightarrow> cmp b a = 0"
  using flip [of a b] flip [of b a] by linarith

lemma zero_refl: "valid a \<Longrightarrow> cmp a a = 0"
  using flip [of a a] by linarith

lemma ge_trans: "valid a \<Longrightarrow> valid b \<Longrightarrow> valid c \<Longrightarrow> 0 \<le> cmp a b \<Longrightarrow> 0 \<le> cmp b c \<Longrightarrow> 0 \<le> cmp a c"
  using le_trans [of c b a] flip [of a b] flip [of b c] flip [of a c]
    flip [of b a] flip [of c b] flip [of c a] by linarith

lemma zero_trans: "valid a \<Longrightarrow> valid b \<Longrightarrow> valid c \<Longrightarrow> cmp a b = 0 \<Longrightarrow> cmp b c = 0 \<Longrightarrow> cmp a c = 0"
  using le_trans [of a b c] ge_trans [of a b c] by linarith

lemma le_less_trans:
  assumes "valid a" "valid b" "valid c" and "cmp a b \<le> 0" "cmp b c < 0"
  shows "cmp a c < 0"
proof (rule ccontr)
  assume "\<not> cmp a c < 0"
  then have "cmp c a \<le> 0" using flip [of c a] flip [of a c] assms by linarith
  then have "cmp c b \<le> 0" using le_trans [of c a b] assms by blast
  then show False using flip [of b c] assms by linarith
qed

text \<open>Keys that compare equal are interchangeable in every further comparison.\<close>

lemma sgn_cong:
  assumes v: "valid a" "valid b" "valid c" and z: "cmp a b = 0"
  shows "sgn (cmp a c) = sgn (cmp b c)"
proof -
  have z': "cmp b a = 0" using zero_sym v z by blast
  have "cmp b c \<le> 0" if "cmp a c \<le> 0" using le_trans [of b a c] v z' that by simp
  moreover have "cmp a c \<le> 0" if "cmp b c \<le> 0" using le_trans [of a b c] v z that by simp
  moreover have "0 \<le> cmp b c" if "0 \<le> cmp a c" using ge_trans [of b a c] v z' that by simp
  moreover have "0 \<le> cmp a c" if "0 \<le> cmp b c" using ge_trans [of a b c] v z that by simp
  ultimately show ?thesis by (cases "cmp a c" "0 :: int" rule: linorder_cases;
      cases "cmp b c" "0 :: int" rule: linorder_cases; force)
qed

text \<open>In a run sorted by the comparison no two positions hold equal keys.\<close>

lemma strictly_sorted_no_equal:
  assumes "sorted_wrt (\<lambda>a b. cmp a b < 0) xs" and "\<forall>x \<in> set xs. valid x"
    and "i < length xs" "j < length xs" "cmp (xs ! i) (xs ! j) = 0"
  shows "i = j"
proof (rule ccontr)
  assume "i \<noteq> j"
  then consider "i < j" | "j < i" by linarith
  then show False
  proof cases
    case 1
    then show False using assms sorted_wrt_nth_less by fastforce
  next
    case 2
    then have "cmp (xs ! j) (xs ! i) < 0" using assms sorted_wrt_nth_less by fastforce
    then show False using assms zero_sym [of "xs ! i" "xs ! j"] by auto
  qed
qed

end

text \<open>The order of \<open>Slice::compare\<close>, as the value a caller sees where no read is out of bounds.\<close>

definition bytewise :: "Slice \<Rightarrow> Slice \<Rightarrow> int" where
  "bytewise a b = the (compare a b)"

lemma bytewise_sign:
  assumes "comparable a" "comparable b"
  shows "bytewise a b < 0 \<longleftrightarrow> slice_bytes a < slice_bytes b"
    and "bytewise a b = 0 \<longleftrightarrow> slice_bytes a = slice_bytes b"
    and "0 < bytewise a b \<longleftrightarrow> slice_bytes b < slice_bytes a"
proof -
  obtain r where r: "compare a b = Some r" "r < 0 \<longleftrightarrow> slice_bytes a < slice_bytes b"
      "r = 0 \<longleftrightarrow> slice_bytes a = slice_bytes b" "0 < r \<longleftrightarrow> slice_bytes b < slice_bytes a"
    using compare_order [OF assms] by metis
  then have "bytewise a b = r" by (simp add: bytewise_def)
  with r show "bytewise a b < 0 \<longleftrightarrow> slice_bytes a < slice_bytes b"
    and "bytewise a b = 0 \<longleftrightarrow> slice_bytes a = slice_bytes b"
    and "0 < bytewise a b \<longleftrightarrow> slice_bytes b < slice_bytes a"
    by metis+
qed

lemma bytewise_le_zero:
  "comparable a \<Longrightarrow> comparable b \<Longrightarrow> bytewise a b \<le> 0 \<longleftrightarrow> slice_bytes a \<le> slice_bytes b"
  using bytewise_sign(3) [of a b] by (metis linorder_not_less)

interpretation bytewise: three_way comparable bytewise
proof unfold_locales
  show "bytewise a b < 0 \<longleftrightarrow> 0 < bytewise b a" if "comparable a" "comparable b" for a b
    unfolding bytewise_sign(1) [OF that] bytewise_sign(3) [OF that(2,1)] by (rule refl)
  show "bytewise a c \<le> 0"
    if "comparable a" "comparable b" "comparable c" "bytewise a b \<le> 0" "bytewise b c \<le> 0" for a b c
    using that(4,5) unfolding bytewise_le_zero [OF that(1,2)] bytewise_le_zero [OF that(2,3)]
      bytewise_le_zero [OF that(1,3)] by (rule order_trans)
qed

interpretation reverse_bytewise: three_way comparable "\<lambda>a b. bytewise b a"
proof unfold_locales
  show "bytewise b a < 0 \<longleftrightarrow> 0 < bytewise a b" if "comparable a" "comparable b" for a b
    using bytewise.flip [of b a] that by blast
  show "bytewise c a \<le> 0"
    if "comparable a" "comparable b" "comparable c" "bytewise b a \<le> 0" "bytewise c b \<le> 0" for a b c
    using that bytewise.le_trans [of c b a] by blast
qed

lemma Comparator_new_fields [simp]:
  "Compare (Comparator_new n cmp) = cmp"
  "timestamp_size (Comparator_new n cmp) = n"
  "CompareWithoutTimestamp (Comparator_new n cmp) a b = cmp a b"
  by (simp_all add: Comparator_new_def timestamp_size_def CompareWithoutTimestamp_def
      CompareWithoutTimestamp_ts_default_def)

lemma Comparator_new_Equal:
  "Equal (Comparator_new n cmp) a b \<longleftrightarrow> cmp a b = 0"
  "EqualWithoutTimestamp (Comparator_new n cmp) a b \<longleftrightarrow> cmp a b = 0"
  by (auto simp: Comparator_new_def Equal_default_def EqualWithoutTimestamp_default_def
      CompareWithoutTimestamp_ts_default_def)

section \<open>Properties\<close>

text \<open>
  For every comparator whose \<open>Compare\<close> is a total three-way order, the default \<open>Equal\<close> and
  \<open>EqualWithoutTimestamp\<close> are one equivalence, and equal keys are interchangeable in every
  comparison.
\<close>

theorem default_Equal_is_congruence:
  assumes "three_way valid cmp" "valid a" "valid b" "valid c"
  shows "let C = Comparator_new n cmp in
    Equal C a a \<and> (Equal C a b \<longleftrightarrow> Equal C b a) \<and>
    (Equal C a b \<and> Equal C b c \<longrightarrow> Equal C a c) \<and>
    (Equal C a b \<longleftrightarrow> EqualWithoutTimestamp C a b) \<and>
    (Equal C a b \<longrightarrow> sgn (Compare C a c) = sgn (Compare C b c) \<and>
       (CompareWithoutTimestamp C a c < 0 \<longleftrightarrow> CompareWithoutTimestamp C b c < 0))"
proof -
  have "cmp a c < 0 \<longleftrightarrow> cmp b c < 0" if "cmp a b = 0"
    using three_way.sgn_cong [OF assms that] by (auto simp: sgn_if split: if_splits)
  then show ?thesis
    using three_way.zero_refl [OF assms(1,2)] three_way.zero_sym [OF assms(1,2,3)]
      three_way.zero_trans [OF assms] three_way.sgn_cong [OF assms]
    by (auto simp: Let_def Comparator_new_Equal)
qed

theorem default_Equal_is_congruence_witness:
  "Equal (Comparator_new 0 bytewise) (Slice_string ''k'') (Slice_string_view ''k'')
     \<longleftrightarrow> Equal (Comparator_new 0 bytewise) (Slice_string_view ''k'') (Slice_string ''k'')"
  using default_Equal_is_congruence [OF bytewise.three_way_axioms, of "Slice_string ''k''"
      "Slice_string_view ''k''" Slice_empty 0]
  by (simp add: Let_def)

text \<open>
  Keys in the bytewise order: a run of slices that is strictly increasing under the bytewise
  comparator holds no key twice, and the comparator's \<open>Equal\<close> is equality of the bytes.
\<close>

theorem bytewise_sorted_keys_unique:
  assumes "sorted_wrt (\<lambda>a b. Compare (Comparator_new n bytewise) a b < 0) ks"
    "\<forall>k \<in> set ks. comparable k" "i < length ks" "j < length ks"
  shows "Equal (Comparator_new n bytewise) (ks ! i) (ks ! j) \<longleftrightarrow> i = j"
proof -
  have "Equal (Comparator_new n bytewise) (ks ! i) (ks ! j) \<longleftrightarrow> bytewise (ks ! i) (ks ! j) = 0"
    by (rule Comparator_new_Equal)
  moreover have "i = j" if "bytewise (ks ! i) (ks ! j) = 0"
    using bytewise.strictly_sorted_no_equal [of ks i j] assms that by simp
  moreover have "bytewise (ks ! i) (ks ! i) = 0" using bytewise.zero_refl assms(2,3) by simp
  ultimately show ?thesis by auto
qed

theorem bytewise_sorted_keys_unique_witness:
  "\<not> Equal (Comparator_new 0 bytewise) (Slice_string ''a'') (Slice_string ''b'')"
proof -
  have "compare (Slice_string ''a'') (Slice_string ''b'') = Some (- 1)" by code_simp
  then have "sorted_wrt (\<lambda>a b. Compare (Comparator_new 0 bytewise) a b < 0)
      [Slice_string ''a'', Slice_string ''b'']" by (simp add: bytewise_def)
  from bytewise_sorted_keys_unique [OF this, of 0 1] show ?thesis by simp
qed

end
