(* ===== verification/CompactionFilterModel.thy ===== *)
theory CompactionFilterModel
  imports SliceData
begin

text \<open>
  include/rocksdb/compaction_filter.h, with \<open>TableFileCreationReason\<close> of types.h. The object is
  the record of the virtual functions a filter may override; the functions that write through
  output pointers return the values written. The column type of wide-column entities is a type
  parameter, as this header only tests whether columns were passed.
\<close>

section \<open>Data\<close>

datatype ValueType = kValue | kMergeOperand | kBlobIndex | kWideColumnEntity

datatype Decision =
    kKeep | kRemove | kChangeValue | kRemoveAndSkipUntil | kChangeBlobIndex | kIOErrorDecision
  | kPurge | kChangeWideColumnEntity | kUndetermined

datatype BlobDecision =
    kBlobKeep | kBlobChangeValue | kBlobCorruption | kBlobIOError

datatype TableFileCreationReason = kFlush | kCompaction | kRecovery | kMisc

record 'props FilterContext =
  is_full_compaction :: bool
  is_manual_compaction :: bool
  input_start_level :: int
  column_family_id :: nat
  reason :: TableFileCreationReason
  input_table_properties :: "string \<rightharpoonup> 'props"

definition kUnknownStartLevel :: int where
  "kUnknownStartLevel = - 1"

text \<open>
  \<open>Filter level key existing_value new_value value_changed\<close> returns its result and the two
  output parameters; \<open>FilterV2\<close> and \<open>FilterV3\<close> return the decision and the output parameters.
\<close>

type_synonym filter_fn =
  "int \<Rightarrow> Slice \<Rightarrow> Slice \<Rightarrow> string \<Rightarrow> bool \<Rightarrow> bool \<times> string \<times> bool"

type_synonym filter_v2_fn =
  "int \<Rightarrow> Slice \<Rightarrow> ValueType \<Rightarrow> Slice \<Rightarrow> string \<Rightarrow> string \<Rightarrow> (Decision \<times> string \<times> string) option"

record 'cols CompactionFilter =
  Filter :: filter_fn
  FilterMergeOperand :: "int \<Rightarrow> Slice \<Rightarrow> Slice \<Rightarrow> bool"
  FilterV2 :: filter_v2_fn
  FilterV3 :: "int \<Rightarrow> Slice \<Rightarrow> ValueType \<Rightarrow> Slice option \<Rightarrow> 'cols option \<Rightarrow> string \<Rightarrow>
      (string \<times> string) list \<Rightarrow> string \<Rightarrow>
      (Decision \<times> string \<times> (string \<times> string) list \<times> string) option"
  PrepareBlobOutput :: "Slice \<Rightarrow> Slice \<Rightarrow> string \<Rightarrow> BlobDecision \<times> string"
  IgnoreSnapshots :: bool
  IsStackedBlobDbInternalCompactionFilter :: bool
  FilterBlobByKey :: "int \<Rightarrow> Slice \<Rightarrow> string \<Rightarrow> string \<Rightarrow> Decision \<times> string \<times> string"

section \<open>The default implementations\<close>

definition Filter_default :: filter_fn where
  "Filter_default level key existing_value new_value value_changed =
     (False, new_value, value_changed)"

definition FilterMergeOperand_default :: "int \<Rightarrow> Slice \<Rightarrow> Slice \<Rightarrow> bool" where
  "FilterMergeOperand_default level key operand \<longleftrightarrow> False"

definition FilterV2_default ::
    "filter_fn \<Rightarrow> (int \<Rightarrow> Slice \<Rightarrow> Slice \<Rightarrow> bool) \<Rightarrow> filter_v2_fn" where
  "FilterV2_default flt mrg level key value_type existing_value new_value skip_until =
     (case value_type of
        kValue \<Rightarrow>
          (let (rv, new_value, value_changed) = flt level key existing_value new_value False in
           if rv then Some (kRemove, new_value, skip_until)
           else Some (if value_changed then kChangeValue else kKeep, new_value, skip_until))
      | kMergeOperand \<Rightarrow>
          (let rv = mrg level key existing_value in
           Some (if rv then kRemove else kKeep, new_value, skip_until))
      | kBlobIndex \<Rightarrow> Some (kKeep, new_value, skip_until)
      | _ \<Rightarrow> asserting False (kKeep, new_value, skip_until))"

definition FilterV3_default ::
    "filter_v2_fn \<Rightarrow> int \<Rightarrow> Slice \<Rightarrow> ValueType \<Rightarrow> Slice option \<Rightarrow> 'cols option \<Rightarrow> string \<Rightarrow>
      (string \<times> string) list \<Rightarrow> string \<Rightarrow>
      (Decision \<times> string \<times> (string \<times> string) list \<times> string) option" where
  "FilterV3_default v2 level key value_type existing_value existing_columns new_value new_columns
       skip_until =
     do {
       asserting (existing_value = None \<or> existing_columns = None) ();
       asserting (value_type = kWideColumnEntity \<or> existing_value \<noteq> None) ();
       asserting (value_type \<noteq> kWideColumnEntity \<or> existing_columns \<noteq> None) ();
       if value_type = kWideColumnEntity then Some (kKeep, new_value, new_columns, skip_until)
       else do {
         (d, nv, su) \<leftarrow> v2 level key value_type (the existing_value) new_value skip_until;
         Some (d, nv, new_columns, su)
       }
     }"

definition PrepareBlobOutput_default :: "Slice \<Rightarrow> Slice \<Rightarrow> string \<Rightarrow> BlobDecision \<times> string" where
  "PrepareBlobOutput_default key existing_value new_value = (kBlobKeep, new_value)"

definition IgnoreSnapshots_default :: bool where
  "IgnoreSnapshots_default = True"

definition IsStackedBlobDbInternalCompactionFilter_default :: bool where
  "IsStackedBlobDbInternalCompactionFilter_default = False"

definition FilterBlobByKey_default ::
    "int \<Rightarrow> Slice \<Rightarrow> string \<Rightarrow> string \<Rightarrow> Decision \<times> string \<times> string" where
  "FilterBlobByKey_default level key new_value skip_until = (kUndetermined, new_value, skip_until)"

text \<open>A class that overrides \<open>Filter\<close> and \<open>FilterMergeOperand\<close> only.\<close>

definition CompactionFilter_of ::
    "filter_fn \<Rightarrow> (int \<Rightarrow> Slice \<Rightarrow> Slice \<Rightarrow> bool) \<Rightarrow> 'cols CompactionFilter" where
  "CompactionFilter_of flt mrg =
     (let v2 = FilterV2_default flt mrg in
      \<lparr>Filter = flt, FilterMergeOperand = mrg, FilterV2 = v2, FilterV3 = FilterV3_default v2,
       PrepareBlobOutput = PrepareBlobOutput_default, IgnoreSnapshots = IgnoreSnapshots_default,
       IsStackedBlobDbInternalCompactionFilter = IsStackedBlobDbInternalCompactionFilter_default,
       FilterBlobByKey = FilterBlobByKey_default\<rparr>)"

definition ShouldFilterTableFileCreation_default :: "TableFileCreationReason \<Rightarrow> bool" where
  "ShouldFilterTableFileCreation_default r \<longleftrightarrow> r = kCompaction"

section \<open>Which decisions reach the table builder\<close>

text \<open>What the caller of \<open>FilterV3\<close> passes, by the header's account of the parameters.\<close>

fun call_ok :: "ValueType \<Rightarrow> Slice option \<Rightarrow> 'cols option \<Rightarrow> bool" where
  "call_ok kWideColumnEntity existing_value existing_columns \<longleftrightarrow>
     existing_value = None \<and> existing_columns \<noteq> None"
| "call_ok _ existing_value existing_columns \<longleftrightarrow> existing_value \<noteq> None \<and> existing_columns = None"

definition v3_default where
  "v3_default flt mrg = FilterV3_default (FilterV2_default flt mrg)"

lemma FilterV2_default_cases:
  assumes "FilterV2_default flt mrg level key vt v nv su = Some (d, nv', su')"
  shows "su' = su" and "d \<in> {kKeep, kRemove, kChangeValue}"
    and "d = kChangeValue \<Longrightarrow> vt = kValue \<and> \<not> fst (flt level key v nv False)
           \<and> nv' = fst (snd (flt level key v nv False))"
    and "vt \<noteq> kValue \<Longrightarrow> nv' = nv"
  using assms
  by (cases vt; cases "flt level key v nv False";
      auto simp: FilterV2_default_def Let_def split: if_splits)+

lemma FilterV2_default_defined:
  "FilterV2_default flt mrg level key vt v nv su \<noteq> None \<longleftrightarrow> vt \<noteq> kWideColumnEntity"
  by (cases vt; cases "flt level key v nv False") (auto simp: FilterV2_default_def Let_def)

lemma v3_default_defined:
  "v3_default flt mrg level key vt ev ec nv nc su \<noteq> None \<longleftrightarrow>
     (ev = None \<or> ec = None) \<and> (vt = kWideColumnEntity \<or> ev \<noteq> None)
       \<and> (vt \<noteq> kWideColumnEntity \<or> ec \<noteq> None)"
  using FilterV2_default_defined [of flt mrg level key vt "the ev" nv su]
  by (auto simp: v3_default_def FilterV3_default_def asserting_def bind_eq_None_conv)

lemma call_ok_iff:
  "call_ok vt ev ec \<longleftrightarrow> (ev = None \<or> ec = None) \<and> (vt = kWideColumnEntity \<or> ev \<noteq> None)
       \<and> (vt \<noteq> kWideColumnEntity \<or> ec \<noteq> None)"
  by (cases vt) auto

lemma v3_default_total: "call_ok vt ev ec \<longleftrightarrow> v3_default flt mrg level key vt ev ec nv nc su \<noteq> None"
  unfolding call_ok_iff v3_default_defined by (rule refl)

lemma v3_default_entity:
  "call_ok kWideColumnEntity ev ec \<Longrightarrow>
     v3_default flt mrg level key kWideColumnEntity ev ec nv nc su = Some (kKeep, nv, nc, su)"
  by (auto simp: v3_default_def FilterV3_default_def asserting_def)

lemma v3_default_value:
  "vt \<noteq> kWideColumnEntity \<Longrightarrow>
     v3_default flt mrg level key vt (Some v) None nv nc su =
       map_option (\<lambda>(d, nv', su'). (d, nv', nc, su'))
         (FilterV2_default flt mrg level key vt v nv su)"
  by (cases "FilterV2_default flt mrg level key vt v nv su")
    (auto simp: v3_default_def FilterV3_default_def asserting_def)

section \<open>Properties\<close>

text \<open>
  A filter that overrides only \<open>Filter\<close> and \<open>FilterMergeOperand\<close> can be called through
  \<open>FilterV3\<close> exactly with the arguments the interface allows: a value and no columns for plain
  values, merge operands and blob indexes, columns and no value for wide-column entities. No other
  call, and every such call, passes the assertions.
\<close>

theorem FilterV3_defined:
  "FilterV3 (CompactionFilter_of flt mrg) level key vt ev ec nv nc su \<noteq> None \<longleftrightarrow> call_ok vt ev ec"
  using v3_default_total [of vt ev ec flt mrg level key nv nc su]
  by (simp add: CompactionFilter_of_def Let_def v3_default_def)

text \<open>
  What such a filter decides through \<open>FilterV3\<close>: a wide-column entity and a blob index are
  kept; a merge operand is removed or kept as \<open>FilterMergeOperand\<close> says; a plain value is removed
  where \<open>Filter\<close> returns true, also if it reported a changed value, changed where it only reported
  that, and kept otherwise. Columns and \<open>skip_until\<close> are never written.
\<close>

theorem FilterV3_decision:
  assumes "call_ok vt ev ec"
  shows "FilterV3 (CompactionFilter_of flt mrg) level key vt ev ec nv nc su = Some
    (case vt of
       kWideColumnEntity \<Rightarrow> (kKeep, nv, nc, su)
     | kBlobIndex \<Rightarrow> (kKeep, nv, nc, su)
     | kMergeOperand \<Rightarrow> (if mrg level key (the ev) then kRemove else kKeep, nv, nc, su)
     | kValue \<Rightarrow> (case flt level key (the ev) nv False of (rv, nv', changed) \<Rightarrow>
         (if rv then kRemove else if changed then kChangeValue else kKeep, nv', nc, su)))"
proof (cases "vt = kWideColumnEntity")
  case True
  with v3_default_entity [of ev ec flt mrg level key nv nc su] assms show ?thesis
    by (simp add: CompactionFilter_of_def v3_default_def Let_def)
next
  case False
  with assms obtain v where "ev = Some v" "ec = None" by (cases vt) auto
  with False v3_default_value [of vt flt mrg level key v nv nc su] show ?thesis
    by (cases vt) (auto simp: CompactionFilter_of_def v3_default_def FilterV2_default_def Let_def
        split: prod.splits)
qed

theorem FilterV3_decision_witness:
  "FilterV3 (CompactionFilter_of (\<lambda>level key v nv changed. (True, ''new'', True)) (\<lambda>level key v. False)
      :: unit CompactionFilter) 1 Slice_empty kValue (Some Slice_empty) None [] [] []
    = Some (kRemove, ''new'', [], [])"
  using FilterV3_decision [of kValue "Some Slice_empty" "None :: unit option"
      "\<lambda>level key v nv changed. (True, ''new'', True)" "\<lambda>level key v. False" 1 Slice_empty "[]" "[]" "[]"]
  by simp

end
