(* ===== verification/WriteBuffer.thy ===== *)
theory WriteBuffer
  imports StatusModel "HOL-Library.Word"
begin

text \<open>
  include/rocksdb/write_buffer_manager.h and include/rocksdb/rate_limiter.h: the inline decisions
  (when to flush, when to stall, what is rate limited). Sizes are 64-bit words, as
  \<open>new_size * 7 / 8\<close> can wrap. \<open>MaybeEndWriteStall\<close> and \<open>BeginWriteStall\<close> are defined in the
  library that is not part of the sources, so \<open>end_stall\<close> is a parameter. Relaxed loads and
  stores of single atomics are reads and writes of the field.
\<close>

section \<open>WriteBufferManager\<close>

record WriteBufferManager =
  buffer_size_field :: "64 word"
  mutable_limit :: "64 word"
  memory_used :: "64 word"
  memory_active :: "64 word"
  cache_res_mgr :: bool
  allow_stall :: bool
  stall_active :: bool

definition buffer_size :: "WriteBufferManager \<Rightarrow> 64 word" where
  "buffer_size m = buffer_size_field m"

definition enabled :: "WriteBufferManager \<Rightarrow> bool" where
  "enabled m \<longleftrightarrow> buffer_size m > 0"

definition cost_to_cache :: "WriteBufferManager \<Rightarrow> bool" where
  "cost_to_cache m \<longleftrightarrow> cache_res_mgr m"

definition memory_usage :: "WriteBufferManager \<Rightarrow> 64 word" where
  "memory_usage m = memory_used m"

definition mutable_memtable_memory_usage :: "WriteBufferManager \<Rightarrow> 64 word" where
  "mutable_memtable_memory_usage m = memory_active m"

definition SetBufferSize ::
    "(WriteBufferManager \<Rightarrow> WriteBufferManager) \<Rightarrow> 64 word \<Rightarrow> WriteBufferManager \<Rightarrow>
       WriteBufferManager option" where
  "SetBufferSize end_stall new_size m =
     asserting (new_size > 0)
       (end_stall (m\<lparr>buffer_size_field := new_size, mutable_limit := new_size * 7 div 8\<rparr>))"

definition SetAllowStall ::
    "(WriteBufferManager \<Rightarrow> WriteBufferManager) \<Rightarrow> bool \<Rightarrow> WriteBufferManager \<Rightarrow>
       WriteBufferManager" where
  "SetAllowStall end_stall new_allow_stall m = end_stall (m\<lparr>allow_stall := new_allow_stall\<rparr>)"

definition ShouldFlush :: "WriteBufferManager \<Rightarrow> bool" where
  "ShouldFlush m =
     (if enabled m then
        (if mutable_memtable_memory_usage m > mutable_limit m then True
         else
           (let local_size = buffer_size m in
            memory_usage m \<ge> local_size \<and> mutable_memtable_memory_usage m \<ge> local_size div 2))
      else False)"

definition IsStallActive :: "WriteBufferManager \<Rightarrow> bool" where
  "IsStallActive m \<longleftrightarrow> stall_active m"

definition IsStallThresholdExceeded :: "WriteBufferManager \<Rightarrow> bool" where
  "IsStallThresholdExceeded m \<longleftrightarrow> memory_usage m \<ge> buffer_size_field m"

definition ShouldStall :: "WriteBufferManager \<Rightarrow> bool" where
  "ShouldStall m =
     (if \<not> allow_stall m \<or> \<not> enabled m then False
      else IsStallActive m \<or> IsStallThresholdExceeded m)"

section \<open>RateLimiter\<close>

datatype OpType = kRead | kWrite

datatype RateMode = kReadsOnly | kWritesOnly | kAllIo

record RateLimiter =
  rate_mode :: RateMode

definition RateLimiter_default :: RateLimiter where
  "RateLimiter_default = \<lparr>rate_mode = kWritesOnly\<rparr>"

definition GetMode :: "RateLimiter \<Rightarrow> RateMode" where
  "GetMode l = rate_mode l"

definition SetSingleBurstBytes_default :: "int \<Rightarrow> Status" where
  "SetSingleBurstBytes_default single_burst_bytes = NotSupported kNone"

definition IsRateLimited :: "RateLimiter \<Rightarrow> OpType \<Rightarrow> bool" where
  "IsRateLimited l op_type =
     (if (rate_mode l = kWritesOnly \<and> op_type = kRead) \<or>
         (rate_mode l = kReadsOnly \<and> op_type = kWrite)
      then False else True)"

text \<open>
  The three overloads of \<open>Request\<close> default to each other. \<open>'s\<close> is the state of the derived
  class; each overload it overrides is a parameter. None is the failing \<open>assert\<close>.
\<close>

definition Request_old_default :: "int \<Rightarrow> 'pri \<Rightarrow> 's \<Rightarrow> 's option" where
  "Request_old_default bytes pri s = asserting False s"

definition Request_stats_default ::
    "(int \<Rightarrow> 'pri \<Rightarrow> 's \<Rightarrow> 's option) \<Rightarrow> int \<Rightarrow> 'pri \<Rightarrow> 'stats \<Rightarrow> 's \<Rightarrow> 's option" where
  "Request_stats_default request bytes pri stats s = request bytes pri s"

definition Request_op_default ::
    "RateLimiter \<Rightarrow> (int \<Rightarrow> 'pri \<Rightarrow> 'stats \<Rightarrow> 's \<Rightarrow> 's option) \<Rightarrow> int \<Rightarrow> 'pri \<Rightarrow> 'stats \<Rightarrow> OpType \<Rightarrow>
       's \<Rightarrow> 's option" where
  "Request_op_default l request bytes pri stats op_type s =
     (if IsRateLimited l op_type then request bytes pri stats s else Some s)"

definition GetTotalPendingRequests_default :: "int option \<Rightarrow> Status option" where
  "GetTotalPendingRequests_default total_pending_requests =
     asserting (total_pending_requests \<noteq> None) (NotSupported kNone)"

section \<open>What the decisions mean\<close>

text \<open>The limits in natural numbers: seven eighths of the buffer when the product fits.\<close>

lemma mutable_limit_exact:
  assumes "unat new_size * 7 < 2 ^ 64"
  shows "unat (new_size * 7 div 8 :: 64 word) = unat new_size * 7 div 8"
proof -
  have "unat (new_size * 7 :: 64 word) = unat new_size * 7"
    using assms by (simp add: unat_word_ariths)
  then show ?thesis by (simp add: unat_div)
qed

lemma mutable_limit_mod:
  "unat (new_size * 7 div 8 :: 64 word) = unat new_size * 7 mod 2 ^ 64 div 8"
  by (simp add: unat_div unat_word_ariths)

lemma enabled_iff: "enabled m \<longleftrightarrow> 0 < unat (buffer_size_field m)"
  by (simp add: enabled_def buffer_size_def word_neq_0_conv [symmetric] unat_gt_0)

lemma ShouldFlush_iff:
  "ShouldFlush m \<longleftrightarrow> 0 < unat (buffer_size_field m) \<and>
     (unat (mutable_limit m) < unat (memory_active m) \<or>
      unat (buffer_size_field m) \<le> unat (memory_used m) \<and>
      unat (buffer_size_field m) div 2 \<le> unat (memory_active m))"
  unfolding ShouldFlush_def enabled_iff mutable_memtable_memory_usage_def memory_usage_def
    buffer_size_def
  by (simp add: word_le_nat_alt word_less_nat_alt unat_div Let_def)

lemma ShouldStall_iff:
  "ShouldStall m \<longleftrightarrow> allow_stall m \<and> 0 < unat (buffer_size_field m) \<and>
     (stall_active m \<or> unat (buffer_size_field m) \<le> unat (memory_used m))"
  unfolding ShouldStall_def enabled_iff IsStallActive_def IsStallThresholdExceeded_def
    memory_usage_def
  by (auto simp: word_le_nat_alt)

lemma IsRateLimited_iff:
  "IsRateLimited l op \<longleftrightarrow>
     (case rate_mode l of kAllIo \<Rightarrow> True | kReadsOnly \<Rightarrow> op = kRead | kWritesOnly \<Rightarrow> op = kWrite)"
  by (cases op) (auto simp: IsRateLimited_def split: RateMode.splits)

section \<open>Properties\<close>

text \<open>
  After \<open>SetBufferSize\<close> the limit on active memtables is seven eighths of the size, below the
  size itself; but for sizes above a seventh of the 64-bit range the product wraps, and the limit is
  taken from what is left of it. A size of zero fails the assertion.
\<close>

theorem SetBufferSize_limit:
  assumes "\<And>m. mutable_limit (end_stall m) = mutable_limit m"
  shows "if n = 0 then SetBufferSize end_stall n m = None
    else \<exists>m'. SetBufferSize end_stall n m = Some m' \<and>
      unat (mutable_limit m') = unat n * 7 mod 2 ^ 64 div 8 \<and>
      (if unat n \<le> (2 ^ 64 - 1) div 7
       then unat (mutable_limit m') = unat n * 7 div 8 \<and> mutable_limit m' < n else True)"
proof (cases "n = 0")
  case False
  then have pos: "0 < n" "0 < unat n" by (simp_all add: word_neq_0_conv [symmetric] unat_gt_0)
  have fits: "unat n * 7 < 2 ^ 64" if "unat n \<le> (2 ^ 64 - 1) div 7" using that by simp
  have below: "n * 7 div 8 < n" if "unat n \<le> (2 ^ 64 - 1) div 7"
    unfolding word_less_nat_alt mutable_limit_exact [OF fits [OF that]] using pos(2) by linarith
  show ?thesis
    using False pos below fits mutable_limit_exact [of n] mutable_limit_mod [of n]
    by (auto simp: SetBufferSize_def assms)
qed (simp add: SetBufferSize_def)

theorem SetBufferSize_limit_witness:
  "\<exists>m'. SetBufferSize (\<lambda>m. m\<lparr>stall_active := False\<rparr>) 1000
      \<lparr>buffer_size_field = 8, mutable_limit = 7, memory_used = 0, memory_active = 0,
       cache_res_mgr = False, allow_stall = True, stall_active = True\<rparr> = Some m' \<and>
    unat (mutable_limit m') = 875"
  using SetBufferSize_limit [of "\<lambda>m. m\<lparr>stall_active := False\<rparr>" 1000
      "\<lparr>buffer_size_field = 8, mutable_limit = 7, memory_used = 0, memory_active = 0,
       cache_res_mgr = False, allow_stall = True, stall_active = True\<rparr>"]
  by auto

text \<open>
  When to flush: with a buffer size, if the active memtables exceed their limit, or the total
  reached the buffer size while at least half of it is still active. Without a buffer size
  (\<open>buffer_size = 0\<close>) never, although the class comment says always.
\<close>

theorem ShouldFlush_spec:
  "ShouldFlush m \<longleftrightarrow> 0 < unat (buffer_size_field m) \<and>
     (unat (mutable_limit m) < unat (memory_active m) \<or>
      unat (buffer_size_field m) \<le> unat (memory_used m) \<and>
      unat (buffer_size_field m) div 2 \<le> unat (memory_active m))"
  by (rule ShouldFlush_iff)

text \<open>
  Writers are stalled only if stalling is allowed and a buffer size is set, and then exactly if
  a stall is on or the memory in use reached the buffer size; turning stalls off, or a size above
  the memory in use with no stall on, lets every writer pass.
\<close>

theorem ShouldStall_spec:
  assumes "\<And>m. end_stall m = m\<lparr>stall_active := stall_active m \<and> keep m\<rparr>"
  shows "(ShouldStall m \<longleftrightarrow> allow_stall m \<and> 0 < unat (buffer_size_field m) \<and>
      (stall_active m \<or> unat (buffer_size_field m) \<le> unat (memory_used m))) \<and>
    \<not> ShouldStall (SetAllowStall end_stall False m) \<and>
    (if memory_used m < n \<and> \<not> stall_active m
     then \<exists>m'. SetBufferSize end_stall n m = Some m' \<and> \<not> ShouldStall m' else True)"
proof -
  have "0 < n" if "memory_used m < n" using that by (metis word_coorder.not_eq_extremum word_not_simps(1))
  then show ?thesis
    by (auto simp: ShouldStall_iff SetAllowStall_def SetBufferSize_def assms word_less_nat_alt)
qed

theorem ShouldStall_spec_witness:
  "\<not> ShouldStall (SetAllowStall (\<lambda>m. m\<lparr>stall_active := stall_active m \<and> True\<rparr>) False
      \<lparr>buffer_size_field = 8, mutable_limit = 7, memory_used = 9, memory_active = 0,
       cache_res_mgr = False, allow_stall = True, stall_active = True\<rparr>)"
  using ShouldStall_spec [of "\<lambda>m. m\<lparr>stall_active := stall_active m \<and> True\<rparr>" "\<lambda>m. True"] by blast

text \<open>
  A request goes through the limiter only if its mode counts the operation; a class that
  overrides only the oldest overload is reached by every counted request, and one that overrides
  none fails the assertion exactly on those.
\<close>

theorem rate_limited_requests:
  "(IsRateLimited l op \<longleftrightarrow> rate_mode l = kAllIo \<or> rate_mode l = kReadsOnly \<and> op = kRead \<or>
      rate_mode l = kWritesOnly \<and> op = kWrite) \<and>
   Request_op_default l (Request_stats_default request) bytes pri stats op s =
     (if IsRateLimited l op then request bytes pri s else Some s) \<and>
   (Request_op_default l (Request_stats_default Request_old_default) bytes pri stats op s = None \<longleftrightarrow>
      IsRateLimited l op)"
  by (cases op; cases "rate_mode l")
    (simp_all add: IsRateLimited_iff Request_op_default_def Request_stats_default_def
      Request_old_default_def)

end
