(* ===== verification/IOStatusModel.thy ===== *)
theory IOStatusModel
  imports StatusModel
begin

text \<open>
  \<open>class IOStatus\<close> of include/rocksdb/io_status.h: a \<open>Status\<close> returned by file system
  operations, which uses the retryable, data-loss and scope fields. The class adds no
  field, so an I/O status is a \<^typ>\<open>Status\<close>. Unlike \<open>Status\<close>, its message constructor is
  inline, so it is modelled down to the bytes of the buffer; it also provides the first
  interpretation of the locale \<open>message_constructor\<close>.
\<close>

section \<open>Scopes\<close>

datatype IOErrorScope =
    kIOErrorScopeFileSystem | kIOErrorScopeFile | kIOErrorScopeRange | kIOErrorScopeMax

definition IOErrorScope_val :: "IOErrorScope \<Rightarrow> nat" where
  "IOErrorScope_val sc = (case sc of kIOErrorScopeFileSystem \<Rightarrow> 0 | kIOErrorScopeFile \<Rightarrow> 1
     | kIOErrorScopeRange \<Rightarrow> 2 | kIOErrorScopeMax \<Rightarrow> 3)"

text \<open>The cast of a stored scope byte back to the enumeration (None: not an enumerator).\<close>

definition IOErrorScope_of :: "nat \<Rightarrow> IOErrorScope option" where
  "IOErrorScope_of n = (if n = 0 then Some kIOErrorScopeFileSystem
     else if n = 1 then Some kIOErrorScopeFile else if n = 2 then Some kIOErrorScopeRange
     else if n = 3 then Some kIOErrorScopeMax else None)"

definition SetRetryable :: "bool \<Rightarrow> Status \<Rightarrow> Status" where
  "SetRetryable b s = s\<lparr>st_retryable := b\<rparr>"

definition SetDataLoss :: "bool \<Rightarrow> Status \<Rightarrow> Status" where
  "SetDataLoss b s = s\<lparr>st_data_loss := b\<rparr>"

definition SetScope :: "IOErrorScope \<Rightarrow> Status \<Rightarrow> Status" where
  "SetScope sc s = s\<lparr>st_scope := IOErrorScope_val sc mod 256\<rparr>"

definition GetRetryable :: "Status \<Rightarrow> bool" where
  "GetRetryable s = st_retryable s"

definition GetDataLoss :: "Status \<Rightarrow> bool" where
  "GetDataLoss s = st_data_loss s"

definition GetScope :: "Status \<Rightarrow> IOErrorScope option" where
  "GetScope s = IOErrorScope_of (st_scope s)"

lemma GetScope_SetScope: "GetScope (SetScope sc s) = Some sc"
  by (cases sc) (simp_all add: GetScope_def SetScope_def IOErrorScope_val_def IOErrorScope_of_def)

section \<open>Constructors\<close>

definition IOStatus_code :: "Code \<Rightarrow> SubCode \<Rightarrow> Status" where
  "IOStatus_code c sc = Status_io c sc False False (IOErrorScope_val kIOErrorScopeFileSystem)"

definition IOStatus_default :: Status where
  "IOStatus_default = IOStatus_code kOk kNone"

text \<open>The message buffer: \<open>msg\<close>, then \<open>": "\<close> and \<open>msg2\<close> when that is not empty, then NUL.\<close>

definition io_message :: "Slice \<Rightarrow> Slice \<Rightarrow> bytes" where
  "io_message msg msg2 =
     (let len1 = sl_size msg; len2 = sl_size msg2 in
      take len1 (storage msg)
        @ (if len2 \<noteq> 0 then '': '' @ take len2 (storage msg2) else [])
        @ [NUL])"

definition IOStatus_init :: "Code \<Rightarrow> SubCode \<Rightarrow> Slice \<Rightarrow> Slice \<Rightarrow> Status" where
  "IOStatus_init c sc msg msg2 =
     (IOStatus_code c sc)\<lparr>st_state := Some (io_message msg msg2)\<rparr>"

text \<open>The two assertions, and \<open>memcpy\<close> reading within both slices.\<close>

definition IOStatus_msg :: "Code \<Rightarrow> SubCode \<Rightarrow> Slice \<Rightarrow> Slice \<Rightarrow> Status option" where
  "IOStatus_msg c sc msg msg2 =
     asserting (c \<noteq> kOk \<and> sc \<noteq> kMaxSubCode \<and> slice_ok msg \<and> slice_ok msg2)
       (IOStatus_init c sc msg msg2)"

definition IOStatus_copy :: "(bytes \<Rightarrow> bytes) \<Rightarrow> Status \<Rightarrow> Status" where
  "IOStatus_copy cs s =
     (Status_code (st_code s) (st_subcode s))
       \<lparr>st_retryable := st_retryable s, st_data_loss := st_data_loss s, st_scope := st_scope s,
        st_state := (case st_state s of None \<Rightarrow> None | Some m \<Rightarrow> Some (cs m))\<rparr>"

definition IOStatus_assign :: "(bytes \<Rightarrow> bytes) \<Rightarrow> bool \<Rightarrow> Status \<Rightarrow> Status \<Rightarrow> Status" where
  "IOStatus_assign cs same this s =
     (if \<not> same then
        this\<lparr>st_code := st_code s, st_subcode := st_subcode s,
             st_retryable := st_retryable s, st_data_loss := st_data_loss s,
             st_scope := st_scope s,
             st_state := (case st_state s of None \<Rightarrow> None | Some m \<Rightarrow> Some (cs m))\<rparr>
      else this)"

definition IOStatus_move_assign :: "bool \<Rightarrow> Status \<Rightarrow> Status \<Rightarrow> Status \<times> Status" where
  "IOStatus_move_assign same this s =
     (if \<not> same then
        (this\<lparr>st_code := st_code s, st_subcode := st_subcode s,
              st_retryable := st_retryable s, st_data_loss := st_data_loss s,
              st_scope := st_scope s, st_state := st_state s\<rparr>,
         s\<lparr>st_code := kOk, st_subcode := kNone,
           st_scope := IOErrorScope_val kIOErrorScopeFileSystem, st_state := None\<rparr>)
      else (this, this))"

definition IOStatus_move :: "Status \<Rightarrow> Status \<times> Status" where
  "IOStatus_move s = IOStatus_move_assign False IOStatus_default s"

definition IOStatus_eq :: "Status \<Rightarrow> Status \<Rightarrow> bool" where
  "IOStatus_eq x y \<longleftrightarrow> st_code x = st_code y"

definition IOStatus_neq :: "Status \<Rightarrow> Status \<Rightarrow> bool" where
  "IOStatus_neq x y \<longleftrightarrow> \<not> IOStatus_eq x y"

text \<open>
  \<open>return io_s\<close> either elides the copy of the local or moves it into the result, at the
  compiler's choice (\<open>elided\<close>).
\<close>

definition status_to_io_status :: "bool \<Rightarrow> Status \<Rightarrow> Status" where
  "status_to_io_status elided status =
     (let io_s = fst (Status_move_assign False IOStatus_default status) in
      if elided then io_s else fst (IOStatus_move io_s))"

section \<open>Factories\<close>

definition IO_OK :: Status where [status_defs]:
  "IO_OK = IOStatus_default"

definition IO_NotSupported_msg :: "Slice \<Rightarrow> Slice \<Rightarrow> Status option" where [status_defs]:
  "IO_NotSupported_msg msg msg2 = IOStatus_msg kNotSupported kNone msg msg2"

definition IO_NotSupported :: "SubCode \<Rightarrow> Status" where [status_defs]:
  "IO_NotSupported msg = IOStatus_code kNotSupported msg"

definition IO_NotFound_msg :: "Slice \<Rightarrow> Slice \<Rightarrow> Status option" where [status_defs]:
  "IO_NotFound_msg msg msg2 = IOStatus_msg kNotFound kNone msg msg2"

definition IO_NotFound :: "SubCode \<Rightarrow> Status" where [status_defs]:
  "IO_NotFound msg = IOStatus_code kNotFound msg"

definition IO_Corruption_msg :: "Slice \<Rightarrow> Slice \<Rightarrow> Status option" where [status_defs]:
  "IO_Corruption_msg msg msg2 = IOStatus_msg kCorruption kNone msg msg2"

definition IO_Corruption :: "SubCode \<Rightarrow> Status" where [status_defs]:
  "IO_Corruption msg = IOStatus_code kCorruption msg"

definition IO_InvalidArgument_msg :: "Slice \<Rightarrow> Slice \<Rightarrow> Status option" where [status_defs]:
  "IO_InvalidArgument_msg msg msg2 = IOStatus_msg kInvalidArgument kNone msg msg2"

definition IO_InvalidArgument :: "SubCode \<Rightarrow> Status" where [status_defs]:
  "IO_InvalidArgument msg = IOStatus_code kInvalidArgument msg"

definition IO_IOError_msg :: "Slice \<Rightarrow> Slice \<Rightarrow> Status option" where [status_defs]:
  "IO_IOError_msg msg msg2 = IOStatus_msg kIOError kNone msg msg2"

definition IO_IOError :: "SubCode \<Rightarrow> Status" where [status_defs]:
  "IO_IOError msg = IOStatus_code kIOError msg"

definition IO_Busy :: "SubCode \<Rightarrow> Status" where [status_defs]:
  "IO_Busy msg = IOStatus_code kBusy msg"

definition IO_Busy_msg :: "Slice \<Rightarrow> Slice \<Rightarrow> Status option" where [status_defs]:
  "IO_Busy_msg msg msg2 = IOStatus_msg kBusy kNone msg msg2"

definition IO_TimedOut :: "SubCode \<Rightarrow> Status" where [status_defs]:
  "IO_TimedOut msg = IOStatus_code kTimedOut msg"

definition IO_TimedOut_msg :: "Slice \<Rightarrow> Slice \<Rightarrow> Status option" where [status_defs]:
  "IO_TimedOut_msg msg msg2 = IOStatus_msg kTimedOut kNone msg msg2"

definition IO_NoSpace :: Status where [status_defs]:
  "IO_NoSpace = IOStatus_code kIOError kNoSpace"

definition IO_NoSpace_msg :: "Slice \<Rightarrow> Slice \<Rightarrow> Status option" where [status_defs]:
  "IO_NoSpace_msg msg msg2 = IOStatus_msg kIOError kNoSpace msg msg2"

definition IO_PathNotFound :: Status where [status_defs]:
  "IO_PathNotFound = IOStatus_code kIOError kPathNotFound"

definition IO_PathNotFound_msg :: "Slice \<Rightarrow> Slice \<Rightarrow> Status option" where [status_defs]:
  "IO_PathNotFound_msg msg msg2 = IOStatus_msg kIOError kPathNotFound msg msg2"

definition IO_IOFenced :: Status where [status_defs]:
  "IO_IOFenced = IOStatus_code kIOError kIOFenced"

definition IO_IOFenced_msg :: "Slice \<Rightarrow> Slice \<Rightarrow> Status option" where [status_defs]:
  "IO_IOFenced_msg msg msg2 = IOStatus_msg kIOError kIOFenced msg msg2"

definition IO_Aborted :: "SubCode \<Rightarrow> Status" where [status_defs]:
  "IO_Aborted msg = IOStatus_code kAborted msg"

definition IO_Aborted_msg :: "Slice \<Rightarrow> Slice \<Rightarrow> Status option" where [status_defs]:
  "IO_Aborted_msg msg msg2 = IOStatus_msg kAborted kNone msg msg2"

section \<open>The message\<close>

text \<open>The C string a client reads from \<open>getState()\<close>.\<close>

definition c_string :: "bytes \<Rightarrow> bytes" where
  "c_string m = takeWhile (\<lambda>c. c \<noteq> NUL) m"

lemma c_string_terminated: "NUL \<notin> set m \<Longrightarrow> c_string (m @ [NUL]) = m"
  by (induction m) (auto simp: c_string_def)

lemma io_message_bytes:
  "slice_ok msg \<Longrightarrow> slice_ok msg2 \<Longrightarrow>
     io_message msg msg2 = slice_bytes msg
       @ (if slice_bytes msg2 = [] then [] else '': '' @ slice_bytes msg2) @ [NUL]"
  by (auto simp: io_message_def slice_bytes_def slice_ok_def Let_def)

lemma IOStatus_init_fields [simp, status_simps]:
  "st_code (IOStatus_init c sc m1 m2) = c" "st_subcode (IOStatus_init c sc m1 m2) = sc"
  "st_sev (IOStatus_init c sc m1 m2) = kNoError"
  "st_state (IOStatus_init c sc m1 m2) = Some (io_message m1 m2)"
  by (simp_all add: IOStatus_init_def IOStatus_code_def Status_io_def)

interpretation io_message_ctor: message_constructor "\<lambda>c sc m1 m2 sev. IOStatus_init c sc m1 m2"
  by unfold_locales simp_all

section \<open>Copies and moves\<close>

lemma IOStatus_copy_drops_severity:
  assumes "\<And>m. cs m = m"
  shows "IOStatus_copy cs s = s\<lparr>st_sev := kNoError\<rparr>"
  using assms by (simp add: IOStatus_copy_def Status_code_def split: option.split)

lemma IOStatus_move_fields:
  "fst (IOStatus_move s) = s\<lparr>st_sev := kNoError\<rparr>"
  "snd (IOStatus_move s) = s\<lparr>st_code := kOk, st_subcode := kNone, st_scope := 0, st_state := None\<rparr>"
  by (simp_all add: IOStatus_move_def IOStatus_move_assign_def IOStatus_default_def
      IOStatus_code_def Status_io_def IOErrorScope_val_def)

lemma status_to_io_status_eq:
  "status_to_io_status elided s = (if elided then s else s\<lparr>st_sev := kNoError\<rparr>)"
  by (simp add: status_to_io_status_def Status_move_assign_moves IOStatus_move_fields)

section \<open>Properties\<close>

text \<open>
  The message of an I/O status: for an error code and a proper subcode the constructor keeps
  both, and its buffer reads, up to the terminator, as the first message followed, where the
  second is not empty, by a colon, a space and the second.
\<close>

theorem IOStatus_message:
  assumes "slice_ok m1" "slice_ok m2" "NUL \<notin> set (slice_bytes m1 @ slice_bytes m2)"
    and "c \<noteq> kOk" "sc \<noteq> kMaxSubCode"
  shows "\<exists>s. IOStatus_msg c sc m1 m2 = Some s \<and> st_code s = c \<and> st_subcode s = sc \<and>
      map_option c_string (getState s) = Some (slice_bytes m1 @
        (if slice_bytes m2 = [] then [] else '': '' @ slice_bytes m2))"
proof -
  let ?m = "slice_bytes m1 @ (if slice_bytes m2 = [] then [] else '': '' @ slice_bytes m2)"
  have "NUL \<notin> set ?m" using assms(3) by (auto simp: NUL_def)
  then have "c_string (?m @ [NUL]) = ?m" by (rule c_string_terminated)
  moreover have "io_message m1 m2 = ?m @ [NUL]" using io_message_bytes [OF assms(1,2)] by simp
  ultimately show ?thesis using assms by (simp add: IOStatus_msg_def getState_def)
qed

theorem IOStatus_message_witness:
  "\<exists>s. IOStatus_msg kIOError kNoSpace (Slice_string ''disk'') (Slice_string ''full'') = Some s \<and>
     map_option c_string (getState s) = Some ''disk: full''"
proof -
  have "NUL \<notin> set (slice_bytes (Slice_string ''disk'') @ slice_bytes (Slice_string ''full''))"
    by (simp add: NUL_def)
  from IOStatus_message [OF _ _ this, of kIOError kNoSpace] show ?thesis by auto
qed

text \<open>
  C29. Copies: a \<open>Status\<close> copy has every field of its source, and a move takes every field and
  leaves a default status; copying, and moving, an \<open>IOStatus\<close> loses the severity, and a moved-from
  \<open>IOStatus\<close> keeps its severity, retryable and data-loss flags.
\<close>

theorem IOStatus_copy_loses_severity:
  assumes "\<And>m. cs m = m"
  shows "Status_copy cs s = s \<and> Status_move s = (s, Status_default) \<and>
    IOStatus_copy cs s = s\<lparr>st_sev := kNoError\<rparr> \<and>
    IOStatus_move s = (s\<lparr>st_sev := kNoError\<rparr>,
      s\<lparr>st_code := kOk, st_subcode := kNone, st_scope := 0, st_state := None\<rparr>)"
  using Status_copy_id [of cs s, OF assms] IOStatus_copy_drops_severity [of cs s, OF assms]
    Status_move_moves [of s] IOStatus_move_fields [of s]
  by (simp add: prod_eq_iff)

theorem IOStatus_copy_loses_severity_witness:
  "st_sev (IOStatus_copy id (Status_default\<lparr>st_code := kIOError, st_sev := kFatalError\<rparr>)) = kNoError \<and>
   st_sev (Status_copy id (Status_default\<lparr>st_code := kIOError, st_sev := kFatalError\<rparr>)) = kFatalError"
  using IOStatus_copy_loses_severity [of id "Status_default\<lparr>st_code := kIOError, st_sev := kFatalError\<rparr>"]
  by simp

text \<open>
  \<open>status_to_io_status\<close> carries every field over, except that the severity survives only
  where the compiler elides the copy of the returned object.
\<close>

theorem status_to_io_status_fields:
  "status_to_io_status elided s = (if elided then s else s\<lparr>st_sev := kNoError\<rparr>)"
  by (rule status_to_io_status_eq)

text \<open>
  Whatever formats the message, as long as it keeps the code and the subcode, each message
  factory of \<open>Status\<close> builds a status that is not OK and that its own predicate recognises.
\<close>

theorem factories_recognised:
  assumes "message_constructor mk"
  shows "list_all (\<lambda>(f, P). P (f mk m1 m2) \<and> \<not> status_ok (f mk m1 m2))
    [(NotFound_msg, IsNotFound), (Corruption_msg, IsCorruption),
     (NotSupported_msg, IsNotSupported), (InvalidArgument_msg, IsInvalidArgument),
     (IOError_msg, IsIOError), (MergeInProgress_msg, IsMergeInProgress),
     (Incomplete_msg, IsIncomplete), (ShutdownInProgress_msg, IsShutdownInProgress),
     (Aborted_msg, IsAborted), (Busy_msg, IsBusy), (TimedOut_msg, IsTimedOut),
     (Expired_msg, IsExpired), (TryAgain_msg, IsTryAgain),
     (CompactionTooLarge_msg, IsCompactionTooLarge),
     (ColumnFamilyDropped_msg, IsColumnFamilyDropped), (NoSpace_msg, IsNoSpace),
     (MemoryLimit_msg, IsMemoryLimit), (SpaceLimit_msg, IsIOError),
     (PathNotFound_msg, IsPathNotFound), (TxnNotPrepared_msg, IsTxnNotPrepared)]"
  using message_constructor.mk_code [OF assms] message_constructor.mk_subcode [OF assms]
  by (simp add: status_defs status_ok_def)

theorem factories_recognised_witness:
  "IsNoSpace (NoSpace_msg (\<lambda>c sc m1 m2 sev. IOStatus_init c sc m1 m2) Slice_empty Slice_empty)"
  using factories_recognised [OF io_message_ctor.message_constructor_axioms, of Slice_empty Slice_empty]
  by simp

end
