(* ===== verification/EnumSet.thy ===== *)
theory EnumSet
  imports Prelude "HOL-Library.Word"
begin

unbundle bit_operations_syntax

text \<open>
  \<open>class SmallEnumSet\<close> of include/rocksdb/data_structure.h: a set of enumerators kept as
  the bits of one \<open>uint64_t\<close>. An enumerator is its \<open>int\<close> value; \<open>k\<close> stands for
  \<open>kMaxValue\<close>, which the class asserts to be at most 63 at compile time.
  \<open>CountTrailingZeroBitsForSmallEnumSet\<close> is declared only, so it is the parameter \<open>ctz\<close>
  with the property its name promises, \<open>counts_trailing_zeros\<close>.

  The locale \<open>enum_set\<close> is the contract of such a set; the class's operations interpret
  it with the abstraction to \<^typ>\<open>int set\<close>.
\<close>

section \<open>State and operations\<close>

type_synonym enum_state = "64 word"

definition kStateBits :: nat where
  "kStateBits = 64"

definition valid_enumerator :: "nat \<Rightarrow> int \<Rightarrow> bool" where
  "valid_enumerator k v \<longleftrightarrow> 0 \<le> v \<and> v \<le> int k"

definition EnumSet_empty :: enum_state where
  "EnumSet_empty = 0"

definition EnumSet_All :: "nat \<Rightarrow> enum_state" where
  "EnumSet_All k = (let tmp = push_bit k 1 in tmp OR (tmp - 1))"

definition EnumSet_eq :: "enum_state \<Rightarrow> enum_state \<Rightarrow> bool" where
  "EnumSet_eq s t \<longleftrightarrow> s = t"

definition EnumSet_neq :: "enum_state \<Rightarrow> enum_state \<Rightarrow> bool" where
  "EnumSet_neq s t \<longleftrightarrow> \<not> EnumSet_eq s t"

definition Contains :: "nat \<Rightarrow> enum_state \<Rightarrow> int \<Rightarrow> bool option" where
  "Contains k s v = asserting (valid_enumerator k v) (s AND push_bit (nat v) 1 \<noteq> 0)"

definition EnumSet_is_empty :: "enum_state \<Rightarrow> bool" where
  "EnumSet_is_empty s \<longleftrightarrow> s = 0"

text \<open>\<open>Add\<close> and \<open>Remove\<close> return whether the set was modified, and the new state.\<close>

definition EnumSet_Add :: "nat \<Rightarrow> enum_state \<Rightarrow> int \<Rightarrow> (bool \<times> enum_state) option" where
  "EnumSet_Add k s v =
     asserting (valid_enumerator k v)
       (let s' = s OR push_bit (nat v) 1 in (s \<noteq> s', s'))"

definition EnumSet_Remove :: "nat \<Rightarrow> enum_state \<Rightarrow> int \<Rightarrow> (bool \<times> enum_state) option" where
  "EnumSet_Remove k s v =
     asserting (valid_enumerator k v)
       (let s' = s AND NOT (push_bit (nat v) 1) in (s \<noteq> s', s'))"

definition With :: "nat \<Rightarrow> enum_state \<Rightarrow> int \<Rightarrow> enum_state option" where
  "With k s v = asserting (valid_enumerator k v) (s OR push_bit (nat v) 1)"

fun With_all :: "nat \<Rightarrow> enum_state \<Rightarrow> int list \<Rightarrow> enum_state option" where
  "With_all k s [] = Some s"
| "With_all k s (v # rest) = do { s' \<leftarrow> With k s v; With_all k s' rest }"

definition Without :: "nat \<Rightarrow> enum_state \<Rightarrow> int \<Rightarrow> enum_state option" where
  "Without k s v = asserting (valid_enumerator k v) (s AND NOT (push_bit (nat v) 1))"

fun Without_all :: "nat \<Rightarrow> enum_state \<Rightarrow> int list \<Rightarrow> enum_state option" where
  "Without_all k s [] = Some s"
| "Without_all k s (v # rest) = do { s' \<leftarrow> Without k s v; Without_all k s' rest }"

text \<open>The variadic constructor builds the set of the rest first, then adds its first value.\<close>

fun EnumSet_of :: "nat \<Rightarrow> int list \<Rightarrow> enum_state option" where
  "EnumSet_of k [] = Some EnumSet_empty"
| "EnumSet_of k (v # rest) = do { s \<leftarrow> EnumSet_of k rest; With k s v }"

section \<open>Iterators\<close>

definition SkipUnset :: "(enum_state \<Rightarrow> nat) \<Rightarrow> enum_state \<Rightarrow> nat \<Rightarrow> nat" where
  "SkipUnset ctz s pos =
     (let tmp = drop_bit pos s in if tmp = 0 then kStateBits else pos + ctz tmp)"

definition iter_begin :: "(enum_state \<Rightarrow> nat) \<Rightarrow> enum_state \<Rightarrow> nat" where
  "iter_begin ctz s = SkipUnset ctz s 0"

definition iter_end :: nat where
  "iter_end = kStateBits"

definition iter_next :: "(enum_state \<Rightarrow> nat) \<Rightarrow> nat \<Rightarrow> enum_state \<Rightarrow> nat \<Rightarrow> nat" where
  "iter_next ctz k s pos = (if pos < k then SkipUnset ctz s (pos + 1) else kStateBits)"

definition iter_deref :: "nat \<Rightarrow> nat \<Rightarrow> int option" where
  "iter_deref k pos = asserting (pos \<le> k) (int pos)"

text \<open>
  \<open>for (auto e : set)\<close>: from a position to the end, collecting the values. None is a
  failed assertion of the dereference or a loop that does not end.
\<close>

partial_function (option) iterate ::
    "(enum_state \<Rightarrow> nat) \<Rightarrow> nat \<Rightarrow> enum_state \<Rightarrow> nat \<Rightarrow> int list \<Rightarrow> int list option" where
  "iterate ctz k s pos acc =
     (if pos = iter_end then Some (rev acc)
      else Option.bind (iter_deref k pos)
             (\<lambda>v. iterate ctz k s (iter_next ctz k s pos) (v # acc)))"

definition EnumSet_elements :: "(enum_state \<Rightarrow> nat) \<Rightarrow> nat \<Rightarrow> enum_state \<Rightarrow> int list option" where
  "EnumSet_elements ctz k s = iterate ctz k s (iter_begin ctz s) []"

definition counts_trailing_zeros :: "(enum_state \<Rightarrow> nat) \<Rightarrow> bool" where
  "counts_trailing_zeros ctz \<longleftrightarrow>
     (\<forall>w. w \<noteq> 0 \<longrightarrow> bit w (ctz w) \<and> (\<forall>i < ctz w. \<not> bit w i))"

section \<open>The contract\<close>

locale enum_set =
  fixes empty :: 's
    and add :: "'s \<Rightarrow> int \<Rightarrow> 's option"
    and del :: "'s \<Rightarrow> int \<Rightarrow> 's option"
    and isin :: "'s \<Rightarrow> int \<Rightarrow> bool option"
    and members :: "'s \<Rightarrow> int set"
    and valid :: "int \<Rightarrow> bool"
    and inv :: "'s \<Rightarrow> bool"
  assumes inv_empty: "inv empty" and members_empty: "members empty = {}"
    and members_valid: "inv s \<Longrightarrow> v \<in> members s \<Longrightarrow> valid v"
    and add_invalid: "\<not> valid v \<Longrightarrow> add s v = None"
    and add_law: "inv s \<Longrightarrow> valid v \<Longrightarrow> \<exists>t. add s v = Some t \<and> inv t \<and> members t = insert v (members s)"
    and del_invalid: "\<not> valid v \<Longrightarrow> del s v = None"
    and del_law: "inv s \<Longrightarrow> valid v \<Longrightarrow> \<exists>t. del s v = Some t \<and> inv t \<and> members t = members s - {v}"
    and isin_law: "inv s \<Longrightarrow> isin s v = (if valid v then Some (v \<in> members s) else None)"
begin

fun add_list :: "'s \<Rightarrow> int list \<Rightarrow> 's option" where
  "add_list s [] = Some s"
| "add_list s (v # vs) = Option.bind (add s v) (\<lambda>t. add_list t vs)"

fun del_list :: "'s \<Rightarrow> int list \<Rightarrow> 's option" where
  "del_list s [] = Some s"
| "del_list s (v # vs) = Option.bind (del s v) (\<lambda>t. del_list t vs)"

lemma add_list_law:
  "inv s \<Longrightarrow> (\<forall>v \<in> set vs. valid v) \<Longrightarrow>
     \<exists>t. add_list s vs = Some t \<and> inv t \<and> members t = members s \<union> set vs"
proof (induction vs arbitrary: s)
  case (Cons v vs)
  with add_law [of s v] obtain t where t: "add s v = Some t" "inv t" "members t = insert v (members s)"
    by auto
  with Cons.IH [of t] Cons.prems show ?case by auto
qed simp

lemma del_list_law:
  "inv s \<Longrightarrow> (\<forall>v \<in> set vs. valid v) \<Longrightarrow>
     \<exists>t. del_list s vs = Some t \<and> inv t \<and> members t = members s - set vs"
proof (induction vs arbitrary: s)
  case (Cons v vs)
  with del_law [of s v] obtain t where t: "del s v = Some t" "inv t" "members t = members s - {v}"
    by auto
  with Cons.IH [of t] Cons.prems show ?case by auto
qed simp

lemma isin_after_add:
  assumes "inv s" "valid v" "add s v = Some t"
  shows "isin t w = (if valid w then Some (w = v \<or> isin s w = Some True) else None)"
  using assms add_law [of s v] by (auto simp: isin_law)

lemma isin_after_del:
  assumes "inv s" "valid v" "del s v = Some t"
  shows "isin t w = (if valid w then Some (w \<noteq> v \<and> isin s w = Some True) else None)"
  using assms del_law [of s v] by (auto simp: isin_law)

end

section \<open>Abstraction to sets\<close>

definition members :: "enum_state \<Rightarrow> int set" where
  "members s = {v. 0 \<le> v \<and> bit s (nat v)}"

definition set_inv :: "nat \<Rightarrow> enum_state \<Rightarrow> bool" where
  "set_inv k s \<longleftrightarrow> (\<forall>i. bit s i \<longrightarrow> i \<le> k)"

lemma bit_or_single: "k < 64 \<Longrightarrow> bit ((s :: enum_state) OR 2 ^ k) i \<longleftrightarrow> bit s i \<or> i = k"
  by (auto simp: bit_simps)

lemma bit_and_not_single:
  "bit ((s :: enum_state) AND NOT (2 ^ k)) i \<longleftrightarrow> bit s i \<and> i \<noteq> k"
  by (auto simp: bit_simps dest: bit_imp_le_length)

lemma and_single_nonzero: "(s :: enum_state) AND 2 ^ k \<noteq> 0 \<longleftrightarrow> bit s k"
  by (simp add: and_exp_eq_0_iff_not_bit)

lemma members_or_single:
  "valid_enumerator k v \<Longrightarrow> k < 64 \<Longrightarrow> members (s OR push_bit (nat v) 1) = insert v (members s)"
  by (auto simp: members_def valid_enumerator_def bit_or_single)

lemma members_and_not_single:
  "valid_enumerator k v \<Longrightarrow> members (s AND NOT (push_bit (nat v) 1)) = members s - {v}"
  by (auto simp: members_def valid_enumerator_def bit_and_not_single)

lemma set_inv_or_single [wf_intros]:
  "set_inv k s \<Longrightarrow> valid_enumerator k v \<Longrightarrow> k < 64 \<Longrightarrow> set_inv k (s OR push_bit (nat v) 1)"
  by (auto simp: set_inv_def valid_enumerator_def bit_or_single)

lemma set_inv_and_not_single [wf_intros]:
  "set_inv k s \<Longrightarrow> set_inv k (s AND NOT (push_bit (nat v) 1))"
  by (auto simp: set_inv_def bit_and_not_single)

lemma members_eq_iff: "members s = members t \<longleftrightarrow> s = t"
proof
  assume eq: "members s = members t"
  have "bit s n \<longleftrightarrow> bit t n" for n
  proof -
    have "int n \<in> members s \<longleftrightarrow> int n \<in> members t" using eq by simp
    then show ?thesis by (simp add: members_def)
  qed
  then show "s = t" by (rule bit_word_eqI)
qed simp

section \<open>The operations meet the contract\<close>

locale small_enum =
  fixes k :: nat
  assumes max_enumerator: "k \<le> 63"

sublocale small_enum \<subseteq> ses: enum_set EnumSet_empty "With k" "Without k" "Contains k" members
    "valid_enumerator k" "set_inv k"
proof unfold_locales
  show "set_inv k EnumSet_empty" "members EnumSet_empty = {}"
    by (auto simp: set_inv_def members_def EnumSet_empty_def)
next
  fix s v assume "set_inv k s" "v \<in> members s"
  then show "valid_enumerator k v"
    by (auto simp: set_inv_def members_def valid_enumerator_def)
next
  fix s :: enum_state and v assume v: "valid_enumerator k v" and s: "set_inv k s"
  have k: "k < 64" using max_enumerator by simp
  show "\<exists>t. With k s v = Some t \<and> set_inv k t \<and> members t = insert v (members s)"
    using v s k by (intro exI [of _ "s OR push_bit (nat v) 1"])
      (simp add: With_def members_or_single set_inv_or_single del: push_bit_of_1)
  show "\<exists>t. Without k s v = Some t \<and> set_inv k t \<and> members t = members s - {v}"
    using v s by (intro exI [of _ "s AND NOT (push_bit (nat v) 1)"])
      (simp add: Without_def members_and_not_single set_inv_and_not_single del: push_bit_of_1)
qed (auto simp: With_def Without_def Contains_def members_def valid_enumerator_def
      and_exp_eq_0_iff_not_bit)

text \<open>\<open>Add\<close> and \<open>Remove\<close> are the in-place forms and report whether the set changed.\<close>

lemma EnumSet_Add_With:
  "EnumSet_Add k s v = map_option (\<lambda>t. (s \<noteq> t, t)) (With k s v)"
  by (simp add: EnumSet_Add_def With_def asserting_def Let_def)

lemma EnumSet_Remove_Without:
  "EnumSet_Remove k s v = map_option (\<lambda>t. (s \<noteq> t, t)) (Without k s v)"
  by (simp add: EnumSet_Remove_def Without_def asserting_def Let_def)

context small_enum begin

lemma With_all_add_list: "With_all k s vs = ses.add_list s vs"
  by (induction vs arbitrary: s) (auto intro!: Option.bind_cong)

lemma Without_all_del_list: "Without_all k s vs = ses.del_list s vs"
  by (induction vs arbitrary: s) (auto intro!: Option.bind_cong)

lemma operations_law:
  assumes "set_inv k s"
  shows "if valid_enumerator k v
    then \<exists>t u. EnumSet_Add k s v = Some (v \<notin> members s, t) \<and> With k s v = Some t \<and>
           set_inv k t \<and> members t = insert v (members s) \<and>
           EnumSet_Remove k s v = Some (v \<in> members s, u) \<and> Without k s v = Some u \<and>
           set_inv k u \<and> members u = members s - {v} \<and> Contains k s v = Some (v \<in> members s)
    else EnumSet_Add k s v = None \<and> With k s v = None \<and> EnumSet_Remove k s v = None \<and>
         Without k s v = None \<and> Contains k s v = None"
proof (cases "valid_enumerator k v")
  case True
  obtain t where t: "With k s v = Some t" "set_inv k t" "members t = insert v (members s)"
    using ses.add_law [OF assms True] by blast
  obtain u where u: "Without k s v = Some u" "set_inv k u" "members u = members s - {v}"
    using ses.del_law [OF assms True] by blast
  have "s \<noteq> t \<longleftrightarrow> v \<notin> members s" "s \<noteq> u \<longleftrightarrow> v \<in> members s"
    using members_eq_iff [of s t] members_eq_iff [of s u] t u by auto
  with t u True ses.isin_law [OF assms, of v] show ?thesis
    by (simp add: EnumSet_Add_With EnumSet_Remove_Without)
next
  case False
  with ses.isin_law [OF assms, of v] ses.add_invalid [of v s] ses.del_invalid [of v s]
  show ?thesis by (simp add: EnumSet_Add_With EnumSet_Remove_Without)
qed

lemma EnumSet_of_members:
  "(\<forall>v \<in> set vs. valid_enumerator k v) \<Longrightarrow>
     \<exists>t. EnumSet_of k vs = Some t \<and> set_inv k t \<and> members t = set vs"
proof (induction vs)
  case (Cons v vs)
  then obtain s where "EnumSet_of k vs = Some s" "set_inv k s" "members s = set vs" by auto
  with Cons.prems ses.add_law [of s v] show ?case by auto
qed (simp add: ses.inv_empty ses.members_empty)

end

section \<open>Iteration visits the members in order\<close>

lemma SkipUnset_spec:
  fixes s :: enum_state
  assumes "counts_trailing_zeros ctz" "p \<le> 64"
  defines "q \<equiv> SkipUnset ctz s p"
  shows "p \<le> q" "q \<le> 64" "\<And>i. p \<le> i \<Longrightarrow> i < q \<Longrightarrow> \<not> bit s i" "q < 64 \<Longrightarrow> bit s q"
proof -
  let ?t = "drop_bit p s"
  have bits: "bit ?t i \<longleftrightarrow> bit s (p + i)" for i by (simp add: bit_drop_bit_eq)
  have q: "q = (if ?t = 0 then 64 else p + ctz ?t)"
    unfolding q_def SkipUnset_def Let_def kStateBits_def by (rule refl)
  show "p \<le> q" using q assms(2) by simp
  have zero: "\<not> bit s (p + i)" if "?t = 0" for i
    using that bits [of i] by simp
  have least: "bit s (p + ctz ?t)" "\<And>i. i < ctz ?t \<Longrightarrow> \<not> bit s (p + i)" if "?t \<noteq> 0"
    using assms(1) that bits unfolding counts_trailing_zeros_def by auto
  have "p + ctz ?t < 64" if "?t \<noteq> 0"
    using bit_imp_le_length [OF least(1) [OF that]] by simp
  then show "q \<le> 64"
    unfolding q by (auto intro: less_imp_le)
  show "\<not> bit s i" if "p \<le> i" "i < q" for i
    using zero [of "i - p"] least(2) [of "i - p"] that unfolding q by (cases "?t = 0") auto
  show "bit s q" if "q < 64"
    using least(1) that unfolding q by (cases "?t = 0") auto
qed

lemma filter_skip:
  fixes s :: enum_state
  assumes "counts_trailing_zeros ctz" "p \<le> 64"
  defines "q \<equiv> SkipUnset ctz s p"
  shows "filter (bit s) [p..<64] = filter (bit s) [q..<64]"
proof -
  have "[p..<64] = [p..<q] @ [q..<64]"
    using SkipUnset_spec(1,2) [OF assms(1,2), where s = s] unfolding q_def by (metis le_add_diff_inverse upt_add_eq_append)
  moreover have "filter (bit s) [p..<q] = []"
    using SkipUnset_spec(3) [OF assms(1,2), where s = s] unfolding q_def by (auto simp: filter_empty_conv)
  ultimately show ?thesis by simp
qed

lemma iterate_from:
  assumes "counts_trailing_zeros ctz" "k \<le> 63" "set_inv k s" "pos \<le> 64" "pos < 64 \<longrightarrow> bit s pos"
  shows "iterate ctz k s pos acc = Some (rev acc @ map int (filter (bit s) [pos..<64]))"
  using assms(4,5)
proof (induction "64 - pos" arbitrary: pos acc rule: less_induct)
  case less
  show ?case
  proof (cases "pos = 64")
    case True
    then show ?thesis by (simp add: iterate.simps iter_end_def kStateBits_def)
  next
    case False
    with less.prems have pos: "pos < 64" "bit s pos" by auto
    then have k: "pos \<le> k" using assms(3) by (simp add: set_inv_def)
    let ?n = "iter_next ctz k s pos"
    have n: "Suc pos \<le> ?n \<and> ?n \<le> 64 \<and> (?n < 64 \<longrightarrow> bit s ?n)
        \<and> filter (bit s) [Suc pos..<64] = filter (bit s) [?n..<64]"
    proof (cases "pos < k")
      case True
      with assms(2) have "Suc pos \<le> 64" by simp
      with True show ?thesis
        using SkipUnset_spec [OF assms(1), where p = "Suc pos" and s = s]
          filter_skip [OF assms(1), where p = "Suc pos" and s = s]
        by (simp add: iter_next_def)
    next
      case False
      then have "filter (bit s) [Suc pos..<64] = []"
        using assms(3) k by (auto simp: filter_empty_conv set_inv_def)
      with False show ?thesis using pos by (simp add: iter_next_def kStateBits_def)
    qed
    have "iterate ctz k s pos acc = iterate ctz k s ?n (int pos # acc)"
      using False k by (subst iterate.simps) (simp add: iter_end_def kStateBits_def iter_deref_def)
    also have "\<dots> = Some (rev (int pos # acc) @ map int (filter (bit s) [?n..<64]))"
      using less.hyps [of ?n] n pos by auto
    also have "\<dots> = Some (rev acc @ map int (filter (bit s) [pos..<64]))"
      using n pos by (simp add: upt_conv_Cons)
    finally show ?thesis .
  qed
qed

lemma members_sorted: "map int (filter (bit s) [0..<64]) = sorted_list_of_set (members s)"
proof -
  have "set (map int (filter (bit s) [0..<64])) = members s"
  proof (intro set_eqI iffI)
    fix v assume "v \<in> members s"
    then have "nat v < 64" "bit s (nat v)" "v = int (nat v)"
      using bit_imp_le_length [of s "nat v"] by (auto simp: members_def)
    then show "v \<in> set (map int (filter (bit s) [0..<64]))" by force
  qed (auto simp: members_def)
  moreover have "sorted (map int (filter (bit s) [0..<64]))"
    by (simp add: sorted_map sorted_wrt_filter flip: sorted_wrt_map)
  moreover have "distinct (map int (filter (bit s) [0..<64]))"
    by (simp add: distinct_map)
  ultimately show ?thesis by (metis sorted_list_of_set.idem_if_sorted_distinct)
qed

lemma EnumSet_elements_sorted:
  assumes "counts_trailing_zeros ctz" "k \<le> 63" "set_inv k s"
  shows "EnumSet_elements ctz k s = Some (sorted_list_of_set (members s))"
proof -
  have b: "iter_begin ctz s = SkipUnset ctz s 0" by (simp add: iter_begin_def)
  have "iterate ctz k s (iter_begin ctz s) []
      = Some (map int (filter (bit s) [iter_begin ctz s..<64]))"
    using iterate_from [OF assms, of "iter_begin ctz s" "[]"] SkipUnset_spec [OF assms(1), where p = 0 and s = s]
    by (simp add: b)
  then show ?thesis
    using filter_skip [OF assms(1), where p = 0 and s = s]
    by (simp add: EnumSet_elements_def b flip: members_sorted)
qed

section \<open>The full set\<close>

lemma EnumSet_All_members:
  assumes "k \<le> 63"
  shows "members (EnumSet_All k) = {0..int k}" "set_inv k (EnumSet_All k)"
proof -
  have "EnumSet_All k = 2 ^ k OR mask k"
    by (simp add: EnumSet_All_def mask_eq_exp_minus_1 Let_def)
  then have bits: "bit (EnumSet_All k) i \<longleftrightarrow> i = k \<or> i < k" for i
    using assms by (simp add: bit_or_iff bit_exp_iff bit_mask_iff) linarith
  show "set_inv k (EnumSet_All k)"
    by (simp add: set_inv_def bits)
  show "members (EnumSet_All k) = {0..int k}"
    unfolding members_def bits by auto
qed

section \<open>The enumerations kept in such sets\<close>

datatype FileType =
    kWalFile | kDBLockFile | kTableFile | kDescriptorFile | kCurrentFile | kTempFile
  | kInfoLogFile | kMetaDatabase | kIdentityFile | kOptionsFile | kBlobFile

definition FileType_val :: "FileType \<Rightarrow> int" where
  "FileType_val t = (case t of kWalFile \<Rightarrow> 0 | kDBLockFile \<Rightarrow> 1 | kTableFile \<Rightarrow> 2
     | kDescriptorFile \<Rightarrow> 3 | kCurrentFile \<Rightarrow> 4 | kTempFile \<Rightarrow> 5 | kInfoLogFile \<Rightarrow> 6
     | kMetaDatabase \<Rightarrow> 7 | kIdentityFile \<Rightarrow> 8 | kOptionsFile \<Rightarrow> 9 | kBlobFile \<Rightarrow> 10)"

datatype CacheEntryRole =
    kDataBlock | kFilterBlock | kFilterMetaBlock | kDeprecatedFilterBlock | kIndexBlock
  | kOtherBlock | kWriteBuffer | kCompressionDictionaryBuildingBuffer | kFilterConstruction
  | kBlockBasedTableReader | kFileMetadata | kBlobValue | kBlobCache | kMisc

definition CacheEntryRole_val :: "CacheEntryRole \<Rightarrow> int" where
  "CacheEntryRole_val r = (case r of kDataBlock \<Rightarrow> 0 | kFilterBlock \<Rightarrow> 1 | kFilterMetaBlock \<Rightarrow> 2
     | kDeprecatedFilterBlock \<Rightarrow> 3 | kIndexBlock \<Rightarrow> 4 | kOtherBlock \<Rightarrow> 5 | kWriteBuffer \<Rightarrow> 6
     | kCompressionDictionaryBuildingBuffer \<Rightarrow> 7 | kFilterConstruction \<Rightarrow> 8
     | kBlockBasedTableReader \<Rightarrow> 9 | kFileMetadata \<Rightarrow> 10 | kBlobValue \<Rightarrow> 11 | kBlobCache \<Rightarrow> 12
     | kMisc \<Rightarrow> 13)"

definition kNumCacheEntryRoles :: nat where
  "kNumCacheEntryRoles = nat (CacheEntryRole_val kMisc) + 1"

text \<open>\<open>kMaxValue\<close> of the two set types declared in options.h and cache.h.\<close>

definition FileTypeSet_max :: nat where
  "FileTypeSet_max = nat (FileType_val kBlobFile)"

definition CacheEntryRoleSet_max :: nat where
  "CacheEntryRoleSet_max = nat (CacheEntryRole_val kMisc)"

interpretation file_type_set: small_enum FileTypeSet_max
  by unfold_locales (simp add: FileTypeSet_max_def FileType_val_def)

interpretation cache_role_set: small_enum CacheEntryRoleSet_max
  by unfold_locales (simp add: CacheEntryRoleSet_max_def CacheEntryRole_val_def)

lemma FileType_val_valid: "valid_enumerator FileTypeSet_max (FileType_val t)"
  by (cases t) (simp_all add: valid_enumerator_def FileTypeSet_max_def FileType_val_def)

lemma CacheEntryRole_val_valid: "valid_enumerator CacheEntryRoleSet_max (CacheEntryRole_val r)"
  by (cases r) (simp_all add: valid_enumerator_def CacheEntryRoleSet_max_def CacheEntryRole_val_def)

lemma FileType_val_inject: "FileType_val s = FileType_val t \<longleftrightarrow> s = t"
  by (cases s; cases t) (simp_all add: FileType_val_def)

lemma CacheEntryRole_val_inject: "CacheEntryRole_val s = CacheEntryRole_val t \<longleftrightarrow> s = t"
  by (cases s; cases t) (simp_all add: CacheEntryRole_val_def)

section \<open>Properties\<close>

text \<open>A bit counter, for the witness.\<close>

fun count_zeros_from :: "nat \<Rightarrow> nat \<Rightarrow> enum_state \<Rightarrow> nat" where
  "count_zeros_from 0 i w = i"
| "count_zeros_from (Suc n) i w = (if bit w i then i else count_zeros_from n (Suc i) w)"

lemma count_zeros_from_spec:
  assumes "\<exists>j. i \<le> j \<and> j < i + n \<and> bit w j"
  shows "bit w (count_zeros_from n i w) \<and> (\<forall>j. i \<le> j \<and> j < count_zeros_from n i w \<longrightarrow> \<not> bit w j)"
  using assms
proof (induction n i w rule: count_zeros_from.induct)
  case (1 i w)
  then obtain j where "i \<le> j" "j < i" by auto
  then show ?case by simp
next
  case (2 n i w)
  show ?case
  proof (cases "bit w i")
    case False
    then have "\<exists>j. Suc i \<le> j \<and> j < Suc i + n \<and> bit w j"
      using 2(2) by (metis add_Suc_right add_Suc Suc_leI le_neq_implies_less)
    with 2(1) [OF False] False show ?thesis
      by (metis Suc_leI count_zeros_from.simps(2) le_neq_implies_less)
  qed auto
qed

lemma counts_trailing_zeros_sample: "counts_trailing_zeros (count_zeros_from 64 0)"
proof -
  have "bit w (count_zeros_from 64 0 w) \<and> (\<forall>i < count_zeros_from 64 0 w. \<not> bit w i)"
    if "w \<noteq> 0" for w :: enum_state
  proof -
    from that obtain j where "bit w j" by (metis bit_eqI bit_0_eq bot_apply bot_bool_def)
    moreover have "j < 64" using \<open>bit w j\<close> bit_imp_le_length by fastforce
    ultimately have "\<exists>j. 0 \<le> j \<and> j < 0 + 64 \<and> bit w j" by auto
    from count_zeros_from_spec [OF this] show ?thesis by simp
  qed
  then show ?thesis by (simp add: counts_trailing_zeros_def)
qed

text \<open>
  C10. Iterating a set from \<open>begin()\<close> to \<open>end()\<close> ends and yields exactly its members, each once,
  in increasing order of the enumerators' values.
\<close>

theorem iteration_yields_members:
  assumes "counts_trailing_zeros ctz" "k \<le> 63" "set_inv k s"
  shows "EnumSet_elements ctz k s = Some (sorted_list_of_set (members s))"
  by (rule EnumSet_elements_sorted [OF assms])

theorem iteration_yields_members_witness:
  "EnumSet_elements (count_zeros_from 64 0) 10 0x412 = Some (sorted_list_of_set (members 0x412))"
proof (rule iteration_yields_members [OF counts_trailing_zeros_sample])
  have "bit (0x412 :: enum_state) i \<longrightarrow> i \<le> 10" if "i < 64" for i
  proof -
    have "\<forall>i \<in> set [0..<64]. bit (0x412 :: enum_state) i \<longrightarrow> i \<le> 10" by code_simp
    with that show ?thesis by simp
  qed
  moreover have "bit (0x412 :: enum_state) i \<Longrightarrow> i < 64" for i
    using bit_imp_le_length [of "0x412 :: enum_state" i] by simp
  ultimately show "set_inv 10 0x412" by (auto simp: set_inv_def)
qed simp

text \<open>
  C11. The operations implement the operations of finite sets: on a set over the enumerators
  \<open>0..k\<close> and a valid enumerator, adding and removing yield again such a set with that value
  inserted or deleted, the boolean results of \<open>Add\<close> and \<open>Remove\<close> say whether the set changed, and
  \<open>Contains\<close> is membership; an invalid enumerator fails the assertion in all of them.
\<close>

theorem set_operations:
  assumes "k \<le> 63" "set_inv k s"
  shows "if valid_enumerator k v
    then \<exists>t u. EnumSet_Add k s v = Some (v \<notin> members s, t) \<and> With k s v = Some t \<and>
           set_inv k t \<and> members t = insert v (members s) \<and>
           EnumSet_Remove k s v = Some (v \<in> members s, u) \<and> Without k s v = Some u \<and>
           set_inv k u \<and> members u = members s - {v} \<and> Contains k s v = Some (v \<in> members s)
    else EnumSet_Add k s v = None \<and> With k s v = None \<and> EnumSet_Remove k s v = None \<and>
         Without k s v = None \<and> Contains k s v = None"
  by (rule small_enum.operations_law [OF small_enum.intro [OF assms(1)] assms(2)])

theorem set_operations_witness:
  "\<exists>t. EnumSet_Add 10 0 3 = Some (True, t) \<and> members t = {3}"
  using set_operations [of 10 0 3]
  by (auto simp: set_inv_def valid_enumerator_def members_def)

text \<open>
  A set of file types built from a list of enumerators holds exactly these, whatever their order
  and repetitions, and \<open>operator==\<close> of two such sets is equality of the enumerators listed.
\<close>

theorem sets_of_enumerators:
  "\<exists>t u. EnumSet_of FileTypeSet_max (map FileType_val fs) = Some t \<and>
     members t = FileType_val ` set fs \<and>
     EnumSet_of FileTypeSet_max (map FileType_val gs) = Some u \<and>
     (EnumSet_eq t u \<longleftrightarrow> set fs = set gs)"
proof -
  obtain t where t: "EnumSet_of FileTypeSet_max (map FileType_val fs) = Some t"
      "members t = FileType_val ` set fs"
    using file_type_set.EnumSet_of_members [of "map FileType_val fs"] FileType_val_valid by auto
  obtain u where u: "EnumSet_of FileTypeSet_max (map FileType_val gs) = Some u"
      "members u = FileType_val ` set gs"
    using file_type_set.EnumSet_of_members [of "map FileType_val gs"] FileType_val_valid by auto
  have "inj FileType_val" by (simp add: inj_def FileType_val_inject)
  then have "EnumSet_eq t u \<longleftrightarrow> set fs = set gs"
    unfolding EnumSet_eq_def members_eq_iff [symmetric] t(2) u(2) by (rule inj_image_eq_iff)
  with t u show ?thesis by blast
qed

end
