(* ===== verification/MetadataModel.thy ===== *)
theory MetadataModel
  imports EnumSet
begin

text \<open>
  include/rocksdb/metadata.h: the records that describe the files of a database, with their
  constructors. The inheritance of the structs is record extension. The numbers are \<open>uint64_t\<close>
  values that are only copied, kept at their width; a failed \<open>assert\<close> is None. Members a
  constructor leaves uninitialised have no determined value, so they are the argument \<open>indet\<close>.
\<close>

section \<open>Files\<close>

type_synonym uint64 = "64 word"

datatype Temperature = kUnknownTemperature | kHot | kWarm | kCold | kLastTemperature

record FileStorageInfo =
  relative_filename :: string
  fi_directory :: string
  file_number :: uint64
  file_type :: FileType
  file_size :: uint64
  temperature :: Temperature
  file_checksum :: string
  file_checksum_func_name :: string

record LiveFileStorageInfo = FileStorageInfo +
  replacement_contents :: string
  trim_to_size :: bool

record SstFileMetaData = FileStorageInfo +
  smallest_seqno :: uint64
  largest_seqno :: uint64
  smallestkey :: string
  largestkey :: string
  num_reads_sampled :: uint64
  being_compacted :: bool
  num_entries :: uint64
  num_deletions :: uint64
  oldest_blob_file_number :: uint64
  oldest_ancester_time :: uint64
  file_creation_time :: uint64
  epoch_number :: uint64
  smallest :: string
  largest :: string
  sst_name :: string
  sst_db_path :: string

record LiveFileMetaData = SstFileMetaData +
  column_family_name :: string
  lf_level :: int

definition FileStorageInfo_default :: FileStorageInfo where
  "FileStorageInfo_default = \<lparr>relative_filename = [], fi_directory = [], file_number = 0,
     file_type = kTempFile, file_size = 0, temperature = kUnknownTemperature, file_checksum = [],
     file_checksum_func_name = []\<rparr>"

definition LiveFileStorageInfo_default :: LiveFileStorageInfo where
  "LiveFileStorageInfo_default = FileStorageInfo.extend FileStorageInfo_default
     (LiveFileStorageInfo.fields [] False)"

definition SstFileMetaData_default :: SstFileMetaData where
  "SstFileMetaData_default = FileStorageInfo.extend (FileStorageInfo_default\<lparr>file_type := kTableFile\<rparr>)
     (SstFileMetaData.fields 0 0 [] [] 0 False 0 0 0 0 0 0 [] [] [] [])"

text \<open>
  The two names a file gets: the relative name without and the deprecated name with a leading slash.
  Indexing an empty \<open>std::string\<close> at 0 yields the terminator.
\<close>

definition first_char :: "string \<Rightarrow> char" where
  "first_char s = (case s of [] \<Rightarrow> NUL | c # cs \<Rightarrow> c)"

definition sst_names :: "string \<Rightarrow> (string \<times> string) option" where
  "sst_names file_name =
     (if file_name \<noteq> [] then
        (let (rel, name) =
           (if first_char file_name = CHR ''/'' then (drop 1 file_name, file_name)
            else (file_name, ''/'' @ file_name)) in
         if length rel + 1 = length name \<and> first_char rel \<noteq> CHR ''/'' \<and> first_char name = CHR ''/''
         then Some (rel, name) else None)
      else Some ([], []))"

definition SstFileMetaData_new ::
    "string \<Rightarrow> uint64 \<Rightarrow> string \<Rightarrow> uint64 \<Rightarrow> uint64 \<Rightarrow> uint64 \<Rightarrow> string \<Rightarrow> string \<Rightarrow> uint64 \<Rightarrow> bool \<Rightarrow>
     Temperature \<Rightarrow> uint64 \<Rightarrow> uint64 \<Rightarrow> uint64 \<Rightarrow> uint64 \<Rightarrow> string \<Rightarrow> string \<Rightarrow> SstFileMetaData option" where
  "SstFileMetaData_new file_name number directory sz smallest_seq largest_seq smallest_k largest_k
       reads compacted temp oldest_blob ancester creation epoch checksum func =
     (case sst_names file_name of
        None \<Rightarrow> None
      | Some (rel, name) \<Rightarrow>
          Some (FileStorageInfo.extend
            (FileStorageInfo_default\<lparr>relative_filename := rel, fi_directory := directory,
               file_number := number, file_type := kTableFile, file_size := sz,
               temperature := temp, file_checksum := checksum, file_checksum_func_name := func\<rparr>)
            (SstFileMetaData.fields smallest_seq largest_seq smallest_k largest_k reads compacted
               0 0 oldest_blob ancester creation epoch [] [] name directory)))"

definition LiveFileMetaData_default :: LiveFileMetaData where
  "LiveFileMetaData_default = SstFileMetaData.extend SstFileMetaData_default
     (LiveFileMetaData.fields [] 0)"

section \<open>Blobs, levels and column families\<close>

record BlobMetaData =
  blob_file_number :: uint64
  blob_file_name :: string
  blob_file_path :: string
  bm_file_size :: uint64
  total_blob_count :: uint64
  total_blob_bytes :: uint64
  garbage_blob_count :: uint64
  garbage_blob_bytes :: uint64
  checksum_method :: string
  checksum_value :: string

definition BlobMetaData_default :: BlobMetaData where
  "BlobMetaData_default = \<lparr>blob_file_number = 0, blob_file_name = [], blob_file_path = [],
     bm_file_size = 0, total_blob_count = 0, total_blob_bytes = 0, garbage_blob_count = 0,
     garbage_blob_bytes = 0, checksum_method = [], checksum_value = []\<rparr>"

text \<open>The constructor's last two parameters are the checksum and the name of its function.\<close>

definition BlobMetaData_new ::
    "uint64 \<Rightarrow> string \<Rightarrow> string \<Rightarrow> uint64 \<Rightarrow> uint64 \<Rightarrow> uint64 \<Rightarrow> uint64 \<Rightarrow> uint64 \<Rightarrow> string \<Rightarrow> string \<Rightarrow>
       BlobMetaData" where
  "BlobMetaData_new number name path sz count bytes g_count g_bytes checksum func =
     \<lparr>blob_file_number = number, blob_file_name = name, blob_file_path = path, bm_file_size = sz,
      total_blob_count = count, total_blob_bytes = bytes, garbage_blob_count = g_count,
      garbage_blob_bytes = g_bytes, checksum_method = checksum, checksum_value = func\<rparr>"

record LevelMetaData =
  lm_level :: int
  lm_size :: uint64
  lm_files :: "SstFileMetaData list"

definition LevelMetaData_new :: "int \<Rightarrow> uint64 \<Rightarrow> SstFileMetaData list \<Rightarrow> LevelMetaData" where
  "LevelMetaData_new level sz files = \<lparr>lm_level = level, lm_size = sz, lm_files = files\<rparr>"

record ColumnFamilyMetaData =
  cf_size :: uint64
  cf_file_count :: uint64
  cf_name :: string
  cf_levels :: "LevelMetaData list"
  cf_blob_file_size :: uint64
  cf_blob_file_count :: uint64
  cf_blob_files :: "BlobMetaData list"

definition ColumnFamilyMetaData_default :: ColumnFamilyMetaData where
  "ColumnFamilyMetaData_default = \<lparr>cf_size = 0, cf_file_count = 0, cf_name = [], cf_levels = [],
     cf_blob_file_size = 0, cf_blob_file_count = 0, cf_blob_files = []\<rparr>"

definition ColumnFamilyMetaData_new ::
    "uint64 \<Rightarrow> string \<Rightarrow> uint64 \<Rightarrow> LevelMetaData list \<Rightarrow> ColumnFamilyMetaData" where
  "ColumnFamilyMetaData_new indet name sz levels = \<lparr>cf_size = sz, cf_file_count = indet,
     cf_name = name, cf_levels = levels, cf_blob_file_size = 0, cf_blob_file_count = 0,
     cf_blob_files = []\<rparr>"

record ExportImportFilesMetaData =
  db_comparator_name :: string
  ei_files :: "LiveFileMetaData list"

section \<open>The names of a file\<close>

lemma sst_names_cases:
  "sst_names [] = Some ([], [])"
  "sst_names (CHR ''/'' # rest) =
     (if first_char rest = CHR ''/'' then None else Some (rest, CHR ''/'' # rest))"
  "c \<noteq> CHR ''/'' \<Longrightarrow> sst_names (c # rest) = Some (c # rest, CHR ''/'' # c # rest)"
  by (simp_all add: sst_names_def first_char_def)

lemma first_char_slash: "first_char s = CHR ''/'' \<longleftrightarrow> (\<exists>rest. s = CHR ''/'' # rest)"
  by (auto simp: first_char_def NUL_def split: list.splits)

lemma sst_names_None: "sst_names s = None \<longleftrightarrow> (\<exists>rest. s = ''//'' @ rest)"
proof (cases s)
  case (Cons c rest)
  then show ?thesis by (cases "c = CHR ''/''") (auto simp: sst_names_cases first_char_slash)
qed (simp add: sst_names_cases)

lemma sst_names_Some:
  assumes "sst_names s = Some (rel, name)" "s \<noteq> []"
  shows "name = CHR ''/'' # rel" "first_char rel \<noteq> CHR ''/''" "s = rel \<or> s = name"
proof -
  obtain c rest where s: "s = c # rest" using assms(2) by (cases s) auto
  have "name = CHR ''/'' # rel \<and> first_char rel \<noteq> CHR ''/'' \<and> (s = rel \<or> s = name)"
    using assms(1) unfolding s
    by (cases "c = CHR ''/''") (auto simp: sst_names_cases first_char_def split: if_splits)
  then show "name = CHR ''/'' # rel" "first_char rel \<noteq> CHR ''/''" "s = rel \<or> s = name" by auto
qed

lemma sst_names_again:
  assumes "sst_names s = Some (rel, name)" "s \<noteq> []"
  shows "sst_names name = Some (rel, name)" "rel \<noteq> [] \<Longrightarrow> sst_names rel = Some (rel, name)"
proof -
  note n = sst_names_Some [OF assms]
  show "sst_names name = Some (rel, name)" using n(2) by (simp add: n(1) sst_names_cases)
  assume "rel \<noteq> []"
  then obtain c rest where "rel = c # rest" by (cases rel) auto
  then show "sst_names rel = Some (rel, name)" using n(2)
    by (simp add: n(1) sst_names_cases first_char_def)
qed

lemma SstFileMetaData_names:
  assumes "SstFileMetaData_new s number directory sz smallest_seq largest_seq smallest_k largest_k
       reads compacted temp oldest_blob ancester creation epoch checksum func = Some m"
  shows "sst_names s = Some (relative_filename m, sst_name m)"
proof (cases "sst_names s")
  case (Some names)
  with assms show ?thesis
    by (cases names) (auto simp: SstFileMetaData_new_def FileStorageInfo.defs SstFileMetaData.defs)
qed (use assms in \<open>simp add: SstFileMetaData_new_def\<close>)

section \<open>Properties\<close>

text \<open>
  The constructor of \<open>SstFileMetaData\<close> passes its assertions exactly if the file name does not
  start with two slashes. Otherwise a non-empty file name gives a relative name without and a
  deprecated name with the leading slash, and passing either of them back (the relative one unless
  the file name was only a slash) builds the same metadata.
\<close>

theorem sst_file_names:
  "let build = (\<lambda>s. SstFileMetaData_new s number directory sz smallest_seq largest_seq smallest_k
       largest_k reads compacted temp oldest_blob ancester creation epoch checksum func) in
   (build s = None \<longleftrightarrow> (\<exists>rest. s = ''//'' @ rest)) \<and>
   (\<forall>m. build s = Some m \<and> s \<noteq> [] \<longrightarrow>
      sst_name m = ''/'' @ relative_filename m \<and>
      (\<nexists>rest. relative_filename m = ''/'' @ rest) \<and>
      build (sst_name m) = Some m \<and>
      (s \<noteq> ''/'' \<longrightarrow> build (relative_filename m) = Some m))"
proof -
  let ?build = "\<lambda>s. SstFileMetaData_new s number directory sz smallest_seq largest_seq smallest_k
       largest_k reads compacted temp oldest_blob ancester creation epoch checksum func"
  have none: "?build s = None \<longleftrightarrow> (\<exists>rest. s = ''//'' @ rest)" for s
    using sst_names_None [of s] by (auto simp: SstFileMetaData_new_def split: option.splits)
  have some: "sst_name m = ''/'' @ relative_filename m \<and>
      (\<nexists>rest. relative_filename m = ''/'' @ rest) \<and> ?build (sst_name m) = Some m \<and>
      (s \<noteq> ''/'' \<longrightarrow> ?build (relative_filename m) = Some m)"
    if "?build s = Some m" "s \<noteq> []" for m
  proof -
    define rel name where "rel = relative_filename m" and "name = sst_name m"
    with SstFileMetaData_names [OF that(1)]
    have names: "sst_names s = Some (rel, name)" "relative_filename m = rel" "sst_name m = name"
      by simp_all
    note n = sst_names_Some [OF names(1) that(2)] sst_names_again [OF names(1) that(2)]
    have "?build name = ?build s" using n(4) names(1) by (simp add: SstFileMetaData_new_def)
    moreover have "s \<noteq> ''/'' \<Longrightarrow> ?build rel = ?build s"
      using n names(1) by (cases "rel = []") (auto simp: SstFileMetaData_new_def)
    ultimately show ?thesis using that(1) n(1,2) names(2,3) by (auto simp: first_char_slash)
  qed
  show ?thesis unfolding Let_def
    by (rule conjI [OF none], intro allI impI, elim conjE, rule some)
qed

theorem sst_file_names_witness:
  "\<exists>m. SstFileMetaData_new ''/000123.sst'' 123 ''/db'' 10 1 2 ''a'' ''b'' 0 False kHot 0 0 0 1 ''0'' ''crc''
       = Some m \<and>
     SstFileMetaData_new (relative_filename m) 123 ''/db'' 10 1 2 ''a'' ''b'' 0 False kHot 0 0 0 1 ''0'' ''crc''
       = Some m"
proof -
  obtain m where m: "SstFileMetaData_new ''/000123.sst'' 123 ''/db'' 10 1 2 ''a'' ''b'' 0 False kHot
      0 0 0 1 ''0'' ''crc'' = Some m"
    by (simp add: SstFileMetaData_new_def sst_names_cases first_char_def)
  from sst_file_names [where s = "''/000123.sst''" and number = 123 and directory = "''/db''"
      and sz = 10 and smallest_seq = 1 and largest_seq = 2 and smallest_k = "''a''"
      and largest_k = "''b''" and reads = 0 and compacted = False and temp = kHot
      and oldest_blob = 0 and ancester = 0 and creation = 0 and epoch = 1 and checksum = "''0''"
      and func = "''crc''", unfolded Let_def] m
  show ?thesis by blast
qed

end
