(* ===== verification/FileSystemModel.thy ===== *)
theory FileSystemModel
  imports IOStatusModel MetadataModel
begin

unbundle bit_operations_syntax

text \<open>
  include/rocksdb/file_system.h: the records of the file layer and the default implementations of
  its virtual functions; of include/rocksdb/env.h the types these use. The wrappers are in
  \<open>FileWrappers\<close>.

  An operation of a file or file system acts on a state \<open>'s\<close> (the object with everything behind
  it) and is passed as a function, so a default implementation that calls other virtual functions
  takes those as arguments. \<open>IODebugContext*\<close>, buffers and callback arguments are opaque handles;
  outputs through pointers are returned, after the status. \<open>size_t\<close> and \<open>uint64_t\<close> values that are
  computed with are 64-bit words.
\<close>

type_synonym pointer_handle = "nat option" \<comment> \<open>an opaque pointer, None for null\<close>

section \<open>Data\<close>

datatype Env_IOPriority = IO_LOW | IO_MID | IO_HIGH | IO_USER | IO_TOTAL

datatype IOActivity =
    kFlush | kCompaction | kDBOpen | kGet | kMultiGet | kDBIterator | kVerifyDBChecksum
  | kVerifyFileChecksums | kGetEntity | kMultiGetEntity | kUnknownActivity

datatype WriteLifeTimeHint =
    WLTH_NOT_SET | WLTH_NONE | WLTH_SHORT | WLTH_MEDIUM | WLTH_LONG | WLTH_EXTREME

definition kDefaultPageSize :: nat where "kDefaultPageSize = 4 * 1024"

record FileAttributes =
  fa_name :: string
  fa_size_bytes :: uint64

datatype IOPriority = kIOLow | kIOHigh | kIOTotal

datatype IOType =
    kData | kFilter | kIndex | kMetadata | kWAL | kManifest | kLog | kUnknownIOType | kInvalid

datatype FSSupportedOps = kAsyncIO | kFSBuffer | kVerifyAndReconstructRead

definition FSSupportedOps_val :: "FSSupportedOps \<Rightarrow> nat" where
  "FSSupportedOps_val op = (case op of kAsyncIO \<Rightarrow> 0 | kFSBuffer \<Rightarrow> 1 | kVerifyAndReconstructRead \<Rightarrow> 2)"

record IOOptions =
  io_timeout :: int \<comment> \<open>microseconds\<close>
  io_prio :: IOPriority
  rate_limiter_priority :: Env_IOPriority
  io_type :: IOType
  property_bag :: "string \<rightharpoonup> string"
  force_dir_fsync :: bool
  do_not_recurse :: bool
  verify_and_reconstruct_read :: bool
  io_activity :: IOActivity

definition IOOptions_new :: "bool \<Rightarrow> IOOptions" where
  "IOOptions_new force = \<lparr>io_timeout = 0, io_prio = kIOLow, rate_limiter_priority = IO_TOTAL,
     io_type = kUnknownIOType, property_bag = Map.empty, force_dir_fsync = force,
     do_not_recurse = False, verify_and_reconstruct_read = False, io_activity = kUnknownActivity\<rparr>"

definition IOOptions_default :: IOOptions where
  "IOOptions_default = IOOptions_new False"

datatype FsyncReason = kNewFileSynced | kFileRenamed | kDirRenamed | kFileDeleted | kDefault

record DirFsyncOptions =
  fsync_reason :: FsyncReason
  renamed_new_name :: string

text \<open>The context a caller passes to collect diagnostics; \<open>counters\<close> is an ordered map.\<close>

record IODebugContext =
  dbg_file_path :: string
  counters :: "string \<rightharpoonup> uint64"
  dbg_msg :: string
  dbg_request_id :: string
  trace_data :: uint64

definition kRequestID :: nat where "kRequestID = 0"

definition IODebugContext_new :: IODebugContext where
  "IODebugContext_new = \<lparr>dbg_file_path = [], counters = Map.empty, dbg_msg = [],
     dbg_request_id = [], trace_data = 0\<rparr>"

text \<open>\<open>std::map::emplace\<close> keeps the value of a key that is present.\<close>

definition AddCounter :: "string \<Rightarrow> uint64 \<Rightarrow> IODebugContext \<Rightarrow> IODebugContext" where
  "AddCounter name v d =
     d\<lparr>counters := (case counters d name of
         None \<Rightarrow> (counters d)(name \<mapsto> v)
       | Some _ \<Rightarrow> counters d)\<rparr>"

definition SetRequestId :: "string \<Rightarrow> IODebugContext \<Rightarrow> IODebugContext" where
  "SetRequestId request_id d =
     d\<lparr>dbg_request_id := request_id, trace_data := trace_data d OR push_bit kRequestID 1\<rparr>"

text \<open>
  \<open>ToString\<close> walks the map in the order of its keys; \<open>keys\<close> is the sorted list of them.
\<close>

fun print_counters :: "(string \<rightharpoonup> uint64) \<Rightarrow> string list \<Rightarrow> string" where
  "print_counters m [] = []"
| "print_counters m (k # ks) =
     k @ '' = '' @ show_nat (case m k of Some v \<Rightarrow> unat v | None \<Rightarrow> 0) @ '','' @ print_counters m ks"

definition Debug_ToString :: "string list \<Rightarrow> IODebugContext \<Rightarrow> string" where
  "Debug_ToString keys d = dbg_file_path d @ '', '' @ print_counters (counters d) keys @ dbg_msg d"

record DataVerificationInfo =
  dv_checksum :: Slice

record FSReadRequest =
  rr_offset :: uint64
  rr_len :: nat
  rr_scratch :: pointer_handle
  rr_result :: Slice
  rr_status :: Status
  rr_fs_scratch :: pointer_handle

record FSMemoryMappedFileBuffer =
  mm_base :: pointer_handle
  mm_length :: nat

definition FSMemoryMappedFileBuffer_new :: "pointer_handle \<Rightarrow> nat \<Rightarrow> FSMemoryMappedFileBuffer" where
  "FSMemoryMappedFileBuffer_new base len = \<lparr>mm_base = base, mm_length = len\<rparr>"

definition GetBase :: "FSMemoryMappedFileBuffer \<Rightarrow> pointer_handle" where
  "GetBase b = mm_base b"

definition GetLen :: "FSMemoryMappedFileBuffer \<Rightarrow> nat" where
  "GetLen b = mm_length b"

section \<open>Default implementations of FileSystem\<close>

text \<open>The status of an operation a class does not support; the text is that of the literal.\<close>

definition unsupported :: "string \<Rightarrow> Status" where
  "unsupported text = IOStatus_init kNotSupported kNone (Slice_string text) Slice_empty"

definition SupportedOps_default :: "64 word" where
  "SupportedOps_default = 0 OR push_bit (FSSupportedOps_val kAsyncIO) 1"

text \<open>The value of an I/O status variable after assigning it the result of a call.\<close>

definition assigned :: "Status \<Rightarrow> Status \<Rightarrow> Status" where
  "assigned old st = fst (IOStatus_move_assign False old st)"

text \<open>\<open>std::vector::resize\<close>\<close>

definition resize :: "'a \<Rightarrow> nat \<Rightarrow> 'a list \<Rightarrow> 'a list" where
  "resize fill n xs = take n xs @ replicate (n - length xs) fill"

text \<open>
  \<open>GetChildrenFileAttributes\<close>. \<open>get_size\<close> gets the old value of the output and returns the new
  one. The loop fills the resized vector \<open>result\<close> from the front, at \<open>k\<close>.
\<close>

type_synonym 's get_children = "string \<Rightarrow> IOOptions \<Rightarrow> pointer_handle \<Rightarrow> 's \<Rightarrow> Status \<times> string list \<times> 's"
type_synonym 's get_size =
  "string \<Rightarrow> IOOptions \<Rightarrow> uint64 \<Rightarrow> pointer_handle \<Rightarrow> 's \<Rightarrow> Status \<times> uint64 \<times> 's"
type_synonym 's file_exists = "string \<Rightarrow> IOOptions \<Rightarrow> pointer_handle \<Rightarrow> 's \<Rightarrow> Status \<times> 's"

fun attributes_loop ::
    "'s get_size \<Rightarrow> 's file_exists \<Rightarrow> string \<Rightarrow> IOOptions \<Rightarrow> pointer_handle \<Rightarrow> string list \<Rightarrow>
     FileAttributes list \<Rightarrow> nat \<Rightarrow> Status \<Rightarrow> 's \<Rightarrow> Status \<times> FileAttributes list \<times> 's" where
  "attributes_loop get_size exists dir options dbg [] result k st0 s =
     (IO_OK, resize \<lparr>fa_name = [], fa_size_bytes = 0\<rparr> k result, s)"
| "attributes_loop get_size exists dir options dbg (c # cs) result k st0 s =
     (let path = dir @ ''/'' @ c in
      case get_size path options (fa_size_bytes (result ! k)) dbg s of
        (st, sz, s1) \<Rightarrow>
          (let result = result[k := (result ! k)\<lparr>fa_size_bytes := sz\<rparr>];
               st = assigned st0 st in
           if \<not> status_ok st then
             (case exists path options dbg s1 of
                (e, s2) \<Rightarrow>
                  (if IsNotFound e
                   then attributes_loop get_size exists dir options dbg cs result k st s2
                   else (st, result, s2)))
           else
             attributes_loop get_size exists dir options dbg cs
               (result[k := (result ! k)\<lparr>fa_name := c\<rparr>]) (k + 1) st s1))"

definition GetChildrenFileAttributes ::
    "'s get_children \<Rightarrow> 's get_size \<Rightarrow> 's file_exists \<Rightarrow> string \<Rightarrow> IOOptions \<Rightarrow>
     FileAttributes list \<Rightarrow> pointer_handle \<Rightarrow> 's \<Rightarrow> Status \<times> FileAttributes list \<times> 's" where
  "GetChildrenFileAttributes children get_size exists dir options result dbg s =
     (case children dir options dbg s of
        (st, names, s1) \<Rightarrow>
          (if \<not> status_ok st then (st, result, s1)
           else attributes_loop get_size exists dir options dbg names
                  (resize \<lparr>fa_name = [], fa_size_bytes = 0\<rparr> (length names) result) 0 st s1))"

section \<open>Default implementations of the files\<close>

type_synonym 's read_at =
  "uint64 \<Rightarrow> nat \<Rightarrow> IOOptions \<Rightarrow> Slice \<Rightarrow> pointer_handle \<Rightarrow> pointer_handle \<Rightarrow> 's \<Rightarrow> Status \<times> Slice \<times> 's"

text \<open>\<open>FSRandomAccessFile::MultiRead\<close>: None is a failed assertion or a read past the array.\<close>

definition serve :: "'s read_at \<Rightarrow> IOOptions \<Rightarrow> pointer_handle \<Rightarrow> FSReadRequest \<Rightarrow> 's \<Rightarrow> FSReadRequest \<times> 's" where
  "serve read options dbg req s =
     (case read (rr_offset req) (rr_len req) options (rr_result req) (rr_scratch req) dbg s of
        (st, res, s1) \<Rightarrow> (req\<lparr>rr_result := res, rr_status := assigned (rr_status req) st\<rparr>, s1))"

fun multi_read_loop ::
    "'s read_at \<Rightarrow> IOOptions \<Rightarrow> pointer_handle \<Rightarrow> FSReadRequest list \<Rightarrow> 's \<Rightarrow> FSReadRequest list \<times> 's" where
  "multi_read_loop read options dbg [] s = ([], s)"
| "multi_read_loop read options dbg (req # reqs) s =
     (let (req1, s1) = serve read options dbg req s;
          (reqs1, s2) = multi_read_loop read options dbg reqs s1 in
      (req1 # reqs1, s2))"

definition MultiRead_default ::
    "'s read_at \<Rightarrow> FSReadRequest list option \<Rightarrow> nat \<Rightarrow> IOOptions \<Rightarrow> pointer_handle \<Rightarrow> 's \<Rightarrow>
       (Status \<times> FSReadRequest list \<times> 's) option" where
  "MultiRead_default read reqs num_reqs options dbg s =
     (case reqs of
        None \<Rightarrow> None
      | Some rs \<Rightarrow>
          (if num_reqs > length rs then None
           else (case multi_read_loop read options dbg (take num_reqs rs) s of
                   (done_reqs, s1) \<Rightarrow> Some (IO_OK, done_reqs @ drop num_reqs rs, s1))))"

text \<open>\<open>ReadAsync\<close> reads at once; the callback acts on the state.\<close>

definition ReadAsync_default ::
    "'s read_at \<Rightarrow> FSReadRequest \<Rightarrow> IOOptions \<Rightarrow> (FSReadRequest \<Rightarrow> pointer_handle \<Rightarrow> 's \<Rightarrow> 's) \<Rightarrow>
     pointer_handle \<Rightarrow> pointer_handle \<Rightarrow> 's \<Rightarrow> Status \<times> FSReadRequest \<times> 's" where
  "ReadAsync_default read req opts cb cb_arg dbg s =
     (case serve read opts dbg req s of
        (req1, s1) \<Rightarrow> (IO_OK, req1, cb req1 cb_arg s1))"

definition Poll_default :: "nat list \<Rightarrow> nat \<Rightarrow> Status" where
  "Poll_default io_handles min_completions = IO_OK"

definition AbortIO_default :: "nat list \<Rightarrow> Status" where
  "AbortIO_default io_handles = IO_OK"

text \<open>The members of \<open>FSWritableFile\<close> itself, which its default implementations use.\<close>

record WritableFileBase =
  last_preallocated_block :: uint64
  preallocation_block_size :: uint64
  io_priority :: Env_IOPriority
  write_hint :: WriteLifeTimeHint
  strict_bytes_per_sync :: bool

definition FSWritableFile_default :: WritableFileBase where
  "FSWritableFile_default = \<lparr>last_preallocated_block = 0, preallocation_block_size = 0,
     io_priority = IO_TOTAL, write_hint = WLTH_NOT_SET, strict_bytes_per_sync = False\<rparr>"

definition FSWritableFile_new :: "bool \<Rightarrow> WritableFileBase" where
  "FSWritableFile_new strict = \<lparr>last_preallocated_block = 0, preallocation_block_size = 0,
     io_priority = IO_TOTAL, write_hint = WLTH_NOT_SET, strict_bytes_per_sync = strict\<rparr>"

definition SetWriteLifeTimeHint :: "WriteLifeTimeHint \<Rightarrow> WritableFileBase \<Rightarrow> WritableFileBase" where
  "SetWriteLifeTimeHint hint b = b\<lparr>write_hint := hint\<rparr>"

definition GetWriteLifeTimeHint :: "WritableFileBase \<Rightarrow> WriteLifeTimeHint" where
  "GetWriteLifeTimeHint b = write_hint b"

definition SetIOPriority :: "Env_IOPriority \<Rightarrow> WritableFileBase \<Rightarrow> WritableFileBase" where
  "SetIOPriority pri b = b\<lparr>io_priority := pri\<rparr>"

definition GetIOPriority :: "WritableFileBase \<Rightarrow> Env_IOPriority" where
  "GetIOPriority b = io_priority b"

definition SetPreallocationBlockSize :: "uint64 \<Rightarrow> WritableFileBase \<Rightarrow> WritableFileBase" where
  "SetPreallocationBlockSize sz b = b\<lparr>preallocation_block_size := sz\<rparr>"

text \<open>The block size and the last allocated block.\<close>

definition GetPreallocationStatus :: "WritableFileBase \<Rightarrow> uint64 \<times> uint64" where
  "GetPreallocationStatus b = (preallocation_block_size b, last_preallocated_block b)"

text \<open>\<open>PrepareWrite\<close> ignores the status of \<open>Allocate\<close>.\<close>

type_synonym 's allocate = "uint64 \<Rightarrow> uint64 \<Rightarrow> IOOptions \<Rightarrow> pointer_handle \<Rightarrow> 's \<Rightarrow> Status \<times> 's"

definition PrepareWrite_default ::
    "'s allocate \<Rightarrow> uint64 \<Rightarrow> uint64 \<Rightarrow> IOOptions \<Rightarrow> pointer_handle \<Rightarrow> WritableFileBase \<times> 's \<Rightarrow>
       WritableFileBase \<times> 's" where
  "PrepareWrite_default allocate offset len options dbg = (\<lambda>(b, s).
     if preallocation_block_size b = 0 then (b, s)
     else
       let block_size = preallocation_block_size b;
           new_last = (offset + len + block_size - 1) div block_size in
       if new_last > last_preallocated_block b then
         let num_spanned = new_last - last_preallocated_block b;
             (st, s1) = allocate (block_size * last_preallocated_block b) (block_size * num_spanned)
                          options dbg s in
         (b\<lparr>last_preallocated_block := new_last\<rparr>, s1)
       else (b, s))"

section \<open>Statuses\<close>

lemma assigned_code [simp, status_simps]: "st_code (assigned old st) = st_code st"
  by (simp add: assigned_def IOStatus_move_assign_def)

lemma assigned_predicates [simp]:
  "status_ok (assigned old st) \<longleftrightarrow> status_ok st" "IsNotFound (assigned old st) \<longleftrightarrow> IsNotFound st"
  by (simp_all add: status_ok_def IsNotFound_def)

lemma assigned_same_severity: "st_sev old = st_sev st \<Longrightarrow> assigned old st = st"
  by (cases old; cases st) (simp add: assigned_def IOStatus_move_assign_def)

lemma unsupported_code [simp, status_simps]: "st_code (unsupported text) = kNotSupported"
  by (simp add: unsupported_def IOStatus_init_def IOStatus_code_def Status_io_def)

section \<open>Directory listings\<close>

text \<open>
  The reference: the children whose size could be read, with their sizes, and the first child
  that could not be read although it exists.
\<close>

definition vanished :: "(string \<Rightarrow> Status \<times> uint64) \<Rightarrow> (string \<Rightarrow> Status) \<Rightarrow> string \<Rightarrow> bool" where
  "vanished sz ex p \<longleftrightarrow> \<not> status_ok (fst (sz p)) \<and> IsNotFound (ex p)"

definition unreadable :: "(string \<Rightarrow> Status \<times> uint64) \<Rightarrow> (string \<Rightarrow> Status) \<Rightarrow> string \<Rightarrow> bool" where
  "unreadable sz ex p \<longleftrightarrow> \<not> status_ok (fst (sz p)) \<and> \<not> IsNotFound (ex p)"

definition listed :: "(string \<Rightarrow> Status \<times> uint64) \<Rightarrow> string \<Rightarrow> string list \<Rightarrow> FileAttributes list" where
  "listed sz dir cs = map (\<lambda>c. \<lparr>fa_name = c, fa_size_bytes = snd (sz (dir @ ''/'' @ c))\<rparr>)
     (filter (\<lambda>c. status_ok (fst (sz (dir @ ''/'' @ c)))) cs)"

lemma length_resize [simp]: "length (resize fill n xs) = n"
  by (simp add: resize_def)

lemma resize_shrink: "k \<le> length xs \<Longrightarrow> resize fill k xs = take k xs"
  by (simp add: resize_def)

lemma attributes_loop_spec:
  assumes "k + length cs \<le> length result"
    and "\<And>p old d s. get_size p options old d s = (fst (sz p), (if status_ok (fst (sz p)) then snd (sz p) else junk p old), s)"
    and "\<And>p d s. exists p options d s = (ex p, s)"
  shows "let (st, res, s') = attributes_loop get_size exists dir options dbg cs result k st0 s in s' = s \<and>
    (case find (\<lambda>c. unreadable sz ex (dir @ ''/'' @ c)) cs of
       None \<Rightarrow> st = IO_OK \<and> res = take k result @ listed sz dir cs
     | Some c \<Rightarrow> st_code st = st_code (fst (sz (dir @ ''/'' @ c))))"
  using assms(1)
proof (induction cs arbitrary: result k st0 s)
  case Nil
  then show ?case by (simp add: listed_def resize_shrink)
next
  case (Cons c cs)
  let ?p = "dir @ ''/'' @ c"
  consider (readable) "status_ok (fst (sz ?p))" | (gone) "vanished sz ex ?p" | (bad) "unreadable sz ex ?p"
    by (auto simp: vanished_def unreadable_def)
  then show ?case
  proof cases
    case readable
    define result' where "result' = result[k := \<lparr>fa_name = c, fa_size_bytes = snd (sz ?p)\<rparr>]"
    have "take (k + 1) result' = take k result @ [\<lparr>fa_name = c, fa_size_bytes = snd (sz ?p)\<rparr>]"
      using Cons.prems by (simp add: result'_def take_Suc_conv_app_nth)
    moreover have "result[k := (result ! k)\<lparr>fa_size_bytes := snd (sz ?p)\<rparr>,
        k := (result ! k)\<lparr>fa_size_bytes := snd (sz ?p), fa_name := c\<rparr>] = result'"
      by (cases "result ! k") (simp add: result'_def)
    moreover have "length result' = length result" "\<not> unreadable sz ex ?p"
      using readable by (simp_all add: result'_def unreadable_def)
    ultimately show ?thesis
      using readable Cons.prems Cons.IH [of "k + 1" result' "assigned st0 (fst (sz ?p))" s]
      by (auto simp: assms(2) listed_def Let_def split: option.splits prod.splits)
  next
    case gone
    have "\<not> unreadable sz ex ?p" using gone by (simp add: unreadable_def vanished_def)
    then show ?thesis
      using gone Cons.prems Cons.IH [of k "result[k := (result ! k)\<lparr>fa_size_bytes := junk ?p (fa_size_bytes (result ! k))\<rparr>]"
          "assigned st0 (fst (sz ?p))" s]
      by (auto simp: assms(2,3) vanished_def listed_def Let_def split: option.splits prod.splits)
  next
    case bad
    then show ?thesis by (simp add: assms(2,3) unreadable_def Let_def)
  qed
qed

section \<open>Reads\<close>

text \<open>A run of \<open>serve\<close> over the requests \<open>rs\<close>, through the states \<open>ss\<close>.\<close>

definition served_in_order ::
    "'s read_at \<Rightarrow> IOOptions \<Rightarrow> pointer_handle \<Rightarrow> FSReadRequest list \<Rightarrow> 's list \<Rightarrow> FSReadRequest list \<Rightarrow> bool" where
  "served_in_order read options dbg rs ss rs' \<longleftrightarrow>
     length ss = length rs + 1 \<and> length rs' = length rs \<and>
     (\<forall>i < length rs. serve read options dbg (rs ! i) (ss ! i) = (rs' ! i, ss ! (i + 1)))"

lemma multi_read_loop_run:
  "multi_read_loop read options dbg rs s = (rs', s') \<Longrightarrow>
     \<exists>ss. served_in_order read options dbg rs ss rs' \<and> ss ! 0 = s \<and> last ss = s'"
proof (induction rs arbitrary: s s' rs')
  case Nil
  then show ?case by (intro exI [of _ "[s]"]) (simp add: served_in_order_def)
next
  case (Cons req rs)
  obtain req1 s1 where req1: "serve read options dbg req s = (req1, s1)" by fastforce
  obtain rs1 s2 where rs1: "multi_read_loop read options dbg rs s1 = (rs1, s2)" by fastforce
  from Cons.IH [OF rs1] obtain ss where ss: "served_in_order read options dbg rs ss rs1"
      "ss ! 0 = s1" "last ss = s2" by blast
  have "served_in_order read options dbg (req # rs) (s # ss) (req1 # rs1)"
    using ss(1,2) req1 by (auto simp: served_in_order_def nth_Cons' less_Suc_eq_0_disj)
  moreover have "rs' = req1 # rs1" "s' = s2" using Cons.prems req1 rs1 by simp_all
  ultimately show ?case using ss(1,3)
    by (intro exI [of _ "s # ss"]) (auto simp: served_in_order_def)
qed

text \<open>The fields of a request that its submitter fills.\<close>

definition asked :: "FSReadRequest \<Rightarrow> uint64 \<times> nat \<times> pointer_handle \<times> pointer_handle" where
  "asked r = (rr_offset r, rr_len r, rr_scratch r, rr_fs_scratch r)"

lemma serve_frame: "serve read options dbg req s = (req', s') \<Longrightarrow> asked req' = asked req"
  by (auto simp: serve_def asked_def split: prod.splits)

lemma multi_read_loop_frame:
  "multi_read_loop read options dbg rs s = (rs', s') \<Longrightarrow> map asked rs' = map asked rs"
  by (induction rs arbitrary: s rs') (auto split: prod.splits dest: serve_frame)

text \<open>Submitting requests one by one with \<open>ReadAsync\<close>; the callback notes what it is given.\<close>

definition note_completion ::
    "FSReadRequest \<Rightarrow> pointer_handle \<Rightarrow> 's \<times> FSReadRequest list \<Rightarrow> 's \<times> FSReadRequest list" where
  "note_completion req arg = (\<lambda>(s, log). (s, log @ [req]))"

definition beside :: "'s read_at \<Rightarrow> ('s \<times> 't) read_at" where
  "beside read offset n options old scratch dbg = (\<lambda>(s, t).
     case read offset n options old scratch dbg s of (st, res, s1) \<Rightarrow> (st, res, (s1, t)))"

fun submit_all ::
    "'s read_at \<Rightarrow> IOOptions \<Rightarrow> pointer_handle \<Rightarrow> pointer_handle \<Rightarrow> FSReadRequest list \<Rightarrow>
     's \<times> FSReadRequest list \<Rightarrow> Status list \<times> 's \<times> FSReadRequest list" where
  "submit_all read opts arg dbg [] s = ([], s)"
| "submit_all read opts arg dbg (req # reqs) s =
     (case ReadAsync_default (beside read) req opts note_completion arg dbg s of
        (st, req1, s1) \<Rightarrow>
          (case submit_all read opts arg dbg reqs s1 of (sts, s2) \<Rightarrow> (st # sts, s2)))"

lemma serve_beside:
  "serve (beside read) opts dbg req (s, t) =
     (case serve read opts dbg req s of (req1, s1) \<Rightarrow> (req1, (s1, t)))"
  by (simp add: serve_def beside_def split: prod.splits)

lemma submit_all_log:
  "submit_all read opts arg dbg reqs (s, log) =
     (replicate (length reqs) IO_OK,
      snd (multi_read_loop read opts dbg reqs s), log @ fst (multi_read_loop read opts dbg reqs s))"
  by (induction reqs arbitrary: s log)
    (simp_all add: ReadAsync_default_def serve_beside note_completion_def split: prod.splits)

section \<open>Preallocation\<close>

definition blocks_needed :: "nat \<Rightarrow> nat \<times> nat \<Rightarrow> nat" where
  "blocks_needed B w = (fst w + snd w + B - 1) div B"

lemma blocks_needed_covers: "0 < B \<Longrightarrow> fst w + snd w \<le> B * blocks_needed B w"
proof -
  assume B: "0 < B"
  have "fst w + snd w + B - 1 = B * ((fst w + snd w + B - 1) div B) + (fst w + snd w + B - 1) mod B" by simp
  moreover have "(fst w + snd w + B - 1) mod B < B" using B by simp
  ultimately show ?thesis unfolding blocks_needed_def by linarith
qed

lemma blocks_needed_tight: "0 < B \<Longrightarrow> B * blocks_needed B w < fst w + snd w + B"
  unfolding blocks_needed_def
  using times_div_less_eq_dividend [of B "fst w + snd w + B - 1"] by linarith

lemma word_nat_sum:
  fixes o' l bs :: uint64
  assumes "0 < unat bs" "unat o' + unat l + unat bs \<le> 2 ^ 64"
  shows "unat (o' + l + bs - 1) = unat o' + unat l + unat bs - 1"
proof -
  have "o' + l + bs - 1 = (of_nat (unat o' + unat l + unat bs - 1) :: uint64)"
    using assms(1) by (simp add: of_nat_diff)
  moreover have "unat o' + unat l + unat bs - 1 < 2 ^ LENGTH(64)" using assms by simp
  ultimately show ?thesis by (simp only: unsigned_of_nat take_bit_nat_eq_self of_nat_id)
qed

lemma word_nat_mult:
  fixes a b :: uint64
  assumes "unat a * unat b < 2 ^ 64"
  shows "unat (a * b) = unat a * unat b"
proof -
  have "a * b = (of_nat (unat a * unat b) :: uint64)" by simp
  moreover have "unat a * unat b < 2 ^ LENGTH(64)" using assms by simp
  ultimately show ?thesis by (simp only: unsigned_of_nat take_bit_nat_eq_self of_nat_id)
qed

text \<open>
  A sequence of writes on a file whose \<open>Allocate\<close> only notes its ranges, and the end of a list of
  ranges that start at \<open>n\<close> and follow each other without gap or overlap.
\<close>

definition log_allocate :: "(uint64 \<times> uint64) list allocate" where
  "log_allocate offset len options dbg log = (IO_OK, log @ [(offset, len)])"

definition prepare_all ::
    "(uint64 \<times> uint64) list \<Rightarrow> WritableFileBase \<times> (uint64 \<times> uint64) list \<Rightarrow>
       WritableFileBase \<times> (uint64 \<times> uint64) list" where
  "prepare_all ws st =
     fold (\<lambda>w. PrepareWrite_default log_allocate (fst w) (snd w) IOOptions_default None) ws st"

fun tiles :: "nat \<Rightarrow> (uint64 \<times> uint64) list \<Rightarrow> nat option" where
  "tiles n [] = Some n"
| "tiles n (r # rs) = (if unat (fst r) = n \<and> 0 < unat (snd r) then tiles (n + unat (snd r)) rs else None)"

lemma tiles_append: "tiles n (xs @ ys) = Option.bind (tiles n xs) (\<lambda>m. tiles m ys)"
  by (induction n xs rule: tiles.induct) simp_all

definition nat_range :: "uint64 \<times> uint64 \<Rightarrow> nat \<times> nat" where
  "nat_range w = (unat (fst w), unat (snd w))"

definition write_fits :: "nat \<Rightarrow> uint64 \<times> uint64 \<Rightarrow> bool" where
  "write_fits B w \<longleftrightarrow> unat (fst w) + unat (snd w) + B \<le> 2 ^ 64"

lemma PrepareWrite_step:
  assumes B: "B = unat (preallocation_block_size b)" "0 < B" and fits: "write_fits B w"
    and prep: "PrepareWrite_default log_allocate (fst w) (snd w) options dbg (b, log) = (b', log')"
    and tiles: "tiles k log = Some (B * unat (last_preallocated_block b))"
  shows "unat (last_preallocated_block b') =
      max (unat (last_preallocated_block b)) (blocks_needed B (nat_range w))"
    and "preallocation_block_size b' = preallocation_block_size b"
    and "tiles k log' = Some (B * unat (last_preallocated_block b'))"
proof -
  let ?bs = "preallocation_block_size b" and ?n = "unat (last_preallocated_block b)"
    and ?m = "blocks_needed B (nat_range w)"
  define new where "new = (fst w + snd w + ?bs - 1) div ?bs"
  have sum: "unat (fst w + snd w + ?bs - 1) = unat (fst w) + unat (snd w) + B - 1"
    using word_nat_sum [of ?bs "fst w" "snd w"] B fits by (simp add: write_fits_def)
  have new: "unat new = ?m"
    unfolding new_def unat_div_distrib sum by (simp add: blocks_needed_def nat_range_def B(1))
  have small: "B * ?m < 2 ^ 64"
    using blocks_needed_tight [OF B(2), of "nat_range w"] fits by (simp add: nat_range_def write_fits_def)
  have result: "(b', log') =
     (if new > last_preallocated_block b
      then (b\<lparr>last_preallocated_block := new\<rparr>,
            log @ [(?bs * last_preallocated_block b, ?bs * (new - last_preallocated_block b))])
      else (b, log))"
    using prep B by (simp add: PrepareWrite_default_def new_def log_allocate_def Let_def unat_eq_zero
        split: if_splits)
  show "unat (last_preallocated_block b') = max ?n ?m" "preallocation_block_size b' = ?bs"
    using result new by (auto simp: word_less_nat_alt split: if_splits)
  show "tiles k log' = Some (B * unat (last_preallocated_block b'))"
  proof (cases "new > last_preallocated_block b")
    case True
    then have less: "?n < ?m" using new by (simp add: word_less_nat_alt)
    then have "B * ?n < 2 ^ 64" using small by (meson le_less_trans mult_le_mono2 less_imp_le)
    then have a: "unat (?bs * last_preallocated_block b) = B * ?n"
      using word_nat_mult [of ?bs] by (simp add: B(1))
    have sub: "unat (new - last_preallocated_block b) = ?m - ?n"
      using True new by (simp add: unat_sub less_imp_le)
    have "B * (?m - ?n) < 2 ^ 64" using small by (meson le_less_trans mult_le_mono2 diff_le_self)
    then have l: "unat (?bs * (new - last_preallocated_block b)) = B * (?m - ?n)"
      using word_nat_mult [of ?bs "new - last_preallocated_block b"] by (simp add: B(1) sub)
    have "B * ?n + B * (?m - ?n) = B * ?m" using less by (simp add: distrib_left [symmetric])
    with True result less B(2) tiles show ?thesis by (simp add: tiles_append a l new)
  qed (use result tiles in simp)
qed

lemma prepare_all_spec:
  assumes "B = unat (preallocation_block_size b)" "0 < B" "\<forall>w \<in> set ws. write_fits B w"
    and "prepare_all ws (b, log) = (b', log')"
    and "tiles k log = Some (B * unat (last_preallocated_block b))"
  shows "unat (last_preallocated_block b') =
      fold max (map (\<lambda>w. blocks_needed B (nat_range w)) ws) (unat (last_preallocated_block b)) \<and>
    tiles k log' = Some (B * unat (last_preallocated_block b'))"
  using assms
proof (induction ws arbitrary: b log)
  case Nil
  then show ?case by (simp add: prepare_all_def)
next
  case (Cons w ws)
  obtain b1 log1 where step: "PrepareWrite_default log_allocate (fst w) (snd w) IOOptions_default None (b, log)
      = (b1, log1)" by fastforce
  have "write_fits B w" using Cons.prems(3) by simp
  note s = PrepareWrite_step [OF Cons.prems(1,2) this step Cons.prems(5)]
  have "prepare_all ws (b1, log1) = (b', log')" using Cons.prems(4) step by (simp add: prepare_all_def)
  from Cons.IH [OF _ Cons.prems(2) _ this s(3)] Cons.prems(1,3) s(1,2) show ?case
    by (simp add: max.commute)
qed

lemma fold_max_ge: "x \<in> set xs \<or> x = n \<Longrightarrow> (x :: nat) \<le> fold max xs n"
proof (induction xs arbitrary: n x)
  case (Cons y ys)
  have "max y n \<le> fold max ys (max y n)" using Cons.IH [of "max y n" "max y n"] by simp
  with Cons show ?case by auto
qed simp

section \<open>Properties\<close>

text \<open>
  C21. \<open>GetChildrenFileAttributes\<close> on a directory that does not change while it is read: if every child
  whose size cannot be read is gone, the result is OK and lists exactly the readable children with
  their sizes, in the order of \<open>GetChildren\<close>, whatever the vector held before; otherwise the
  status is that of the first child that exists and cannot be read, and a failed listing is
  reported as it is.
\<close>

theorem GetChildrenFileAttributes_lists:
  assumes "\<And>p old d s. get_size p options old d s =
      (fst (sz p), (if status_ok (fst (sz p)) then snd (sz p) else junk p old), s)"
    and "\<And>p d s. exists p options d s = (ex p, s)"
    and "children dir options dbg s = (st0, names, s)"
    and "GetChildrenFileAttributes children get_size exists dir options result dbg s = (st, result', s')"
  shows "s' = s \<and>
    (if \<not> status_ok st0 then st = st0 \<and> result' = result
     else case find (\<lambda>c. unreadable sz ex (dir @ ''/'' @ c)) names of
            None \<Rightarrow> st = IO_OK \<and> result' = listed sz dir names
          | Some c \<Rightarrow> st_code st = st_code (fst (sz (dir @ ''/'' @ c))))"
  using assms(3,4) attributes_loop_spec [of 0 names "resize \<lparr>fa_name = [], fa_size_bytes = 0\<rparr> (length names) result"
      get_size options sz junk exists ex dir dbg st0 s, OF _ assms(1,2)]
  by (auto simp: GetChildrenFileAttributes_def split: if_splits option.splits)

definition sample_children :: "unit get_children" where
  "sample_children dir options dbg s = (IO_OK, [''a'', ''b''], s)"

definition sample_size :: "string \<Rightarrow> Status \<times> uint64" where
  "sample_size p = (if p = ''/d/a'' then (IO_OK, 7) else (IO_IOError kNone, 0))"

definition sample_get_size :: "unit get_size" where
  "sample_get_size p options old dbg s =
     (fst (sample_size p), (if status_ok (fst (sample_size p)) then snd (sample_size p) else old), s)"

definition sample_exists :: "unit file_exists" where
  "sample_exists p options dbg s = (IO_NotFound kNone, s)"

theorem GetChildrenFileAttributes_lists_witness:
  "\<exists>s'. GetChildrenFileAttributes sample_children sample_get_size sample_exists ''/d''
     IOOptions_default [] None () = (IO_OK, [\<lparr>fa_name = ''a'', fa_size_bytes = 7\<rparr>], s')"
proof -
  let ?run = "GetChildrenFileAttributes sample_children sample_get_size sample_exists ''/d''
     IOOptions_default [] None ()"
  obtain st result' s' where run: "?run = (st, result', s')" by (metis prod_cases3)
  have children: "sample_children ''/d'' IOOptions_default None () = (IO_OK, [''a'', ''b''], ())"
    by (simp add: sample_children_def)
  have ok: "status_ok IO_OK" "IsNotFound (IO_NotFound kNone)" by code_simp+
  have list: "find (\<lambda>c. unreadable sample_size (\<lambda>p. IO_NotFound kNone) (''/d'' @ ''/'' @ c)) [''a'', ''b''] = None"
      "listed sample_size ''/d'' [''a'', ''b''] = [\<lparr>fa_name = ''a'', fa_size_bytes = 7\<rparr>]"
    by code_simp+
  from GetChildrenFileAttributes_lists [where sz = sample_size and ex = "\<lambda>p. IO_NotFound kNone"
      and junk = "\<lambda>p old. old", OF sample_get_size_def sample_exists_def children run]
  show ?thesis unfolding list option.case using run ok by simp
qed

text \<open>
  C71. \<open>MultiRead\<close> asserts that it got an array; then it answers OK and every one of the first \<open>num_reqs\<close>
  requests was served by one \<open>Read\<close>, in order, each in the state the previous one left; a request
  keeps its offset, length and buffers, and the requests behind the first \<open>num_reqs\<close> are untouched.
\<close>

theorem MultiRead_serves_each:
  "case MultiRead_default read reqs n options dbg s of
     None \<Rightarrow> (case reqs of None \<Rightarrow> True | Some rs \<Rightarrow> length rs < n)
   | Some (st, rs', s') \<Rightarrow>
       (\<exists>rs ss. reqs = Some rs \<and> n \<le> length rs \<and> st = IO_OK \<and> length rs' = length rs \<and>
          drop n rs' = drop n rs \<and> served_in_order read options dbg (take n rs) ss (take n rs') \<and>
          ss ! 0 = s \<and> last ss = s' \<and>
          map asked rs' = map asked rs)"
proof (cases "\<exists>rs. reqs = Some rs \<and> n \<le> length rs")
  case True
  then obtain rs where rs: "reqs = Some rs" "n \<le> length rs" by blast
  obtain rs1 s1 where loop: "multi_read_loop read options dbg (take n rs) s = (rs1, s1)" by fastforce
  from multi_read_loop_run [OF this] obtain ss where
    ss: "served_in_order read options dbg (take n rs) ss rs1" "ss ! 0 = s" "last ss = s1" by blast
  have len: "length rs1 = n" using ss(1) rs(2) by (simp add: served_in_order_def)
  have "map asked (rs1 @ drop n rs) = map asked rs"
    using multi_read_loop_frame [OF loop] by (metis append_take_drop_id map_append)
  then show ?thesis using rs len ss
    by (auto simp: MultiRead_default_def loop intro!: exI [of _ ss])
next
  case False
  then show ?thesis by (auto simp: MultiRead_default_def split: option.splits)
qed

text \<open>
  C22. The asynchronous reads of the base class complete without \<open>Poll\<close>: after requests were submitted
  one by one, each was accepted with OK and its callback has run exactly once, in the order of
  submission, on the request as \<open>MultiRead\<close> would have filled it, and the file is in the state
  \<open>MultiRead\<close> would have left.
\<close>

theorem ReadAsync_completes_each:
  "submit_all read opts arg dbg reqs (s, []) = (sts, s', log) \<Longrightarrow>
     sts = replicate (length reqs) IO_OK \<and> length log = length reqs \<and>
     MultiRead_default read (Some reqs) (length reqs) opts dbg s = Some (IO_OK, log, s')"
proof -
  assume "submit_all read opts arg dbg reqs (s, []) = (sts, s', log)"
  then have eq: "sts = replicate (length reqs) IO_OK" "s' = snd (multi_read_loop read opts dbg reqs s)"
      "log = fst (multi_read_loop read opts dbg reqs s)" by (simp_all add: submit_all_log)
  then have "multi_read_loop read opts dbg reqs s = (log, s')" by simp
  moreover from multi_read_loop_run [OF this] have "length log = length reqs"
    by (auto simp: served_in_order_def)
  ultimately show ?thesis using eq(1) by (simp add: MultiRead_default_def)
qed

definition sample_read :: "nat read_at" where
  "sample_read offset n options old scratch dbg s =
     (if unat offset < 10 then IO_OK else IO_IOError kNone, Slice_string (replicate n CHR ''x''), s + 1)"

definition sample_request :: "uint64 \<Rightarrow> FSReadRequest" where
  "sample_request offset = \<lparr>rr_offset = offset, rr_len = 2, rr_scratch = None, rr_result = Slice_empty,
     rr_status = IO_OK, rr_fs_scratch = None\<rparr>"

theorem ReadAsync_completes_each_witness:
  "\<exists>sts s' log. submit_all sample_read IOOptions_default None None [sample_request 3, sample_request 20]
     (0, []) = (sts, s', log) \<and> length log = 2 \<and> sts = [IO_OK, IO_OK]"
proof -
  obtain sts s' log where run: "submit_all sample_read IOOptions_default None None
      [sample_request 3, sample_request 20] (0, []) = (sts, s', log)" by (metis prod_cases3)
  from ReadAsync_completes_each [OF this] run show ?thesis by (auto simp: numeral_2_eq_2)
qed

text \<open>
  C16. The preallocation invariant: after any sequence of \<open>PrepareWrite\<close> calls on a fresh file with a
  fixed block size, as long as no end of a write plus a block leaves \<open>size_t\<close>, the ranges passed to
  \<open>Allocate\<close> tile the file from 0 to the last preallocated block without gap or overlap; that block
  is the least one that covers all writes.
\<close>

theorem PrepareWrite_tiles:
  assumes "B = unat sz" "0 < B" "\<forall>w \<in> set ws. write_fits B w"
    and "prepare_all ws (SetPreallocationBlockSize sz (FSWritableFile_new strict), []) = (b, log)"
  shows "tiles 0 log = Some (B * unat (last_preallocated_block b)) \<and>
    unat (last_preallocated_block b) = fold max (map (\<lambda>w. blocks_needed B (nat_range w)) ws) 0 \<and>
    (\<forall>w \<in> set ws. unat (fst w) + unat (snd w) \<le> B * unat (last_preallocated_block b))"
proof -
  have "unat (last_preallocated_block b) = fold max (map (\<lambda>w. blocks_needed B (nat_range w)) ws) 0 \<and>
      tiles 0 log = Some (B * unat (last_preallocated_block b))"
    using prepare_all_spec [of B "SetPreallocationBlockSize sz (FSWritableFile_new strict)" ws "[]" b log 0]
      assms by (simp add: SetPreallocationBlockSize_def FSWritableFile_new_def)
  moreover have "unat (fst w) + unat (snd w) \<le> B * fold max (map (\<lambda>w. blocks_needed B (nat_range w)) ws) 0"
    if "w \<in> set ws" for w
  proof -
    have "blocks_needed B (nat_range w) \<le> fold max (map (\<lambda>w. blocks_needed B (nat_range w)) ws) 0"
      using that by (intro fold_max_ge) simp
    then have "B * blocks_needed B (nat_range w) \<le> B * fold max (map (\<lambda>w. blocks_needed B (nat_range w)) ws) 0"
      by (rule mult_le_mono2)
    from order_trans [OF blocks_needed_covers [OF assms(2), of "nat_range w"] this] show ?thesis
      by (simp add: nat_range_def)
  qed
  ultimately show ?thesis by simp
qed

theorem PrepareWrite_tiles_witness:
  "\<exists>b log. prepare_all [(0, 10), (10, 3)] (SetPreallocationBlockSize 4 (FSWritableFile_new True), []) = (b, log)
     \<and> tiles 0 log = Some 16"
proof -
  let ?st = "(SetPreallocationBlockSize 4 (FSWritableFile_new True), [])"
  obtain b log where run: "prepare_all [(0, 10), (10, 3)] ?st = (b, log)" by fastforce
  have "tiles 0 log = Some (4 * unat (last_preallocated_block b)) \<and>
      unat (last_preallocated_block b) = fold max (map (\<lambda>w. blocks_needed 4 (nat_range w)) [(0, 10), (10, 3)]) 0"
    using PrepareWrite_tiles [OF _ _ _ run, of 4] by (simp add: write_fits_def)
  moreover have "fold max (map (\<lambda>w. blocks_needed 4 (nat_range w)) [(0 :: uint64, 10), (10, 3)]) 0 = 4"
    by (simp add: blocks_needed_def nat_range_def)
  ultimately show ?thesis using run by auto
qed

text \<open>
  The last preallocated block is counted in blocks of the current size, so the invariant is lost
  when the size is changed after a write: the next range that \<open>PrepareWrite\<close> allocates starts at
  the old block count times the new size, behind a gap when the size grew and inside the storage
  already allocated when it shrank.
\<close>

theorem block_size_change:
  assumes "unat sz' * unat (last_preallocated_block b) < 2 ^ 64" "0 < unat sz'" "write_fits (unat sz') w"
    and "unat (last_preallocated_block b) < blocks_needed (unat sz') (nat_range w)"
    and "PrepareWrite_default log_allocate (fst w) (snd w) options dbg (SetPreallocationBlockSize sz' b, [])
      = (b', log)"
  shows "\<exists>r. log = [r] \<and> unat (fst r) = unat sz' * unat (last_preallocated_block b) \<and>
    (unat (preallocation_block_size b) < unat sz' \<and> 0 < unat (last_preallocated_block b) \<longrightarrow>
       unat (preallocation_block_size b) * unat (last_preallocated_block b) < unat (fst r)) \<and>
    (unat sz' < unat (preallocation_block_size b) \<and> 0 < unat (last_preallocated_block b) \<longrightarrow>
       unat (fst r) < unat (preallocation_block_size b) * unat (last_preallocated_block b))"
proof -
  let ?b = "SetPreallocationBlockSize sz' b"
  have "unat (fst w + snd w + sz' - 1) = unat (fst w) + unat (snd w) + unat sz' - 1"
    using word_nat_sum [of sz' "fst w" "snd w"] assms(2,3) by (simp add: write_fits_def)
  then have "unat ((fst w + snd w + sz' - 1) div sz') = blocks_needed (unat sz') (nat_range w)"
    by (simp add: unat_div_distrib blocks_needed_def nat_range_def)
  then have "log = [(sz' * last_preallocated_block b,
      sz' * ((fst w + snd w + sz' - 1) div sz' - last_preallocated_block b))]"
    using assms(2,4,5) by (auto simp: PrepareWrite_default_def SetPreallocationBlockSize_def
        log_allocate_def Let_def word_less_nat_alt split: if_splits)
  then show ?thesis using word_nat_mult [OF assms(1)] by simp
qed

theorem block_size_change_witness:
  "let b = fst (prepare_all [(0, 4)] (SetPreallocationBlockSize 4 (FSWritableFile_new True), [])) in
   \<exists>b' r. PrepareWrite_default log_allocate 4 100 IOOptions_default None
       (SetPreallocationBlockSize 100 b, []) = (b', [r]) \<and> unat (fst r) = 100"
proof -
  define b where "b = fst (prepare_all [(0, 4)] (SetPreallocationBlockSize 4 (FSWritableFile_new True), []))"
  have b: "last_preallocated_block b = 1" unfolding b_def by code_simp
  obtain b' log where run: "PrepareWrite_default log_allocate (fst (4 :: uint64, 100 :: uint64)) (snd (4 :: uint64, 100 :: uint64)) IOOptions_default None
      (SetPreallocationBlockSize 100 b, []) = (b', log)" by fastforce
  have "\<exists>r. log = [r] \<and> unat (fst r) = 100"
    using block_size_change [OF _ _ _ _ run] by (simp add: b write_fits_def blocks_needed_def nat_range_def) blast
  with run show ?thesis unfolding b_def [symmetric] Let_def by auto
qed

end
