(* ===== verification/Forwarding.thy ===== *)
theory Forwarding
  imports Main
begin

text \<open>
  Objects as functions from calls and states to replies and states, and the contract of a wrapper
  (locale \<open>forwarding\<close>): on the calls it forwards, it replies what its target replies and leaves the
  target in the state a direct call would leave it in. The wrappers of file_system.h, env.h,
  system_clock.h and stackable_db.h interpret it.
\<close>

fun run_calls :: "('c \<Rightarrow> 's \<Rightarrow> 'r \<times> 's) \<Rightarrow> 'c list \<Rightarrow> 's \<Rightarrow> 'r list \<times> 's" where
  "run_calls obj [] s = ([], s)"
| "run_calls obj (c # cs) s =
     (case obj c s of (r, s1) \<Rightarrow> (case run_calls obj cs s1 of (rs, s2) \<Rightarrow> (r # rs, s2)))"

text \<open>A call of a target whose state is the second component of the wrapper's state.\<close>

definition on_target :: "('c \<Rightarrow> 't \<Rightarrow> 'r \<times> 't) \<Rightarrow> 'c \<Rightarrow> 'b \<times> 't \<Rightarrow> 'r \<times> 'b \<times> 't" where
  "on_target target c = (\<lambda>(b, t). case target c t of (r, t1) \<Rightarrow> (r, b, t1))"

locale forwarding =
  fixes outer :: "'c \<Rightarrow> 'o \<Rightarrow> 'r \<times> 'o"
    and inner :: "'c \<Rightarrow> 'i \<Rightarrow> 'r \<times> 'i"
    and target_of :: "'o \<Rightarrow> 'i"
    and forwarded :: "'c \<Rightarrow> bool"
  assumes forward: "forwarded c \<Longrightarrow> outer c s = (r, s') \<Longrightarrow> inner c (target_of s) = (r, target_of s')"
begin

lemma forward_run:
  assumes "\<forall>c \<in> set cs. forwarded c" "run_calls outer cs s = (rs, s')"
  shows "run_calls inner cs (target_of s) = (rs, target_of s')"
  using assms
proof (induction cs arbitrary: s rs)
  case (Cons c cs)
  obtain r s1 where c: "outer c s = (r, s1)" by fastforce
  obtain rs1 s2 where cs: "run_calls outer cs s1 = (rs1, s2)" by fastforce
  have s2: "s2 = s'" using Cons.prems(2) by (simp add: c cs)
  have "inner c (target_of s) = (r, target_of s1)" using forward [OF _ c] Cons.prems(1) by simp
  moreover have "run_calls inner cs (target_of s1) = (rs1, target_of s')"
    using Cons.IH [of s1 rs1] Cons.prems(1) cs s2 by simp
  ultimately show ?case using Cons.prems(2) by (simp add: c cs)
qed simp

end

text \<open>Wrappers of wrappers forward what both forward.\<close>

lemma forwarding_trans:
  assumes "forwarding f g p ok1" "forwarding g h q ok2"
  shows "forwarding f h (q \<circ> p) (\<lambda>c. ok1 c \<and> ok2 c)"
proof
  fix c s r s'
  assume ok: "ok1 c \<and> ok2 c" and fc: "f c s = (r, s')"
  from forwarding.forward [OF assms(1) _ fc] ok have "g c (p s) = (r, p s')" by blast
  from forwarding.forward [OF assms(2) _ this] ok show "h c ((q \<circ> p) s) = (r, (q \<circ> p) s')" by simp
qed

lemma run_calls_append:
  "run_calls obj (cs @ ds) s =
     (case run_calls obj cs s of (rs, s1) \<Rightarrow> (case run_calls obj ds s1 of (ts, s2) \<Rightarrow> (rs @ ts, s2)))"
  by (induction cs arbitrary: s) (simp_all split: prod.splits)

lemma id_forwarding_run:
  assumes "forwarding f g id (\<lambda>c. True)"
  shows "run_calls f cs s = run_calls g cs s"
proof -
  obtain rs s' where run: "run_calls f cs s = (rs, s')" by fastforce
  with forwarding.forward_run [OF assms _ run] show ?thesis by simp
qed

lemma id_forwarding_run_on:
  assumes "forwarding f g id ok" "\<forall>c \<in> set cs. ok c"
  shows "run_calls f cs s = run_calls g cs s"
proof -
  obtain rs s' where run: "run_calls f cs s = (rs, s')" by fastforce
  with forwarding.forward_run [OF assms(1,2) run] show ?thesis by simp
qed

end
