(* ===== verification/FileWrappers.thy ===== *)
theory FileWrappers
  imports FileSystemModel Forwarding
begin

text \<open>
  The classes of include/rocksdb/file_system.h as objects with virtual dispatch, and their wrappers,
  which forward calls to a target.

  The virtual functions of a class are the constructors of a datatype, applied to the arguments of
  the call. An object is a function from calls and states to replies and states. The functions a
  class overrides are a partial map \<open>over\<close>; a call without an override gets the default of the
  base class, which dispatches its own virtual calls through \<open>over\<close> again. A wrapper is the map
  of the functions it overrides, each a call of the target. \<open>'v\<close> are the outputs a target may
  write; calling a pure virtual function that is not overridden is the reply \<open>R_pure_virtual\<close>,
  and a failed assertion or a read out of bounds \<open>R_undefined\<close>.

  The locale \<open>forwarding\<close> (theory \<open>Forwarding\<close>) is the contract of a wrapper: on the calls it forwards, it replies
  what its target replies and leaves the target in the state a direct call would leave it in.
\<close>

section \<open>Replies\<close>

datatype 'v io_reply =
    R_void | R_status Status | R_out Status 'v | R_value 'v | R_bool bool | R_size nat
  | R_temperature Temperature | R_priority Env_IOPriority | R_hint WriteLifeTimeHint
  | R_preallocation uint64 uint64 | R_ops "64 word" | R_read Status Slice
  | R_requests Status "FSReadRequest list"
  | R_completed Status FSReadRequest pointer_handle pointer_handle
  | R_pure_virtual | R_undefined

section \<open>Sequential files\<close>

datatype (plugins only: code size) FSSequentialFile_call =
      SF_Read nat IOOptions pointer_handle pointer_handle pointer_handle | SF_Skip uint64
  | SF_use_direct_io | SF_GetRequiredBufferAlignment | SF_InvalidateCache nat nat
  | SF_PositionedRead uint64 nat IOOptions pointer_handle pointer_handle pointer_handle
  | SF_GetTemperature

primrec FSSequentialFile_base ::
    "(FSSequentialFile_call \<Rightarrow> ('s \<Rightarrow> 'v io_reply \<times> 's) option) \<Rightarrow> FSSequentialFile_call \<Rightarrow> 's \<Rightarrow> 'v io_reply \<times> 's" where
  "FSSequentialFile_base over (SF_Read n opts result scratch dbg) s = (R_pure_virtual, s)"
| "FSSequentialFile_base over (SF_Skip n) s = (R_pure_virtual, s)"
| "FSSequentialFile_base over SF_use_direct_io s = (R_bool False, s)"
| "FSSequentialFile_base over SF_GetRequiredBufferAlignment s = (R_size kDefaultPageSize, s)"
| "FSSequentialFile_base over (SF_InvalidateCache offset len) s = (R_status (unsupported ''InvalidateCache not supported.''), s)"
| "FSSequentialFile_base over (SF_PositionedRead offset n opts result scratch dbg) s = (R_status (unsupported ''PositionedRead''), s)"
| "FSSequentialFile_base over SF_GetTemperature s = (R_temperature kUnknownTemperature, s)"

definition FSSequentialFile_object ::
    "(FSSequentialFile_call \<Rightarrow> ('s \<Rightarrow> 'v io_reply \<times> 's) option) \<Rightarrow> FSSequentialFile_call \<Rightarrow> 's \<Rightarrow> 'v io_reply \<times> 's" where
  "FSSequentialFile_object over c s = (case over c of Some f \<Rightarrow> f s | None \<Rightarrow> FSSequentialFile_base over c s)"

primrec FSSequentialFileWrapper ::
    "(FSSequentialFile_call \<Rightarrow> 't \<Rightarrow> 'v io_reply \<times> 't) \<Rightarrow> FSSequentialFile_call \<Rightarrow> ('t \<Rightarrow> 'v io_reply \<times> 't) option" where
  "FSSequentialFileWrapper target (SF_Read n opts result scratch dbg) = Some (target (SF_Read n opts result scratch dbg))"
| "FSSequentialFileWrapper target (SF_Skip n) = Some (target (SF_Skip n))"
| "FSSequentialFileWrapper target SF_use_direct_io = Some (target SF_use_direct_io)"
| "FSSequentialFileWrapper target SF_GetRequiredBufferAlignment = Some (target SF_GetRequiredBufferAlignment)"
| "FSSequentialFileWrapper target (SF_InvalidateCache offset len) = Some (target (SF_InvalidateCache offset len))"
| "FSSequentialFileWrapper target (SF_PositionedRead offset n opts result scratch dbg) = Some (target (SF_PositionedRead offset n opts result scratch dbg))"
| "FSSequentialFileWrapper target SF_GetTemperature = Some (target SF_GetTemperature)"

datatype AccessPattern = kNormal | kRandom | kSequential | kWillNeed | kWontNeed

section \<open>Random access files\<close>

datatype (plugins only: code size) FSRandomAccessFile_call =
      RA_Read uint64 nat IOOptions Slice pointer_handle pointer_handle
  | RA_Prefetch uint64 nat IOOptions pointer_handle
  | RA_MultiRead "FSReadRequest list option" nat IOOptions pointer_handle
  | RA_GetUniqueId pointer_handle nat | RA_Hint AccessPattern | RA_use_direct_io
  | RA_GetRequiredBufferAlignment | RA_InvalidateCache nat nat
  | RA_ReadAsync FSReadRequest IOOptions pointer_handle pointer_handle pointer_handle
  | RA_GetTemperature

text \<open>
  The virtual \<open>Read\<close> as the default implementations call it; it replies \<open>R_read\<close>, and any other
  reply stands for an implementation that left the result alone.
\<close>

definition read_by ::
    "(FSRandomAccessFile_call \<Rightarrow> ('s \<Rightarrow> 'v io_reply \<times> 's) option) \<Rightarrow> 's read_at" where
  "read_by over offset n opts result scratch dbg s =
     (case over (RA_Read offset n opts result scratch dbg) of
        None \<Rightarrow> (IO_OK, result, s)
      | Some f \<Rightarrow> (case f s of
                    (R_read st res, s1) \<Rightarrow> (st, res, s1)
                  | (_, s1) \<Rightarrow> (IO_OK, result, s1)))"

primrec FSRandomAccessFile_base ::
    "(FSRandomAccessFile_call \<Rightarrow> ('s \<Rightarrow> 'v io_reply \<times> 's) option) \<Rightarrow> FSRandomAccessFile_call \<Rightarrow> 's \<Rightarrow> 'v io_reply \<times> 's" where
  "FSRandomAccessFile_base over (RA_Read offset n opts result scratch dbg) s = (R_pure_virtual, s)"
| "FSRandomAccessFile_base over (RA_Prefetch offset n opts dbg) s = (R_status (unsupported ''Prefetch''), s)"
| "FSRandomAccessFile_base over (RA_MultiRead reqs num_reqs opts dbg) s = 
     (case MultiRead_default (read_by over) reqs num_reqs opts dbg s of
        Some (st, reqs1, s1) \<Rightarrow> (R_requests st reqs1, s1)
      | None \<Rightarrow> (R_undefined, s))"
| "FSRandomAccessFile_base over (RA_GetUniqueId ident max_size) s = (R_size 0, s)"
| "FSRandomAccessFile_base over (RA_Hint pattern) s = (R_void, s)"
| "FSRandomAccessFile_base over RA_use_direct_io s = (R_bool False, s)"
| "FSRandomAccessFile_base over RA_GetRequiredBufferAlignment s = (R_size kDefaultPageSize, s)"
| "FSRandomAccessFile_base over (RA_InvalidateCache offset len) s = (R_status (unsupported ''InvalidateCache not supported.''), s)"
| "FSRandomAccessFile_base over (RA_ReadAsync req opts cb cb_arg dbg) s = 
     (case ReadAsync_default (read_by over) req opts (\<lambda>_ _ s. s) cb_arg dbg s of
        (st, req1, s1) \<Rightarrow> (R_completed st req1 cb cb_arg, s1))"
| "FSRandomAccessFile_base over RA_GetTemperature s = (R_temperature kUnknownTemperature, s)"

definition FSRandomAccessFile_object ::
    "(FSRandomAccessFile_call \<Rightarrow> ('s \<Rightarrow> 'v io_reply \<times> 's) option) \<Rightarrow> FSRandomAccessFile_call \<Rightarrow> 's \<Rightarrow> 'v io_reply \<times> 's" where
  "FSRandomAccessFile_object over c s = (case over c of Some f \<Rightarrow> f s | None \<Rightarrow> FSRandomAccessFile_base over c s)"

primrec FSRandomAccessFileWrapper ::
    "(FSRandomAccessFile_call \<Rightarrow> 't \<Rightarrow> 'v io_reply \<times> 't) \<Rightarrow> FSRandomAccessFile_call \<Rightarrow> ('t \<Rightarrow> 'v io_reply \<times> 't) option" where
  "FSRandomAccessFileWrapper target (RA_Read offset n opts result scratch dbg) = Some (target (RA_Read offset n opts result scratch dbg))"
| "FSRandomAccessFileWrapper target (RA_MultiRead reqs num_reqs opts dbg) = Some (target (RA_MultiRead reqs num_reqs opts dbg))"
| "FSRandomAccessFileWrapper target (RA_Prefetch offset n opts dbg) = Some (target (RA_Prefetch offset n opts dbg))"
| "FSRandomAccessFileWrapper target (RA_GetUniqueId ident max_size) = Some (target (RA_GetUniqueId ident max_size))"
| "FSRandomAccessFileWrapper target (RA_Hint pattern) = Some (target (RA_Hint pattern))"
| "FSRandomAccessFileWrapper target RA_use_direct_io = Some (target RA_use_direct_io)"
| "FSRandomAccessFileWrapper target RA_GetRequiredBufferAlignment = Some (target RA_GetRequiredBufferAlignment)"
| "FSRandomAccessFileWrapper target (RA_InvalidateCache offset len) = Some (target (RA_InvalidateCache offset len))"
| "FSRandomAccessFileWrapper target (RA_ReadAsync req opts cb cb_arg dbg) = Some (target (RA_ReadAsync req opts cb cb_arg dbg))"
| "FSRandomAccessFileWrapper target RA_GetTemperature = Some (target RA_GetTemperature)"

section \<open>Writable files\<close>

datatype (plugins only: code size) FSWritableFile_call =
      WF_Append Slice IOOptions pointer_handle
  | WF_Append_verified Slice IOOptions DataVerificationInfo pointer_handle
  | WF_PositionedAppend Slice uint64 IOOptions pointer_handle
  | WF_PositionedAppend_verified Slice uint64 IOOptions DataVerificationInfo pointer_handle
  | WF_Truncate uint64 IOOptions pointer_handle | WF_Close IOOptions pointer_handle
  | WF_Flush IOOptions pointer_handle | WF_Sync IOOptions pointer_handle
  | WF_Fsync IOOptions pointer_handle | WF_IsSyncThreadSafe | WF_use_direct_io
  | WF_GetRequiredBufferAlignment | WF_SetWriteLifeTimeHint WriteLifeTimeHint
  | WF_SetIOPriority Env_IOPriority | WF_GetIOPriority | WF_GetWriteLifeTimeHint
  | WF_GetFileSize IOOptions pointer_handle | WF_SetPreallocationBlockSize uint64
  | WF_GetPreallocationStatus | WF_GetUniqueId pointer_handle nat | WF_InvalidateCache nat nat
  | WF_RangeSync uint64 uint64 IOOptions pointer_handle
  | WF_PrepareWrite uint64 uint64 IOOptions pointer_handle
  | WF_Allocate uint64 uint64 IOOptions pointer_handle

text \<open>
  The state of a writable file is that of the base class and that of the derived class. \<open>virtual\<close>
  is a virtual call out of a default implementation, of \<open>Append\<close>, \<open>Sync\<close> (pure virtual) or
  \<open>Allocate\<close>.
\<close>

definition virtual ::
    "(FSWritableFile_call \<Rightarrow> ('o \<Rightarrow> 'v io_reply \<times> 'o) option) \<Rightarrow> FSWritableFile_call \<Rightarrow> 'o \<Rightarrow>
       'v io_reply \<times> 'o" where
  "virtual over c s =
     (case over c of
        Some f \<Rightarrow> f s
      | None \<Rightarrow> (case c of
                  WF_Allocate offset len opts dbg \<Rightarrow> (R_status IO_OK, s)
                | _ \<Rightarrow> (R_pure_virtual, s)))"

primrec FSWritableFile_base ::
    "(FSWritableFile_call \<Rightarrow> (WritableFileBase \<times> 's \<Rightarrow> 'v io_reply \<times> WritableFileBase \<times> 's) option) \<Rightarrow> FSWritableFile_call \<Rightarrow> WritableFileBase \<times> 's \<Rightarrow> 'v io_reply \<times> WritableFileBase \<times> 's" where
  "FSWritableFile_base over (WF_Append data opts dbg) s = (R_pure_virtual, s)"
| "FSWritableFile_base over (WF_Append_verified data opts info dbg) s = virtual over (WF_Append data opts dbg) s"
| "FSWritableFile_base over (WF_PositionedAppend data offset opts dbg) s = (R_status (unsupported ''PositionedAppend''), s)"
| "FSWritableFile_base over (WF_PositionedAppend_verified data offset opts info dbg) s = (R_status (unsupported ''PositionedAppend''), s)"
| "FSWritableFile_base over (WF_Truncate sz opts dbg) s = (R_status IO_OK, s)"
| "FSWritableFile_base over (WF_Close opts dbg) s = (R_pure_virtual, s)"
| "FSWritableFile_base over (WF_Flush opts dbg) s = (R_pure_virtual, s)"
| "FSWritableFile_base over (WF_Sync opts dbg) s = (R_pure_virtual, s)"
| "FSWritableFile_base over (WF_Fsync opts dbg) s = virtual over (WF_Sync opts dbg) s"
| "FSWritableFile_base over WF_IsSyncThreadSafe s = (R_bool False, s)"
| "FSWritableFile_base over WF_use_direct_io s = (R_bool False, s)"
| "FSWritableFile_base over WF_GetRequiredBufferAlignment s = (R_size kDefaultPageSize, s)"
| "FSWritableFile_base over (WF_SetWriteLifeTimeHint hint) s = (R_void, map_prod (SetWriteLifeTimeHint hint) id s)"
| "FSWritableFile_base over (WF_SetIOPriority pri) s = (R_void, map_prod (SetIOPriority pri) id s)"
| "FSWritableFile_base over WF_GetIOPriority s = (R_priority (GetIOPriority (fst s)), s)"
| "FSWritableFile_base over WF_GetWriteLifeTimeHint s = (R_hint (GetWriteLifeTimeHint (fst s)), s)"
| "FSWritableFile_base over (WF_GetFileSize opts dbg) s = (R_pure_virtual, s)"
| "FSWritableFile_base over (WF_SetPreallocationBlockSize sz) s = (R_void, map_prod (SetPreallocationBlockSize sz) id s)"
| "FSWritableFile_base over WF_GetPreallocationStatus s = 
     (case GetPreallocationStatus (fst s) of (block, last_block) \<Rightarrow> (R_preallocation block last_block, s))"
| "FSWritableFile_base over (WF_GetUniqueId ident max_size) s = (R_size 0, s)"
| "FSWritableFile_base over (WF_InvalidateCache offset len) s = (R_status (unsupported ''InvalidateCache not supported.''), s)"
| "FSWritableFile_base over (WF_RangeSync offset nbytes opts dbg) s = 
     (if strict_bytes_per_sync (fst s) then virtual over (WF_Sync opts dbg) s else (R_status IO_OK, s))"
| "FSWritableFile_base over (WF_PrepareWrite offset len opts dbg) s =
     (if preallocation_block_size (fst s) = 0 then (R_void, s)
      else
        let block_size = preallocation_block_size (fst s);
            new_last = (offset + len + block_size - 1) div block_size in
        if new_last > last_preallocated_block (fst s) then
          let num_spanned = new_last - last_preallocated_block (fst s);
              (ignored, s1) = virtual over (WF_Allocate (block_size * last_preallocated_block (fst s))
                 (block_size * num_spanned) opts dbg) s in
          (R_void, map_prod (last_preallocated_block_update (\<lambda>_. new_last)) id s1)
        else (R_void, s))"
| "FSWritableFile_base over (WF_Allocate offset len opts dbg) s = (R_status IO_OK, s)"

definition FSWritableFile_object ::
    "(FSWritableFile_call \<Rightarrow> (WritableFileBase \<times> 's \<Rightarrow> 'v io_reply \<times> WritableFileBase \<times> 's) option) \<Rightarrow> FSWritableFile_call \<Rightarrow> WritableFileBase \<times> 's \<Rightarrow> 'v io_reply \<times> WritableFileBase \<times> 's" where
  "FSWritableFile_object over c s = (case over c of Some f \<Rightarrow> f s | None \<Rightarrow> FSWritableFile_base over c s)"

primrec FSWritableFileWrapper ::
    "(FSWritableFile_call \<Rightarrow> 't \<Rightarrow> 'v io_reply \<times> 't) \<Rightarrow> FSWritableFile_call \<Rightarrow> ('b \<times> 't \<Rightarrow> 'v io_reply \<times> 'b \<times> 't) option" where
  "FSWritableFileWrapper target (WF_Append data opts dbg) = Some (on_target target (WF_Append data opts dbg))"
| "FSWritableFileWrapper target (WF_Append_verified data opts info dbg) = Some (on_target target (WF_Append_verified data opts info dbg))"
| "FSWritableFileWrapper target (WF_PositionedAppend data offset opts dbg) = Some (on_target target (WF_PositionedAppend data offset opts dbg))"
| "FSWritableFileWrapper target (WF_PositionedAppend_verified data offset opts info dbg) = Some (on_target target (WF_PositionedAppend_verified data offset opts info dbg))"
| "FSWritableFileWrapper target (WF_Truncate sz opts dbg) = Some (on_target target (WF_Truncate sz opts dbg))"
| "FSWritableFileWrapper target (WF_Close opts dbg) = Some (on_target target (WF_Close opts dbg))"
| "FSWritableFileWrapper target (WF_Flush opts dbg) = Some (on_target target (WF_Flush opts dbg))"
| "FSWritableFileWrapper target (WF_Sync opts dbg) = Some (on_target target (WF_Sync opts dbg))"
| "FSWritableFileWrapper target (WF_Fsync opts dbg) = Some (on_target target (WF_Fsync opts dbg))"
| "FSWritableFileWrapper target WF_IsSyncThreadSafe = Some (on_target target WF_IsSyncThreadSafe)"
| "FSWritableFileWrapper target WF_use_direct_io = Some (on_target target WF_use_direct_io)"
| "FSWritableFileWrapper target WF_GetRequiredBufferAlignment = Some (on_target target WF_GetRequiredBufferAlignment)"
| "FSWritableFileWrapper target (WF_SetWriteLifeTimeHint hint) = Some (on_target target (WF_SetWriteLifeTimeHint hint))"
| "FSWritableFileWrapper target WF_GetWriteLifeTimeHint = Some (on_target target WF_GetWriteLifeTimeHint)"
| "FSWritableFileWrapper target (WF_GetFileSize opts dbg) = Some (on_target target (WF_GetFileSize opts dbg))"
| "FSWritableFileWrapper target (WF_SetPreallocationBlockSize sz) = Some (on_target target (WF_SetPreallocationBlockSize sz))"
| "FSWritableFileWrapper target WF_GetPreallocationStatus = Some (on_target target WF_GetPreallocationStatus)"
| "FSWritableFileWrapper target (WF_GetUniqueId ident max_size) = Some (on_target target (WF_GetUniqueId ident max_size))"
| "FSWritableFileWrapper target (WF_InvalidateCache offset len) = Some (on_target target (WF_InvalidateCache offset len))"
| "FSWritableFileWrapper target (WF_RangeSync offset nbytes opts dbg) = Some (on_target target (WF_RangeSync offset nbytes opts dbg))"
| "FSWritableFileWrapper target (WF_PrepareWrite offset len opts dbg) = Some (on_target target (WF_PrepareWrite offset len opts dbg))"
| "FSWritableFileWrapper target (WF_Allocate offset len opts dbg) = Some (on_target target (WF_Allocate offset len opts dbg))"
| "FSWritableFileWrapper target (WF_SetIOPriority pri) = None"
| "FSWritableFileWrapper target WF_GetIOPriority = None"

section \<open>Random read-write files\<close>

datatype (plugins only: code size) FSRandomRWFile_call =
      RW_use_direct_io | RW_GetRequiredBufferAlignment
  | RW_Write uint64 Slice IOOptions pointer_handle
  | RW_Read uint64 nat IOOptions pointer_handle pointer_handle pointer_handle
  | RW_Flush IOOptions pointer_handle | RW_Sync IOOptions pointer_handle
  | RW_Fsync IOOptions pointer_handle | RW_Close IOOptions pointer_handle | RW_GetTemperature

primrec FSRandomRWFile_base ::
    "(FSRandomRWFile_call \<Rightarrow> ('s \<Rightarrow> 'v io_reply \<times> 's) option) \<Rightarrow> FSRandomRWFile_call \<Rightarrow> 's \<Rightarrow> 'v io_reply \<times> 's" where
  "FSRandomRWFile_base over RW_use_direct_io s = (R_bool False, s)"
| "FSRandomRWFile_base over RW_GetRequiredBufferAlignment s = (R_size kDefaultPageSize, s)"
| "FSRandomRWFile_base over (RW_Write offset data opts dbg) s = (R_pure_virtual, s)"
| "FSRandomRWFile_base over (RW_Read offset n opts result scratch dbg) s = (R_pure_virtual, s)"
| "FSRandomRWFile_base over (RW_Flush opts dbg) s = (R_pure_virtual, s)"
| "FSRandomRWFile_base over (RW_Sync opts dbg) s = (R_pure_virtual, s)"
| "FSRandomRWFile_base over (RW_Fsync opts dbg) s = 
     (case over (RW_Sync opts dbg) of Some f \<Rightarrow> f s | None \<Rightarrow> (R_pure_virtual, s))"
| "FSRandomRWFile_base over (RW_Close opts dbg) s = (R_pure_virtual, s)"
| "FSRandomRWFile_base over RW_GetTemperature s = (R_temperature kUnknownTemperature, s)"

definition FSRandomRWFile_object ::
    "(FSRandomRWFile_call \<Rightarrow> ('s \<Rightarrow> 'v io_reply \<times> 's) option) \<Rightarrow> FSRandomRWFile_call \<Rightarrow> 's \<Rightarrow> 'v io_reply \<times> 's" where
  "FSRandomRWFile_object over c s = (case over c of Some f \<Rightarrow> f s | None \<Rightarrow> FSRandomRWFile_base over c s)"

primrec FSRandomRWFileWrapper ::
    "(FSRandomRWFile_call \<Rightarrow> 't \<Rightarrow> 'v io_reply \<times> 't) \<Rightarrow> FSRandomRWFile_call \<Rightarrow> ('t \<Rightarrow> 'v io_reply \<times> 't) option" where
  "FSRandomRWFileWrapper target RW_use_direct_io = Some (target RW_use_direct_io)"
| "FSRandomRWFileWrapper target RW_GetRequiredBufferAlignment = Some (target RW_GetRequiredBufferAlignment)"
| "FSRandomRWFileWrapper target (RW_Write offset data opts dbg) = Some (target (RW_Write offset data opts dbg))"
| "FSRandomRWFileWrapper target (RW_Read offset n opts result scratch dbg) = Some (target (RW_Read offset n opts result scratch dbg))"
| "FSRandomRWFileWrapper target (RW_Flush opts dbg) = Some (target (RW_Flush opts dbg))"
| "FSRandomRWFileWrapper target (RW_Sync opts dbg) = Some (target (RW_Sync opts dbg))"
| "FSRandomRWFileWrapper target (RW_Fsync opts dbg) = Some (target (RW_Fsync opts dbg))"
| "FSRandomRWFileWrapper target (RW_Close opts dbg) = Some (target (RW_Close opts dbg))"
| "FSRandomRWFileWrapper target RW_GetTemperature = Some (target RW_GetTemperature)"

section \<open>Directories\<close>

datatype (plugins only: code size) FSDirectory_call =
      FD_Fsync IOOptions pointer_handle
  | FD_FsyncWithDirOptions IOOptions pointer_handle DirFsyncOptions
  | FD_Close IOOptions pointer_handle | FD_GetUniqueId pointer_handle nat

primrec FSDirectory_base ::
    "(FSDirectory_call \<Rightarrow> ('s \<Rightarrow> 'v io_reply \<times> 's) option) \<Rightarrow> FSDirectory_call \<Rightarrow> 's \<Rightarrow> 'v io_reply \<times> 's" where
  "FSDirectory_base over (FD_Fsync opts dbg) s = (R_pure_virtual, s)"
| "FSDirectory_base over (FD_FsyncWithDirOptions opts dbg dir_opts) s = 
     (case over (FD_Fsync opts dbg) of Some f \<Rightarrow> f s | None \<Rightarrow> (R_pure_virtual, s))"
| "FSDirectory_base over (FD_Close opts dbg) s = (R_status (unsupported ''Close''), s)"
| "FSDirectory_base over (FD_GetUniqueId ident max_size) s = (R_size 0, s)"

definition FSDirectory_object ::
    "(FSDirectory_call \<Rightarrow> ('s \<Rightarrow> 'v io_reply \<times> 's) option) \<Rightarrow> FSDirectory_call \<Rightarrow> 's \<Rightarrow> 'v io_reply \<times> 's" where
  "FSDirectory_object over c s = (case over c of Some f \<Rightarrow> f s | None \<Rightarrow> FSDirectory_base over c s)"

primrec FSDirectoryWrapper ::
    "(FSDirectory_call \<Rightarrow> 't \<Rightarrow> 'v io_reply \<times> 't) \<Rightarrow> FSDirectory_call \<Rightarrow> ('t \<Rightarrow> 'v io_reply \<times> 't) option" where
  "FSDirectoryWrapper target (FD_Fsync opts dbg) = Some (target (FD_Fsync opts dbg))"
| "FSDirectoryWrapper target (FD_FsyncWithDirOptions opts dbg dir_opts) = Some (target (FD_FsyncWithDirOptions opts dbg dir_opts))"
| "FSDirectoryWrapper target (FD_Close opts dbg) = Some (target (FD_Close opts dbg))"
| "FSDirectoryWrapper target (FD_GetUniqueId ident max_size) = Some (target (FD_GetUniqueId ident max_size))"

text \<open>
  Options of files and databases are opaque handles here; new objects are outputs of the target.
\<close>

section \<open>File systems\<close>

datatype (plugins only: code size) FileSystem_call =
      FS_RegisterDbPaths "string list" | FS_UnregisterDbPaths "string list"
  | FS_NewSequentialFile string pointer_handle pointer_handle
  | FS_NewRandomAccessFile string pointer_handle pointer_handle
  | FS_NewWritableFile string pointer_handle pointer_handle
  | FS_ReopenWritableFile string pointer_handle pointer_handle
  | FS_ReuseWritableFile string string pointer_handle pointer_handle
  | FS_NewRandomRWFile string pointer_handle pointer_handle
  | FS_NewMemoryMappedFileBuffer string | FS_NewDirectory string IOOptions pointer_handle
  | FS_FileExists string IOOptions pointer_handle
  | FS_GetChildren string IOOptions pointer_handle
  | FS_GetChildrenFileAttributes string IOOptions pointer_handle
  | FS_DeleteFile string IOOptions pointer_handle
  | FS_Truncate string nat IOOptions pointer_handle
  | FS_CreateDir string IOOptions pointer_handle
  | FS_CreateDirIfMissing string IOOptions pointer_handle
  | FS_DeleteDir string IOOptions pointer_handle
  | FS_GetFileSize string IOOptions pointer_handle
  | FS_GetFileModificationTime string IOOptions pointer_handle
  | FS_RenameFile string string IOOptions pointer_handle
  | FS_LinkFile string string IOOptions pointer_handle
  | FS_NumFileLinks string IOOptions pointer_handle
  | FS_AreFilesSame string string IOOptions pointer_handle
  | FS_LockFile string IOOptions pointer_handle
  | FS_UnlockFile pointer_handle IOOptions pointer_handle
  | FS_GetTestDirectory IOOptions pointer_handle | FS_NewLogger string IOOptions pointer_handle
  | FS_GetAbsolutePath string IOOptions pointer_handle | FS_SanitizeFileOptions pointer_handle
  | FS_OptimizeForLogRead pointer_handle | FS_OptimizeForManifestRead pointer_handle
  | FS_OptimizeForLogWrite pointer_handle pointer_handle
  | FS_OptimizeForManifestWrite pointer_handle
  | FS_OptimizeForCompactionTableWrite pointer_handle pointer_handle
  | FS_OptimizeForCompactionTableRead pointer_handle pointer_handle
  | FS_OptimizeForBlobFileRead pointer_handle pointer_handle
  | FS_GetFreeSpace string IOOptions pointer_handle
  | FS_IsDirectory string IOOptions pointer_handle | FS_Poll "nat list" nat
  | FS_AbortIO "nat list" | FS_DiscardCacheForDirectory string | FS_SupportedOps

text \<open>\<open>elsewhere\<close> are the default implementations that are declared only, and
  \<open>GetChildrenFileAttributes\<close>, which is modelled in \<open>FileSystemModel\<close> with its outputs.\<close>

primrec FileSystem_base ::
    "(FileSystem_call \<Rightarrow> 's \<Rightarrow> 'v io_reply \<times> 's) \<Rightarrow>
     (FileSystem_call \<Rightarrow> ('s \<Rightarrow> 'v io_reply \<times> 's) option) \<Rightarrow> FileSystem_call \<Rightarrow> 's \<Rightarrow> 'v io_reply \<times> 's" where
  "FileSystem_base elsewhere over (FS_RegisterDbPaths paths) s = (R_status Status_OK, s)"
| "FileSystem_base elsewhere over (FS_UnregisterDbPaths paths) s = (R_status Status_OK, s)"
| "FileSystem_base elsewhere over (FS_NewSequentialFile fname opts dbg) s = (R_pure_virtual, s)"
| "FileSystem_base elsewhere over (FS_NewRandomAccessFile fname opts dbg) s = (R_pure_virtual, s)"
| "FileSystem_base elsewhere over (FS_NewWritableFile fname opts dbg) s = (R_pure_virtual, s)"
| "FileSystem_base elsewhere over (FS_ReopenWritableFile fname opts dbg) s = (R_status (unsupported ''ReopenWritableFile''), s)"
| "FileSystem_base elsewhere over (FS_ReuseWritableFile fname old_fname opts dbg) s = elsewhere (FS_ReuseWritableFile fname old_fname opts dbg) s"
| "FileSystem_base elsewhere over (FS_NewRandomRWFile fname opts dbg) s = (R_status (unsupported ''RandomRWFile is not implemented in this FileSystem''), s)"
| "FileSystem_base elsewhere over (FS_NewMemoryMappedFileBuffer fname) s = (R_status (unsupported ''MemoryMappedFileBuffer is not implemented in this FileSystem''), s)"
| "FileSystem_base elsewhere over (FS_NewDirectory name io_opts dbg) s = (R_pure_virtual, s)"
| "FileSystem_base elsewhere over (FS_FileExists fname opts dbg) s = (R_pure_virtual, s)"
| "FileSystem_base elsewhere over (FS_GetChildren dir opts dbg) s = (R_pure_virtual, s)"
| "FileSystem_base elsewhere over (FS_GetChildrenFileAttributes dir opts dbg) s = elsewhere (FS_GetChildrenFileAttributes dir opts dbg) s"
| "FileSystem_base elsewhere over (FS_DeleteFile fname opts dbg) s = (R_pure_virtual, s)"
| "FileSystem_base elsewhere over (FS_Truncate fname sz opts dbg) s = (R_status (unsupported ''Truncate is not supported for this FileSystem''), s)"
| "FileSystem_base elsewhere over (FS_CreateDir dirname opts dbg) s = (R_pure_virtual, s)"
| "FileSystem_base elsewhere over (FS_CreateDirIfMissing dirname opts dbg) s = (R_pure_virtual, s)"
| "FileSystem_base elsewhere over (FS_DeleteDir dirname opts dbg) s = (R_pure_virtual, s)"
| "FileSystem_base elsewhere over (FS_GetFileSize fname opts dbg) s = (R_pure_virtual, s)"
| "FileSystem_base elsewhere over (FS_GetFileModificationTime fname opts dbg) s = (R_pure_virtual, s)"
| "FileSystem_base elsewhere over (FS_RenameFile src target_name opts dbg) s = (R_pure_virtual, s)"
| "FileSystem_base elsewhere over (FS_LinkFile src target_name opts dbg) s = (R_status (unsupported ''LinkFile is not supported for this FileSystem''), s)"
| "FileSystem_base elsewhere over (FS_NumFileLinks fname opts dbg) s = (R_status (unsupported ''Getting number of file links is not supported for this FileSystem''), s)"
| "FileSystem_base elsewhere over (FS_AreFilesSame first_name second_name opts dbg) s = (R_status (unsupported ''AreFilesSame is not supported for this FileSystem''), s)"
| "FileSystem_base elsewhere over (FS_LockFile fname opts dbg) s = (R_pure_virtual, s)"
| "FileSystem_base elsewhere over (FS_UnlockFile file_lock opts dbg) s = (R_pure_virtual, s)"
| "FileSystem_base elsewhere over (FS_GetTestDirectory opts dbg) s = (R_pure_virtual, s)"
| "FileSystem_base elsewhere over (FS_NewLogger fname opts dbg) s = elsewhere (FS_NewLogger fname opts dbg) s"
| "FileSystem_base elsewhere over (FS_GetAbsolutePath db_path opts dbg) s = (R_pure_virtual, s)"
| "FileSystem_base elsewhere over (FS_SanitizeFileOptions file_opts) s = (R_void, s)"
| "FileSystem_base elsewhere over (FS_OptimizeForLogRead file_opts) s = elsewhere (FS_OptimizeForLogRead file_opts) s"
| "FileSystem_base elsewhere over (FS_OptimizeForManifestRead file_opts) s = elsewhere (FS_OptimizeForManifestRead file_opts) s"
| "FileSystem_base elsewhere over (FS_OptimizeForLogWrite file_opts db_opts) s = elsewhere (FS_OptimizeForLogWrite file_opts db_opts) s"
| "FileSystem_base elsewhere over (FS_OptimizeForManifestWrite file_opts) s = elsewhere (FS_OptimizeForManifestWrite file_opts) s"
| "FileSystem_base elsewhere over (FS_OptimizeForCompactionTableWrite file_opts db_opts) s = elsewhere (FS_OptimizeForCompactionTableWrite file_opts db_opts) s"
| "FileSystem_base elsewhere over (FS_OptimizeForCompactionTableRead file_opts db_opts) s = elsewhere (FS_OptimizeForCompactionTableRead file_opts db_opts) s"
| "FileSystem_base elsewhere over (FS_OptimizeForBlobFileRead file_opts db_opts) s = elsewhere (FS_OptimizeForBlobFileRead file_opts db_opts) s"
| "FileSystem_base elsewhere over (FS_GetFreeSpace path opts dbg) s = (R_status (unsupported ''GetFreeSpace''), s)"
| "FileSystem_base elsewhere over (FS_IsDirectory path opts dbg) s = (R_pure_virtual, s)"
| "FileSystem_base elsewhere over (FS_Poll handles min_completions) s = (R_status IO_OK, s)"
| "FileSystem_base elsewhere over (FS_AbortIO handles) s = (R_status IO_OK, s)"
| "FileSystem_base elsewhere over (FS_DiscardCacheForDirectory path) s = (R_void, s)"
| "FileSystem_base elsewhere over FS_SupportedOps s = (R_ops SupportedOps_default, s)"

definition FileSystem_object ::
    "(FileSystem_call \<Rightarrow> 's \<Rightarrow> 'v io_reply \<times> 's) \<Rightarrow>
     (FileSystem_call \<Rightarrow> ('s \<Rightarrow> 'v io_reply \<times> 's) option) \<Rightarrow> FileSystem_call \<Rightarrow> 's \<Rightarrow> 'v io_reply \<times> 's" where
  "FileSystem_object elsewhere over c s = (case over c of Some f \<Rightarrow> f s | None \<Rightarrow> FileSystem_base elsewhere over c s)"

primrec FileSystemWrapper ::
    "(FileSystem_call \<Rightarrow> 't \<Rightarrow> 'v io_reply \<times> 't) \<Rightarrow> FileSystem_call \<Rightarrow> ('t \<Rightarrow> 'v io_reply \<times> 't) option" where
  "FileSystemWrapper target (FS_NewSequentialFile fname opts dbg) = Some (target (FS_NewSequentialFile fname opts dbg))"
| "FileSystemWrapper target (FS_NewRandomAccessFile fname opts dbg) = Some (target (FS_NewRandomAccessFile fname opts dbg))"
| "FileSystemWrapper target (FS_NewWritableFile fname opts dbg) = Some (target (FS_NewWritableFile fname opts dbg))"
| "FileSystemWrapper target (FS_ReopenWritableFile fname opts dbg) = Some (target (FS_ReopenWritableFile fname opts dbg))"
| "FileSystemWrapper target (FS_ReuseWritableFile fname old_fname opts dbg) = Some (target (FS_ReuseWritableFile fname old_fname opts dbg))"
| "FileSystemWrapper target (FS_NewRandomRWFile fname opts dbg) = Some (target (FS_NewRandomRWFile fname opts dbg))"
| "FileSystemWrapper target (FS_NewMemoryMappedFileBuffer fname) = Some (target (FS_NewMemoryMappedFileBuffer fname))"
| "FileSystemWrapper target (FS_NewDirectory name io_opts dbg) = Some (target (FS_NewDirectory name io_opts dbg))"
| "FileSystemWrapper target (FS_FileExists fname opts dbg) = Some (target (FS_FileExists fname opts dbg))"
| "FileSystemWrapper target (FS_GetChildren dir opts dbg) = Some (target (FS_GetChildren dir opts dbg))"
| "FileSystemWrapper target (FS_GetChildrenFileAttributes dir opts dbg) = Some (target (FS_GetChildrenFileAttributes dir opts dbg))"
| "FileSystemWrapper target (FS_DeleteFile fname opts dbg) = Some (target (FS_DeleteFile fname opts dbg))"
| "FileSystemWrapper target (FS_Truncate fname sz opts dbg) = Some (target (FS_Truncate fname sz opts dbg))"
| "FileSystemWrapper target (FS_CreateDir dirname opts dbg) = Some (target (FS_CreateDir dirname opts dbg))"
| "FileSystemWrapper target (FS_CreateDirIfMissing dirname opts dbg) = Some (target (FS_CreateDirIfMissing dirname opts dbg))"
| "FileSystemWrapper target (FS_DeleteDir dirname opts dbg) = Some (target (FS_DeleteDir dirname opts dbg))"
| "FileSystemWrapper target (FS_GetFileSize fname opts dbg) = Some (target (FS_GetFileSize fname opts dbg))"
| "FileSystemWrapper target (FS_GetFileModificationTime fname opts dbg) = Some (target (FS_GetFileModificationTime fname opts dbg))"
| "FileSystemWrapper target (FS_GetAbsolutePath db_path opts dbg) = Some (target (FS_GetAbsolutePath db_path opts dbg))"
| "FileSystemWrapper target (FS_RenameFile src target_name opts dbg) = Some (target (FS_RenameFile src target_name opts dbg))"
| "FileSystemWrapper target (FS_LinkFile src target_name opts dbg) = Some (target (FS_LinkFile src target_name opts dbg))"
| "FileSystemWrapper target (FS_NumFileLinks fname opts dbg) = Some (target (FS_NumFileLinks fname opts dbg))"
| "FileSystemWrapper target (FS_AreFilesSame first_name second_name opts dbg) = Some (target (FS_AreFilesSame first_name second_name opts dbg))"
| "FileSystemWrapper target (FS_LockFile fname opts dbg) = Some (target (FS_LockFile fname opts dbg))"
| "FileSystemWrapper target (FS_UnlockFile file_lock opts dbg) = Some (target (FS_UnlockFile file_lock opts dbg))"
| "FileSystemWrapper target (FS_GetTestDirectory opts dbg) = Some (target (FS_GetTestDirectory opts dbg))"
| "FileSystemWrapper target (FS_NewLogger fname opts dbg) = Some (target (FS_NewLogger fname opts dbg))"
| "FileSystemWrapper target (FS_SanitizeFileOptions file_opts) = Some (target (FS_SanitizeFileOptions file_opts))"
| "FileSystemWrapper target (FS_OptimizeForLogRead file_opts) = Some (target (FS_OptimizeForLogRead file_opts))"
| "FileSystemWrapper target (FS_OptimizeForManifestRead file_opts) = Some (target (FS_OptimizeForManifestRead file_opts))"
| "FileSystemWrapper target (FS_OptimizeForLogWrite file_opts db_opts) = Some (target (FS_OptimizeForLogWrite file_opts db_opts))"
| "FileSystemWrapper target (FS_OptimizeForManifestWrite file_opts) = Some (target (FS_OptimizeForManifestWrite file_opts))"
| "FileSystemWrapper target (FS_OptimizeForCompactionTableWrite file_opts db_opts) = Some (target (FS_OptimizeForCompactionTableWrite file_opts db_opts))"
| "FileSystemWrapper target (FS_OptimizeForCompactionTableRead file_opts db_opts) = Some (target (FS_OptimizeForCompactionTableRead file_opts db_opts))"
| "FileSystemWrapper target (FS_OptimizeForBlobFileRead file_opts db_opts) = Some (target (FS_OptimizeForBlobFileRead file_opts db_opts))"
| "FileSystemWrapper target (FS_GetFreeSpace path opts dbg) = Some (target (FS_GetFreeSpace path opts dbg))"
| "FileSystemWrapper target (FS_IsDirectory path opts dbg) = Some (target (FS_IsDirectory path opts dbg))"
| "FileSystemWrapper target (FS_Poll handles min_completions) = Some (target (FS_Poll handles min_completions))"
| "FileSystemWrapper target (FS_AbortIO handles) = Some (target (FS_AbortIO handles))"
| "FileSystemWrapper target (FS_DiscardCacheForDirectory path) = Some (target (FS_DiscardCacheForDirectory path))"
| "FileSystemWrapper target FS_SupportedOps = Some (target FS_SupportedOps)"
| "FileSystemWrapper target (FS_RegisterDbPaths paths) = None"
| "FileSystemWrapper target (FS_UnregisterDbPaths paths) = None"

section \<open>What the wrappers forward\<close>

definition priority_call :: "FSWritableFile_call \<Rightarrow> bool" where
  "priority_call c \<longleftrightarrow> (case c of WF_SetIOPriority _ \<Rightarrow> True | WF_GetIOPriority \<Rightarrow> True | _ \<Rightarrow> False)"

definition db_paths_call :: "FileSystem_call \<Rightarrow> bool" where
  "db_paths_call c \<longleftrightarrow>
     (case c of FS_RegisterDbPaths _ \<Rightarrow> True | FS_UnregisterDbPaths _ \<Rightarrow> True | _ \<Rightarrow> False)"

lemma FSWritableFileWrapper_forwards:
  "\<not> priority_call c \<Longrightarrow> FSWritableFileWrapper target c = Some (on_target target c)"
  by (cases c) (simp_all add: priority_call_def)

lemma FileSystemWrapper_forwards:
  "\<not> db_paths_call c \<Longrightarrow> FileSystemWrapper target c = Some (target c)"
  by (cases c) (simp_all add: db_paths_call_def)

lemma FSSequentialFileWrapper_forwards: "FSSequentialFileWrapper target c = Some (target c)"
  by (cases c) simp_all

lemma FSRandomAccessFileWrapper_forwards: "FSRandomAccessFileWrapper target c = Some (target c)"
  by (cases c) simp_all

lemma FSRandomRWFileWrapper_forwards: "FSRandomRWFileWrapper target c = Some (target c)"
  by (cases c) simp_all

lemma FSDirectoryWrapper_forwards: "FSDirectoryWrapper target c = Some (target c)"
  by (cases c) simp_all

lemmas fs_wrapper_simps = FSWritableFileWrapper_forwards FileSystemWrapper_forwards
  FSSequentialFileWrapper_forwards FSRandomAccessFileWrapper_forwards
  FSRandomRWFileWrapper_forwards FSDirectoryWrapper_forwards
  FSWritableFile_object_def FileSystem_object_def FSSequentialFile_object_def
  FSRandomAccessFile_object_def FSRandomRWFile_object_def FSDirectory_object_def

interpretation writable_wrapper: forwarding "FSWritableFile_object (FSWritableFileWrapper target)" target
    snd "\<lambda>c. \<not> priority_call c" for target
  by unfold_locales (auto simp: fs_wrapper_simps on_target_def split: prod.splits)

interpretation file_system_wrapper: forwarding "FileSystem_object elsewhere (FileSystemWrapper target)"
    target id "\<lambda>c. \<not> db_paths_call c" for elsewhere target
  by unfold_locales (simp add: fs_wrapper_simps)

interpretation sequential_wrapper: forwarding "FSSequentialFile_object (FSSequentialFileWrapper target)"
    target id "\<lambda>c. True" for target
  by unfold_locales (simp add: fs_wrapper_simps)

interpretation random_access_wrapper: forwarding
    "FSRandomAccessFile_object (FSRandomAccessFileWrapper target)" target id "\<lambda>c. True" for target
  by unfold_locales (simp add: fs_wrapper_simps)

interpretation random_rw_wrapper: forwarding "FSRandomRWFile_object (FSRandomRWFileWrapper target)"
    target id "\<lambda>c. True" for target
  by unfold_locales (simp add: fs_wrapper_simps)

interpretation directory_wrapper: forwarding "FSDirectory_object (FSDirectoryWrapper target)"
    target id "\<lambda>c. True" for target
  by unfold_locales (simp add: fs_wrapper_simps)

text \<open>The priority is a member of the wrapper and of its target, which only one of them is told.\<close>

lemma wrapper_priority:
  "FSWritableFile_object (FSWritableFileWrapper target) (WF_SetIOPriority p) (b, t) =
     (R_void, (b\<lparr>io_priority := p\<rparr>, t))"
  "FSWritableFile_object (FSWritableFileWrapper target) WF_GetIOPriority (b, t) =
     (R_priority (io_priority b), (b, t))"
  by (simp_all add: FSWritableFile_object_def SetIOPriority_def GetIOPriority_def)

lemma wrapper_base_kept:
  "\<not> priority_call c \<Longrightarrow> FSWritableFile_object (FSWritableFileWrapper target) c (b, t) = (r, s') \<Longrightarrow>
     fst s' = b"
  by (auto simp: fs_wrapper_simps on_target_def split: prod.splits)

text \<open>A derived class that leaves \<open>PrepareWrite\<close> alone and whose \<open>Allocate\<close> acts on its own state.\<close>

lemma PrepareWrite_object:
  assumes "over (WF_PrepareWrite offset len opts dbg) = None"
    and "\<And>o' l b s. over (WF_Allocate o' l opts dbg) =
      Some (\<lambda>(b, s). case allocate o' l opts dbg s of (st, s1) \<Rightarrow> (R_status st, b, s1))"
  shows "FSWritableFile_object over (WF_PrepareWrite offset len opts dbg) s =
    (R_void, PrepareWrite_default allocate offset len opts dbg s)"
  using assms
  by (cases s) (auto simp: FSWritableFile_object_def virtual_def PrepareWrite_default_def Let_def
      split: prod.splits)

section \<open>Properties\<close>

text \<open>
  A wrapped writable file behaves as its target: any sequence of calls that does not touch the
  I/O priority gets the target's replies and leaves the target in the state the same calls made
  directly would, and so does a wrapper of a wrapper.
\<close>

theorem writable_wrapper_transparent:
  assumes "\<forall>c \<in> set cs. \<not> priority_call c"
  shows "(run_calls (FSWritableFile_object (FSWritableFileWrapper target)) cs s = (rs, s') \<longrightarrow>
      run_calls target cs (snd s) = (rs, snd s')) \<and>
    (run_calls (FSWritableFile_object (FSWritableFileWrapper
        (FSWritableFile_object (FSWritableFileWrapper target)))) cs s2 = (rs, s2') \<longrightarrow>
      run_calls target cs (snd (snd s2)) = (rs, snd (snd s2')))"
  using writable_wrapper.forward_run [OF assms, of target s rs s']
    writable_wrapper.forward_run [OF assms, of "FSWritableFile_object (FSWritableFileWrapper target)" s2 rs s2']
    writable_wrapper.forward_run [OF assms, of target "snd s2" rs "snd s2'"]
  by blast

definition counting_file :: "FSWritableFile_call \<Rightarrow> nat \<Rightarrow> nat io_reply \<times> nat" where
  "counting_file c n = (R_status IO_OK, n + 1)"

theorem writable_wrapper_transparent_witness:
  "\<exists>s'. run_calls (FSWritableFile_object (FSWritableFileWrapper counting_file))
     [WF_Append Slice_empty IOOptions_default None, WF_Close IOOptions_default None]
     (FSWritableFile_default, 0) = ([R_status IO_OK, R_status IO_OK], s') \<and> snd s' = 2"
proof -
  let ?cs = "[WF_Append Slice_empty IOOptions_default None, WF_Close IOOptions_default None]"
  obtain rs s' where run: "run_calls (FSWritableFile_object (FSWritableFileWrapper counting_file)) ?cs
      (FSWritableFile_default, 0) = (rs, s')" by (rule prod.exhaust)
  have "\<forall>c \<in> set ?cs. \<not> priority_call c" by (simp add: priority_call_def)
  from writable_wrapper_transparent [OF this, of counting_file "(FSWritableFile_default, 0)" rs s'] run
  have "run_calls counting_file ?cs 0 = (rs, snd s')" by simp
  then have "rs = [R_status IO_OK, R_status IO_OK]" "snd s' = 2" by (auto simp: counting_file_def)
  with run show ?thesis by blast
qed

text \<open>
  The wrapper of a writable file does not forward the I/O priority: after \<open>SetIOPriority\<close> on it
  the target is as before and reports its old priority, while the wrapper reports the new one.
\<close>

theorem wrapper_keeps_priority:
  "run_calls (FSWritableFile_object (FSWritableFileWrapper (FSWritableFile_object over)))
     [WF_SetIOPriority p, WF_GetIOPriority] (b, t) =
       ([R_void, R_priority p], (b\<lparr>io_priority := p\<rparr>, t)) \<and>
   (over WF_GetIOPriority = None \<longrightarrow>
     FSWritableFile_object over WF_GetIOPriority t = (R_priority (io_priority (fst t)), t))"
  by (simp add: wrapper_priority FSWritableFile_object_def [of over] GetIOPriority_def)

theorem wrapper_keeps_priority_witness:
  "let target = FSWritableFile_object (\<lambda>c. None);
       s = run_calls (FSWritableFile_object (FSWritableFileWrapper target))
         [WF_SetIOPriority IO_LOW, WF_GetIOPriority] (FSWritableFile_default, (FSWritableFile_default, ())) in
   fst s = [R_void, R_priority IO_LOW] \<and>
   target WF_GetIOPriority (snd (snd s)) = (R_priority IO_TOTAL :: unit io_reply, snd (snd s))"
proof -
  let ?over = "\<lambda>c. None :: (WritableFileBase \<times> unit \<Rightarrow> unit io_reply \<times> WritableFileBase \<times> unit) option"
  note t = wrapper_keeps_priority [of ?over IO_LOW FSWritableFile_default "(FSWritableFile_default, ())"]
  from t have "FSWritableFile_object ?over WF_GetIOPriority (FSWritableFile_default, ()) =
      (R_priority IO_TOTAL, (FSWritableFile_default, ()))" by (simp add: FSWritableFile_default_def)
  then show ?thesis unfolding Let_def conjunct1 [OF t] fst_conv snd_conv by blast
qed



end
