(* ===== verification/EnvWrappers.thy ===== *)
theory EnvWrappers
  imports FileWrappers ObjectRegistry
begin

text \<open>
  The classes of include/rocksdb/env.h and of include/rocksdb/system_clock.h as objects with virtual
  dispatch, and their wrappers, in the same form as \<open>FileWrappers\<close>, whose replies and whose locale
  \<open>forwarding\<close> they share. The constructor of a status with a message is declared only and so the
  parameter \<open>mk\<close>; implementations that are declared only are the parameter \<open>elsewhere\<close>.
\<close>

section \<open>Data\<close>

record EnvOptions =
  use_mmap_reads :: bool
  use_mmap_writes :: bool
  use_direct_reads :: bool
  use_direct_writes :: bool
  allow_fallocate :: bool
  set_fd_cloexec :: bool
  bytes_per_sync :: uint64
  eo_strict_bytes_per_sync :: bool
  fallocate_with_keep_size :: bool
  compaction_readahead_size :: nat
  random_access_max_buffer_size :: nat
  writable_file_max_buffer_size :: nat
  eo_rate_limiter :: pointer_handle

text \<open>The member initialisers.\<close>

definition EnvOptions_init :: EnvOptions where
  "EnvOptions_init = \<lparr>use_mmap_reads = False, use_mmap_writes = True, use_direct_reads = False,
     use_direct_writes = False, allow_fallocate = True, set_fd_cloexec = True, bytes_per_sync = 0,
     eo_strict_bytes_per_sync = False, fallocate_with_keep_size = True,
     compaction_readahead_size = 0, random_access_max_buffer_size = 0,
     writable_file_max_buffer_size = 1024 * 1024, eo_rate_limiter = None\<rparr>"

datatype Priority = BOTTOM | LOW | HIGH | USER | TOTAL

datatype InfoLogLevel =
    DEBUG_LEVEL | INFO_LEVEL | WARN_LEVEL | ERROR_LEVEL | FATAL_LEVEL | HEADER_LEVEL
  | NUM_INFO_LOG_LEVELS

record ReadRequest =
  er_offset :: uint64
  er_len :: nat
  er_scratch :: pointer_handle
  er_result :: Slice
  er_status :: Status

text \<open>Replies of these classes that \<open>io_reply\<close> does not have yet are its outputs \<open>'v\<close>.\<close>

datatype env_output =
    E_names "string list" | E_number uint64 | E_int int | E_text string | E_handle pointer_handle
  | E_level InfoLogLevel | E_requests "ReadRequest list" | E_bool bool

type_synonym env_reply = "env_output io_reply"

section \<open>Sequential files\<close>

datatype (plugins only: code size) SequentialFile_call =
      ESF_Read nat pointer_handle pointer_handle | ESF_Skip uint64 | ESF_use_direct_io
  | ESF_GetRequiredBufferAlignment | ESF_InvalidateCache nat nat
  | ESF_PositionedRead uint64 nat pointer_handle pointer_handle

primrec SequentialFile_base ::
    "msg_ctor \<Rightarrow> (SequentialFile_call \<Rightarrow> ('s \<Rightarrow> 'v io_reply \<times> 's) option) \<Rightarrow> SequentialFile_call \<Rightarrow>
     's \<Rightarrow> 'v io_reply \<times> 's" where
  "SequentialFile_base mk over (ESF_Read n result scratch) s = (R_pure_virtual, s)"
| "SequentialFile_base mk over (ESF_Skip n) s = (R_pure_virtual, s)"
| "SequentialFile_base mk over ESF_use_direct_io s = (R_bool False, s)"
| "SequentialFile_base mk over ESF_GetRequiredBufferAlignment s = (R_size kDefaultPageSize, s)"
| "SequentialFile_base mk over (ESF_InvalidateCache offset len) s = (R_status (not_supported mk ''SequentialFile::InvalidateCache not supported.''), s)"
| "SequentialFile_base mk over (ESF_PositionedRead offset n result scratch) s = (R_status (not_supported mk ''SequentialFile::PositionedRead() not supported.''), s)"

definition SequentialFile_object ::
    "msg_ctor \<Rightarrow> (SequentialFile_call \<Rightarrow> ('s \<Rightarrow> 'v io_reply \<times> 's) option) \<Rightarrow> SequentialFile_call \<Rightarrow>
     's \<Rightarrow> 'v io_reply \<times> 's" where
  "SequentialFile_object mk over c s = (case over c of Some f \<Rightarrow> f s | None \<Rightarrow> SequentialFile_base mk over c s)"

primrec SequentialFileWrapper ::
    "(SequentialFile_call \<Rightarrow> 't \<Rightarrow> 'v io_reply \<times> 't) \<Rightarrow> SequentialFile_call \<Rightarrow> ('t \<Rightarrow> 'v io_reply \<times> 't) option" where
  "SequentialFileWrapper target (ESF_Read n result scratch) = Some (target (ESF_Read n result scratch))"
| "SequentialFileWrapper target (ESF_Skip n) = Some (target (ESF_Skip n))"
| "SequentialFileWrapper target ESF_use_direct_io = Some (target ESF_use_direct_io)"
| "SequentialFileWrapper target ESF_GetRequiredBufferAlignment = Some (target ESF_GetRequiredBufferAlignment)"
| "SequentialFileWrapper target (ESF_InvalidateCache offset len) = Some (target (ESF_InvalidateCache offset len))"
| "SequentialFileWrapper target (ESF_PositionedRead offset n result scratch) = Some (target (ESF_PositionedRead offset n result scratch))"

section \<open>Random access files\<close>

datatype (plugins only: code size) RandomAccessFile_call =
      ERA_Read uint64 nat Slice pointer_handle | ERA_Prefetch uint64 nat
  | ERA_MultiRead "ReadRequest list option" nat | ERA_GetUniqueId pointer_handle nat
  | ERA_Hint AccessPattern | ERA_use_direct_io | ERA_GetRequiredBufferAlignment
  | ERA_InvalidateCache nat nat

text \<open>
  \<open>MultiRead\<close> as in \<open>FSRandomAccessFile\<close>; here a status is assigned with its severity.
\<close>

type_synonym 's env_read = "uint64 \<Rightarrow> nat \<Rightarrow> Slice \<Rightarrow> pointer_handle \<Rightarrow> 's \<Rightarrow> Status \<times> Slice \<times> 's"

fun env_multi_read_loop :: "'s env_read \<Rightarrow> ReadRequest list \<Rightarrow> 's \<Rightarrow> ReadRequest list \<times> 's" where
  "env_multi_read_loop read [] s = ([], s)"
| "env_multi_read_loop read (req # reqs) s =
     (case read (er_offset req) (er_len req) (er_result req) (er_scratch req) s of
        (st, res, s1) \<Rightarrow>
          (case env_multi_read_loop read reqs s1 of
             (reqs1, s2) \<Rightarrow> (req\<lparr>er_result := res, er_status := st\<rparr> # reqs1, s2)))"

definition Env_MultiRead ::
    "'s env_read \<Rightarrow> ReadRequest list option \<Rightarrow> nat \<Rightarrow> 's \<Rightarrow> (Status \<times> ReadRequest list \<times> 's) option" where
  "Env_MultiRead read reqs num_reqs s =
     (case reqs of
        None \<Rightarrow> None
      | Some rs \<Rightarrow>
          (if num_reqs > length rs then None
           else (case env_multi_read_loop read (take num_reqs rs) s of
                   (rs1, s1) \<Rightarrow> Some (Status_OK, rs1 @ drop num_reqs rs, s1))))"

definition env_read_by :: "(RandomAccessFile_call \<Rightarrow> ('s \<Rightarrow> env_reply \<times> 's) option) \<Rightarrow> 's env_read" where
  "env_read_by over offset n result scratch s =
     (case over (ERA_Read offset n result scratch) of
        None \<Rightarrow> (Status_OK, result, s)
      | Some f \<Rightarrow> (case f s of
                    (R_read st res, s1) \<Rightarrow> (st, res, s1)
                  | (_, s1) \<Rightarrow> (Status_OK, result, s1)))"

primrec RandomAccessFile_base ::
    "msg_ctor \<Rightarrow> (RandomAccessFile_call \<Rightarrow> ('s \<Rightarrow> env_reply \<times> 's) option) \<Rightarrow> RandomAccessFile_call \<Rightarrow>
     's \<Rightarrow> env_reply \<times> 's" where
  "RandomAccessFile_base mk over (ERA_Read offset n result scratch) s = (R_pure_virtual, s)"
| "RandomAccessFile_base mk over (ERA_Prefetch offset n) s = (R_status Status_OK, s)"
| "RandomAccessFile_base mk over (ERA_MultiRead reqs num_reqs) s = 
     (case Env_MultiRead (env_read_by over) reqs num_reqs s of
        Some (st, reqs1, s1) \<Rightarrow> (R_out st (E_requests reqs1), s1)
      | None \<Rightarrow> (R_undefined, s))"
| "RandomAccessFile_base mk over (ERA_GetUniqueId ident max_size) s = (R_size 0, s)"
| "RandomAccessFile_base mk over (ERA_Hint pattern) s = (R_void, s)"
| "RandomAccessFile_base mk over ERA_use_direct_io s = (R_bool False, s)"
| "RandomAccessFile_base mk over ERA_GetRequiredBufferAlignment s = (R_size kDefaultPageSize, s)"
| "RandomAccessFile_base mk over (ERA_InvalidateCache offset len) s = (R_status (not_supported mk ''RandomAccessFile::InvalidateCache not supported.''), s)"

definition RandomAccessFile_object ::
    "msg_ctor \<Rightarrow> (RandomAccessFile_call \<Rightarrow> ('s \<Rightarrow> env_reply \<times> 's) option) \<Rightarrow> RandomAccessFile_call \<Rightarrow>
     's \<Rightarrow> env_reply \<times> 's" where
  "RandomAccessFile_object mk over c s = (case over c of Some f \<Rightarrow> f s | None \<Rightarrow> RandomAccessFile_base mk over c s)"

primrec RandomAccessFileWrapper ::
    "(RandomAccessFile_call \<Rightarrow> 't \<Rightarrow> 'v io_reply \<times> 't) \<Rightarrow> RandomAccessFile_call \<Rightarrow> ('t \<Rightarrow> 'v io_reply \<times> 't) option" where
  "RandomAccessFileWrapper target (ERA_Read offset n result scratch) = Some (target (ERA_Read offset n result scratch))"
| "RandomAccessFileWrapper target (ERA_MultiRead reqs num_reqs) = Some (target (ERA_MultiRead reqs num_reqs))"
| "RandomAccessFileWrapper target (ERA_Prefetch offset n) = Some (target (ERA_Prefetch offset n))"
| "RandomAccessFileWrapper target (ERA_GetUniqueId ident max_size) = Some (target (ERA_GetUniqueId ident max_size))"
| "RandomAccessFileWrapper target (ERA_Hint pattern) = Some (target (ERA_Hint pattern))"
| "RandomAccessFileWrapper target ERA_use_direct_io = Some (target ERA_use_direct_io)"
| "RandomAccessFileWrapper target ERA_GetRequiredBufferAlignment = Some (target ERA_GetRequiredBufferAlignment)"
| "RandomAccessFileWrapper target (ERA_InvalidateCache offset len) = Some (target (ERA_InvalidateCache offset len))"

section \<open>Writable files\<close>

datatype (plugins only: code size) WritableFile_call =
      EWF_Append Slice | EWF_Append_verified Slice DataVerificationInfo
  | EWF_PositionedAppend Slice uint64
  | EWF_PositionedAppend_verified Slice uint64 DataVerificationInfo | EWF_Truncate uint64
  | EWF_Close | EWF_Flush | EWF_Sync | EWF_Fsync | EWF_IsSyncThreadSafe | EWF_use_direct_io
  | EWF_GetRequiredBufferAlignment | EWF_SetIOPriority Env_IOPriority | EWF_GetIOPriority
  | EWF_SetWriteLifeTimeHint WriteLifeTimeHint | EWF_GetWriteLifeTimeHint | EWF_GetFileSize
  | EWF_SetPreallocationBlockSize uint64 | EWF_GetPreallocationStatus
  | EWF_GetUniqueId pointer_handle nat | EWF_InvalidateCache nat nat
  | EWF_RangeSync uint64 uint64 | EWF_PrepareWrite uint64 uint64 | EWF_Allocate uint64 uint64

definition WritableFile_new :: "EnvOptions \<Rightarrow> WritableFileBase" where
  "WritableFile_new options = \<lparr>last_preallocated_block = 0, preallocation_block_size = 0,
     io_priority = IO_TOTAL, write_hint = WLTH_NOT_SET,
     strict_bytes_per_sync = eo_strict_bytes_per_sync options\<rparr>"

definition env_virtual ::
    "(WritableFile_call \<Rightarrow> ('o \<Rightarrow> 'v io_reply \<times> 'o) option) \<Rightarrow> WritableFile_call \<Rightarrow> 'o \<Rightarrow>
       'v io_reply \<times> 'o" where
  "env_virtual over c s =
     (case over c of
        Some f \<Rightarrow> f s
      | None \<Rightarrow> (case c of
                  EWF_Allocate offset len \<Rightarrow> (R_status Status_OK, s)
                | _ \<Rightarrow> (R_pure_virtual, s)))"

primrec WritableFile_base ::
    "msg_ctor \<Rightarrow> (WritableFile_call \<Rightarrow> (WritableFileBase \<times> 's \<Rightarrow> 'v io_reply \<times> WritableFileBase \<times> 's) option) \<Rightarrow> WritableFile_call \<Rightarrow>
     WritableFileBase \<times> 's \<Rightarrow> 'v io_reply \<times> WritableFileBase \<times> 's" where
  "WritableFile_base mk over (EWF_Append data) s = (R_pure_virtual, s)"
| "WritableFile_base mk over (EWF_Append_verified data info) s = env_virtual over (EWF_Append data) s"
| "WritableFile_base mk over (EWF_PositionedAppend data offset) s = (R_status (not_supported mk ''WritableFile::PositionedAppend() not supported.''), s)"
| "WritableFile_base mk over (EWF_PositionedAppend_verified data offset info) s = (R_status (not_supported mk ''PositionedAppend''), s)"
| "WritableFile_base mk over (EWF_Truncate sz) s = (R_status Status_OK, s)"
| "WritableFile_base mk over EWF_Close s = (R_pure_virtual, s)"
| "WritableFile_base mk over EWF_Flush s = (R_pure_virtual, s)"
| "WritableFile_base mk over EWF_Sync s = (R_pure_virtual, s)"
| "WritableFile_base mk over EWF_Fsync s = env_virtual over EWF_Sync s"
| "WritableFile_base mk over EWF_IsSyncThreadSafe s = (R_bool False, s)"
| "WritableFile_base mk over EWF_use_direct_io s = (R_bool False, s)"
| "WritableFile_base mk over EWF_GetRequiredBufferAlignment s = (R_size kDefaultPageSize, s)"
| "WritableFile_base mk over (EWF_SetIOPriority pri) s = (R_void, map_prod (SetIOPriority pri) id s)"
| "WritableFile_base mk over EWF_GetIOPriority s = (R_priority (GetIOPriority (fst s)), s)"
| "WritableFile_base mk over (EWF_SetWriteLifeTimeHint hint) s = (R_void, map_prod (SetWriteLifeTimeHint hint) id s)"
| "WritableFile_base mk over EWF_GetWriteLifeTimeHint s = (R_hint (GetWriteLifeTimeHint (fst s)), s)"
| "WritableFile_base mk over EWF_GetFileSize s = (R_pure_virtual, s)"
| "WritableFile_base mk over (EWF_SetPreallocationBlockSize sz) s = (R_void, map_prod (SetPreallocationBlockSize sz) id s)"
| "WritableFile_base mk over EWF_GetPreallocationStatus s = 
     (case GetPreallocationStatus (fst s) of (block, last_block) \<Rightarrow> (R_preallocation block last_block, s))"
| "WritableFile_base mk over (EWF_GetUniqueId ident max_size) s = (R_size 0, s)"
| "WritableFile_base mk over (EWF_InvalidateCache offset len) s = (R_status (not_supported mk ''WritableFile::InvalidateCache not supported.''), s)"
| "WritableFile_base mk over (EWF_RangeSync offset nbytes) s = 
     (if strict_bytes_per_sync (fst s) then env_virtual over EWF_Sync s else (R_status Status_OK, s))"
| "WritableFile_base mk over (EWF_PrepareWrite offset len) s = 
     (if preallocation_block_size (fst s) = 0 then (R_void, s)
      else
        let block_size = preallocation_block_size (fst s);
            new_last = (offset + len + block_size - 1) div block_size in
        if new_last > last_preallocated_block (fst s) then
          let num_spanned = new_last - last_preallocated_block (fst s);
              (ignored, s1) = env_virtual over (EWF_Allocate (block_size * last_preallocated_block (fst s))
                 (block_size * num_spanned)) s in
          (R_void, map_prod (last_preallocated_block_update (\<lambda>_. new_last)) id s1)
        else (R_void, s))"
| "WritableFile_base mk over (EWF_Allocate offset len) s = (R_status Status_OK, s)"

definition WritableFile_object ::
    "msg_ctor \<Rightarrow> (WritableFile_call \<Rightarrow> (WritableFileBase \<times> 's \<Rightarrow> 'v io_reply \<times> WritableFileBase \<times> 's) option) \<Rightarrow> WritableFile_call \<Rightarrow>
     WritableFileBase \<times> 's \<Rightarrow> 'v io_reply \<times> WritableFileBase \<times> 's" where
  "WritableFile_object mk over c s = (case over c of Some f \<Rightarrow> f s | None \<Rightarrow> WritableFile_base mk over c s)"

primrec WritableFileWrapper ::
    "(WritableFile_call \<Rightarrow> 't \<Rightarrow> 'v io_reply \<times> 't) \<Rightarrow> WritableFile_call \<Rightarrow> ('b \<times> 't \<Rightarrow> 'v io_reply \<times> 'b \<times> 't) option" where
  "WritableFileWrapper target (EWF_Append data) = Some (on_target target (EWF_Append data))"
| "WritableFileWrapper target (EWF_Append_verified data info) = Some (on_target target (EWF_Append_verified data info))"
| "WritableFileWrapper target (EWF_PositionedAppend data offset) = Some (on_target target (EWF_PositionedAppend data offset))"
| "WritableFileWrapper target (EWF_PositionedAppend_verified data offset info) = Some (on_target target (EWF_PositionedAppend_verified data offset info))"
| "WritableFileWrapper target (EWF_Truncate sz) = Some (on_target target (EWF_Truncate sz))"
| "WritableFileWrapper target EWF_Close = Some (on_target target EWF_Close)"
| "WritableFileWrapper target EWF_Flush = Some (on_target target EWF_Flush)"
| "WritableFileWrapper target EWF_Sync = Some (on_target target EWF_Sync)"
| "WritableFileWrapper target EWF_Fsync = Some (on_target target EWF_Fsync)"
| "WritableFileWrapper target EWF_IsSyncThreadSafe = Some (on_target target EWF_IsSyncThreadSafe)"
| "WritableFileWrapper target EWF_use_direct_io = Some (on_target target EWF_use_direct_io)"
| "WritableFileWrapper target EWF_GetRequiredBufferAlignment = Some (on_target target EWF_GetRequiredBufferAlignment)"
| "WritableFileWrapper target (EWF_SetIOPriority pri) = Some (on_target target (EWF_SetIOPriority pri))"
| "WritableFileWrapper target EWF_GetIOPriority = Some (on_target target EWF_GetIOPriority)"
| "WritableFileWrapper target (EWF_SetWriteLifeTimeHint hint) = Some (on_target target (EWF_SetWriteLifeTimeHint hint))"
| "WritableFileWrapper target EWF_GetWriteLifeTimeHint = Some (on_target target EWF_GetWriteLifeTimeHint)"
| "WritableFileWrapper target EWF_GetFileSize = Some (on_target target EWF_GetFileSize)"
| "WritableFileWrapper target (EWF_SetPreallocationBlockSize sz) = Some (on_target target (EWF_SetPreallocationBlockSize sz))"
| "WritableFileWrapper target EWF_GetPreallocationStatus = Some (on_target target EWF_GetPreallocationStatus)"
| "WritableFileWrapper target (EWF_GetUniqueId ident max_size) = Some (on_target target (EWF_GetUniqueId ident max_size))"
| "WritableFileWrapper target (EWF_InvalidateCache offset len) = Some (on_target target (EWF_InvalidateCache offset len))"
| "WritableFileWrapper target (EWF_RangeSync offset nbytes) = Some (on_target target (EWF_RangeSync offset nbytes))"
| "WritableFileWrapper target (EWF_PrepareWrite offset len) = Some (on_target target (EWF_PrepareWrite offset len))"
| "WritableFileWrapper target (EWF_Allocate offset len) = Some (on_target target (EWF_Allocate offset len))"

section \<open>Random read-write files\<close>

datatype (plugins only: code size) RandomRWFile_call =
      ERW_use_direct_io | ERW_GetRequiredBufferAlignment | ERW_Write uint64 Slice
  | ERW_Read uint64 nat pointer_handle pointer_handle | ERW_Flush | ERW_Sync | ERW_Fsync
  | ERW_Close

primrec RandomRWFile_base ::
    "(RandomRWFile_call \<Rightarrow> ('s \<Rightarrow> 'v io_reply \<times> 's) option) \<Rightarrow> RandomRWFile_call \<Rightarrow>
     's \<Rightarrow> 'v io_reply \<times> 's" where
  "RandomRWFile_base over ERW_use_direct_io s = (R_bool False, s)"
| "RandomRWFile_base over ERW_GetRequiredBufferAlignment s = (R_size kDefaultPageSize, s)"
| "RandomRWFile_base over (ERW_Write offset data) s = (R_pure_virtual, s)"
| "RandomRWFile_base over (ERW_Read offset n result scratch) s = (R_pure_virtual, s)"
| "RandomRWFile_base over ERW_Flush s = (R_pure_virtual, s)"
| "RandomRWFile_base over ERW_Sync s = (R_pure_virtual, s)"
| "RandomRWFile_base over ERW_Fsync s = 
     (case over ERW_Sync of Some f \<Rightarrow> f s | None \<Rightarrow> (R_pure_virtual, s))"
| "RandomRWFile_base over ERW_Close s = (R_pure_virtual, s)"

definition RandomRWFile_object ::
    "(RandomRWFile_call \<Rightarrow> ('s \<Rightarrow> 'v io_reply \<times> 's) option) \<Rightarrow> RandomRWFile_call \<Rightarrow>
     's \<Rightarrow> 'v io_reply \<times> 's" where
  "RandomRWFile_object over c s = (case over c of Some f \<Rightarrow> f s | None \<Rightarrow> RandomRWFile_base over c s)"

primrec RandomRWFileWrapper ::
    "(RandomRWFile_call \<Rightarrow> 't \<Rightarrow> 'v io_reply \<times> 't) \<Rightarrow> RandomRWFile_call \<Rightarrow> ('t \<Rightarrow> 'v io_reply \<times> 't) option" where
  "RandomRWFileWrapper target ERW_use_direct_io = Some (target ERW_use_direct_io)"
| "RandomRWFileWrapper target ERW_GetRequiredBufferAlignment = Some (target ERW_GetRequiredBufferAlignment)"
| "RandomRWFileWrapper target (ERW_Write offset data) = Some (target (ERW_Write offset data))"
| "RandomRWFileWrapper target (ERW_Read offset n result scratch) = Some (target (ERW_Read offset n result scratch))"
| "RandomRWFileWrapper target ERW_Flush = Some (target ERW_Flush)"
| "RandomRWFileWrapper target ERW_Sync = Some (target ERW_Sync)"
| "RandomRWFileWrapper target ERW_Fsync = Some (target ERW_Fsync)"
| "RandomRWFileWrapper target ERW_Close = Some (target ERW_Close)"

section \<open>Directories\<close>

datatype (plugins only: code size) Directory_call =
      ED_Fsync | ED_Close | ED_GetUniqueId pointer_handle nat

primrec Directory_base ::
    "msg_ctor \<Rightarrow> (Directory_call \<Rightarrow> ('s \<Rightarrow> 'v io_reply \<times> 's) option) \<Rightarrow> Directory_call \<Rightarrow>
     's \<Rightarrow> 'v io_reply \<times> 's" where
  "Directory_base mk over ED_Fsync s = (R_pure_virtual, s)"
| "Directory_base mk over ED_Close s = (R_status (not_supported mk ''Close''), s)"
| "Directory_base mk over (ED_GetUniqueId ident max_size) s = (R_size 0, s)"

definition Directory_object ::
    "msg_ctor \<Rightarrow> (Directory_call \<Rightarrow> ('s \<Rightarrow> 'v io_reply \<times> 's) option) \<Rightarrow> Directory_call \<Rightarrow>
     's \<Rightarrow> 'v io_reply \<times> 's" where
  "Directory_object mk over c s = (case over c of Some f \<Rightarrow> f s | None \<Rightarrow> Directory_base mk over c s)"

primrec DirectoryWrapper ::
    "(Directory_call \<Rightarrow> 't \<Rightarrow> 'v io_reply \<times> 't) \<Rightarrow> Directory_call \<Rightarrow> ('t \<Rightarrow> 'v io_reply \<times> 't) option" where
  "DirectoryWrapper target ED_Fsync = Some (target ED_Fsync)"
| "DirectoryWrapper target ED_Close = Some (target ED_Close)"
| "DirectoryWrapper target (ED_GetUniqueId ident max_size) = Some (target (ED_GetUniqueId ident max_size))"

section \<open>Loggers\<close>

datatype (plugins only: code size) Logger_call =
      EL_Close | EL_LogHeader string pointer_handle | EL_Logv string pointer_handle
  | EL_Logv_level InfoLogLevel string pointer_handle | EL_GetLogFileSize | EL_Flush
  | EL_GetInfoLogLevel | EL_SetInfoLogLevel InfoLogLevel

record LoggerBase =
  logger_closed :: bool
  log_level :: InfoLogLevel

definition Logger_new :: "InfoLogLevel \<Rightarrow> LoggerBase" where
  "Logger_new level = \<lparr>logger_closed = False, log_level = level\<rparr>"

definition kDoNotSupportGetLogFileSize :: nat where
  "kDoNotSupportGetLogFileSize = 2 ^ 64 - 1"

primrec Logger_base ::
    "(Logger_call \<Rightarrow> LoggerBase \<times> 's \<Rightarrow> env_reply \<times> LoggerBase \<times> 's) \<Rightarrow> (Logger_call \<Rightarrow> (LoggerBase \<times> 's \<Rightarrow> env_reply \<times> LoggerBase \<times> 's) option) \<Rightarrow> Logger_call \<Rightarrow>
     LoggerBase \<times> 's \<Rightarrow> env_reply \<times> LoggerBase \<times> 's" where
  "Logger_base elsewhere over EL_Close s = elsewhere EL_Close s"
| "Logger_base elsewhere over (EL_LogHeader format ap) s = 
     (case over (EL_Logv_level INFO_LEVEL format ap) of
        Some f \<Rightarrow> f s
      | None \<Rightarrow> elsewhere (EL_Logv_level INFO_LEVEL format ap) s)"
| "Logger_base elsewhere over (EL_Logv format ap) s = (R_undefined, s)"
| "Logger_base elsewhere over (EL_Logv_level level format ap) s = elsewhere (EL_Logv_level level format ap) s"
| "Logger_base elsewhere over EL_GetLogFileSize s = (R_size kDoNotSupportGetLogFileSize, s)"
| "Logger_base elsewhere over EL_Flush s = (R_void, s)"
| "Logger_base elsewhere over EL_GetInfoLogLevel s = (R_value (E_level (log_level (fst s))), s)"
| "Logger_base elsewhere over (EL_SetInfoLogLevel level) s = (R_void, map_prod (log_level_update (\<lambda>_. level)) id s)"

definition Logger_object ::
    "(Logger_call \<Rightarrow> LoggerBase \<times> 's \<Rightarrow> env_reply \<times> LoggerBase \<times> 's) \<Rightarrow> (Logger_call \<Rightarrow> (LoggerBase \<times> 's \<Rightarrow> env_reply \<times> LoggerBase \<times> 's) option) \<Rightarrow> Logger_call \<Rightarrow>
     LoggerBase \<times> 's \<Rightarrow> env_reply \<times> LoggerBase \<times> 's" where
  "Logger_object elsewhere over c s = (case over c of Some f \<Rightarrow> f s | None \<Rightarrow> Logger_base elsewhere over c s)"

primrec LoggerWrapper ::
    "(Logger_call \<Rightarrow> 't \<Rightarrow> 'v io_reply \<times> 't) \<Rightarrow> Logger_call \<Rightarrow> ('b \<times> 't \<Rightarrow> 'v io_reply \<times> 'b \<times> 't) option" where
  "LoggerWrapper target EL_Close = Some (on_target target EL_Close)"
| "LoggerWrapper target (EL_LogHeader format ap) = Some (on_target target (EL_LogHeader format ap))"
| "LoggerWrapper target (EL_Logv format ap) = Some (on_target target (EL_Logv format ap))"
| "LoggerWrapper target (EL_Logv_level level format ap) = Some (on_target target (EL_Logv_level level format ap))"
| "LoggerWrapper target EL_GetLogFileSize = Some (on_target target EL_GetLogFileSize)"
| "LoggerWrapper target EL_Flush = Some (on_target target EL_Flush)"
| "LoggerWrapper target EL_GetInfoLogLevel = Some (on_target target EL_GetInfoLogLevel)"
| "LoggerWrapper target (EL_SetInfoLogLevel level) = Some (on_target target (EL_SetInfoLogLevel level))"

section \<open>Clocks\<close>

datatype (plugins only: code size) SystemClock_call =
      SC_NowMicros | SC_NowNanos | SC_CPUMicros | SC_CPUNanos | SC_SleepForMicroseconds int
  | SC_TimedWait pointer_handle int | SC_GetCurrentTime | SC_TimeToString uint64

primrec SystemClock_base ::
    "(SystemClock_call \<Rightarrow> 's \<Rightarrow> env_reply \<times> 's) \<Rightarrow> (SystemClock_call \<Rightarrow> ('s \<Rightarrow> env_reply \<times> 's) option) \<Rightarrow> SystemClock_call \<Rightarrow>
     's \<Rightarrow> env_reply \<times> 's" where
  "SystemClock_base elsewhere over SC_NowMicros s = (R_pure_virtual, s)"
| "SystemClock_base elsewhere over SC_NowNanos s = 
     (case (case over SC_NowMicros of Some f \<Rightarrow> f s | None \<Rightarrow> (R_pure_virtual, s)) of
        (R_value (E_number n), s1) \<Rightarrow> (R_value (E_number (n * 1000)), s1)
      | other \<Rightarrow> other)"
| "SystemClock_base elsewhere over SC_CPUMicros s = (R_value (E_number 0), s)"
| "SystemClock_base elsewhere over SC_CPUNanos s = 
     (case (case over SC_CPUMicros of Some f \<Rightarrow> f s | None \<Rightarrow> (R_value (E_number 0), s)) of
        (R_value (E_number n), s1) \<Rightarrow> (R_value (E_number (n * 1000)), s1)
      | other \<Rightarrow> other)"
| "SystemClock_base elsewhere over (SC_SleepForMicroseconds micros) s = (R_pure_virtual, s)"
| "SystemClock_base elsewhere over (SC_TimedWait cv deadline) s = elsewhere (SC_TimedWait cv deadline) s"
| "SystemClock_base elsewhere over SC_GetCurrentTime s = (R_pure_virtual, s)"
| "SystemClock_base elsewhere over (SC_TimeToString time) s = (R_pure_virtual, s)"

definition SystemClock_object ::
    "(SystemClock_call \<Rightarrow> 's \<Rightarrow> env_reply \<times> 's) \<Rightarrow> (SystemClock_call \<Rightarrow> ('s \<Rightarrow> env_reply \<times> 's) option) \<Rightarrow> SystemClock_call \<Rightarrow>
     's \<Rightarrow> env_reply \<times> 's" where
  "SystemClock_object elsewhere over c s = (case over c of Some f \<Rightarrow> f s | None \<Rightarrow> SystemClock_base elsewhere over c s)"

primrec SystemClockWrapper ::
    "(SystemClock_call \<Rightarrow> 't \<Rightarrow> 'v io_reply \<times> 't) \<Rightarrow> SystemClock_call \<Rightarrow> ('t \<Rightarrow> 'v io_reply \<times> 't) option" where
  "SystemClockWrapper target SC_NowMicros = Some (target SC_NowMicros)"
| "SystemClockWrapper target SC_NowNanos = Some (target SC_NowNanos)"
| "SystemClockWrapper target SC_CPUMicros = Some (target SC_CPUMicros)"
| "SystemClockWrapper target SC_CPUNanos = Some (target SC_CPUNanos)"
| "SystemClockWrapper target (SC_SleepForMicroseconds micros) = Some (target (SC_SleepForMicroseconds micros))"
| "SystemClockWrapper target (SC_TimedWait cv deadline) = Some (target (SC_TimedWait cv deadline))"
| "SystemClockWrapper target SC_GetCurrentTime = Some (target SC_GetCurrentTime)"
| "SystemClockWrapper target (SC_TimeToString time) = Some (target (SC_TimeToString time))"

text \<open>
  Functions, their arguments, options of databases, threads and new objects are opaque handles.
\<close>

section \<open>Environments\<close>

datatype (plugins only: code size) Env_call =
      ENV_Name | ENV_RegisterDbPaths "string list" | ENV_UnregisterDbPaths "string list"
  | ENV_NewSequentialFile string EnvOptions | ENV_NewRandomAccessFile string EnvOptions
  | ENV_NewWritableFile string EnvOptions | ENV_ReopenWritableFile string EnvOptions
  | ENV_ReuseWritableFile string string EnvOptions | ENV_NewRandomRWFile string EnvOptions
  | ENV_NewMemoryMappedFileBuffer string | ENV_NewDirectory string | ENV_FileExists string
  | ENV_GetChildren string | ENV_GetChildrenFileAttributes string | ENV_DeleteFile string
  | ENV_Truncate string nat | ENV_CreateDir string | ENV_CreateDirIfMissing string
  | ENV_DeleteDir string | ENV_GetFileSize string | ENV_GetFileModificationTime string
  | ENV_RenameFile string string | ENV_LinkFile string string | ENV_NumFileLinks string
  | ENV_AreFilesSame string string | ENV_LockFile string | ENV_UnlockFile pointer_handle
  | ENV_LoadLibrary string string
  | ENV_Schedule pointer_handle pointer_handle Priority pointer_handle pointer_handle
  | ENV_UnSchedule pointer_handle Priority | ENV_StartThread pointer_handle pointer_handle
  | ENV_WaitForJoin | ENV_ReserveThreads int Priority | ENV_ReleaseThreads int Priority
  | ENV_GetThreadPoolQueueLen Priority | ENV_GetTestDirectory | ENV_NewLogger string
  | ENV_NowMicros | ENV_NowNanos | ENV_NowCPUNanos | ENV_SleepForMicroseconds int
  | ENV_GetHostName uint64 | ENV_GetHostNameString | ENV_GetCurrentTime
  | ENV_GetAbsolutePath string | ENV_SetBackgroundThreads int Priority
  | ENV_GetBackgroundThreads Priority | ENV_SetAllowNonOwnerAccess bool
  | ENV_IncBackgroundThreadsIfNeeded int Priority | ENV_LowerThreadPoolIOPriority Priority
  | ENV_LowerThreadPoolCPUPriority_to Priority nat | ENV_LowerThreadPoolCPUPriority Priority
  | ENV_TimeToString uint64 | ENV_GenerateUniqueId | ENV_OptimizeForLogRead EnvOptions
  | ENV_OptimizeForManifestRead EnvOptions | ENV_OptimizeForLogWrite EnvOptions pointer_handle
  | ENV_OptimizeForManifestWrite EnvOptions
  | ENV_OptimizeForCompactionTableWrite EnvOptions pointer_handle
  | ENV_OptimizeForCompactionTableRead EnvOptions pointer_handle
  | ENV_OptimizeForBlobFileRead EnvOptions pointer_handle | ENV_GetThreadList
  | ENV_GetThreadStatusUpdater | ENV_GetThreadID | ENV_GetFreeSpace string
  | ENV_IsDirectory string | ENV_SanitizeEnvOptions EnvOptions

primrec Env_base ::
    "msg_ctor \<Rightarrow> (Env_call \<Rightarrow> 's \<Rightarrow> env_reply \<times> 's) \<Rightarrow> (Env_call \<Rightarrow> ('s \<Rightarrow> env_reply \<times> 's) option) \<Rightarrow> Env_call \<Rightarrow>
     's \<Rightarrow> env_reply \<times> 's" where
  "Env_base mk elsewhere over ENV_Name s = (R_value (E_text []), s)"
| "Env_base mk elsewhere over (ENV_RegisterDbPaths paths) s = (R_status Status_OK, s)"
| "Env_base mk elsewhere over (ENV_UnregisterDbPaths paths) s = (R_status Status_OK, s)"
| "Env_base mk elsewhere over (ENV_NewSequentialFile fname opts) s = (R_pure_virtual, s)"
| "Env_base mk elsewhere over (ENV_NewRandomAccessFile fname opts) s = (R_pure_virtual, s)"
| "Env_base mk elsewhere over (ENV_NewWritableFile fname opts) s = (R_pure_virtual, s)"
| "Env_base mk elsewhere over (ENV_ReopenWritableFile fname opts) s = (R_status (not_supported mk ''Env::ReopenWritableFile() not supported.''), s)"
| "Env_base mk elsewhere over (ENV_ReuseWritableFile fname old_fname opts) s = elsewhere (ENV_ReuseWritableFile fname old_fname opts) s"
| "Env_base mk elsewhere over (ENV_NewRandomRWFile fname opts) s = (R_status (not_supported mk ''RandomRWFile is not implemented in this Env''), s)"
| "Env_base mk elsewhere over (ENV_NewMemoryMappedFileBuffer fname) s = (R_status (not_supported mk ''MemoryMappedFileBuffer is not implemented in this Env''), s)"
| "Env_base mk elsewhere over (ENV_NewDirectory name) s = (R_pure_virtual, s)"
| "Env_base mk elsewhere over (ENV_FileExists fname) s = (R_pure_virtual, s)"
| "Env_base mk elsewhere over (ENV_GetChildren dir) s = (R_pure_virtual, s)"
| "Env_base mk elsewhere over (ENV_GetChildrenFileAttributes dir) s = elsewhere (ENV_GetChildrenFileAttributes dir) s"
| "Env_base mk elsewhere over (ENV_DeleteFile fname) s = (R_pure_virtual, s)"
| "Env_base mk elsewhere over (ENV_Truncate fname sz) s = (R_status (not_supported mk ''Truncate is not supported for this Env''), s)"
| "Env_base mk elsewhere over (ENV_CreateDir dirname) s = (R_pure_virtual, s)"
| "Env_base mk elsewhere over (ENV_CreateDirIfMissing dirname) s = (R_pure_virtual, s)"
| "Env_base mk elsewhere over (ENV_DeleteDir dirname) s = (R_pure_virtual, s)"
| "Env_base mk elsewhere over (ENV_GetFileSize fname) s = (R_pure_virtual, s)"
| "Env_base mk elsewhere over (ENV_GetFileModificationTime fname) s = (R_pure_virtual, s)"
| "Env_base mk elsewhere over (ENV_RenameFile src target_name) s = (R_pure_virtual, s)"
| "Env_base mk elsewhere over (ENV_LinkFile src target_name) s = (R_status (not_supported mk ''LinkFile is not supported for this Env''), s)"
| "Env_base mk elsewhere over (ENV_NumFileLinks fname) s = (R_status (not_supported mk ''Getting number of file links is not supported for this Env''), s)"
| "Env_base mk elsewhere over (ENV_AreFilesSame first_name second_name) s = (R_status (not_supported mk ''AreFilesSame is not supported for this Env''), s)"
| "Env_base mk elsewhere over (ENV_LockFile fname) s = (R_pure_virtual, s)"
| "Env_base mk elsewhere over (ENV_UnlockFile file_lock) s = (R_pure_virtual, s)"
| "Env_base mk elsewhere over (ENV_LoadLibrary lib_name search_in) s = (R_status (not_supported mk ''LoadLibrary is not implemented in this Env''), s)"
| "Env_base mk elsewhere over (ENV_Schedule func arg pri tag unsched) s = (R_pure_virtual, s)"
| "Env_base mk elsewhere over (ENV_UnSchedule tag pri) s = (R_value (E_int 0), s)"
| "Env_base mk elsewhere over (ENV_StartThread func arg) s = (R_pure_virtual, s)"
| "Env_base mk elsewhere over ENV_WaitForJoin s = (R_void, s)"
| "Env_base mk elsewhere over (ENV_ReserveThreads n pri) s = (R_value (E_int 0), s)"
| "Env_base mk elsewhere over (ENV_ReleaseThreads n pri) s = (R_value (E_int 0), s)"
| "Env_base mk elsewhere over (ENV_GetThreadPoolQueueLen pri) s = (R_size 0, s)"
| "Env_base mk elsewhere over ENV_GetTestDirectory s = (R_pure_virtual, s)"
| "Env_base mk elsewhere over (ENV_NewLogger fname) s = elsewhere (ENV_NewLogger fname) s"
| "Env_base mk elsewhere over ENV_NowMicros s = (R_pure_virtual, s)"
| "Env_base mk elsewhere over ENV_NowNanos s = 
     (case (case over ENV_NowMicros of Some f \<Rightarrow> f s | None \<Rightarrow> (R_pure_virtual, s)) of
        (R_value (E_number n), s1) \<Rightarrow> (R_value (E_number (n * 1000)), s1)
      | other \<Rightarrow> other)"
| "Env_base mk elsewhere over ENV_NowCPUNanos s = (R_value (E_number 0), s)"
| "Env_base mk elsewhere over (ENV_SleepForMicroseconds micros) s = (R_pure_virtual, s)"
| "Env_base mk elsewhere over (ENV_GetHostName len) s = (R_pure_virtual, s)"
| "Env_base mk elsewhere over ENV_GetHostNameString s = elsewhere ENV_GetHostNameString s"
| "Env_base mk elsewhere over ENV_GetCurrentTime s = (R_pure_virtual, s)"
| "Env_base mk elsewhere over (ENV_GetAbsolutePath db_path) s = (R_pure_virtual, s)"
| "Env_base mk elsewhere over (ENV_SetBackgroundThreads number pri) s = (R_pure_virtual, s)"
| "Env_base mk elsewhere over (ENV_GetBackgroundThreads pri) s = (R_pure_virtual, s)"
| "Env_base mk elsewhere over (ENV_SetAllowNonOwnerAccess allow) s = (R_status (not_supported mk ''Env::SetAllowNonOwnerAccess() not supported.''), s)"
| "Env_base mk elsewhere over (ENV_IncBackgroundThreadsIfNeeded number pri) s = (R_pure_virtual, s)"
| "Env_base mk elsewhere over (ENV_LowerThreadPoolIOPriority pool) s = (R_void, s)"
| "Env_base mk elsewhere over (ENV_LowerThreadPoolCPUPriority_to pool cpu_pri) s = (R_status (not_supported mk ''Env::LowerThreadPoolCPUPriority(Priority, CpuPriority) not supported''), s)"
| "Env_base mk elsewhere over (ENV_LowerThreadPoolCPUPriority pool) s = (R_void, s)"
| "Env_base mk elsewhere over (ENV_TimeToString time) s = (R_pure_virtual, s)"
| "Env_base mk elsewhere over ENV_GenerateUniqueId s = elsewhere ENV_GenerateUniqueId s"
| "Env_base mk elsewhere over (ENV_OptimizeForLogRead opts) s = elsewhere (ENV_OptimizeForLogRead opts) s"
| "Env_base mk elsewhere over (ENV_OptimizeForManifestRead opts) s = elsewhere (ENV_OptimizeForManifestRead opts) s"
| "Env_base mk elsewhere over (ENV_OptimizeForLogWrite opts db_opts) s = elsewhere (ENV_OptimizeForLogWrite opts db_opts) s"
| "Env_base mk elsewhere over (ENV_OptimizeForManifestWrite opts) s = elsewhere (ENV_OptimizeForManifestWrite opts) s"
| "Env_base mk elsewhere over (ENV_OptimizeForCompactionTableWrite opts db_opts) s = elsewhere (ENV_OptimizeForCompactionTableWrite opts db_opts) s"
| "Env_base mk elsewhere over (ENV_OptimizeForCompactionTableRead opts db_opts) s = elsewhere (ENV_OptimizeForCompactionTableRead opts db_opts) s"
| "Env_base mk elsewhere over (ENV_OptimizeForBlobFileRead opts db_opts) s = elsewhere (ENV_OptimizeForBlobFileRead opts db_opts) s"
| "Env_base mk elsewhere over ENV_GetThreadList s = (R_status (not_supported mk ''Env::GetThreadList() not supported.''), s)"
| "Env_base mk elsewhere over ENV_GetThreadStatusUpdater s = elsewhere ENV_GetThreadStatusUpdater s"
| "Env_base mk elsewhere over ENV_GetThreadID s = elsewhere ENV_GetThreadID s"
| "Env_base mk elsewhere over (ENV_GetFreeSpace path) s = (R_status (not_supported mk ''Env::GetFreeSpace() not supported.''), s)"
| "Env_base mk elsewhere over (ENV_IsDirectory path) s = (R_status (not_supported mk ''Env::IsDirectory() not supported.''), s)"
| "Env_base mk elsewhere over (ENV_SanitizeEnvOptions opts) s = (R_void, s)"

definition Env_object ::
    "msg_ctor \<Rightarrow> (Env_call \<Rightarrow> 's \<Rightarrow> env_reply \<times> 's) \<Rightarrow> (Env_call \<Rightarrow> ('s \<Rightarrow> env_reply \<times> 's) option) \<Rightarrow> Env_call \<Rightarrow>
     's \<Rightarrow> env_reply \<times> 's" where
  "Env_object mk elsewhere over c s = (case over c of Some f \<Rightarrow> f s | None \<Rightarrow> Env_base mk elsewhere over c s)"

primrec EnvWrapper ::
    "(Env_call \<Rightarrow> 't \<Rightarrow> 'v io_reply \<times> 't) \<Rightarrow> Env_call \<Rightarrow> ('t \<Rightarrow> 'v io_reply \<times> 't) option" where
  "EnvWrapper target ENV_Name = Some (target ENV_Name)"
| "EnvWrapper target (ENV_RegisterDbPaths paths) = Some (target (ENV_RegisterDbPaths paths))"
| "EnvWrapper target (ENV_UnregisterDbPaths paths) = Some (target (ENV_UnregisterDbPaths paths))"
| "EnvWrapper target (ENV_NewSequentialFile fname opts) = Some (target (ENV_NewSequentialFile fname opts))"
| "EnvWrapper target (ENV_NewRandomAccessFile fname opts) = Some (target (ENV_NewRandomAccessFile fname opts))"
| "EnvWrapper target (ENV_NewWritableFile fname opts) = Some (target (ENV_NewWritableFile fname opts))"
| "EnvWrapper target (ENV_ReopenWritableFile fname opts) = Some (target (ENV_ReopenWritableFile fname opts))"
| "EnvWrapper target (ENV_ReuseWritableFile fname old_fname opts) = Some (target (ENV_ReuseWritableFile fname old_fname opts))"
| "EnvWrapper target (ENV_NewRandomRWFile fname opts) = Some (target (ENV_NewRandomRWFile fname opts))"
| "EnvWrapper target (ENV_NewMemoryMappedFileBuffer fname) = Some (target (ENV_NewMemoryMappedFileBuffer fname))"
| "EnvWrapper target (ENV_NewDirectory name) = Some (target (ENV_NewDirectory name))"
| "EnvWrapper target (ENV_FileExists fname) = Some (target (ENV_FileExists fname))"
| "EnvWrapper target (ENV_GetChildren dir) = Some (target (ENV_GetChildren dir))"
| "EnvWrapper target (ENV_GetChildrenFileAttributes dir) = Some (target (ENV_GetChildrenFileAttributes dir))"
| "EnvWrapper target (ENV_DeleteFile fname) = Some (target (ENV_DeleteFile fname))"
| "EnvWrapper target (ENV_Truncate fname sz) = Some (target (ENV_Truncate fname sz))"
| "EnvWrapper target (ENV_CreateDir dirname) = Some (target (ENV_CreateDir dirname))"
| "EnvWrapper target (ENV_CreateDirIfMissing dirname) = Some (target (ENV_CreateDirIfMissing dirname))"
| "EnvWrapper target (ENV_DeleteDir dirname) = Some (target (ENV_DeleteDir dirname))"
| "EnvWrapper target (ENV_GetFileSize fname) = Some (target (ENV_GetFileSize fname))"
| "EnvWrapper target (ENV_GetFileModificationTime fname) = Some (target (ENV_GetFileModificationTime fname))"
| "EnvWrapper target (ENV_RenameFile src target_name) = Some (target (ENV_RenameFile src target_name))"
| "EnvWrapper target (ENV_LinkFile src target_name) = Some (target (ENV_LinkFile src target_name))"
| "EnvWrapper target (ENV_NumFileLinks fname) = Some (target (ENV_NumFileLinks fname))"
| "EnvWrapper target (ENV_AreFilesSame first_name second_name) = Some (target (ENV_AreFilesSame first_name second_name))"
| "EnvWrapper target (ENV_LockFile fname) = Some (target (ENV_LockFile fname))"
| "EnvWrapper target (ENV_UnlockFile file_lock) = Some (target (ENV_UnlockFile file_lock))"
| "EnvWrapper target (ENV_IsDirectory path) = Some (target (ENV_IsDirectory path))"
| "EnvWrapper target (ENV_LoadLibrary lib_name search_in) = Some (target (ENV_LoadLibrary lib_name search_in))"
| "EnvWrapper target (ENV_Schedule func arg pri tag unsched) = Some (target (ENV_Schedule func arg pri tag unsched))"
| "EnvWrapper target (ENV_UnSchedule tag pri) = Some (target (ENV_UnSchedule tag pri))"
| "EnvWrapper target (ENV_StartThread func arg) = Some (target (ENV_StartThread func arg))"
| "EnvWrapper target ENV_WaitForJoin = Some (target ENV_WaitForJoin)"
| "EnvWrapper target (ENV_GetThreadPoolQueueLen pri) = Some (target (ENV_GetThreadPoolQueueLen pri))"
| "EnvWrapper target (ENV_ReserveThreads n pri) = Some (target (ENV_ReserveThreads n pri))"
| "EnvWrapper target (ENV_ReleaseThreads n pri) = Some (target (ENV_ReleaseThreads n pri))"
| "EnvWrapper target ENV_GetTestDirectory = Some (target ENV_GetTestDirectory)"
| "EnvWrapper target (ENV_NewLogger fname) = Some (target (ENV_NewLogger fname))"
| "EnvWrapper target ENV_NowMicros = Some (target ENV_NowMicros)"
| "EnvWrapper target ENV_NowNanos = Some (target ENV_NowNanos)"
| "EnvWrapper target ENV_NowCPUNanos = Some (target ENV_NowCPUNanos)"
| "EnvWrapper target (ENV_SleepForMicroseconds micros) = Some (target (ENV_SleepForMicroseconds micros))"
| "EnvWrapper target (ENV_GetHostName len) = Some (target (ENV_GetHostName len))"
| "EnvWrapper target ENV_GetCurrentTime = Some (target ENV_GetCurrentTime)"
| "EnvWrapper target (ENV_GetAbsolutePath db_path) = Some (target (ENV_GetAbsolutePath db_path))"
| "EnvWrapper target (ENV_SetBackgroundThreads number pri) = Some (target (ENV_SetBackgroundThreads number pri))"
| "EnvWrapper target (ENV_GetBackgroundThreads pri) = Some (target (ENV_GetBackgroundThreads pri))"
| "EnvWrapper target (ENV_SetAllowNonOwnerAccess allow) = Some (target (ENV_SetAllowNonOwnerAccess allow))"
| "EnvWrapper target (ENV_IncBackgroundThreadsIfNeeded number pri) = Some (target (ENV_IncBackgroundThreadsIfNeeded number pri))"
| "EnvWrapper target (ENV_LowerThreadPoolIOPriority pool) = Some (target (ENV_LowerThreadPoolIOPriority pool))"
| "EnvWrapper target (ENV_LowerThreadPoolCPUPriority pool) = Some (target (ENV_LowerThreadPoolCPUPriority pool))"
| "EnvWrapper target (ENV_LowerThreadPoolCPUPriority_to pool cpu_pri) = Some (target (ENV_LowerThreadPoolCPUPriority_to pool cpu_pri))"
| "EnvWrapper target (ENV_TimeToString time) = Some (target (ENV_TimeToString time))"
| "EnvWrapper target ENV_GetThreadList = Some (target ENV_GetThreadList)"
| "EnvWrapper target ENV_GetThreadStatusUpdater = Some (target ENV_GetThreadStatusUpdater)"
| "EnvWrapper target ENV_GetThreadID = Some (target ENV_GetThreadID)"
| "EnvWrapper target ENV_GenerateUniqueId = Some (target ENV_GenerateUniqueId)"
| "EnvWrapper target (ENV_OptimizeForLogRead opts) = Some (target (ENV_OptimizeForLogRead opts))"
| "EnvWrapper target (ENV_OptimizeForManifestRead opts) = Some (target (ENV_OptimizeForManifestRead opts))"
| "EnvWrapper target (ENV_OptimizeForLogWrite opts db_opts) = Some (target (ENV_OptimizeForLogWrite opts db_opts))"
| "EnvWrapper target (ENV_OptimizeForManifestWrite opts) = Some (target (ENV_OptimizeForManifestWrite opts))"
| "EnvWrapper target (ENV_OptimizeForCompactionTableWrite opts db_opts) = Some (target (ENV_OptimizeForCompactionTableWrite opts db_opts))"
| "EnvWrapper target (ENV_OptimizeForCompactionTableRead opts db_opts) = Some (target (ENV_OptimizeForCompactionTableRead opts db_opts))"
| "EnvWrapper target (ENV_OptimizeForBlobFileRead opts db_opts) = Some (target (ENV_OptimizeForBlobFileRead opts db_opts))"
| "EnvWrapper target (ENV_GetFreeSpace path) = Some (target (ENV_GetFreeSpace path))"
| "EnvWrapper target (ENV_SanitizeEnvOptions opts) = Some (target (ENV_SanitizeEnvOptions opts))"
| "EnvWrapper target ENV_GetHostNameString = None"

text \<open>The target of an \<open>EnvWrapper\<close>; \<open>Env::Default\<close> is declared only (\<open>default_env\<close>).\<close>

record Target =
  target_env :: pointer_handle
  target_guard :: pointer_handle

definition Target_raw :: "pointer_handle \<Rightarrow> Target" where
  "Target_raw t = \<lparr>target_env = t, target_guard = None\<rparr>"

definition Target_guarded :: "pointer_handle \<Rightarrow> Target" where
  "Target_guarded t = \<lparr>target_env = t, target_guard = t\<rparr>"

definition Target_Prepare :: "pointer_handle \<Rightarrow> Target \<Rightarrow> Target" where
  "Target_Prepare default_env t =
     (if target_guard t \<noteq> None then t\<lparr>target_env := target_guard t\<rparr>
      else if target_env t = None then t\<lparr>target_env := default_env\<rparr>
      else t)"

section \<open>What the wrappers forward\<close>

lemma SequentialFileWrapper_forwards: "SequentialFileWrapper target c = Some (target c)"
  by (cases c) simp_all

lemma RandomAccessFileWrapper_forwards: "RandomAccessFileWrapper target c = Some (target c)"
  by (cases c) simp_all

lemma WritableFileWrapper_forwards: "WritableFileWrapper target c = Some (on_target target c)"
  by (cases c) simp_all

lemma RandomRWFileWrapper_forwards: "RandomRWFileWrapper target c = Some (target c)"
  by (cases c) simp_all

lemma DirectoryWrapper_forwards: "DirectoryWrapper target c = Some (target c)"
  by (cases c) simp_all

lemma LoggerWrapper_forwards: "LoggerWrapper target c = Some (on_target target c)"
  by (cases c) simp_all

lemma SystemClockWrapper_forwards: "SystemClockWrapper target c = Some (target c)"
  by (cases c) simp_all

lemma EnvWrapper_forwards: "c \<noteq> ENV_GetHostNameString \<Longrightarrow> EnvWrapper target c = Some (target c)"
  by (cases c) simp_all

lemmas env_wrapper_simps = SequentialFileWrapper_forwards RandomAccessFileWrapper_forwards
  WritableFileWrapper_forwards RandomRWFileWrapper_forwards DirectoryWrapper_forwards
  LoggerWrapper_forwards SystemClockWrapper_forwards EnvWrapper_forwards
  SequentialFile_object_def RandomAccessFile_object_def WritableFile_object_def
  RandomRWFile_object_def Directory_object_def Logger_object_def SystemClock_object_def Env_object_def

interpretation env_sequential: forwarding "SequentialFile_object mk (SequentialFileWrapper target)"
    target id "\<lambda>c. True" for mk target
  by unfold_locales (simp add: env_wrapper_simps)

interpretation env_random_access: forwarding "RandomAccessFile_object mk (RandomAccessFileWrapper target)"
    target id "\<lambda>c. True" for mk target
  by unfold_locales (simp add: env_wrapper_simps)

interpretation env_writable: forwarding "WritableFile_object mk (WritableFileWrapper target)"
    target snd "\<lambda>c. True" for mk target
  by unfold_locales (auto simp: env_wrapper_simps on_target_def split: prod.splits)

interpretation env_random_rw: forwarding "RandomRWFile_object (RandomRWFileWrapper target)"
    target id "\<lambda>c. True" for target
  by unfold_locales (simp add: env_wrapper_simps)

interpretation env_directory: forwarding "Directory_object mk (DirectoryWrapper target)"
    target id "\<lambda>c. True" for mk target
  by unfold_locales (simp add: env_wrapper_simps)

interpretation env_logger: forwarding "Logger_object elsewhere (LoggerWrapper target)"
    target snd "\<lambda>c. True" for elsewhere target
  by unfold_locales (auto simp: env_wrapper_simps on_target_def split: prod.splits)

interpretation clock_wrapper: forwarding "SystemClock_object elsewhere (SystemClockWrapper target)"
    target id "\<lambda>c. True" for elsewhere target
  by unfold_locales (simp add: env_wrapper_simps)

interpretation env_wrapper: forwarding "Env_object mk elsewhere (EnvWrapper target)"
    target id "\<lambda>c. c \<noteq> ENV_GetHostNameString" for mk elsewhere target
  by unfold_locales (simp add: env_wrapper_simps)

lemma Env_PrepareWrite_object:
  assumes "over (EWF_PrepareWrite offset len) = None"
    and "\<And>o' l b s. over (EWF_Allocate o' l) =
      Some (\<lambda>(b, s). case allocate o' l opts dbg s of (st, s1) \<Rightarrow> (R_status st, b, s1))"
  shows "WritableFile_object mk over (EWF_PrepareWrite offset len) s =
    (R_void, PrepareWrite_default allocate offset len opts dbg s)"
  using assms
  by (cases s) (auto simp: WritableFile_object_def env_virtual_def PrepareWrite_default_def Let_def
      split: prod.splits)

section \<open>Properties\<close>

text \<open>
  C30. The wrappers of env.h and of the clock behave as their targets on every sequence of calls,
  priorities included; the environment wrapper does except for \<open>GetHostNameString\<close>, which it answers
  itself. For the wrappers with members of their own (writable files, loggers) this is about the
  state of the target.
\<close>

theorem env_wrappers_transparent:
  "(\<forall>c \<in> set cs. c \<noteq> ENV_GetHostNameString) \<Longrightarrow>
     run_calls (Env_object mk elsewhere (EnvWrapper env)) cs s = run_calls env cs s \<and>
     Env_object mk elsewhere (EnvWrapper env) ENV_GetHostNameString s = elsewhere ENV_GetHostNameString s \<and>
     run_calls (SequentialFile_object mk (SequentialFileWrapper sf)) scs s1 = run_calls sf scs s1 \<and>
     run_calls (RandomAccessFile_object mk (RandomAccessFileWrapper ra)) rcs s2 = run_calls ra rcs s2 \<and>
     run_calls (RandomRWFile_object (RandomRWFileWrapper rw)) wcs s3 = run_calls rw wcs s3 \<and>
     run_calls (Directory_object mk (DirectoryWrapper d)) dcs s4 = run_calls d dcs s4 \<and>
     run_calls (SystemClock_object sc_elsewhere (SystemClockWrapper sc)) tcs s5 = run_calls sc tcs s5 \<and>
     (run_calls (WritableFile_object mk (WritableFileWrapper wfile)) fcs s6 = (rs, s6') \<longrightarrow>
        run_calls wfile fcs (snd s6) = (rs, snd s6')) \<and>
     (run_calls (Logger_object lg_elsewhere (LoggerWrapper lg)) lcs s7 = (ls, s7') \<longrightarrow>
        run_calls lg lcs (snd s7) = (ls, snd s7'))"
proof -
  assume cs: "\<forall>c \<in> set cs. c \<noteq> ENV_GetHostNameString"
  have env: "run_calls (Env_object mk elsewhere (EnvWrapper env)) cs s = run_calls env cs s"
  proof -
    obtain rs s' where run: "run_calls (Env_object mk elsewhere (EnvWrapper env)) cs s = (rs, s')"
      by (rule prod.exhaust)
    from env_wrapper.forward_run [OF cs run] run show ?thesis by simp
  qed
  have host: "Env_object mk elsewhere (EnvWrapper env) ENV_GetHostNameString s =
      elsewhere ENV_GetHostNameString s" by (simp add: Env_object_def)
  show ?thesis
    by (intro conjI impI env host id_forwarding_run env_sequential.forwarding_axioms
        env_random_access.forwarding_axioms env_random_rw.forwarding_axioms
        env_directory.forwarding_axioms clock_wrapper.forwarding_axioms)
      (simp_all add: env_writable.forward_run env_logger.forward_run)
qed

definition counting_env :: "Env_call \<Rightarrow> nat \<Rightarrow> env_reply \<times> nat" where
  "counting_env c n = (R_value (E_int (int n)), n + 1)"

theorem env_wrappers_transparent_witness:
  "run_calls (Env_object plain_ctor (\<lambda>c s. (R_void, s)) (EnvWrapper counting_env))
     [ENV_FileExists ''a'', ENV_NowMicros] 0 = ([R_value (E_int 0), R_value (E_int 1)], 2)"
proof -
  have eq: "run_calls (Env_object plain_ctor (\<lambda>c s. (R_void, s)) (EnvWrapper counting_env))
      [ENV_FileExists ''a'', ENV_NowMicros] 0 = run_calls counting_env [ENV_FileExists ''a'', ENV_NowMicros] 0"
    by (rule conjunct1 [OF env_wrappers_transparent]) simp
  show ?thesis unfolding eq by (simp add: counting_env_def)
qed

text \<open>
  C64. \<open>WritableFile\<close> and \<open>FSWritableFile\<close> preallocate alike: for derived classes that leave \<open>PrepareWrite\<close>
  alone and allocate in the same way, the two implementations make the same \<open>Allocate\<close> calls and
  leave the same state.
\<close>

theorem PrepareWrite_env_fs_agree:
  assumes "env_over (EWF_PrepareWrite offset len) = None"
    and "\<And>o' l. env_over (EWF_Allocate o' l) =
      Some (\<lambda>(b, s). case allocate o' l opts dbg s of (st, s1) \<Rightarrow> (R_status st, b, s1))"
    and "fs_over (WF_PrepareWrite offset len opts dbg) = None"
    and "\<And>o' l. fs_over (WF_Allocate o' l opts dbg) =
      Some (\<lambda>(b, s). case allocate o' l opts dbg s of (st, s1) \<Rightarrow> (R_status st, b, s1))"
  shows "WritableFile_object mk env_over (EWF_PrepareWrite offset len) s =
    FSWritableFile_object fs_over (WF_PrepareWrite offset len opts dbg) s"
  using Env_PrepareWrite_object [of env_over offset len allocate opts dbg, OF assms(1,2)]
    PrepareWrite_object [of fs_over offset len opts dbg allocate, OF assms(3,4)] by simp

theorem PrepareWrite_env_fs_agree_witness:
  "let alloc = (\<lambda>c (b, log). (R_status IO_OK, b, log @ [c])) in
   WritableFile_object plain_ctor
     (\<lambda>c. case c of EWF_Allocate o' l \<Rightarrow> Some (alloc (o', l)) | _ \<Rightarrow> None) (EWF_PrepareWrite 3 9)
     (SetPreallocationBlockSize 4 FSWritableFile_default, []) =
   (R_void :: unit io_reply, (SetPreallocationBlockSize 4 FSWritableFile_default)\<lparr>last_preallocated_block := 3\<rparr>,
      [(0, 12)])"
proof -
  let ?alloc = "\<lambda>c (b, log). (R_status IO_OK :: unit io_reply, b, log @ [c])"
  let ?env = "\<lambda>c. case c of EWF_Allocate o' l \<Rightarrow> Some (?alloc (o', l)) | _ \<Rightarrow> None"
  let ?fs = "\<lambda>c. case c of WF_Allocate o' l op d \<Rightarrow> Some (?alloc (o', l)) | _ \<Rightarrow> None"
  have "WritableFile_object plain_ctor ?env (EWF_PrepareWrite 3 9)
      (SetPreallocationBlockSize 4 FSWritableFile_default, []) =
    FSWritableFile_object ?fs (WF_PrepareWrite 3 9 IOOptions_default None)
      (SetPreallocationBlockSize 4 FSWritableFile_default, [])"
    by (rule PrepareWrite_env_fs_agree [where allocate = log_allocate])
      (auto simp: log_allocate_def fun_eq_iff)
  moreover have "FSWritableFile_object ?fs (WF_PrepareWrite 3 9 IOOptions_default None)
      (SetPreallocationBlockSize 4 FSWritableFile_default, []) =
    (R_void, (SetPreallocationBlockSize 4 FSWritableFile_default)\<lparr>last_preallocated_block := 3\<rparr>, [(0, 12)])"
    by (simp add: FSWritableFile_object_def virtual_def SetPreallocationBlockSize_def
        FSWritableFile_default_def Let_def)
  ultimately show ?thesis unfolding Let_def by (rule trans)
qed

end
