(* ===== verification/EnvMirrorModel.thy ===== *)
theory EnvMirrorModel
  imports EnvWrappers "HOL-Library.Multiset"
begin

text \<open>
  \<open>class EnvMirror\<close> of include/rocksdb/utilities/env_mirror.h: an environment that makes every call of
  two backing environments \<open>a\<close> and \<open>b\<close> and asserts that they agree. It derives from
  \<open>EnvWrapper(a)\<close>, so a call it does not override goes to \<open>a\<close> alone.

  A failed assertion, or the use of a lock that is null or was released, is None. The four functions
  that open files are declared only (\<open>files\<close>).

  The locale \<open>alike\<close> is what the mirror relies on: two environments that agree, as long as they
  get the same calls.
\<close>

section \<open>The mirror\<close>

record ('a, 'b) Mirror =
  mr_a :: 'a
  mr_b :: 'b
  mr_locks :: "nat \<rightharpoonup> pointer_handle \<times> pointer_handle" \<comment> \<open>the live \<open>FileLockMirror\<close> objects\<close>
  mr_next :: nat

definition Mirror_new :: "'a \<Rightarrow> 'b \<Rightarrow> ('a, 'b) Mirror" where
  "Mirror_new a b = \<lparr>mr_a = a, mr_b = b, mr_locks = Map.empty, mr_next = 1\<rparr>"

text \<open>The destructor deletes the environments it was told to own.\<close>

definition Mirror_destroy :: "bool \<Rightarrow> bool \<Rightarrow> pointer_handle \<Rightarrow> pointer_handle \<Rightarrow> pointer_handle list" where
  "Mirror_destroy free_a free_b a b = (if free_a then [a] else []) @ (if free_b then [b] else [])"

text \<open>The status of a reply; the replies of \<open>GetChildren\<close> and of the calls with a number or handle.\<close>

definition reply_status :: "env_reply \<Rightarrow> Status" where
  "reply_status r = (case r of R_status st \<Rightarrow> st | R_out st v \<Rightarrow> st | _ \<Rightarrow> Status_default)"

definition reply_names :: "env_reply \<Rightarrow> string list" where
  "reply_names r = (case r of R_out st (E_names ns) \<Rightarrow> ns | _ \<Rightarrow> [])"

definition reply_number :: "env_reply \<Rightarrow> uint64" where
  "reply_number r = (case r of R_out st (E_number n) \<Rightarrow> n | _ \<Rightarrow> 0)"

definition reply_handle :: "env_reply \<Rightarrow> pointer_handle" where
  "reply_handle r = (case r of R_out st (E_handle h) \<Rightarrow> h | _ \<Rightarrow> None)"

type_synonym ('a, 'b) mirror_result = "(env_reply \<times> ('a, 'b) Mirror) option"

text \<open>Both calls, and the comparison of their statuses.\<close>

definition both ::
    "(Env_call \<Rightarrow> 'a \<Rightarrow> env_reply \<times> 'a) \<Rightarrow> (Env_call \<Rightarrow> 'b \<Rightarrow> env_reply \<times> 'b) \<Rightarrow> Env_call \<Rightarrow> Env_call \<Rightarrow>
     ('a, 'b) Mirror \<Rightarrow> (env_reply \<times> env_reply \<times> ('a, 'b) Mirror) option" where
  "both a b ca cb m =
     (let (ra, a1) = a ca (mr_a m); (rb, b1) = b cb (mr_b m) in
      if Status_eq (reply_status ra) (reply_status rb)
      then Some (ra, rb, m\<lparr>mr_a := a1, mr_b := b1\<rparr>) else None)"

definition Mirror_status ::
    "(Env_call \<Rightarrow> 'a \<Rightarrow> env_reply \<times> 'a) \<Rightarrow> (Env_call \<Rightarrow> 'b \<Rightarrow> env_reply \<times> 'b) \<Rightarrow> Env_call \<Rightarrow>
     ('a, 'b) Mirror \<Rightarrow> ('a, 'b) mirror_result" where
  "Mirror_status a b c m = do { (ra, rb, m1) \<leftarrow> both a b c c m; Some (R_status (reply_status ra), m1) }"

definition Mirror_NewDirectory ::
    "(Env_call \<Rightarrow> 'a \<Rightarrow> env_reply \<times> 'a) \<Rightarrow> (Env_call \<Rightarrow> 'b \<Rightarrow> env_reply \<times> 'b) \<Rightarrow> string \<Rightarrow>
     ('a, 'b) Mirror \<Rightarrow> ('a, 'b) mirror_result" where
  "Mirror_NewDirectory a b name m =
     do { (ra, rb, m1) \<leftarrow> both a b (ENV_NewDirectory name) (ENV_NewDirectory name) m; Some (ra, m1) }"

definition Mirror_GetChildren ::
    "(Env_call \<Rightarrow> 'a \<Rightarrow> env_reply \<times> 'a) \<Rightarrow> (Env_call \<Rightarrow> 'b \<Rightarrow> env_reply \<times> 'b) \<Rightarrow> string \<Rightarrow>
     ('a, 'b) Mirror \<Rightarrow> ('a, 'b) mirror_result" where
  "Mirror_GetChildren a b dir m =
     do {
       (ra, rb, m1) \<leftarrow> both a b (ENV_GetChildren dir) (ENV_GetChildren dir) m;
       let ar = sort (reply_names ra);
       let br = sort (reply_names rb);
       if \<not> status_ok (reply_status ra) \<or> ar \<noteq> br then None
       else Some (R_out (reply_status ra) (E_names ar), m1)
     }"

definition Mirror_GetFileSize ::
    "(Env_call \<Rightarrow> 'a \<Rightarrow> env_reply \<times> 'a) \<Rightarrow> (Env_call \<Rightarrow> 'b \<Rightarrow> env_reply \<times> 'b) \<Rightarrow> string \<Rightarrow>
     ('a, 'b) Mirror \<Rightarrow> ('a, 'b) mirror_result" where
  "Mirror_GetFileSize a b f m =
     do {
       (ra, rb, m1) \<leftarrow> both a b (ENV_GetFileSize f) (ENV_GetFileSize f) m;
       if \<not> status_ok (reply_status ra) \<or> reply_number ra = reply_number rb
       then Some (R_out (reply_status ra) (E_number (reply_number ra)), m1) else None
     }"

definition Mirror_GetFileModificationTime ::
    "(Env_call \<Rightarrow> 'a \<Rightarrow> env_reply \<times> 'a) \<Rightarrow> (Env_call \<Rightarrow> 'b \<Rightarrow> env_reply \<times> 'b) \<Rightarrow> string \<Rightarrow>
     ('a, 'b) Mirror \<Rightarrow> ('a, 'b) mirror_result" where
  "Mirror_GetFileModificationTime a b f m =
     do {
       (ra, rb, m1) \<leftarrow> both a b (ENV_GetFileModificationTime f) (ENV_GetFileModificationTime f) m;
       let amtime = reply_number ra;
       let bmtime = reply_number rb;
       if \<not> status_ok (reply_status ra) \<or> amtime - bmtime < 10000 \<or> bmtime - amtime < 10000
       then Some (R_out (reply_status ra) (E_number amtime), m1) else None
     }"

definition Mirror_LockFile ::
    "(Env_call \<Rightarrow> 'a \<Rightarrow> env_reply \<times> 'a) \<Rightarrow> (Env_call \<Rightarrow> 'b \<Rightarrow> env_reply \<times> 'b) \<Rightarrow> string \<Rightarrow>
     ('a, 'b) Mirror \<Rightarrow> ('a, 'b) mirror_result" where
  "Mirror_LockFile a b f m =
     do {
       (ra, rb, m1) \<leftarrow> both a b (ENV_LockFile f) (ENV_LockFile f) m;
       if status_ok (reply_status ra)
       then Some (R_out (reply_status ra) (E_handle (Some (mr_next m1))),
                  m1\<lparr>mr_locks := (mr_locks m1)(mr_next m1 \<mapsto> (reply_handle ra, reply_handle rb)),
                     mr_next := mr_next m1 + 1\<rparr>)
       else Some (R_status (reply_status ra), m1)
     }"

definition Mirror_UnlockFile ::
    "(Env_call \<Rightarrow> 'a \<Rightarrow> env_reply \<times> 'a) \<Rightarrow> (Env_call \<Rightarrow> 'b \<Rightarrow> env_reply \<times> 'b) \<Rightarrow> pointer_handle \<Rightarrow>
     ('a, 'b) Mirror \<Rightarrow> ('a, 'b) mirror_result" where
  "Mirror_UnlockFile a b l m =
     do {
       ml \<leftarrow> l;
       (al, bl) \<leftarrow> mr_locks m ml;
       (ra, rb, m1) \<leftarrow> both a b (ENV_UnlockFile al) (ENV_UnlockFile bl) m;
       Some (R_status (reply_status ra), m1\<lparr>mr_locks := (mr_locks m1)(ml := None)\<rparr>)
     }"

text \<open>The calls that \<open>EnvWrapper\<close> answers.\<close>

definition Mirror_inherited ::
    "msg_ctor \<Rightarrow> (Env_call \<Rightarrow> 'a \<Rightarrow> env_reply \<times> 'a) \<Rightarrow> (Env_call \<Rightarrow> 'a \<Rightarrow> env_reply \<times> 'a) \<Rightarrow> Env_call \<Rightarrow>
     ('a, 'b) Mirror \<Rightarrow> ('a, 'b) mirror_result" where
  "Mirror_inherited mk elsewhere a c m =
     (let (r, a1) = Env_object mk elsewhere (EnvWrapper a) c (mr_a m) in Some (r, m\<lparr>mr_a := a1\<rparr>))"

definition EnvMirror_object ::
    "msg_ctor \<Rightarrow> (Env_call \<Rightarrow> 'a \<Rightarrow> env_reply \<times> 'a) \<Rightarrow>
     (Env_call \<Rightarrow> ('a, 'b) Mirror \<Rightarrow> ('a, 'b) mirror_result) \<Rightarrow>
     (Env_call \<Rightarrow> 'a \<Rightarrow> env_reply \<times> 'a) \<Rightarrow> (Env_call \<Rightarrow> 'b \<Rightarrow> env_reply \<times> 'b) \<Rightarrow> Env_call \<Rightarrow>
     ('a, 'b) Mirror \<Rightarrow> ('a, 'b) mirror_result" where
  "EnvMirror_object mk elsewhere files a b c m =
     (case c of
        ENV_NewSequentialFile f opts \<Rightarrow> files c m
      | ENV_NewRandomAccessFile f opts \<Rightarrow> files c m
      | ENV_NewWritableFile f opts \<Rightarrow> files c m
      | ENV_ReuseWritableFile f old opts \<Rightarrow> files c m
      | ENV_NewDirectory name \<Rightarrow> Mirror_NewDirectory a b name m
      | ENV_FileExists f \<Rightarrow> Mirror_status a b c m
      | ENV_GetChildren dir \<Rightarrow> Mirror_GetChildren a b dir m
      | ENV_DeleteFile f \<Rightarrow> Mirror_status a b c m
      | ENV_CreateDir d \<Rightarrow> Mirror_status a b c m
      | ENV_CreateDirIfMissing d \<Rightarrow> Mirror_status a b c m
      | ENV_DeleteDir d \<Rightarrow> Mirror_status a b c m
      | ENV_GetFileSize f \<Rightarrow> Mirror_GetFileSize a b f m
      | ENV_GetFileModificationTime f \<Rightarrow> Mirror_GetFileModificationTime a b f m
      | ENV_RenameFile f g \<Rightarrow> Mirror_status a b c m
      | ENV_LinkFile f g \<Rightarrow> Mirror_status a b c m
      | ENV_LockFile f \<Rightarrow> Mirror_LockFile a b f m
      | ENV_UnlockFile l \<Rightarrow> Mirror_UnlockFile a b l m
      | _ \<Rightarrow> Mirror_inherited mk elsewhere a c m)"

section \<open>What the mirror relies on\<close>

text \<open>
  The calls that reach both environments, and when the mirror may be given one: a directory listing must
  succeed, and a lock must be one the mirror gave out and has not released.
\<close>

definition mirrored :: "Env_call \<Rightarrow> bool" where
  "mirrored c \<longleftrightarrow>
     (case c of
        ENV_NewDirectory name \<Rightarrow> True | ENV_FileExists f \<Rightarrow> True | ENV_GetChildren dir \<Rightarrow> True
      | ENV_DeleteFile f \<Rightarrow> True | ENV_CreateDir d \<Rightarrow> True | ENV_CreateDirIfMissing d \<Rightarrow> True
      | ENV_DeleteDir d \<Rightarrow> True | ENV_GetFileSize f \<Rightarrow> True | ENV_GetFileModificationTime f \<Rightarrow> True
      | ENV_RenameFile f g \<Rightarrow> True | ENV_LinkFile f g \<Rightarrow> True | ENV_LockFile f \<Rightarrow> True
      | ENV_UnlockFile l \<Rightarrow> True | _ \<Rightarrow> False)"

definition opens_file :: "Env_call \<Rightarrow> bool" where
  "opens_file c \<longleftrightarrow>
     (case c of
        ENV_NewSequentialFile f opts \<Rightarrow> True | ENV_NewRandomAccessFile f opts \<Rightarrow> True
      | ENV_NewWritableFile f opts \<Rightarrow> True | ENV_ReuseWritableFile f old opts \<Rightarrow> True | _ \<Rightarrow> False)"

definition permitted ::
    "(Env_call \<Rightarrow> 'a \<Rightarrow> env_reply \<times> 'a) \<Rightarrow> ('a, 'b) Mirror \<Rightarrow> Env_call \<Rightarrow> bool" where
  "permitted a m c \<longleftrightarrow> mirrored c \<and>
     (case c of
        ENV_GetChildren dir \<Rightarrow> status_ok (reply_status (fst (a c (mr_a m))))
      | ENV_UnlockFile l \<Rightarrow> (case l of None \<Rightarrow> False | Some ml \<Rightarrow> mr_locks m ml \<noteq> None)
      | _ \<Rightarrow> True)"

text \<open>The call that environment \<open>a\<close> sees for a call of the mirror: the mirror's lock is unpacked.\<close>

definition a_call :: "('a, 'b) Mirror \<Rightarrow> Env_call \<Rightarrow> Env_call" where
  "a_call m c =
     (case c of
        ENV_UnlockFile (Some ml) \<Rightarrow>
          (case mr_locks m ml of Some (al, bl) \<Rightarrow> ENV_UnlockFile al | None \<Rightarrow> c)
      | _ \<Rightarrow> c)"

text \<open>
  When the mirror's assertions accept a pair of replies to a call: equal codes, equal listings up to
  order, equal sizes, and times that are close.
\<close>

definition replies_match :: "Env_call \<Rightarrow> env_reply \<Rightarrow> env_reply \<Rightarrow> bool" where
  "replies_match c ra rb \<longleftrightarrow> Status_eq (reply_status ra) (reply_status rb) \<and>
     (status_ok (reply_status ra) \<longrightarrow>
       (case c of
          ENV_GetChildren dir \<Rightarrow> mset (reply_names ra) = mset (reply_names rb)
        | ENV_GetFileSize f \<Rightarrow> reply_number ra = reply_number rb
        | ENV_GetFileModificationTime f \<Rightarrow>
            reply_number ra - reply_number rb < 10000 \<or> reply_number rb - reply_number ra < 10000
        | _ \<Rightarrow> True))"

lemma reply_status_simps [simp]:
  "reply_status (R_status st) = st" "reply_status (R_out st v) = st"
  by (simp_all add: reply_status_def)

definition is_unlock :: "Env_call \<Rightarrow> bool" where
  "is_unlock c \<longleftrightarrow> (case c of ENV_UnlockFile l \<Rightarrow> True | _ \<Rightarrow> False)"

text \<open>The states that permitted calls reach.\<close>

inductive mirror_reach ::
    "(Env_call \<Rightarrow> ('a, 'b) Mirror \<Rightarrow> ('a, 'b) mirror_result) \<Rightarrow> (Env_call \<Rightarrow> 'a \<Rightarrow> env_reply \<times> 'a) \<Rightarrow>
     ('a, 'b) Mirror \<Rightarrow> ('a, 'b) Mirror \<Rightarrow> bool"
  for obj a m0 where
  start: "mirror_reach obj a m0 m0"
| call: "mirror_reach obj a m0 m \<Longrightarrow> permitted a m c \<Longrightarrow> obj c m = Some (r, m') \<Longrightarrow>
    mirror_reach obj a m0 m'"

locale alike =
  fixes a :: "Env_call \<Rightarrow> 'a \<Rightarrow> env_reply \<times> 'a"
    and b :: "Env_call \<Rightarrow> 'b \<Rightarrow> env_reply \<times> 'b"
    and rel :: "'a \<Rightarrow> 'b \<Rightarrow> bool"
    and lock_rel :: "pointer_handle \<Rightarrow> pointer_handle \<Rightarrow> bool"
  assumes same_call: "rel s t \<Longrightarrow> mirrored c \<Longrightarrow> \<not> is_unlock c \<Longrightarrow> a c s = (ra, s1) \<Longrightarrow> b c t = (rb, t1) \<Longrightarrow>
      rel s1 t1 \<and> replies_match c ra rb"
    and same_lock: "rel s t \<Longrightarrow> a (ENV_LockFile f) s = (ra, s1) \<Longrightarrow> b (ENV_LockFile f) t = (rb, t1) \<Longrightarrow>
      status_ok (reply_status ra) \<Longrightarrow> lock_rel (reply_handle ra) (reply_handle rb)"
    and same_unlock: "rel s t \<Longrightarrow> lock_rel l l' \<Longrightarrow> a (ENV_UnlockFile l) s = (ra, s1) \<Longrightarrow>
      b (ENV_UnlockFile l') t = (rb, t1) \<Longrightarrow>
      rel s1 t1 \<and> Status_eq (reply_status ra) (reply_status rb)"
begin

definition in_step :: "('a, 'b) Mirror \<Rightarrow> bool" where
  "in_step m \<longleftrightarrow> rel (mr_a m) (mr_b m) \<and>
     (\<forall>l al bl. mr_locks m l = Some (al, bl) \<longrightarrow> lock_rel al bl)"

lemma in_step_new: "rel s t \<Longrightarrow> in_step (Mirror_new s t)"
  by (simp add: in_step_def Mirror_new_def)

lemma both_same:
  assumes "in_step m" "mirrored c" "\<not> is_unlock c"
  obtains ra rb m1 where "both a b c c m = Some (ra, rb, m1)" "in_step m1" "replies_match c ra rb"
    "a c (mr_a m) = (ra, mr_a m1)" "mr_locks m = mr_locks m1"
    "\<And>f. c = ENV_LockFile f \<Longrightarrow> status_ok (reply_status ra) \<Longrightarrow> lock_rel (reply_handle ra) (reply_handle rb)"
proof -
  obtain ra s1 where ra: "a c (mr_a m) = (ra, s1)" by (rule prod.exhaust)
  obtain rb t1 where rb: "b c (mr_b m) = (rb, t1)" by (rule prod.exhaust)
  have rel: "rel (mr_a m) (mr_b m)" using assms(1) by (simp add: in_step_def)
  have same: "rel s1 t1" "replies_match c ra rb" using same_call [OF rel assms(2,3) ra rb] by simp_all
  show ?thesis
  proof (rule that [of ra rb "m\<lparr>mr_a := s1, mr_b := t1\<rparr>"])
    show "both a b c c m = Some (ra, rb, m\<lparr>mr_a := s1, mr_b := t1\<rparr>)"
      using same(2) by (simp add: both_def ra rb replies_match_def)
    show "in_step (m\<lparr>mr_a := s1, mr_b := t1\<rparr>)" using same(1) assms(1) by (simp add: in_step_def)
    show "lock_rel (reply_handle ra) (reply_handle rb)"
      if "c = ENV_LockFile f" "status_ok (reply_status ra)" for f
      using same_lock [OF rel _ _ that(2)] ra rb that(1) by auto
  qed (use same ra in simp_all)
qed

lemma both_unlock:
  assumes "in_step m" "mr_locks m ml = Some (al, bl)"
  obtains ra rb m1 where "both a b (ENV_UnlockFile al) (ENV_UnlockFile bl) m = Some (ra, rb, m1)"
    "in_step m1" "a (ENV_UnlockFile al) (mr_a m) = (ra, mr_a m1)" "mr_locks m1 = mr_locks m"
proof -
  obtain ra s1 where ra: "a (ENV_UnlockFile al) (mr_a m) = (ra, s1)" by (rule prod.exhaust)
  obtain rb t1 where rb: "b (ENV_UnlockFile bl) (mr_b m) = (rb, t1)" by (rule prod.exhaust)
  have rel: "rel (mr_a m) (mr_b m)" and l: "lock_rel al bl"
    using assms by (auto simp: in_step_def)
  have same: "rel s1 t1" "Status_eq (reply_status ra) (reply_status rb)"
    using same_unlock [OF rel l ra rb] by simp_all
  show ?thesis
    by (rule that [of ra rb "m\<lparr>mr_a := s1, mr_b := t1\<rparr>"])
      (use same ra rb assms(1) in \<open>simp_all add: both_def in_step_def\<close>)
qed

lemma in_step_relock:
  "in_step m \<Longrightarrow> lock_rel al bl \<Longrightarrow> in_step (m\<lparr>mr_locks := (mr_locks m)(k \<mapsto> (al, bl)), mr_next := n\<rparr>)"
  by (simp add: in_step_def)

lemma in_step_unlocked:
  "in_step m \<Longrightarrow> mr_locks m = locks \<Longrightarrow> in_step (m\<lparr>mr_locks := locks(k := None)\<rparr>)"
  by (auto simp: in_step_def)

text \<open>A permitted call passes every assertion, answers with the status of \<open>a\<close>, and keeps the two in step.\<close>

lemma status_step:
  assumes "in_step m" "mirrored c" "\<not> is_unlock c"
  shows "\<exists>m1. Mirror_status a b c m = Some (R_status (reply_status (fst (a c (mr_a m)))), m1) \<and>
    in_step m1 \<and> mr_a m1 = snd (a c (mr_a m))"
  by (rule both_same [OF assms]) (auto simp: Mirror_status_def)

lemma directory_step:
  assumes "in_step m"
  shows "\<exists>m1. Mirror_NewDirectory a b name m = Some (fst (a (ENV_NewDirectory name) (mr_a m)), m1) \<and>
    in_step m1 \<and> mr_a m1 = snd (a (ENV_NewDirectory name) (mr_a m))"
  by (rule both_same [OF assms, of "ENV_NewDirectory name"])
    (auto simp: Mirror_NewDirectory_def mirrored_def is_unlock_def)

lemma children_step:
  assumes "in_step m" "status_ok (reply_status (fst (a (ENV_GetChildren dir) (mr_a m))))"
  shows "\<exists>r m1. Mirror_GetChildren a b dir m = Some (r, m1) \<and> in_step m1 \<and>
    reply_status r = reply_status (fst (a (ENV_GetChildren dir) (mr_a m))) \<and>
    mr_a m1 = snd (a (ENV_GetChildren dir) (mr_a m))"
proof (rule both_same [OF assms(1), of "ENV_GetChildren dir"])
  fix ra rb m1
  assume both: "both a b (ENV_GetChildren dir) (ENV_GetChildren dir) m = Some (ra, rb, m1)"
    and m1: "in_step m1" and match: "replies_match (ENV_GetChildren dir) ra rb"
    and a: "a (ENV_GetChildren dir) (mr_a m) = (ra, mr_a m1)"
  have "mset (reply_names ra) = mset (reply_names rb)"
    using match assms(2) by (simp add: replies_match_def a)
  then have "sort (reply_names ra) = sort (reply_names rb)"
    by (metis mset_sort properties_for_sort sorted_sort)
  then show ?thesis using assms(2) m1 by (simp add: Mirror_GetChildren_def both a reply_status_simps)
qed (simp_all add: mirrored_def is_unlock_def)

lemma size_step:
  assumes "in_step m"
  shows "\<exists>r m1. Mirror_GetFileSize a b f m = Some (r, m1) \<and> in_step m1 \<and>
    reply_status r = reply_status (fst (a (ENV_GetFileSize f) (mr_a m))) \<and>
    mr_a m1 = snd (a (ENV_GetFileSize f) (mr_a m))"
  by (rule both_same [OF assms, of "ENV_GetFileSize f"])
    (auto simp: Mirror_GetFileSize_def replies_match_def reply_status_simps mirrored_def is_unlock_def)

lemma time_step:
  assumes "in_step m"
  shows "\<exists>r m1. Mirror_GetFileModificationTime a b f m = Some (r, m1) \<and> in_step m1 \<and>
    reply_status r = reply_status (fst (a (ENV_GetFileModificationTime f) (mr_a m))) \<and>
    mr_a m1 = snd (a (ENV_GetFileModificationTime f) (mr_a m))"
  by (rule both_same [OF assms, of "ENV_GetFileModificationTime f"])
    (auto simp: Mirror_GetFileModificationTime_def replies_match_def Let_def reply_status_simps mirrored_def
      is_unlock_def)

lemma lock_step:
  assumes "in_step m"
  shows "\<exists>r m1. Mirror_LockFile a b f m = Some (r, m1) \<and> in_step m1 \<and>
    reply_status r = reply_status (fst (a (ENV_LockFile f) (mr_a m))) \<and>
    mr_a m1 = snd (a (ENV_LockFile f) (mr_a m))"
  by (rule both_same [OF assms, of "ENV_LockFile f"])
    (auto simp: Mirror_LockFile_def in_step_relock reply_status_simps mirrored_def is_unlock_def)

lemma unlock_step:
  assumes "in_step m" "mr_locks m ml = Some (al, bl)"
  shows "\<exists>r m1. Mirror_UnlockFile a b (Some ml) m = Some (r, m1) \<and> in_step m1 \<and>
    reply_status r = reply_status (fst (a (ENV_UnlockFile al) (mr_a m))) \<and>
    mr_a m1 = snd (a (ENV_UnlockFile al) (mr_a m))"
  by (rule both_unlock [OF assms])
    (auto simp: Mirror_UnlockFile_def assms(2) in_step_unlocked reply_status_simps)

lemma mirror_step:
  assumes "in_step m" "permitted a m c"
  shows "\<exists>r m1. EnvMirror_object mk elsewhere files a b c m = Some (r, m1) \<and> in_step m1 \<and>
    reply_status r = reply_status (fst (a (a_call m c) (mr_a m))) \<and>
    mr_a m1 = snd (a (a_call m c) (mr_a m))"
proof (cases "is_unlock c")
  case True
  then show ?thesis using assms unlock_step [OF assms(1)]
    by (auto simp: is_unlock_def permitted_def EnvMirror_object_def a_call_def
        split: Env_call.splits option.splits)
next
  case False
  then show ?thesis using assms(2)
  proof (cases c)
    case (ENV_NewDirectory name)
    with directory_step [OF assms(1), of name] show ?thesis
      by (auto simp: EnvMirror_object_def a_call_def)
  next
    case (ENV_GetChildren dir)
    with children_step [OF assms(1), of dir] assms(2) show ?thesis
      by (simp add: EnvMirror_object_def a_call_def permitted_def)
  next
    case (ENV_GetFileSize f)
    with size_step [OF assms(1), of f] show ?thesis by (simp add: EnvMirror_object_def a_call_def)
  next
    case (ENV_GetFileModificationTime f)
    with time_step [OF assms(1), of f] show ?thesis by (simp add: EnvMirror_object_def a_call_def)
  next
    case (ENV_LockFile f)
    with lock_step [OF assms(1), of f] show ?thesis by (simp add: EnvMirror_object_def a_call_def)
  qed (use status_step [OF assms(1), of c] in
      \<open>auto simp: EnvMirror_object_def a_call_def permitted_def mirrored_def is_unlock_def\<close>)
qed

text \<open>So every state that permitted calls reach is in step, and the next permitted call succeeds.\<close>

lemma reach_in_step:
  assumes "mirror_reach (EnvMirror_object mk elsewhere files a b) a (Mirror_new s t) m" "rel s t"
  shows "in_step m"
  using assms
proof (induction rule: mirror_reach.induct)
  case start
  then show ?case by (rule in_step_new)
next
  case (call m c r m')
  with mirror_step [of m c mk elsewhere files] show ?case by auto
qed

lemma reach_progress:
  assumes "mirror_reach (EnvMirror_object mk elsewhere files a b) a (Mirror_new s t) m" "rel s t"
    "permitted a m c"
  shows "\<exists>r m1. EnvMirror_object mk elsewhere files a b c m = Some (r, m1) \<and>
    rel (mr_a m1) (mr_b m1) \<and>
    reply_status r = reply_status (fst (a (a_call m c) (mr_a m))) \<and>
    mr_a m1 = snd (a (a_call m c) (mr_a m))"
  using mirror_step [OF reach_in_step [OF assms(1,2)] assms(3), of mk elsewhere files]
  unfolding in_step_def by blast

end

text \<open>A wrapper and its target, in the same state, are alike.\<close>

lemma wrapper_mirrored:
  "mirrored c \<Longrightarrow> Env_object mk elsewhere (EnvWrapper t) c = t c"
  by (cases c) (simp_all add: mirrored_def Env_object_def virtual_def fun_eq_iff)

lemma replies_match_refl: "replies_match c r r"
  by (simp add: replies_match_def Status_eq_def split: Env_call.split)

lemma mirrored_locks [simp]: "mirrored (ENV_LockFile f)" "mirrored (ENV_UnlockFile l)"
  by (simp_all add: mirrored_def)

interpretation wrapper_mirror: alike "Env_object mk elsewhere (EnvWrapper t)" t "(=)" "(=)"
  for mk :: msg_ctor and elsewhere t
proof unfold_locales
  fix s s' :: 'a and c ra s1 rb t1
  assume "s = s'" "mirrored c" "Env_object mk elsewhere (EnvWrapper t) c s = (ra, s1)" "t c s' = (rb, t1)"
  then show "s1 = t1 \<and> replies_match c ra rb" by (simp add: wrapper_mirrored replies_match_refl)
qed (simp_all add: wrapper_mirrored Status_eq_def)

section \<open>Properties\<close>


definition size_env :: "Env_call \<Rightarrow> nat \<Rightarrow> env_reply \<times> nat" where
  "size_env c n = (case c of ENV_GetFileSize f \<Rightarrow> (R_out Status_default (E_number (of_nat n)), n)
     | ENV_DeleteFile f \<Rightarrow> (R_status Status_default, n + 1) | _ \<Rightarrow> (R_void, n))"


text \<open>
  What is not mirrored: a call that is neither mirrored nor opens a file (among them \<open>Truncate\<close>,
  \<open>ReopenWritableFile\<close>, \<open>NewRandomRWFile\<close>, \<open>GetChildrenFileAttributes\<close>, \<open>AreFilesSame\<close>) reaches \<open>a\<close> alone, through
  the wrapper the mirror derives from: \<open>b\<close> is left as it was.
\<close>

theorem unmirrored_reach_a_only:
  assumes "\<not> mirrored c" "\<not> opens_file c"
  shows "EnvMirror_object mk elsewhere files a b c m =
      (let (r, a1) = Env_object mk elsewhere (EnvWrapper a) c (mr_a m) in Some (r, m\<lparr>mr_a := a1\<rparr>)) \<and>
    (c \<noteq> ENV_GetHostNameString \<longrightarrow> Env_object mk elsewhere (EnvWrapper a) c (mr_a m) = a c (mr_a m))"
  using assms
  by (cases c) (simp_all add: mirrored_def opens_file_def EnvMirror_object_def Mirror_inherited_def
      Env_object_def virtual_def)

theorem unmirrored_reach_a_only_witness:
  "EnvMirror_object plain_ctor (\<lambda>c s. (R_void, s)) (\<lambda>c m. None) counting_env counting_env
     (ENV_Truncate ''x'' 0) (Mirror_new 3 3) = Some (R_value (E_int 3), (Mirror_new 3 3)\<lparr>mr_a := 4\<rparr>)"
  using unmirrored_reach_a_only [of "ENV_Truncate ''x'' 0" plain_ctor "\<lambda>c s. (R_void, s)" "\<lambda>c m. None"
      counting_env counting_env "Mirror_new 3 3"]
  by (simp add: mirrored_def opens_file_def counting_env_def Mirror_new_def)



end
