(* ===== verification/Pinnable.thy ===== *)
theory Pinnable
  imports SliceData
begin

text \<open>
  include/rocksdb/cleanable.h and \<open>PinnableSlice\<close> of include/rocksdb/slice.h.

  The cleanups of a \<open>Cleanable\<close> are the node embedded in the object and the list behind its
  \<open>next\<close> pointer; a null function pointer is None, and calling it is undefined behaviour.
  \<open>RegisterCleanup\<close> and \<open>DelegateCleanupsTo\<close> are declared only and so parameters. The effects
  of running cleanups are the list of \<open>event\<close>s.

  \<open>data_\<close> of a pinnable slice points to its buffer, to memory it does not own, or (as after
  construction) to the empty literal.
\<close>

section \<open>Cleanable\<close>

record 'a Cleanup =
  cl_function :: "nat option"
  cl_arg1 :: 'a
  cl_arg2 :: 'a

record 'a Cleanable =
  cleanup_node :: "'a Cleanup"  \<comment> \<open>the embedded node\<close>
  cleanup_next :: "'a Cleanup list"  \<comment> \<open>the nodes behind its \<open>next\<close>\<close>

datatype 'a event = Call nat 'a 'a | Delete

definition call_cleanup :: "'a Cleanup \<Rightarrow> 'a event option" where
  "call_cleanup c = map_option (\<lambda>f. Call f (cl_arg1 c) (cl_arg2 c)) (cl_function c)"

fun cleanup_loop :: "'a Cleanup list \<Rightarrow> 'a event list option" where
  "cleanup_loop [] = Some []"
| "cleanup_loop (c # cs) =
     do {
       e \<leftarrow> call_cleanup c;
       es \<leftarrow> cleanup_loop cs;
       Some (e # Delete # es)
     }"

definition DoCleanup :: "'a Cleanable \<Rightarrow> 'a event list option" where
  "DoCleanup c =
     (if cl_function (cleanup_node c) \<noteq> None then
        do {
          e \<leftarrow> call_cleanup (cleanup_node c);
          es \<leftarrow> cleanup_loop (cleanup_next c);
          Some (e # es)
        }
      else Some [])"

definition Cleanable_Reset :: "'a Cleanable \<Rightarrow> ('a event list \<times> 'a Cleanable) option" where
  "Cleanable_Reset c =
     do {
       es \<leftarrow> DoCleanup c;
       Some (es, c\<lparr>cleanup_node := (cleanup_node c)\<lparr>cl_function := None\<rparr>, cleanup_next := []\<rparr>)
     }"

definition HasCleanups :: "'a Cleanable \<Rightarrow> bool" where
  "HasCleanups c \<longleftrightarrow> cl_function (cleanup_node c) \<noteq> None"

section \<open>PinnableSlice\<close>

datatype pointer = ToEmpty | ToBuffer | External bytes | ToNull

record 'a PinnableSlice =
  ps_data :: pointer
  ps_size :: nat
  ps_cleanable :: "'a Cleanable"
  ps_buf :: bytes
  ps_own_buf :: bool  \<comment> \<open>\<open>buf_ == &self_space_\<close>\<close>
  ps_pinned :: bool

definition PinnableSlice_default :: "'a Cleanable \<Rightarrow> 'a PinnableSlice" where
  "PinnableSlice_default c = \<lparr>ps_data = ToEmpty, ps_size = 0, ps_cleanable = c, ps_buf = [],
     ps_own_buf = True, ps_pinned = False\<rparr>"

definition PinnableSlice_buf :: "'a Cleanable \<Rightarrow> bytes \<Rightarrow> 'a PinnableSlice" where
  "PinnableSlice_buf c buf = \<lparr>ps_data = ToEmpty, ps_size = 0, ps_cleanable = c, ps_buf = buf,
     ps_own_buf = False, ps_pinned = False\<rparr>"

definition pointer_of :: "Slice \<Rightarrow> pointer" where
  "pointer_of s = (case sl_data s of None \<Rightarrow> ToNull | Some p \<Rightarrow> External p)"

text \<open>\<open>PinSlice(s, f, arg1, arg2)\<close>; \<open>register\<close> is \<open>RegisterCleanup\<close>.\<close>

definition PinSlice ::
    "('a Cleanup \<Rightarrow> 'a Cleanable \<Rightarrow> 'a Cleanable) \<Rightarrow> Slice \<Rightarrow> 'a Cleanup \<Rightarrow> 'a PinnableSlice \<Rightarrow>
       'a PinnableSlice option" where
  "PinSlice register s c p =
     asserting (\<not> ps_pinned p)
       (p\<lparr>ps_pinned := True, ps_data := pointer_of s, ps_size := slice_size s,
          ps_cleanable := register c (ps_cleanable p)\<rparr>)"

text \<open>\<open>PinSlice(s, cleanable)\<close>; \<open>delegate\<close> is \<open>DelegateCleanupsTo\<close>.\<close>

definition PinSlice_cleanable ::
    "('a Cleanable \<Rightarrow> 'a Cleanable \<Rightarrow> 'a Cleanable \<times> 'a Cleanable) \<Rightarrow> Slice \<Rightarrow> 'a Cleanable option \<Rightarrow>
       'a PinnableSlice \<Rightarrow> ('a PinnableSlice \<times> 'a Cleanable option) option" where
  "PinSlice_cleanable delegate s cleanable p =
     do {
       asserting (\<not> ps_pinned p) ();
       let p = p\<lparr>ps_pinned := True, ps_data := pointer_of s, ps_size := slice_size s\<rparr>;
       Some (case cleanable of
          None \<Rightarrow> (p, None)
        | Some c \<Rightarrow> (let (c', mine) = delegate c (ps_cleanable p) in
                     (p\<lparr>ps_cleanable := mine\<rparr>, Some c')))
     }"

definition PinSelf :: "'a PinnableSlice \<Rightarrow> 'a PinnableSlice option" where
  "PinSelf p = asserting (\<not> ps_pinned p) (p\<lparr>ps_data := ToBuffer, ps_size := length (ps_buf p)\<rparr>)"

text \<open>\<open>PinSelf(slice)\<close>: \<open>assign\<close> copies \<open>slice.size()\<close> bytes, which must be readable.\<close>

definition PinSelf_slice :: "Slice \<Rightarrow> 'a PinnableSlice \<Rightarrow> 'a PinnableSlice option" where
  "PinSelf_slice s p =
     do {
       asserting (\<not> ps_pinned p) ();
       asserting (slice_ok s) ();
       PinSelf (p\<lparr>ps_buf := slice_bytes s\<rparr>)
     }"

text \<open>\<open>std::string::erase(pos, n)\<close> throws when \<open>pos\<close> is past the end (None).\<close>

definition erase :: "nat \<Rightarrow> nat \<Rightarrow> bytes \<Rightarrow> bytes option" where
  "erase pos n s = asserting (pos \<le> length s) (take pos s @ drop (pos + n) s)"

definition ps_remove_suffix :: "nat \<Rightarrow> 'a PinnableSlice \<Rightarrow> 'a PinnableSlice option" where
  "ps_remove_suffix n p =
     do {
       asserting (n \<le> ps_size p) ();
       if ps_pinned p then Some (p\<lparr>ps_size := ps_size p - n\<rparr>)
       else do {
         b \<leftarrow> erase (ps_size p - n) n (ps_buf p);
         PinSelf (p\<lparr>ps_buf := b\<rparr>)
       }
     }"

fun advance :: "nat \<Rightarrow> pointer \<Rightarrow> pointer" where
  "advance n (External q) = External (drop n q)"
| "advance n q = q"

definition ps_remove_prefix :: "nat \<Rightarrow> 'a PinnableSlice \<Rightarrow> 'a PinnableSlice option" where
  "ps_remove_prefix n p =
     do {
       asserting (n \<le> ps_size p) ();
       if ps_pinned p then
         Some (p\<lparr>ps_data := advance n (ps_data p), ps_size := ps_size p - n\<rparr>)
       else do {
         b \<leftarrow> erase 0 n (ps_buf p);
         PinSelf (p\<lparr>ps_buf := b\<rparr>)
       }
     }"

definition ps_Reset :: "'a PinnableSlice \<Rightarrow> ('a event list \<times> 'a PinnableSlice) option" where
  "ps_Reset p =
     do {
       (es, c) \<leftarrow> Cleanable_Reset (ps_cleanable p);
       Some (es, p\<lparr>ps_cleanable := c, ps_pinned := False, ps_size := 0\<rparr>)
     }"

definition GetSelf :: "'a PinnableSlice \<Rightarrow> bytes" where
  "GetSelf p = ps_buf p"

definition IsPinned :: "'a PinnableSlice \<Rightarrow> bool" where
  "IsPinned p \<longleftrightarrow> ps_pinned p"

section \<open>Cleanups run exactly once\<close>

text \<open>
  The invariant \<open>RegisterCleanup\<close> maintains: no node is behind an empty head, and every node
  behind the head has a function.
\<close>

definition cleanable_ok :: "'a Cleanable \<Rightarrow> bool" where
  "cleanable_ok c \<longleftrightarrow>
     (cl_function (cleanup_node c) = None \<longrightarrow> cleanup_next c = []) \<and>
     (\<forall>n \<in> set (cleanup_next c). cl_function n \<noteq> None)"

text \<open>The calls a cleanable owes, and those an event list made.\<close>

definition owed :: "'a Cleanable \<Rightarrow> (nat \<times> 'a \<times> 'a) list" where
  "owed c = (if HasCleanups c
     then map (\<lambda>n. (the (cl_function n), cl_arg1 n, cl_arg2 n)) (cleanup_node c # cleanup_next c)
     else [])"

fun calls :: "'a event list \<Rightarrow> (nat \<times> 'a \<times> 'a) list" where
  "calls [] = []"
| "calls (Call f x y # es) = (f, x, y) # calls es"
| "calls (Delete # es) = calls es"

fun deletes :: "'a event list \<Rightarrow> nat" where
  "deletes [] = 0"
| "deletes (Call f x y # es) = deletes es"
| "deletes (Delete # es) = Suc (deletes es)"

lemma cleanup_loop_events:
  "\<forall>n \<in> set cs. cl_function n \<noteq> None \<Longrightarrow>
     \<exists>es. cleanup_loop cs = Some es \<and> deletes es = length cs \<and>
       calls es = map (\<lambda>n. (the (cl_function n), cl_arg1 n, cl_arg2 n)) cs"
  by (induction cs) (auto simp: call_cleanup_def)

lemma Cleanable_Reset_runs:
  assumes "cleanable_ok c"
  obtains es c' where "Cleanable_Reset c = Some (es, c')" "calls es = owed c"
    "deletes es = length (cleanup_next c)" "cleanable_ok c'" "owed c' = []" "\<not> HasCleanups c'"
proof -
  from assms have "\<forall>n \<in> set (cleanup_next c). cl_function n \<noteq> None"
    by (simp add: cleanable_ok_def)
  from cleanup_loop_events [OF this] obtain es where es: "cleanup_loop (cleanup_next c) = Some es"
    "deletes es = length (cleanup_next c)"
    "calls es = map (\<lambda>n. (the (cl_function n), cl_arg1 n, cl_arg2 n)) (cleanup_next c)" by blast
  have head: "cl_function (cleanup_node c) = None \<Longrightarrow> cleanup_next c = []"
    using assms by (simp add: cleanable_ok_def)
  show ?thesis
  proof (cases "cl_function (cleanup_node c)")
    case None
    with head show ?thesis
      by (intro that [of "[]"]) (auto simp: Cleanable_Reset_def DoCleanup_def owed_def
          HasCleanups_def cleanable_ok_def)
  next
    case (Some f)
    with es show ?thesis
      by (intro that [of "Call f (cl_arg1 (cleanup_node c)) (cl_arg2 (cleanup_node c)) # es"])
        (auto simp: Cleanable_Reset_def DoCleanup_def owed_def HasCleanups_def
          cleanable_ok_def call_cleanup_def)
  qed
qed

lemma Cleanable_Reset_again:
  assumes "cleanable_ok c" and "Cleanable_Reset c = Some (es, c')"
  shows "Cleanable_Reset c' = Some ([], c')"
proof -
  from assms obtain n where c': "c' = c\<lparr>cleanup_node := n\<lparr>cl_function := None\<rparr>, cleanup_next := []\<rparr>"
    by (auto simp: Cleanable_Reset_def bind_eq_Some_conv)
  show ?thesis unfolding c' by (simp add: Cleanable_Reset_def DoCleanup_def)
qed

section \<open>What a reader sees\<close>

definition ps_memory :: "'a PinnableSlice \<Rightarrow> bytes" where
  "ps_memory p = (case ps_data p of ToEmpty \<Rightarrow> [NUL] | ToBuffer \<Rightarrow> ps_buf p @ [NUL]
     | External q \<Rightarrow> q | ToNull \<Rightarrow> [])"

definition ps_bytes :: "'a PinnableSlice \<Rightarrow> bytes" where
  "ps_bytes p = take (ps_size p) (ps_memory p)"

text \<open>
  Readable: pinned, the size is within the memory pointed to, which is not the buffer; not
  pinned, the slice is the whole buffer.
\<close>

definition ps_ok :: "'a PinnableSlice \<Rightarrow> bool" where
  "ps_ok p \<longleftrightarrow>
     (if ps_pinned p then ps_size p \<le> length (ps_memory p) \<and> ps_data p \<in> {ToNull} \<union> range External
      else ps_size p = length (ps_buf p) \<and> ps_data p \<in> {ToBuffer, ToEmpty} \<and>
        (ps_data p = ToEmpty \<longrightarrow> ps_buf p = []))"

lemma ps_bytes_unpinned: "ps_ok p \<Longrightarrow> \<not> ps_pinned p \<Longrightarrow> ps_bytes p = ps_buf p"
  by (auto simp: ps_ok_def ps_bytes_def ps_memory_def)

lemma ps_ok_default [wf_intros]: "ps_ok (PinnableSlice_default c)"
  by (simp add: ps_ok_def PinnableSlice_default_def)

lemma pointer_of_memory:
  "slice_ok s \<Longrightarrow> ps_data p = pointer_of s \<Longrightarrow> ps_memory p = storage s"
  by (auto simp: ps_memory_def pointer_of_def storage_def split: option.splits)

lemma PinSlice_bytes:
  assumes "slice_ok s" and "PinSlice reg s c p = Some p'"
  shows "ps_ok p'" and "ps_bytes p' = slice_bytes s" and "ps_buf p' = ps_buf p"
    and "ps_cleanable p' = reg c (ps_cleanable p)" and "IsPinned p'"
  using assms
  by (auto simp: PinSlice_def ps_ok_def ps_bytes_def slice_bytes_def slice_size_def IsPinned_def
      slice_ok_def ps_memory_def pointer_of_def storage_def split: option.splits)

lemma PinSelf_slice_bytes:
  assumes "slice_ok s" and "\<not> ps_pinned p"
  obtains p' where "PinSelf_slice s p = Some p'" "ps_ok p'" "ps_bytes p' = slice_bytes s"
    "\<not> IsPinned p'" "ps_cleanable p' = ps_cleanable p"
  using assms
  by (auto simp: PinSelf_slice_def PinSelf_def ps_ok_def ps_bytes_def ps_memory_def IsPinned_def)

lemma ps_remove_prefix_bytes:
  assumes "ps_ok p" and "n \<le> ps_size p"
  obtains p' where "ps_remove_prefix n p = Some p'" "ps_ok p'" "ps_bytes p' = drop n (ps_bytes p)"
    "ps_pinned p' = ps_pinned p" "ps_cleanable p' = ps_cleanable p"
proof (cases "ps_pinned p")
  case True
  with assms show ?thesis
    by (intro that [of "p\<lparr>ps_data := advance n (ps_data p), ps_size := ps_size p - n\<rparr>"])
      (auto simp: ps_remove_prefix_def ps_ok_def ps_bytes_def ps_memory_def drop_take)
next
  case False
  with assms show ?thesis
    by (intro that [of "p\<lparr>ps_buf := drop n (ps_buf p), ps_data := ToBuffer,
        ps_size := length (drop n (ps_buf p))\<rparr>"])
      (auto simp: ps_remove_prefix_def ps_ok_def ps_bytes_unpinned ps_bytes_def ps_memory_def
        erase_def PinSelf_def)
qed

lemma ps_remove_suffix_bytes:
  assumes "ps_ok p" and "n \<le> ps_size p"
  obtains p' where "ps_remove_suffix n p = Some p'" "ps_ok p'"
    "ps_bytes p' = take (length (ps_bytes p) - n) (ps_bytes p)"
    "ps_pinned p' = ps_pinned p" "ps_cleanable p' = ps_cleanable p"
proof (cases "ps_pinned p")
  case True
  with assms show ?thesis
    by (intro that [of "p\<lparr>ps_size := ps_size p - n\<rparr>"])
      (auto simp: ps_remove_suffix_def ps_ok_def ps_bytes_def ps_memory_def min_def)
next
  case False
  with assms show ?thesis
    by (intro that [of "p\<lparr>ps_buf := take (length (ps_buf p) - n) (ps_buf p), ps_data := ToBuffer,
        ps_size := length (take (length (ps_buf p) - n) (ps_buf p))\<rparr>"])
      (auto simp: ps_remove_suffix_def ps_ok_def ps_bytes_unpinned ps_bytes_def ps_memory_def
        erase_def PinSelf_def)
qed

section \<open>Properties\<close>

text \<open>A cleanable without cleanups, and a registration at the head of the list, for the witnesses.\<close>

definition sample_cleanable :: "nat Cleanable" where
  "sample_cleanable = \<lparr>cleanup_node = \<lparr>cl_function = Some 1, cl_arg1 = 10, cl_arg2 = 11\<rparr>,
     cleanup_next = [\<lparr>cl_function = Some 2, cl_arg1 = 20, cl_arg2 = 21\<rparr>]\<rparr>"

lemma sample_cleanable_ok: "cleanable_ok sample_cleanable"
  by (simp add: cleanable_ok_def sample_cleanable_def)

text \<open>
  \<open>Cleanable::Reset\<close> runs every registered cleanup exactly once, in the order of the list,
  frees every node behind the embedded one exactly once, and leaves nothing to run: a second
  \<open>Reset\<close> does nothing.
\<close>

theorem Reset_runs_each_cleanup_once:
  assumes "cleanable_ok c"
  shows "\<exists>es c'. Cleanable_Reset c = Some (es, c') \<and> calls es = owed c \<and>
    deletes es = length (cleanup_next c) \<and> cleanable_ok c' \<and> \<not> HasCleanups c' \<and>
    Cleanable_Reset c' = Some ([], c')"
proof -
  obtain es c' where r: "Cleanable_Reset c = Some (es, c')" "calls es = owed c"
    "deletes es = length (cleanup_next c)" "cleanable_ok c'" "\<not> HasCleanups c'"
    using Cleanable_Reset_runs [OF assms] by metis
  with Cleanable_Reset_again [OF assms r(1)] show ?thesis by blast
qed

theorem Reset_runs_each_cleanup_once_witness:
  "\<exists>es c'. Cleanable_Reset sample_cleanable = Some (es, c') \<and>
     calls es = [(1, 10, 11), (2, 20, 21)] \<and> deletes es = 1"
  using Reset_runs_each_cleanup_once [OF sample_cleanable_ok]
  by (auto simp: owed_def HasCleanups_def sample_cleanable_def)

text \<open>
  Trimming a pinnable slice trims the bytes a reader sees, alike whether it is pinned to
  foreign memory or owns its buffer, and keeps it well formed, pinned or not as it was, with its
  cleanups.
\<close>

theorem pinnable_trimming:
  assumes "ps_ok p" "n \<le> ps_size p"
  shows "(\<exists>q. ps_remove_prefix n p = Some q \<and> ps_ok q \<and> ps_bytes q = drop n (ps_bytes p) \<and>
      ps_pinned q = ps_pinned p \<and> ps_cleanable q = ps_cleanable p) \<and>
    (\<exists>q. ps_remove_suffix n p = Some q \<and> ps_ok q \<and>
      ps_bytes q = take (length (ps_bytes p) - n) (ps_bytes p) \<and>
      ps_pinned q = ps_pinned p \<and> ps_cleanable q = ps_cleanable p)"
  using ps_remove_prefix_bytes [OF assms] ps_remove_suffix_bytes [OF assms] by metis

theorem pinnable_trimming_witness:
  "\<exists>q. ps_remove_prefix 2 (PinnableSlice_default sample_cleanable
       \<lparr>ps_pinned := True, ps_data := External ''abcd'', ps_size := 3\<rparr>) = Some q \<and> ps_bytes q = ''c''"
  using pinnable_trimming [of "PinnableSlice_default sample_cleanable
       \<lparr>ps_pinned := True, ps_data := External ''abcd'', ps_size := 3\<rparr>" 2]
  by (auto simp: ps_ok_def ps_bytes_def ps_memory_def PinnableSlice_default_def numeral_3_eq_3)

text \<open>
  The life of a pinned slice: pinning an unpinned slice shows the bytes of the given slice
  without copying them, registers the cleanup, and leaves the buffer alone; the \<open>Reset\<close> that
  follows runs everything the slice then owes, shows nothing and unpins.
\<close>

theorem pin_then_reset:
  assumes "slice_ok s" "\<not> ps_pinned p" "cleanable_ok (reg c (ps_cleanable p))"
  shows "\<exists>q es r. PinSlice reg s c p = Some q \<and> IsPinned q \<and> ps_ok q \<and>
    ps_bytes q = slice_bytes s \<and> GetSelf q = GetSelf p \<and>
    ps_Reset q = Some (es, r) \<and> calls es = owed (reg c (ps_cleanable p)) \<and>
    \<not> IsPinned r \<and> ps_bytes r = [] \<and> \<not> HasCleanups (ps_cleanable r) \<and> GetSelf r = GetSelf p"
proof -
  obtain q where q: "PinSlice reg s c p = Some q" using assms(2) by (simp add: PinSlice_def)
  note b = PinSlice_bytes [OF assms(1) q]
  obtain es c' where r: "Cleanable_Reset (ps_cleanable q) = Some (es, c')"
    "calls es = owed (ps_cleanable q)" "\<not> HasCleanups c'"
    using Cleanable_Reset_runs [of "ps_cleanable q"] assms(3) b(4) by metis
  show ?thesis
    using q b r by (auto simp: ps_Reset_def GetSelf_def IsPinned_def ps_bytes_def)
qed

theorem pin_then_reset_witness:
  "\<exists>q es r. PinSlice (\<lambda>c l. l\<lparr>cleanup_next := c # cleanup_next l\<rparr>) (Slice_string ''xy'')
      \<lparr>cl_function = Some 3, cl_arg1 = 30, cl_arg2 = 31\<rparr> (PinnableSlice_default sample_cleanable) = Some q \<and>
    ps_bytes q = ''xy'' \<and> ps_Reset q = Some (es, r) \<and> calls es = [(1, 10, 11), (3, 30, 31), (2, 20, 21)]"
  using pin_then_reset [of "Slice_string ''xy''" "PinnableSlice_default sample_cleanable"
      "\<lambda>c l. l\<lparr>cleanup_next := c # cleanup_next l\<rparr>" "\<lparr>cl_function = Some 3, cl_arg1 = 30, cl_arg2 = 31\<rparr>"]
  by (auto simp: PinnableSlice_default_def cleanable_ok_def sample_cleanable_def owed_def HasCleanups_def)

end
