(* ===== verification/WideColumnsModel.thy ===== *)
theory WideColumnsModel
  imports SliceData
begin

text \<open>
  include/rocksdb/wide_columns.h: a column is a pair of slices; its comparison and its printing.
  \<open>Slice::ToString(hex)\<close> is declared only, so \<open>to_string\<close> is a parameter.
\<close>

record WideColumn =
  wc_name :: Slice
  wc_value :: Slice

definition WideColumn_default :: WideColumn where
  "WideColumn_default = \<lparr>wc_name = Slice_empty, wc_value = Slice_empty\<rparr>"

definition WideColumn_new :: "Slice \<Rightarrow> Slice \<Rightarrow> WideColumn" where
  "WideColumn_new name v = \<lparr>wc_name = name, wc_value = v\<rparr>"

text \<open>The piecewise constructor forwards a pointer and a length to each slice.\<close>

definition WideColumn_piecewise :: "bytes option \<times> nat \<Rightarrow> bytes option \<times> nat \<Rightarrow> WideColumn" where
  "WideColumn_piecewise name_tuple value_tuple =
     \<lparr>wc_name = Slice_ptr (fst name_tuple) (snd name_tuple),
      wc_value = Slice_ptr (fst value_tuple) (snd value_tuple)\<rparr>"

definition WideColumn_eq :: "WideColumn \<Rightarrow> WideColumn \<Rightarrow> bool option" where
  "WideColumn_eq lhs rhs =
     do {
       n \<leftarrow> slice_eq (wc_name lhs) (wc_name rhs);
       if n then slice_eq (wc_value lhs) (wc_value rhs) else Some False
     }"

definition WideColumn_neq :: "WideColumn \<Rightarrow> WideColumn \<Rightarrow> bool option" where
  "WideColumn_neq lhs rhs = map_option Not (WideColumn_eq lhs rhs)"

definition WideColumn_print :: "(bool \<Rightarrow> Slice \<Rightarrow> string) \<Rightarrow> bool \<Rightarrow> string \<Rightarrow> WideColumn \<Rightarrow> string" where
  "WideColumn_print to_string hex os column =
     (let os = (if \<not> slice_is_empty (wc_name column)
                then (let os = (if hex then os @ ''0x'' else os) in
                      os @ to_string hex (wc_name column))
                else os);
          os = os @ '':'';
          os = (if \<not> slice_is_empty (wc_value column)
                then (let os = (if hex then os @ ''0x'' else os) in
                      os @ to_string hex (wc_value column))
                else os) in
      os)"

section \<open>Comparison and printing\<close>

definition column_ok :: "WideColumn \<Rightarrow> bool" where
  "column_ok c \<longleftrightarrow> slice_ok (wc_name c) \<and> slice_ok (wc_value c)"

lemma column_ok_new [wf_intros]: "slice_ok n \<Longrightarrow> slice_ok v \<Longrightarrow> column_ok (WideColumn_new n v)"
  by (simp add: column_ok_def WideColumn_new_def)

text \<open>The text of one component, and what printing needs from \<open>ToString(true)\<close>.\<close>

definition printed :: "(bool \<Rightarrow> Slice \<Rightarrow> string) \<Rightarrow> bool \<Rightarrow> Slice \<Rightarrow> string" where
  "printed to_string hex s =
     (if slice_is_empty s then [] else (if hex then ''0x'' else []) @ to_string hex s)"

definition hex_codec :: "(bool \<Rightarrow> Slice \<Rightarrow> string) \<Rightarrow> bool" where
  "hex_codec to_string \<longleftrightarrow>
     (\<forall>s. slice_ok s \<longrightarrow> CHR '':'' \<notin> set (to_string True s)) \<and>
     (\<forall>s t. slice_ok s \<longrightarrow> slice_ok t \<longrightarrow> to_string True s = to_string True t \<longrightarrow>
        slice_bytes s = slice_bytes t)"

lemma WideColumn_print_parts:
  "WideColumn_print to_string hex os c =
     os @ printed to_string hex (wc_name c) @ '':'' @ printed to_string hex (wc_value c)"
  by (simp add: WideColumn_print_def printed_def Let_def)

lemma slice_is_empty_bytes: "slice_ok s \<Longrightarrow> slice_is_empty s \<longleftrightarrow> slice_bytes s = []"
  using length_slice_bytes [of s] by (auto simp: slice_is_empty_def)

lemma printed_no_colon: "hex_codec ts \<Longrightarrow> slice_ok s \<Longrightarrow> CHR '':'' \<notin> set (printed ts True s)"
  by (simp add: printed_def hex_codec_def)

lemma printed_inject:
  assumes h: "hex_codec ts" and s: "slice_ok s" and t: "slice_ok t"
    and eq: "printed ts True s = printed ts True t"
  shows "slice_bytes s = slice_bytes t"
proof (cases "slice_is_empty s")
  case True
  then have "slice_is_empty t" using eq by (simp add: printed_def split: if_splits)
  with True slice_is_empty_bytes [OF s] slice_is_empty_bytes [OF t] show ?thesis by simp
next
  case False
  then have "\<not> slice_is_empty t" using eq by (auto simp: printed_def split: if_splits)
  with False eq have "ts True s = ts True t" by (simp add: printed_def)
  with h s t show ?thesis unfolding hex_codec_def by blast
qed

section \<open>Properties\<close>

text \<open>
  Columns compare bytewise: \<open>operator==\<close> is defined on well-formed columns and holds exactly if
  names and values have the same bytes, and \<open>operator!=\<close> is its negation.
\<close>

theorem column_equality:
  assumes "column_ok c" "column_ok d"
  shows "WideColumn_eq c d = Some (slice_bytes (wc_name c) = slice_bytes (wc_name d) \<and>
      slice_bytes (wc_value c) = slice_bytes (wc_value d)) \<and>
    WideColumn_neq c d = map_option Not (WideColumn_eq c d)"
  using assms by (simp add: WideColumn_eq_def WideColumn_neq_def column_ok_def slice_eq_spec)

theorem column_equality_witness:
  "WideColumn_eq (WideColumn_new (Slice_string ''n'') (Slice_string ''v''))
     (WideColumn_new (Slice_string ''n'') (Slice_string ''w'')) = Some False"
  using column_equality [of "WideColumn_new (Slice_string ''n'') (Slice_string ''v'')"
      "WideColumn_new (Slice_string ''n'') (Slice_string ''w'')"]
  by (simp add: column_ok_def WideColumn_new_def)

text \<open>
  In hexadecimal mode the printed form of a column is unambiguous: columns that print alike have
  the same name and value, as long as \<open>ToString(true)\<close> writes no colon and is injective on bytes.
\<close>

theorem hex_printing_injective:
  assumes "hex_codec ts" "column_ok c" "column_ok d"
    "WideColumn_print ts True os c = WideColumn_print ts True os d"
  shows "slice_bytes (wc_name c) = slice_bytes (wc_name d) \<and>
    slice_bytes (wc_value c) = slice_bytes (wc_value d)"
proof -
  have ok: "slice_ok (wc_name c)" "slice_ok (wc_name d)" "slice_ok (wc_value c)" "slice_ok (wc_value d)"
    using assms(2,3) by (simp_all add: column_ok_def)
  have "printed ts True (wc_name c) @ CHR '':'' # printed ts True (wc_value c)
      = printed ts True (wc_name d) @ CHR '':'' # printed ts True (wc_value d)"
    using assms(4) by (simp add: WideColumn_print_parts)
  then have "printed ts True (wc_name c) = printed ts True (wc_name d)"
      "printed ts True (wc_value c) = printed ts True (wc_value d)"
    using append_sep_inject [OF printed_no_colon [OF assms(1) ok(1)] printed_no_colon [OF assms(1) ok(2)]]
    by simp_all
  with printed_inject [OF assms(1)] ok show ?thesis by blast
qed

text \<open>A codec of two letters per byte, for the witness.\<close>

definition hex_byte :: "byte \<Rightarrow> string" where
  "hex_byte c = [char_of (65 + of_char c div 16 :: nat), char_of (65 + of_char c mod 16 :: nat)]"

definition sample_to_string :: "bool \<Rightarrow> Slice \<Rightarrow> string" where
  "sample_to_string hex s =
     (if hex then concat (map hex_byte (slice_bytes s)) else slice_bytes s)"

lemma letter_inject:
  assumes "a < 16" "b < 16"
  shows "(char_of (65 + a) :: char) = char_of (65 + b) \<longleftrightarrow> a = (b :: nat)"
proof
  assume "(char_of (65 + a) :: char) = char_of (65 + b)"
  then have "(of_char (char_of (65 + a) :: char) :: nat) = of_char (char_of (65 + b) :: char)" by simp
  then show "a = b" using assms by simp
qed simp

lemma hex_byte_inject: "hex_byte c = hex_byte d \<longleftrightarrow> c = d"
proof
  assume eq: "hex_byte c = hex_byte d"
  have lt: "of_char x div 16 < (16 :: nat)" for x :: char
    using nat_of_char_less_256 [of x] by (simp add: less_mult_imp_div_less)
  have "(char_of (65 + of_char c div 16 :: nat) :: char) = char_of (65 + of_char d div 16 :: nat) \<and>
      (char_of (65 + of_char c mod 16 :: nat) :: char) = char_of (65 + of_char d mod 16 :: nat)"
    using eq unfolding hex_byte_def list.inject by blast
  then have "of_char c div 16 = (of_char d div 16 :: nat) \<and> of_char c mod 16 = (of_char d mod 16 :: nat)"
    by (metis letter_inject lt mod_less_divisor zero_less_numeral)
  then have "(of_char c :: nat) = of_char d" by (metis div_mult_mod_eq)
  then show "c = d" by simp
qed simp

lemma length_hex_byte: "length (hex_byte c) = 2"
  by (simp add: hex_byte_def)

lemma hex_bytes_inject: "concat (map hex_byte s) = concat (map hex_byte t) \<Longrightarrow> s = t"
proof (induction s arbitrary: t)
  case Nil
  then show ?case by (cases t) (auto simp: hex_byte_def)
next
  case (Cons c s)
  then obtain d u where t: "t = d # u" by (cases t) (auto simp: hex_byte_def)
  from Cons.prems have "hex_byte c = hex_byte d \<and> concat (map hex_byte s) = concat (map hex_byte u)"
    unfolding t using append_eq_append_conv [of "hex_byte c" "hex_byte d"] by (simp add: length_hex_byte)
  with Cons.IH [of u] show ?case by (simp add: t hex_byte_inject)
qed

lemma letter_no_colon: "n < 16 \<Longrightarrow> CHR '':'' \<noteq> (char_of (65 + n) :: char)" for n :: nat
proof
  assume n: "n < 16" and "CHR '':'' = (char_of (65 + n) :: char)"
  then have "(of_char (char_of (65 + n) :: char) :: nat) = of_char (CHR '':'')" by metis
  with n show False by simp
qed

lemma hex_byte_no_colon: "CHR '':'' \<notin> set (hex_byte c)"
proof -
  have "of_char c div 16 < (16 :: nat)" "of_char c mod 16 < (16 :: nat)"
    using nat_of_char_less_256 [of c] by (simp_all add: less_mult_imp_div_less)
  from this [THEN letter_no_colon] show ?thesis
    unfolding hex_byte_def set_simps by blast
qed

lemma sample_hex_codec: "hex_codec sample_to_string"
  using hex_byte_no_colon by (auto simp: hex_codec_def sample_to_string_def dest: hex_bytes_inject)

theorem hex_printing_injective_witness:
  "slice_bytes (wc_name (WideColumn_new (Slice_string ''n'') Slice_empty))
     = slice_bytes (wc_name (WideColumn_new (Slice_string_view ''n'') Slice_empty)) \<and>
   WideColumn_print sample_to_string True [] (WideColumn_new (Slice_string ''n'') Slice_empty) = ''0xGO:''"
proof -
  have p: "WideColumn_print sample_to_string True [] (WideColumn_new (Slice_string ''n'') Slice_empty)
        = ''0xGO:''"
      "WideColumn_print sample_to_string True [] (WideColumn_new (Slice_string_view ''n'') Slice_empty)
        = ''0xGO:''"
    by code_simp+
  show ?thesis
    using hex_printing_injective [OF sample_hex_codec, of "WideColumn_new (Slice_string ''n'') Slice_empty"
        "WideColumn_new (Slice_string_view ''n'') Slice_empty" "[]"] p
    by (simp add: column_ok_new)
qed

end
