(* ===== verification/PinnableColumns.thy ===== *)
theory PinnableColumns
  imports Pinnable WideColumnsModel StatusModel
begin

text \<open>
  \<open>PinnableWideColumns\<close> of include/rocksdb/wide_columns.h: a pinnable slice with a serialized value and
  the columns that point into it.

  \<open>pw_data\<close> is the address \<open>value_.data()\<close> returns, \<open>pw_base\<close> the address the columns were indexed at;
  columns whose base is not the address of the value dangle. Where the buffer is after an assignment
  (\<open>buf_at\<close>), the parser of a serialized value (\<open>index\<close>), the delegation of cleanups and the move
  assignment of \<open>PinnableSlice\<close> are declared only and so parameters. A result is the cleanups that
  ran and the new object; a failed assertion is None.
\<close>

record 'a PinnableWideColumns =
  pw_value :: "'a PinnableSlice"
  pw_data :: nat
  pw_columns :: "WideColumn list"
  pw_base :: nat

definition kDefaultWideColumnName :: Slice where
  "kDefaultWideColumnName = Slice_empty"

text \<open>The slice a pinnable slice is.\<close>

definition slice_of :: "'a PinnableSlice \<Rightarrow> Slice" where
  "slice_of p = \<lparr>sl_data = (if ps_data p = ToNull then None else Some (ps_memory p)), sl_size = ps_size p\<rparr>"

definition PinnableWideColumns_default :: "'a Cleanable \<Rightarrow> 'a PinnableWideColumns" where
  "PinnableWideColumns_default c =
     \<lparr>pw_value = PinnableSlice_default c, pw_data = 0, pw_columns = [], pw_base = 0\<rparr>"

definition serialized_size :: "'a PinnableWideColumns \<Rightarrow> nat" where
  "serialized_size p = ps_size (pw_value p)"

definition pw_Reset :: "'a PinnableWideColumns \<Rightarrow> ('a event list \<times> 'a PinnableWideColumns) option" where
  "pw_Reset p = do { (es, v) \<leftarrow> ps_Reset (pw_value p); Some (es, p\<lparr>pw_value := v, pw_columns := []\<rparr>) }"

definition CopyValue :: "nat \<Rightarrow> Slice \<Rightarrow> 'a PinnableWideColumns \<Rightarrow> 'a PinnableWideColumns option" where
  "CopyValue buf_at s p =
     do { v \<leftarrow> PinSelf_slice s (pw_value p); Some (p\<lparr>pw_value := v, pw_data := buf_at\<rparr>) }"

type_synonym 'a delegation = "'a Cleanable \<Rightarrow> 'a Cleanable \<Rightarrow> 'a Cleanable \<times> 'a Cleanable"

text \<open>\<open>at\<close> is the address of the bytes of the slice \<open>s\<close>.\<close>

definition PinOrCopyValue ::
    "'a delegation \<Rightarrow> nat \<Rightarrow> Slice \<Rightarrow> nat \<Rightarrow> 'a Cleanable option \<Rightarrow> 'a PinnableWideColumns \<Rightarrow>
     ('a PinnableWideColumns \<times> 'a Cleanable option) option" where
  "PinOrCopyValue delegate buf_at s at cleanable p =
     (case cleanable of
        None \<Rightarrow> do { p1 \<leftarrow> CopyValue buf_at s p; Some (p1, None) }
      | Some c \<Rightarrow>
          do {
            (v, c1) \<leftarrow> PinSlice_cleanable delegate s (Some c) (pw_value p);
            Some (p\<lparr>pw_value := v, pw_data := at\<rparr>, c1)
          })"

text \<open>
  \<open>PinnableSlice::operator=(PinnableSlice&&)\<close> on this slice, another one and the address of its bytes:
  the cleanups that run, the new slice, the address of its bytes, and what is left of the other.
\<close>

type_synonym 'a slice_move =
  "'a PinnableSlice \<Rightarrow> 'a PinnableSlice \<Rightarrow> nat \<Rightarrow> 'a event list \<times> 'a PinnableSlice \<times> nat \<times> 'a PinnableSlice"

definition MoveValue_slice ::
    "'a slice_move \<Rightarrow> 'a PinnableSlice \<Rightarrow> nat \<Rightarrow> 'a PinnableWideColumns \<Rightarrow>
     'a event list \<times> 'a PinnableWideColumns \<times> 'a PinnableSlice" where
  "MoveValue_slice move other at p =
     (let (es, v, d, left_over) = move (pw_value p) other at in
      (es, p\<lparr>pw_value := v, pw_data := d\<rparr>, left_over))"

definition MoveValue_string :: "nat \<Rightarrow> bytes \<Rightarrow> 'a PinnableWideColumns \<Rightarrow> 'a PinnableWideColumns option" where
  "MoveValue_string buf_at s p =
     do { v \<leftarrow> PinSelf ((pw_value p)\<lparr>ps_buf := s\<rparr>); Some (p\<lparr>pw_value := v, pw_data := buf_at\<rparr>) }"

definition CreateIndexForPlainValue :: "'a PinnableWideColumns \<Rightarrow> 'a PinnableWideColumns" where
  "CreateIndexForPlainValue p =
     p\<lparr>pw_columns := [WideColumn_new kDefaultWideColumnName (slice_of (pw_value p))], pw_base := pw_data p\<rparr>"

definition CreateIndexForWideColumns ::
    "(Slice \<Rightarrow> Status \<times> WideColumn list) \<Rightarrow> 'a PinnableWideColumns \<Rightarrow> Status \<times> 'a PinnableWideColumns" where
  "CreateIndexForWideColumns index p =
     (let (s, cols) = index (slice_of (pw_value p)) in (s, p\<lparr>pw_columns := cols, pw_base := pw_data p\<rparr>))"

definition is_plain_value :: "'a PinnableWideColumns \<Rightarrow> bool option" where
  "is_plain_value p =
     (case pw_columns p of
        [c] \<Rightarrow>
          do {
            n \<leftarrow> slice_eq (wc_name c) kDefaultWideColumnName;
            if n then slice_eq (wc_value c) (slice_of (pw_value p)) else Some False
          }
      | _ \<Rightarrow> Some False)"

definition Move ::
    "'a slice_move \<Rightarrow> (Slice \<Rightarrow> Status \<times> WideColumn list) \<Rightarrow> 'a PinnableWideColumns \<Rightarrow>
     'a PinnableWideColumns \<Rightarrow> ('a event list \<times> 'a PinnableWideColumns \<times> 'a PinnableWideColumns) option" where
  "Move move index other p =
     do {
       asserting (pw_columns p = []) ();
       if pw_columns other = [] then Some ([], p, other)
       else do {
         plain \<leftarrow> is_plain_value other;
         let (es, p1, v) = MoveValue_slice move (pw_value other) (pw_data other) p;
         let other1 = other\<lparr>pw_value := v\<rparr>;
         (p2, cols) \<leftarrow>
           (if pw_data p1 = pw_data other
            then Some (p1\<lparr>pw_columns := pw_columns other1, pw_base := pw_base other1\<rparr>, [])
            else if plain then Some (CreateIndexForPlainValue p1, pw_columns other1)
            else (let (s, p2) = CreateIndexForWideColumns index p1 in
                  asserting (status_ok s) (p2, pw_columns other1)));
         (es', other2) \<leftarrow> pw_Reset (other1\<lparr>pw_columns := cols\<rparr>);
         Some (es @ es', p2, other2)
       }
     }"

definition SetPlainValue :: "nat \<Rightarrow> Slice \<Rightarrow> 'a PinnableWideColumns \<Rightarrow> 'a PinnableWideColumns option" where
  "SetPlainValue buf_at s p = do { p1 \<leftarrow> CopyValue buf_at s p; Some (CreateIndexForPlainValue p1) }"

definition SetPlainValue_pin ::
    "'a delegation \<Rightarrow> nat \<Rightarrow> Slice \<Rightarrow> nat \<Rightarrow> 'a Cleanable option \<Rightarrow> 'a PinnableWideColumns \<Rightarrow>
     ('a PinnableWideColumns \<times> 'a Cleanable option) option" where
  "SetPlainValue_pin delegate buf_at s at cleanable p =
     do {
       (p1, c) \<leftarrow> PinOrCopyValue delegate buf_at s at cleanable p;
       Some (CreateIndexForPlainValue p1, c)
     }"

definition SetPlainValue_move ::
    "'a slice_move \<Rightarrow> 'a PinnableSlice \<Rightarrow> nat \<Rightarrow> 'a PinnableWideColumns \<Rightarrow>
     'a event list \<times> 'a PinnableWideColumns \<times> 'a PinnableSlice" where
  "SetPlainValue_move move val at p =
     (let (es, p1, v) = MoveValue_slice move val at p in (es, CreateIndexForPlainValue p1, v))"

definition SetPlainValue_string ::
    "nat \<Rightarrow> bytes \<Rightarrow> 'a PinnableWideColumns \<Rightarrow> 'a PinnableWideColumns option" where
  "SetPlainValue_string buf_at s p =
     do { p1 \<leftarrow> MoveValue_string buf_at s p; Some (CreateIndexForPlainValue p1) }"

text \<open>The end the four setters of a serialized value share.\<close>

definition index_or_reset ::
    "(Slice \<Rightarrow> Status \<times> WideColumn list) \<Rightarrow> 'a PinnableWideColumns \<Rightarrow>
     (Status \<times> 'a event list \<times> 'a PinnableWideColumns) option" where
  "index_or_reset index p =
     (let (s, p1) = CreateIndexForWideColumns index p in
      if \<not> status_ok s then do { (es, p2) \<leftarrow> pw_Reset p1; Some (s, es, p2) } else Some (s, [], p1))"

definition SetWideColumnValue ::
    "(Slice \<Rightarrow> Status \<times> WideColumn list) \<Rightarrow> nat \<Rightarrow> Slice \<Rightarrow> 'a PinnableWideColumns \<Rightarrow>
     (Status \<times> 'a event list \<times> 'a PinnableWideColumns) option" where
  "SetWideColumnValue index buf_at s p = do { p1 \<leftarrow> CopyValue buf_at s p; index_or_reset index p1 }"

definition SetWideColumnValue_pin ::
    "'a delegation \<Rightarrow> (Slice \<Rightarrow> Status \<times> WideColumn list) \<Rightarrow> nat \<Rightarrow> Slice \<Rightarrow> nat \<Rightarrow> 'a Cleanable option \<Rightarrow>
     'a PinnableWideColumns \<Rightarrow>
     ((Status \<times> 'a event list \<times> 'a PinnableWideColumns) \<times> 'a Cleanable option) option" where
  "SetWideColumnValue_pin delegate index buf_at s at cleanable p =
     do {
       (p1, c) \<leftarrow> PinOrCopyValue delegate buf_at s at cleanable p;
       r \<leftarrow> index_or_reset index p1;
       Some (r, c)
     }"

definition SetWideColumnValue_move ::
    "'a slice_move \<Rightarrow> (Slice \<Rightarrow> Status \<times> WideColumn list) \<Rightarrow> 'a PinnableSlice \<Rightarrow> nat \<Rightarrow>
     'a PinnableWideColumns \<Rightarrow>
     ((Status \<times> 'a event list \<times> 'a PinnableWideColumns) \<times> 'a PinnableSlice) option" where
  "SetWideColumnValue_move move index val at p =
     (let (es, p1, v) = MoveValue_slice move val at p in
      do { (s, es', p2) \<leftarrow> index_or_reset index p1; Some ((s, es @ es', p2), v) })"

definition SetWideColumnValue_string ::
    "(Slice \<Rightarrow> Status \<times> WideColumn list) \<Rightarrow> nat \<Rightarrow> bytes \<Rightarrow> 'a PinnableWideColumns \<Rightarrow>
     (Status \<times> 'a event list \<times> 'a PinnableWideColumns) option" where
  "SetWideColumnValue_string index buf_at s p =
     do { p1 \<leftarrow> MoveValue_string buf_at s p; index_or_reset index p1 }"

text \<open>The move constructor and the move assignment (\<open>same\<close>: \<open>this == &other\<close>).\<close>

definition PinnableWideColumns_move ::
    "'a slice_move \<Rightarrow> (Slice \<Rightarrow> Status \<times> WideColumn list) \<Rightarrow> 'a Cleanable \<Rightarrow> 'a PinnableWideColumns \<Rightarrow>
     ('a event list \<times> 'a PinnableWideColumns \<times> 'a PinnableWideColumns) option" where
  "PinnableWideColumns_move move index c other = Move move index other (PinnableWideColumns_default c)"

definition PinnableWideColumns_assign ::
    "'a slice_move \<Rightarrow> (Slice \<Rightarrow> Status \<times> WideColumn list) \<Rightarrow> bool \<Rightarrow> 'a PinnableWideColumns \<Rightarrow>
     'a PinnableWideColumns \<Rightarrow> ('a event list \<times> 'a PinnableWideColumns \<times> 'a PinnableWideColumns) option" where
  "PinnableWideColumns_assign move index same this other =
     (if \<not> same then
        do {
          (es, p) \<leftarrow> pw_Reset this;
          (es', p', o') \<leftarrow> Move move index other p;
          Some (es @ es', p', o')
        }
      else Some ([], this, other))"

text \<open>\<open>operator==\<close> compares the vectors: their lengths, then column by column.\<close>

fun columns_equal :: "WideColumn list \<Rightarrow> WideColumn list \<Rightarrow> bool option" where
  "columns_equal (c # cs) (d # ds) =
     do { e \<leftarrow> WideColumn_eq c d; if e then columns_equal cs ds else Some False }"
| "columns_equal cs ds = Some True"

definition PinnableWideColumns_eq :: "'a PinnableWideColumns \<Rightarrow> 'a PinnableWideColumns \<Rightarrow> bool option" where
  "PinnableWideColumns_eq lhs rhs =
     (if length (pw_columns lhs) = length (pw_columns rhs)
      then columns_equal (pw_columns lhs) (pw_columns rhs) else Some False)"

definition PinnableWideColumns_neq :: "'a PinnableWideColumns \<Rightarrow> 'a PinnableWideColumns \<Rightarrow> bool option" where
  "PinnableWideColumns_neq lhs rhs = map_option Not (PinnableWideColumns_eq lhs rhs)"

section \<open>What the declared functions promise\<close>

definition column_bytes :: "WideColumn \<Rightarrow> bytes \<times> bytes" where
  "column_bytes c = (slice_bytes (wc_name c), slice_bytes (wc_value c))"

text \<open>The parser depends on the bytes of its input only, and its columns are readable.\<close>

definition parser :: "(Slice \<Rightarrow> Status \<times> WideColumn list) \<Rightarrow> bool" where
  "parser index \<longleftrightarrow>
     (\<forall>s. slice_ok s \<longrightarrow> (\<forall>c \<in> set (snd (index s)). column_ok c)) \<and>
     (\<forall>s t. slice_ok s \<longrightarrow> slice_ok t \<longrightarrow> slice_bytes s = slice_bytes t \<longrightarrow>
        status_ok (fst (index s)) = status_ok (fst (index t)) \<and>
        map column_bytes (snd (index s)) = map column_bytes (snd (index t)))"

text \<open>A reset slice keeps its stale pointer, with size 0.

  The move assignment of \<open>PinnableSlice\<close> hands over the bytes and leaves both slices well formed.\<close>

definition readable :: "'a PinnableSlice \<Rightarrow> bool" where
  "readable p \<longleftrightarrow> ps_ok p \<or> (\<not> ps_pinned p \<and> ps_size p = 0)"

definition slice_good :: "'a PinnableSlice \<Rightarrow> bool" where
  "slice_good p \<longleftrightarrow> readable p \<and> cleanable_ok (ps_cleanable p)"

definition moves :: "'a slice_move \<Rightarrow> bool" where
  "moves move \<longleftrightarrow>
     (\<forall>this other at es v d left_over. slice_good this \<longrightarrow> slice_good other \<longrightarrow>
        move this other at = (es, v, d, left_over) \<longrightarrow>
        slice_good v \<and> ps_bytes v = ps_bytes other \<and> slice_good left_over)"

text \<open>The invariant: the columns do not dangle, and they are those of a plain value or of the parser.\<close>

definition shows_value :: "(Slice \<Rightarrow> Status \<times> WideColumn list) \<Rightarrow> 'a PinnableSlice \<Rightarrow> WideColumn list \<Rightarrow> bool" where
  "shows_value index v cols \<longleftrightarrow> (\<forall>c \<in> set cols. column_ok c) \<and>
     (cols = [] \<or> map column_bytes cols = [([], ps_bytes v)] \<or>
      (status_ok (fst (index (slice_of v))) \<and>
       map column_bytes cols = map column_bytes (snd (index (slice_of v)))))"

definition pw_ok :: "(Slice \<Rightarrow> Status \<times> WideColumn list) \<Rightarrow> 'a PinnableWideColumns \<Rightarrow> bool" where
  "pw_ok index p \<longleftrightarrow> slice_good (pw_value p) \<and> shows_value index (pw_value p) (pw_columns p) \<and>
     (pw_columns p \<noteq> [] \<longrightarrow> pw_base p = pw_data p)"

lemma slice_of_ok: "readable p \<Longrightarrow> slice_ok (slice_of p)"
  by (auto simp: slice_ok_def slice_of_def storage_def ps_ok_def readable_def ps_memory_def split: if_splits)

lemma slice_of_bytes: "slice_bytes (slice_of p) = ps_bytes p"
  by (auto simp: slice_bytes_def slice_of_def storage_def ps_bytes_def ps_memory_def)

lemma default_name [simp]: "slice_ok kDefaultWideColumnName" "slice_bytes kDefaultWideColumnName = []"
  by (simp_all add: kDefaultWideColumnName_def)

lemma plain_column:
  "readable v \<Longrightarrow> column_ok (WideColumn_new kDefaultWideColumnName (slice_of v))"
  "column_bytes (WideColumn_new kDefaultWideColumnName (slice_of v)) = ([], ps_bytes v)"
  by (rule column_ok_new) (simp_all add: slice_of_ok column_bytes_def WideColumn_new_def slice_of_bytes)

lemma is_plain_value_spec:
  assumes "slice_good (pw_value p)" "\<forall>c \<in> set (pw_columns p). column_ok c"
  shows "is_plain_value p = Some (map column_bytes (pw_columns p) = [([], ps_bytes (pw_value p))])"
proof (cases "\<exists>c. pw_columns p = [c]")
  case True
  then obtain c where c: "pw_columns p = [c]" by blast
  have "slice_ok (wc_name c)" "slice_ok (wc_value c)" "slice_ok (slice_of (pw_value p))"
    using assms c by (auto simp: column_ok_def slice_good_def slice_of_ok)
  then show ?thesis by (simp add: is_plain_value_def c slice_eq_spec slice_of_bytes column_bytes_def)
next
  case False
  then show ?thesis by (auto simp: is_plain_value_def split: list.split)
qed

lemma plain_index_ok:
  "slice_good (pw_value p) \<Longrightarrow> pw_ok index (CreateIndexForPlainValue p)"
  by (simp add: pw_ok_def CreateIndexForPlainValue_def shows_value_def plain_column slice_good_def)

lemma wide_index_ok:
  assumes "parser index" "slice_good (pw_value p)" "CreateIndexForWideColumns index p = (s, p1)" "status_ok s"
  shows "pw_ok index p1"
proof -
  have "slice_ok (slice_of (pw_value p))" using assms(2) by (simp add: slice_good_def slice_of_ok)
  then show ?thesis using assms
    by (auto simp: pw_ok_def CreateIndexForWideColumns_def shows_value_def parser_def split: prod.splits)
qed


lemma ps_Reset_good:
  assumes "slice_good p"
  obtains es q where "ps_Reset p = Some (es, q)" "slice_good q" "ps_size q = 0" "calls es = owed (ps_cleanable p)"
    "\<not> ps_pinned q"
proof -
  obtain es c where c: "Cleanable_Reset (ps_cleanable p) = Some (es, c)" "calls es = owed (ps_cleanable p)"
    "cleanable_ok c"
    using assms Cleanable_Reset_runs [of "ps_cleanable p"] unfolding slice_good_def by metis
  then show ?thesis
    by (intro that [of es "p\<lparr>ps_cleanable := c, ps_pinned := False, ps_size := 0\<rparr>"])
      (simp_all add: ps_Reset_def slice_good_def readable_def)
qed

lemma pw_Reset_ok:
  assumes "slice_good (pw_value p)"
  obtains es q where "pw_Reset p = Some (es, q)" "pw_ok index q" "pw_columns q = []" "serialized_size q = 0"
    "calls es = owed (ps_cleanable (pw_value p))" "\<not> ps_pinned (pw_value q)" "slice_good (pw_value q)"
proof (rule ps_Reset_good [OF assms])
  fix es v
  assume v: "ps_Reset (pw_value p) = Some (es, v)" "slice_good v" "ps_size v = 0"
    "calls es = owed (ps_cleanable (pw_value p))" "\<not> ps_pinned v"
  then show ?thesis
    by (intro that [of es "p\<lparr>pw_value := v, pw_columns := []\<rparr>"])
      (simp_all add: pw_Reset_def pw_ok_def shows_value_def serialized_size_def)
qed

lemma index_or_reset_ok:
  assumes "parser index" "slice_good (pw_value p)"
  obtains s es q where "index_or_reset index p = Some (s, es, q)" "pw_ok index q"
    "s = fst (index (slice_of (pw_value p)))"
    "\<not> status_ok s \<Longrightarrow> pw_columns q = [] \<and> serialized_size q = 0 \<and> calls es = owed (ps_cleanable (pw_value p))"
    "status_ok s \<Longrightarrow> es = [] \<and> pw_value q = pw_value p \<and> pw_base q = pw_data q \<and>
       pw_columns q = snd (index (slice_of (pw_value p)))"
proof -
  obtain s p1 where i: "CreateIndexForWideColumns index p = (s, p1)" by (rule prod.exhaust)
  then have p1: "pw_value p1 = pw_value p" "s = fst (index (slice_of (pw_value p)))"
      "pw_columns p1 = snd (index (slice_of (pw_value p)))" "pw_base p1 = pw_data p1"
    by (auto simp: CreateIndexForWideColumns_def split: prod.splits)
  show ?thesis
  proof (cases "status_ok s")
    case True
    with i p1 wide_index_ok [OF assms i True] show ?thesis
      by (intro that [of s "[]" p1]) (simp_all add: index_or_reset_def)
  next
    case False
    have g: "slice_good (pw_value p1)" using assms(2) p1(1) by simp
    show ?thesis
    proof (rule pw_Reset_ok [OF g, of index])
      fix es q
      assume "pw_Reset p1 = Some (es, q)" "pw_ok index q" "pw_columns q = []" "serialized_size q = 0"
        "calls es = owed (ps_cleanable (pw_value p1))"
      with False i p1 show ?thesis by (intro that [of s es q]) (simp_all add: index_or_reset_def)
    qed
  qed
qed

section \<open>Setting the value\<close>

lemma PinSelf_slice_good:
  assumes "slice_ok s" "slice_good p" "\<not> ps_pinned p"
  obtains q where "PinSelf_slice s p = Some q" "slice_good q" "ps_bytes q = slice_bytes s"
proof (rule PinSelf_slice_bytes [OF assms(1,3)])
  fix q
  assume "PinSelf_slice s p = Some q" "ps_ok q" "ps_bytes q = slice_bytes s" "ps_cleanable q = ps_cleanable p"
  with assms(2) show ?thesis by (intro that [of q]) (simp_all add: slice_good_def readable_def)
qed

lemma PinSelf_string_good:
  assumes "slice_good p" "\<not> ps_pinned p"
  obtains q where "PinSelf (p\<lparr>ps_buf := s\<rparr>) = Some q" "slice_good q" "ps_bytes q = s"
  using assms that by (auto simp: PinSelf_def slice_good_def readable_def ps_ok_def ps_bytes_def ps_memory_def)

lemma CopyValue_good:
  assumes "slice_ok s" "slice_good (pw_value p)" "\<not> ps_pinned (pw_value p)"
  obtains q where "CopyValue buf_at s p = Some q" "slice_good (pw_value q)" "ps_bytes (pw_value q) = slice_bytes s"
    "pw_data q = buf_at"
  by (rule PinSelf_slice_good [OF assms]) (auto intro: that simp: CopyValue_def)

lemma MoveValue_string_good:
  assumes "slice_good (pw_value p)" "\<not> ps_pinned (pw_value p)"
  obtains q where "MoveValue_string buf_at s p = Some q" "slice_good (pw_value q)" "ps_bytes (pw_value q) = s"
    "pw_data q = buf_at"
  by (rule PinSelf_string_good [OF assms, of s]) (auto intro: that simp: MoveValue_string_def)

text \<open>Delegation keeps both lists of cleanups well formed.\<close>

definition delegates :: "'a delegation \<Rightarrow> bool" where
  "delegates delegate \<longleftrightarrow>
     (\<forall>c d c1 d1. cleanable_ok c \<longrightarrow> cleanable_ok d \<longrightarrow> delegate c d = (c1, d1) \<longrightarrow>
        cleanable_ok c1 \<and> cleanable_ok d1)"

lemma PinOrCopyValue_good:
  assumes "delegates delegate" "slice_ok s" "slice_good (pw_value p)" "\<not> ps_pinned (pw_value p)"
    "\<And>c. cleanable = Some c \<Longrightarrow> cleanable_ok c"
  obtains q c1 where "PinOrCopyValue delegate buf_at s at cleanable p = Some (q, c1)" "slice_good (pw_value q)"
    "ps_bytes (pw_value q) = slice_bytes s" "ps_pinned (pw_value q) \<longleftrightarrow> cleanable \<noteq> None"
    "pw_data q = (if cleanable = None then buf_at else at)"
proof (cases cleanable)
  case None
  show ?thesis
  proof (rule CopyValue_good [OF assms(2-4), of buf_at])
    fix q
    assume "CopyValue buf_at s p = Some q" "slice_good (pw_value q)" "ps_bytes (pw_value q) = slice_bytes s"
      "pw_data q = buf_at"
    moreover from this(1) assms(4) have "\<not> ps_pinned (pw_value q)"
      by (auto simp: CopyValue_def PinSelf_slice_def PinSelf_def bind_eq_Some_conv)
    ultimately show ?thesis using None by (intro that [of q None]) (simp_all add: PinOrCopyValue_def)
  qed
next
  case (Some c)
  obtain c1 d1 where d: "delegate c (ps_cleanable (pw_value p)) = (c1, d1)" by (rule prod.exhaust)
  have "cleanable_ok d1"
    using assms(1,3) assms(5) [OF Some] d unfolding delegates_def slice_good_def by blast
  then show ?thesis using assms(2,4) Some d
    by (intro that [of "p\<lparr>pw_value := (pw_value p)\<lparr>ps_pinned := True, ps_data := pointer_of s,
        ps_size := slice_size s, ps_cleanable := d1\<rparr>, pw_data := at\<rparr>" "Some c1"])
      (auto simp: PinOrCopyValue_def PinSlice_cleanable_def slice_good_def readable_def ps_ok_def ps_bytes_def
        ps_memory_def pointer_of_def slice_bytes_def storage_def slice_size_def slice_ok_def split: option.splits)
qed

section \<open>Moving\<close>

lemma shows_value_bytes:
  assumes "parser index" "readable v" "readable w" "ps_bytes v = ps_bytes w" "shows_value index v cols"
  shows "shows_value index w cols"
proof -
  have "slice_ok (slice_of v)" "slice_ok (slice_of w)" "slice_bytes (slice_of v) = slice_bytes (slice_of w)"
    using assms(2-4) by (simp_all add: slice_of_ok slice_of_bytes)
  then have "status_ok (fst (index (slice_of v))) = status_ok (fst (index (slice_of w)))"
      "map column_bytes (snd (index (slice_of v))) = map column_bytes (snd (index (slice_of w)))"
    using assms(1) unfolding parser_def by blast+
  with assms(4,5) show ?thesis by (simp add: shows_value_def)
qed

text \<open>What the new object of a move shows, whichever way its columns come about.\<close>

lemma moved_columns:
  assumes "parser index" "pw_ok index other" "pw_columns other \<noteq> []" "slice_good (pw_value p1)"
    "ps_bytes (pw_value p1) = ps_bytes (pw_value other)"
  obtains plain where "is_plain_value other = Some plain"
    "pw_data p1 = pw_data other \<Longrightarrow>
       pw_ok index (p1\<lparr>pw_columns := pw_columns other, pw_base := pw_base other\<rparr>)"
    "plain \<Longrightarrow> map column_bytes (pw_columns (CreateIndexForPlainValue p1)) = map column_bytes (pw_columns other)"
    "\<not> plain \<Longrightarrow> \<exists>s p2. CreateIndexForWideColumns index p1 = (s, p2) \<and> status_ok s \<and> pw_ok index p2 \<and>
       pw_value p2 = pw_value p1 \<and> map column_bytes (pw_columns p2) = map column_bytes (pw_columns other)"
proof (rule that [OF is_plain_value_spec])
  have other: "slice_good (pw_value other)" "shows_value index (pw_value other) (pw_columns other)"
      "pw_base other = pw_data other"
    using assms(2,3) by (simp_all add: pw_ok_def)
  have shown: "shows_value index (pw_value p1) (pw_columns other)"
    by (rule shows_value_bytes [OF assms(1) _ _ assms(5) [symmetric] other(2)])
      (use other(1) assms(4) in \<open>simp_all add: slice_good_def\<close>)
  show "slice_good (pw_value other)" by (fact other(1))
  show "\<forall>c \<in> set (pw_columns other). column_ok c" using other(2) by (simp add: shows_value_def)
  show "pw_ok index (p1\<lparr>pw_columns := pw_columns other, pw_base := pw_base other\<rparr>)"
    if "pw_data p1 = pw_data other"
    using that other(3) shown assms(4) by (simp add: pw_ok_def)
  show "map column_bytes (pw_columns (CreateIndexForPlainValue p1)) = map column_bytes (pw_columns other)"
    if "map column_bytes (pw_columns other) = [([], ps_bytes (pw_value other))]"
    using that assms(4,5) by (simp add: CreateIndexForPlainValue_def plain_column slice_good_def)
  assume "map column_bytes (pw_columns other) \<noteq> [([], ps_bytes (pw_value other))]"
  with shown assms(3,5) have parsed: "status_ok (fst (index (slice_of (pw_value p1))))"
      "map column_bytes (pw_columns other) = map column_bytes (snd (index (slice_of (pw_value p1))))"
    by (simp_all add: shows_value_def)
  obtain s p2 where i: "CreateIndexForWideColumns index p1 = (s, p2)" by (rule prod.exhaust)
  then have p2: "s = fst (index (slice_of (pw_value p1)))" "pw_value p2 = pw_value p1"
      "pw_columns p2 = snd (index (slice_of (pw_value p1)))"
    by (auto simp: CreateIndexForWideColumns_def split: prod.splits)
  with parsed wide_index_ok [OF assms(1,4) i] i show "\<exists>s p2. CreateIndexForWideColumns index p1 = (s, p2) \<and>
      status_ok s \<and> pw_ok index p2 \<and> pw_value p2 = pw_value p1 \<and>
      map column_bytes (pw_columns p2) = map column_bytes (pw_columns other)" by simp
qed

lemma Move_ok:
  assumes "parser index" "moves move" "pw_ok index other" "pw_columns other \<noteq> []"
    "slice_good (pw_value p)" "pw_columns p = []"
  shows "\<exists>es p' o'. Move move index other p = Some (es, p', o') \<and> pw_ok index p' \<and> pw_ok index o' \<and>
    map column_bytes (pw_columns p') = map column_bytes (pw_columns other) \<and>
    ps_bytes (pw_value p') = ps_bytes (pw_value other) \<and> pw_columns o' = [] \<and> serialized_size o' = 0"
proof -
  obtain es v d w where m: "move (pw_value p) (pw_value other) (pw_data other) = (es, v, d, w)"
    by (metis prod_cases4)
  let ?p1 = "p\<lparr>pw_value := v, pw_data := d\<rparr>"
  have g: "slice_good v" "ps_bytes v = ps_bytes (pw_value other)" "slice_good w"
    using assms(2,3,5) m unfolding moves_def pw_ok_def by metis+
  have mv: "MoveValue_slice move (pw_value other) (pw_data other) p = (es, ?p1, w)"
    by (simp add: MoveValue_slice_def m)
  have w: "slice_good (pw_value (other\<lparr>pw_value := w, pw_columns := cols\<rparr>))" for cols using g(3) by simp
  obtain plain where plain: "is_plain_value other = Some plain"
    and same: "d = pw_data other \<Longrightarrow> pw_ok index (?p1\<lparr>pw_columns := pw_columns other, pw_base := pw_base other\<rparr>)"
    and new: "plain \<Longrightarrow> map column_bytes (pw_columns (CreateIndexForPlainValue ?p1)) = map column_bytes (pw_columns other)"
    and parsed: "\<not> plain \<Longrightarrow> \<exists>s p2. CreateIndexForWideColumns index ?p1 = (s, p2) \<and> status_ok s \<and> pw_ok index p2 \<and>
       pw_value p2 = v \<and> map column_bytes (pw_columns p2) = map column_bytes (pw_columns other)"
    by (rule moved_columns [OF assms(1,3,4), of ?p1]) (use g in simp_all)
  have fresh: "pw_ok index (CreateIndexForPlainValue ?p1)" "pw_value (CreateIndexForPlainValue ?p1) = v"
    by (rule plain_index_ok) (simp_all add: g(1) CreateIndexForPlainValue_def)
  obtain e1 q1 where r1: "pw_Reset (other\<lparr>pw_value := w, pw_columns := []\<rparr>) = Some (e1, q1)" "pw_ok index q1"
      "pw_columns q1 = []" "serialized_size q1 = 0" by (rule pw_Reset_ok [OF w])
  obtain e2 q2 where r2: "pw_Reset (other\<lparr>pw_value := w, pw_columns := pw_columns other\<rparr>) = Some (e2, q2)"
      "pw_ok index q2" "pw_columns q2 = []" "serialized_size q2 = 0" by (rule pw_Reset_ok [OF w])
  consider "d = pw_data other" | "d \<noteq> pw_data other" plain | "d \<noteq> pw_data other" "\<not> plain" by blast
  then show ?thesis
  proof cases
    case 1
    with same r1 g(2) show ?thesis by (simp add: Move_def assms(4,6) plain mv Let_def)
  next
    case 2
    with new fresh r2 g(2) show ?thesis by (simp add: Move_def assms(4,6) plain mv Let_def)
  next
    case 3
    with parsed r2 g(2) show ?thesis by (auto simp: Move_def assms(4,6) plain mv Let_def)
  qed
qed

lemma Move_empty:
  "pw_columns other = [] \<Longrightarrow> pw_columns p = [] \<Longrightarrow> Move move index other p = Some ([], p, other)"
  by (simp add: Move_def)

section \<open>Properties\<close>

text \<open>An object with one plain value, and parameters, for the witnesses.\<close>

definition no_cleanups :: "nat Cleanable" where
  "no_cleanups = \<lparr>cleanup_node = \<lparr>cl_function = None, cl_arg1 = 0, cl_arg2 = 0\<rparr>, cleanup_next = []\<rparr>"

definition one_column :: "Slice \<Rightarrow> Status \<times> WideColumn list" where
  "one_column s = (if slice_bytes s = ''bad'' then (Status_code kCorruption kNone, [])
     else (Status_default, [WideColumn_new (Slice_string ''n'') s]))"

definition relocate :: "nat slice_move" where
  "relocate this other at = ([], other, at + 1, PinnableSlice_default no_cleanups)"

definition hand_over :: "nat delegation" where
  "hand_over c d = (no_cleanups, c)"

lemma sample_parameters:
  "cleanable_ok no_cleanups" "delegates hand_over" "slice_good (PinnableSlice_default no_cleanups)"
proof -
  show ok: "cleanable_ok no_cleanups" by (simp add: cleanable_ok_def no_cleanups_def)
  then show "delegates hand_over" by (simp add: delegates_def hand_over_def)
  have "ps_cleanable (PinnableSlice_default no_cleanups) = no_cleanups" by (simp add: PinnableSlice_default_def)
  then show "slice_good (PinnableSlice_default no_cleanups)"
    using ok by (simp add: slice_good_def readable_def ps_ok_default)
qed

lemma witness_parameters:
  "cleanable_ok no_cleanups" "parser one_column" "moves relocate" "delegates hand_over"
  "slice_good (PinnableSlice_default no_cleanups)"
proof -
  show "parser one_column"
    by (auto simp: parser_def one_column_def column_bytes_def WideColumn_new_def column_ok_def)
  show "moves relocate" using sample_parameters(3) by (auto simp: moves_def relocate_def)
qed (fact sample_parameters)+



text \<open>
  A result without columns is not moved: an entity that parses to no column keeps its serialized
  value, address and cleanups in the source, and the target of the move is only reset.
\<close>

theorem move_of_no_columns:
  assumes "pw_columns other = []" "slice_good (pw_value this)"
  shows "\<exists>es p. PinnableWideColumns_assign move index False this other = Some (es, p, other) \<and>
    pw_columns p = [] \<and> serialized_size p = 0 \<and> calls es = owed (ps_cleanable (pw_value this))"
proof (rule pw_Reset_ok [OF assms(2), of index])
  fix es q
  assume "pw_Reset this = Some (es, q)" "pw_columns q = []" "serialized_size q = 0"
    "calls es = owed (ps_cleanable (pw_value this))"
  with assms(1) show ?thesis by (simp add: PinnableWideColumns_assign_def Move_def)
qed

theorem move_of_no_columns_witness:
  "\<exists>es p. PinnableWideColumns_assign relocate one_column False (PinnableWideColumns_default no_cleanups)
     (PinnableWideColumns_default no_cleanups) = Some (es, p, PinnableWideColumns_default no_cleanups) \<and>
     serialized_size p = 0"
  using move_of_no_columns [of "PinnableWideColumns_default no_cleanups" "PinnableWideColumns_default no_cleanups"
      relocate one_column] witness_parameters(5)
  by (auto simp: PinnableWideColumns_default_def)

text \<open>
  C35. Setting a serialized value on an unpinned result, pinned to the caller's memory or copied: the
  status is the parser's; on success the columns are the parser's and point into the value, which has
  the given bytes; on failure the result is reset, shows nothing, and its cleanups have run.
\<close>

theorem set_wide_column_value:
  assumes "parser index" "delegates delegate" "slice_ok s" "slice_good (pw_value p)" "\<not> ps_pinned (pw_value p)"
    "\<And>c. cleanable = Some c \<Longrightarrow> cleanable_ok c"
  shows "\<exists>st es q c v. SetWideColumnValue_pin delegate index buf_at s at cleanable p = Some ((st, es, q), c) \<and>
    ps_bytes v = slice_bytes s \<and> st = fst (index (slice_of v)) \<and> pw_ok index q \<and>
    (status_ok st \<longrightarrow> es = [] \<and> pw_value q = v \<and> pw_columns q = snd (index (slice_of v)) \<and> pw_base q = pw_data q \<and>
       (ps_pinned v \<longleftrightarrow> cleanable \<noteq> None)) \<and>
    (\<not> status_ok st \<longrightarrow> pw_columns q = [] \<and> serialized_size q = 0 \<and> calls es = owed (ps_cleanable v))"
proof (rule PinOrCopyValue_good [where buf_at = buf_at and at = at, OF assms(2-6)])
  fix p1 c1
  assume p1: "PinOrCopyValue delegate buf_at s at cleanable p = Some (p1, c1)" "slice_good (pw_value p1)"
    "ps_bytes (pw_value p1) = slice_bytes s" "ps_pinned (pw_value p1) \<longleftrightarrow> cleanable \<noteq> None"
  show ?thesis
  proof (rule index_or_reset_ok [OF assms(1) p1(2)])
    fix st es q
    assume q: "index_or_reset index p1 = Some (st, es, q)" "pw_ok index q" "st = fst (index (slice_of (pw_value p1)))"
      "\<not> status_ok st \<Longrightarrow> pw_columns q = [] \<and> serialized_size q = 0 \<and> calls es = owed (ps_cleanable (pw_value p1))"
      "status_ok st \<Longrightarrow> es = [] \<and> pw_value q = pw_value p1 \<and> pw_base q = pw_data q \<and>
        pw_columns q = snd (index (slice_of (pw_value p1)))"
    then show ?thesis
      by (intro exI [of _ st] exI [of _ es] exI [of _ q] exI [of _ c1] exI [of _ "pw_value p1"])
        (use p1 in \<open>simp add: SetWideColumnValue_pin_def\<close>)
  qed
qed

theorem set_wide_column_value_witness:
  "\<exists>st es q c. SetWideColumnValue_pin hand_over one_column 5 (Slice_string ''bad'') 8 (Some sample_cleanable)
       (PinnableWideColumns_default no_cleanups) = Some ((st, es, q), c) \<and> \<not> status_ok st \<and> serialized_size q = 0"
proof -
  have "slice_good (pw_value (PinnableWideColumns_default no_cleanups))"
      "\<not> ps_pinned (pw_value (PinnableWideColumns_default no_cleanups))"
    using witness_parameters(5) by (simp_all add: PinnableWideColumns_default_def PinnableSlice_default_def)
  note result = set_wide_column_value [OF witness_parameters(2,4) _ this, of "Slice_string ''bad''"
      "Some sample_cleanable" 5 8]
  have bad: "ps_bytes v = ''bad'' \<Longrightarrow> \<not> status_ok (fst (one_column (slice_of v)))" for v :: "nat PinnableSlice"
    by (simp add: one_column_def slice_of_bytes Status_code_def status_ok_def)
  have ok: "cleanable_ok c" if "Some sample_cleanable = Some c" for c using that sample_cleanable_ok by simp
  show ?thesis using result [OF slice_ok_constructors(2) ok] bad by fastforce
qed

end
