(* ===== verification/AttributeGroups.thy ===== *)
theory AttributeGroups
  imports PinnableColumns
begin

text \<open>
  include/rocksdb/attribute_groups.h: the columns of an entity in one column family, on the write path,
  on the read path (with a status) and in iterators. Column families are handles.
\<close>

record AttributeGroup =
  ag_column_family :: "nat option"
  ag_columns :: "WideColumn list"

definition AttributeGroup_new :: "nat option \<Rightarrow> WideColumn list \<Rightarrow> AttributeGroup" where
  "AttributeGroup_new cf cols = \<lparr>ag_column_family = cf, ag_columns = cols\<rparr>"

text \<open>\<open>operator==\<close>: the handles, then the vectors of columns.\<close>

definition AttributeGroup_eq :: "AttributeGroup \<Rightarrow> AttributeGroup \<Rightarrow> bool option" where
  "AttributeGroup_eq lhs rhs =
     (if ag_column_family lhs = ag_column_family rhs then
        (if length (ag_columns lhs) = length (ag_columns rhs)
         then columns_equal (ag_columns lhs) (ag_columns rhs) else Some False)
      else Some False)"

record 'a PinnableAttributeGroup =
  pag_column_family :: "nat option"
  pag_status :: Status
  pag_columns :: "'a PinnableWideColumns"

definition PinnableAttributeGroup_new :: "'a Cleanable \<Rightarrow> nat option \<Rightarrow> 'a PinnableAttributeGroup" where
  "PinnableAttributeGroup_new c cf = \<lparr>pag_column_family = cf, pag_status = Status_default,
     pag_columns = PinnableWideColumns_default c\<rparr>"

definition SetStatus :: "Status \<Rightarrow> 'a PinnableAttributeGroup \<Rightarrow> 'a PinnableAttributeGroup" where
  "SetStatus st g = g\<lparr>pag_status := st\<rparr>"

definition SetColumns ::
    "'a slice_move \<Rightarrow> (Slice \<Rightarrow> Status \<times> WideColumn list) \<Rightarrow> 'a PinnableWideColumns \<Rightarrow> 'a PinnableAttributeGroup \<Rightarrow>
     ('a event list \<times> 'a PinnableAttributeGroup \<times> 'a PinnableWideColumns) option" where
  "SetColumns move index cols g =
     do {
       (es, p, left_over) \<leftarrow> PinnableWideColumns_assign move index False (pag_columns g) cols;
       Some (es, g\<lparr>pag_columns := p\<rparr>, left_over)
     }"

definition pag_Reset :: "'a PinnableAttributeGroup \<Rightarrow> ('a event list \<times> 'a PinnableAttributeGroup) option" where
  "pag_Reset g =
     (let g1 = SetStatus Status_default g in
      do { (es, p) \<leftarrow> pw_Reset (pag_columns g1); Some (es, g1\<lparr>pag_columns := p\<rparr>) })"

record IteratorAttributeGroup =
  iag_column_family :: "nat option"
  iag_columns :: "WideColumn list"

definition IteratorAttributeGroup_new :: "nat option \<Rightarrow> WideColumn list \<Rightarrow> IteratorAttributeGroup" where
  "IteratorAttributeGroup_new cf cols = \<lparr>iag_column_family = cf, iag_columns = cols\<rparr>"

section \<open>Comparison, reuse of a group\<close>

lemma columns_equal_spec:
  assumes "\<forall>c \<in> set cs. column_ok c" "\<forall>d \<in> set ds. column_ok d" "length cs = length ds"
  shows "columns_equal cs ds = Some (map column_bytes cs = map column_bytes ds)"
  using assms(3,1,2)
  by (induction cs ds rule: list_induct2)
    (auto simp: WideColumn_eq_def column_ok_def slice_eq_spec column_bytes_def split: if_splits)

lemma columns_compared:
  assumes "\<forall>c \<in> set cs. column_ok c" "\<forall>d \<in> set ds. column_ok d"
  shows "(if length cs = length ds then columns_equal cs ds else Some False) =
    Some (map column_bytes cs = map column_bytes ds)"
  using columns_equal_spec [OF assms] by (auto dest: map_eq_imp_length_eq)

lemma pag_Reset_ok:
  assumes "slice_good (pw_value (pag_columns g))"
  obtains es h where "pag_Reset g = Some (es, h)" "pag_status h = Status_default" "pw_columns (pag_columns h) = []"
    "serialized_size (pag_columns h) = 0" "pag_column_family h = pag_column_family g"
    "slice_good (pw_value (pag_columns h))" "calls es = owed (ps_cleanable (pw_value (pag_columns g)))"
proof (rule pw_Reset_ok [OF assms])
  fix es q
  assume "pw_Reset (pag_columns g) = Some (es, q)" "pw_columns q = []" "serialized_size q = 0"
    "slice_good (pw_value q)" "calls es = owed (ps_cleanable (pw_value (pag_columns g)))"
  then show ?thesis
    by (intro that [of es "g\<lparr>pag_status := Status_default, pag_columns := q\<rparr>"])
      (simp_all add: pag_Reset_def SetStatus_def)
qed

section \<open>Properties\<close>

text \<open>
  Results and attribute groups compare by content: \<open>operator==\<close> is defined on readable columns,
  and holds exactly if the columns have the same names and values byte by byte, in order (and, for
  groups, the same column family); \<open>operator!=\<close> is the negation.
\<close>

theorem results_compare_by_content:
  assumes "\<forall>c \<in> set (pw_columns p). column_ok c" "\<forall>c \<in> set (pw_columns q). column_ok c"
    "\<forall>c \<in> set (ag_columns g). column_ok c" "\<forall>c \<in> set (ag_columns h). column_ok c"
  shows "PinnableWideColumns_eq p q = Some (map column_bytes (pw_columns p) = map column_bytes (pw_columns q)) \<and>
    PinnableWideColumns_neq p q = map_option Not (PinnableWideColumns_eq p q) \<and>
    AttributeGroup_eq g h = Some (ag_column_family g = ag_column_family h \<and>
      map column_bytes (ag_columns g) = map column_bytes (ag_columns h))"
  using columns_compared [OF assms(1,2)] columns_compared [OF assms(3,4)]
  by (simp add: PinnableWideColumns_eq_def PinnableWideColumns_neq_def AttributeGroup_eq_def)

theorem results_compare_by_content_witness:
  "AttributeGroup_eq (AttributeGroup_new (Some 1) [WideColumn_new (Slice_string ''n'') (Slice_string ''v'')])
     (AttributeGroup_new (Some 1) [WideColumn_new (Slice_string_view ''n'') (Slice_string_view ''v'')]) = Some True"
  using results_compare_by_content [of "PinnableWideColumns_default no_cleanups" "PinnableWideColumns_default no_cleanups"
      "AttributeGroup_new (Some 1) [WideColumn_new (Slice_string ''n'') (Slice_string ''v'')]"
      "AttributeGroup_new (Some 1) [WideColumn_new (Slice_string_view ''n'') (Slice_string_view ''v'')]"]
  by (simp add: PinnableWideColumns_default_def AttributeGroup_new_def column_ok_new column_bytes_def
      WideColumn_new_def column_ok_def)

end
