(* ===== verification/OptionRecords.thy ===== *)
theory OptionRecords
  imports FileSystemModel SliceData
begin

text \<open>
  The option structs of include/rocksdb/options.h that the calls of a database take, with their
  member initialisers and constructors. Pointers and function objects are \<open>pointer_handle\<close>s;
  \<open>std::chrono::microseconds\<close> is the integer it counts; the doubles of these structs have
  initialisers that are small integers and are kept as \<open>int\<close>. The constructors of \<open>ReadOptions\<close> and
  \<open>WriteOptions\<close> with arguments are declared only.
\<close>

type_synonym uint32 = "32 word"

section \<open>Reading and writing\<close>

datatype ReadTier = kReadAllTier | kBlockCacheTier | kPersistedTier | kMemtableTier

fun ReadTier_val :: "ReadTier \<Rightarrow> nat" where
  "ReadTier_val kReadAllTier = 0" | "ReadTier_val kBlockCacheTier = 1"
| "ReadTier_val kPersistedTier = 2" | "ReadTier_val kMemtableTier = 3"

record ReadOptions =
  ro_snapshot :: pointer_handle
  ro_timestamp :: "Slice option"
  ro_iter_start_ts :: "Slice option"
  ro_deadline :: int
  ro_io_timeout :: int
  ro_read_tier :: ReadTier
  ro_rate_limiter_priority :: Env_IOPriority
  ro_value_size_soft_limit :: uint64
  ro_merge_operand_count_threshold :: "nat option"
  ro_verify_checksums :: bool
  ro_fill_cache :: bool
  ro_ignore_range_deletions :: bool
  ro_async_io :: bool
  ro_optimize_multiget_for_io :: bool
  ro_readahead_size :: nat
  ro_max_skippable_internal_keys :: uint64
  ro_iterate_lower_bound :: "Slice option"
  ro_iterate_upper_bound :: "Slice option"
  ro_tailing :: bool
  ro_managed :: bool
  ro_total_order_seek :: bool
  ro_auto_prefix_mode :: bool
  ro_prefix_same_as_start :: bool
  ro_pin_data :: bool
  ro_adaptive_readahead :: bool
  ro_background_purge_on_iterator_cleanup :: bool
  ro_table_filter :: pointer_handle
  ro_auto_readahead_size :: bool
  ro_io_activity :: IOActivity

definition ReadOptions_default :: ReadOptions where
  "ReadOptions_default = \<lparr>ro_snapshot = None, ro_timestamp = None, ro_iter_start_ts = None, ro_deadline = 0,
     ro_io_timeout = 0, ro_read_tier = kReadAllTier, ro_rate_limiter_priority = IO_TOTAL,
     ro_value_size_soft_limit = - 1, ro_merge_operand_count_threshold = None, ro_verify_checksums = True,
     ro_fill_cache = True, ro_ignore_range_deletions = False, ro_async_io = False,
     ro_optimize_multiget_for_io = True, ro_readahead_size = 0, ro_max_skippable_internal_keys = 0,
     ro_iterate_lower_bound = None, ro_iterate_upper_bound = None, ro_tailing = False, ro_managed = False,
     ro_total_order_seek = False, ro_auto_prefix_mode = False, ro_prefix_same_as_start = False,
     ro_pin_data = False, ro_adaptive_readahead = False, ro_background_purge_on_iterator_cleanup = False,
     ro_table_filter = None, ro_auto_readahead_size = True, ro_io_activity = kUnknownActivity\<rparr>"

record WriteOptions =
  wo_sync :: bool
  wo_disableWAL :: bool
  wo_ignore_missing_column_families :: bool
  wo_no_slowdown :: bool
  wo_low_pri :: bool
  wo_memtable_insert_hint_per_batch :: bool
  wo_rate_limiter_priority :: Env_IOPriority
  wo_protection_bytes_per_key :: nat
  wo_io_activity :: IOActivity

definition WriteOptions_default :: WriteOptions where
  "WriteOptions_default = \<lparr>wo_sync = False, wo_disableWAL = False, wo_ignore_missing_column_families = False,
     wo_no_slowdown = False, wo_low_pri = False, wo_memtable_insert_hint_per_batch = False,
     wo_rate_limiter_priority = IO_TOTAL, wo_protection_bytes_per_key = 0,
     wo_io_activity = kUnknownActivity\<rparr>"

record FlushOptions =
  fo_wait :: bool
  fo_allow_write_stall :: bool

definition FlushOptions_default :: FlushOptions where
  "FlushOptions_default = \<lparr>fo_wait = True, fo_allow_write_stall = False\<rparr>"

section \<open>Compaction\<close>

text \<open>include/rocksdb/compression_type.h.\<close>

datatype CompressionType =
    kNoCompression | kSnappyCompression | kZlibCompression | kBZip2Compression | kLZ4Compression
  | kLZ4HCCompression | kXpressCompression | kZSTD | kZSTDNotFinalCompression
  | kDisableCompressionOption

fun CompressionType_val :: "CompressionType \<Rightarrow> nat" where
  "CompressionType_val kNoCompression = 0" | "CompressionType_val kSnappyCompression = 1"
| "CompressionType_val kZlibCompression = 2" | "CompressionType_val kBZip2Compression = 3"
| "CompressionType_val kLZ4Compression = 4" | "CompressionType_val kLZ4HCCompression = 5"
| "CompressionType_val kXpressCompression = 6" | "CompressionType_val kZSTD = 7"
| "CompressionType_val kZSTDNotFinalCompression = 0x40"
| "CompressionType_val kDisableCompressionOption = 0xff"

record CompressionOptions =
  window_bits :: int
  compression_level :: int
  strategy :: int
  max_dict_bytes :: uint32
  zstd_max_train_bytes :: uint32
  parallel_threads :: uint32
  compression_enabled :: bool
  max_dict_buffer_bytes :: uint64
  use_zstd_dict_trainer :: bool
  max_compressed_bytes_per_kb :: int
  compression_checksum :: bool

definition kDefaultCompressionLevel :: int where
  "kDefaultCompressionLevel = 32767"

definition CompressionOptions_default :: CompressionOptions where
  "CompressionOptions_default = \<lparr>window_bits = - 14, compression_level = kDefaultCompressionLevel, strategy = 0,
     max_dict_bytes = 0, zstd_max_train_bytes = 0, parallel_threads = 1, compression_enabled = False,
     max_dict_buffer_bytes = 0, use_zstd_dict_trainer = True,
     max_compressed_bytes_per_kb = 1024 * 7 div 8, compression_checksum = False\<rparr>"

text \<open>include/rocksdb/universal_compaction.h.\<close>

datatype CompactionStopStyle = kCompactionStopStyleSimilarSize | kCompactionStopStyleTotalSize

record CompactionOptionsUniversal =
  size_ratio :: uint32
  min_merge_width :: uint32
  max_merge_width :: uint32
  max_size_amplification_percent :: uint32
  compression_size_percent :: int
  max_read_amp :: int
  stop_style :: CompactionStopStyle
  allow_trivial_move :: bool
  incremental :: bool

definition CompactionOptionsUniversal_default :: CompactionOptionsUniversal where
  "CompactionOptionsUniversal_default = \<lparr>size_ratio = 1, min_merge_width = 2, max_merge_width = - 1,
     max_size_amplification_percent = 200, compression_size_percent = - 1, max_read_amp = - 1,
     stop_style = kCompactionStopStyleTotalSize, allow_trivial_move = False, incremental = False\<rparr>"

text \<open>advanced_options.h.\<close>

record FileTemperatureAge =
  fta_temperature :: Temperature
  fta_age :: uint64

definition FileTemperatureAge_default :: FileTemperatureAge where
  "FileTemperatureAge_default = \<lparr>fta_temperature = kUnknownTemperature, fta_age = 0\<rparr>"

record CompactionOptionsFIFO =
  max_table_files_size :: uint64
  allow_compaction :: bool
  age_for_warm :: uint64
  file_temperature_age_thresholds :: "FileTemperatureAge list"

definition CompactionOptionsFIFO_default :: CompactionOptionsFIFO where
  "CompactionOptionsFIFO_default = \<lparr>max_table_files_size = 1 * 1024 * 1024 * 1024, allow_compaction = False,
     age_for_warm = 0, file_temperature_age_thresholds = []\<rparr>"

definition CompactionOptionsFIFO_new :: "uint64 \<Rightarrow> bool \<Rightarrow> CompactionOptionsFIFO" where
  "CompactionOptionsFIFO_new max_size allow = \<lparr>max_table_files_size = max_size, allow_compaction = allow,
     age_for_warm = 0, file_temperature_age_thresholds = []\<rparr>"

record CompactionOptions =
  co_compression :: CompressionType
  co_output_file_size_limit :: uint64
  co_max_subcompactions :: uint32

definition CompactionOptions_default :: CompactionOptions where
  "CompactionOptions_default = \<lparr>co_compression = kDisableCompressionOption, co_output_file_size_limit = - 1,
     co_max_subcompactions = 0\<rparr>"

datatype BottommostLevelCompaction = kSkip | kIfHaveCompactionFilter | kForce | kForceOptimized

datatype BlobGarbageCollectionPolicy = kForceGC | kDisableGC | kUseDefault

record CompactRangeOptions =
  exclusive_manual_compaction :: bool
  change_level :: bool
  target_level :: int
  target_path_id :: uint32
  bottommost_level_compaction :: BottommostLevelCompaction
  cr_allow_write_stall :: bool
  cr_max_subcompactions :: uint32
  cr_full_history_ts_low :: "Slice option"
  cr_canceled :: pointer_handle
  blob_garbage_collection_policy :: BlobGarbageCollectionPolicy
  blob_garbage_collection_age_cutoff :: int

definition CompactRangeOptions_default :: CompactRangeOptions where
  "CompactRangeOptions_default = \<lparr>exclusive_manual_compaction = False, change_level = False,
     target_level = - 1, target_path_id = 0, bottommost_level_compaction = kIfHaveCompactionFilter,
     cr_allow_write_stall = False, cr_max_subcompactions = 0, cr_full_history_ts_low = None,
     cr_canceled = None, blob_garbage_collection_policy = kUseDefault,
     blob_garbage_collection_age_cutoff = - 1\<rparr>"

section \<open>Files, tracing, sizes\<close>

record IngestExternalFileOptions =
  move_files :: bool
  failed_move_fall_back_to_copy :: bool
  snapshot_consistency :: bool
  allow_global_seqno :: bool
  allow_blocking_flush :: bool
  ingest_behind :: bool
  write_global_seqno :: bool
  verify_checksums_before_ingest :: bool
  verify_checksums_readahead_size :: nat
  verify_file_checksum :: bool
  fail_if_not_bottommost_level :: bool

definition IngestExternalFileOptions_default :: IngestExternalFileOptions where
  "IngestExternalFileOptions_default = \<lparr>move_files = False, failed_move_fall_back_to_copy = True,
     snapshot_consistency = True, allow_global_seqno = True, allow_blocking_flush = True,
     ingest_behind = False, write_global_seqno = False, verify_checksums_before_ingest = False,
     verify_checksums_readahead_size = 0, verify_file_checksum = True,
     fail_if_not_bottommost_level = False\<rparr>"

definition kTraceFilterNone :: uint64 where "kTraceFilterNone = 0"
definition kTraceFilterGet :: uint64 where "kTraceFilterGet = 1"
definition kTraceFilterWrite :: uint64 where "kTraceFilterWrite = push_bit 1 1"
definition kTraceFilterIteratorSeek :: uint64 where "kTraceFilterIteratorSeek = push_bit 2 1"
definition kTraceFilterIteratorSeekForPrev :: uint64 where "kTraceFilterIteratorSeekForPrev = push_bit 3 1"
definition kTraceFilterMultiGet :: uint64 where "kTraceFilterMultiGet = push_bit 4 1"

record TraceOptions =
  max_trace_file_size :: uint64
  sampling_frequency :: uint64
  trace_filter :: uint64
  preserve_write_order :: bool

definition TraceOptions_default :: TraceOptions where
  "TraceOptions_default = \<lparr>max_trace_file_size = 64 * 1024 * 1024 * 1024, sampling_frequency = 1,
     trace_filter = kTraceFilterNone, preserve_write_order = False\<rparr>"

record ImportColumnFamilyOptions =
  import_move_files :: bool

definition ImportColumnFamilyOptions_default :: ImportColumnFamilyOptions where
  "ImportColumnFamilyOptions_default = \<lparr>import_move_files = False\<rparr>"

record SizeApproximationOptions =
  include_memtables :: bool
  include_files :: bool
  files_size_error_margin :: int

definition SizeApproximationOptions_default :: SizeApproximationOptions where
  "SizeApproximationOptions_default = \<lparr>include_memtables = False, include_files = True,
     files_size_error_margin = - 1\<rparr>"

record LiveFilesStorageInfoOptions =
  include_checksum_info :: bool
  wal_size_for_flush :: uint64

definition LiveFilesStorageInfoOptions_default :: LiveFilesStorageInfoOptions where
  "LiveFilesStorageInfoOptions_default = \<lparr>include_checksum_info = False, wal_size_for_flush = 0\<rparr>"

record WaitForCompactOptions =
  abort_on_pause :: bool
  wc_flush :: bool
  wait_for_purge :: bool
  close_db :: bool
  wc_timeout :: int

definition WaitForCompactOptions_default :: WaitForCompactOptions where
  "WaitForCompactOptions_default = \<lparr>abort_on_pause = False, wc_flush = False, wait_for_purge = False,
     close_db = False, wc_timeout = 0\<rparr>"

section \<open>Recovery, paths and remote compaction\<close>

datatype WALRecoveryMode =
  kTolerateCorruptedTailRecords | kAbsoluteConsistency | kPointInTimeRecovery | kSkipAnyCorruptedRecords

fun WALRecoveryMode_val :: "WALRecoveryMode \<Rightarrow> nat" where
  "WALRecoveryMode_val kTolerateCorruptedTailRecords = 0" | "WALRecoveryMode_val kAbsoluteConsistency = 1"
| "WALRecoveryMode_val kPointInTimeRecovery = 2" | "WALRecoveryMode_val kSkipAnyCorruptedRecords = 3"

record DbPath =
  db_path :: string
  target_size :: uint64

definition DbPath_default :: DbPath where
  "DbPath_default = \<lparr>db_path = '''', target_size = 0\<rparr>"

definition DbPath_new :: "string \<Rightarrow> uint64 \<Rightarrow> DbPath" where
  "DbPath_new p t = \<lparr>db_path = p, target_size = t\<rparr>"

datatype CompactionServiceJobStatus = kSuccess | kFailure | kUseLocal

text \<open>The one-argument constructor of a response leaves the job id empty.\<close>

record CompactionServiceScheduleResponse =
  scheduled_job_id :: string
  csr_status :: CompactionServiceJobStatus

definition CompactionServiceScheduleResponse_new ::
    "string \<Rightarrow> CompactionServiceJobStatus \<Rightarrow> CompactionServiceScheduleResponse" where
  "CompactionServiceScheduleResponse_new i st = \<lparr>scheduled_job_id = i, csr_status = st\<rparr>"

definition CompactionServiceScheduleResponse_status ::
    "CompactionServiceJobStatus \<Rightarrow> CompactionServiceScheduleResponse" where
  "CompactionServiceScheduleResponse_status st = \<lparr>scheduled_job_id = '''', csr_status = st\<rparr>"

text \<open>The defaults of the virtual functions of \<open>CompactionService\<close>: compact locally.\<close>

definition Schedule_default :: "'info \<Rightarrow> string \<Rightarrow> CompactionServiceScheduleResponse" where
  "Schedule_default info input = CompactionServiceScheduleResponse_status kUseLocal"

definition Wait_default :: "string \<Rightarrow> CompactionServiceJobStatus" where
  "Wait_default job_id = kUseLocal"

definition StartV2_default :: "'info \<Rightarrow> string \<Rightarrow> CompactionServiceJobStatus" where
  "StartV2_default info input = kUseLocal"

definition WaitForCompleteV2_default :: "'info \<Rightarrow> CompactionServiceJobStatus" where
  "WaitForCompleteV2_default info = kUseLocal"

end
