(* ===== verification/DatabaseModel.thy ===== *)
theory DatabaseModel
  imports AttributeGroups OptionRecords Forwarding
begin

text \<open>
  The interface of a database, include/rocksdb/db.h: its virtual functions as calls, in six groups,
  the defaults of the base class, and the functions that are final.

  An overload without a column family asks \<open>DefaultColumnFamily()\<close> and calls the overload with one
  (\<open>\<dots>_default\<close> is that call, None for a call of another kind); a few overloads call another one
  (\<open>\<dots>_redirect\<close>). Both go through virtual dispatch again, which is \<open>DB_object\<close>. The rest of the base
  class is \<open>\<dots>_base\<close>: functions that answer that they are not supported, functions that are defined in
  the library (\<open>elsewhere\<close>), and pure virtual ones. Output parameters are in the reply; where a null
  output pointer matters the call says whether it is given. Options whose struct the calls only pass
  on, iterators, snapshots and column families are handles.
\<close>

section \<open>Data\<close>

record Range =
  rg_start :: Slice
  rg_limit :: Slice

record IngestExternalFileArg =
  ia_column_family :: pointer_handle
  ia_external_files :: "string list"
  ia_options :: IngestExternalFileOptions
  ia_files_checksums :: "string list"
  ia_files_checksum_func_names :: "string list"
  ia_file_temperature :: Temperature

definition IngestExternalFileArg_default :: IngestExternalFileArg where
  "IngestExternalFileArg_default = \<lparr>ia_column_family = None, ia_external_files = [],
     ia_options = IngestExternalFileOptions_default, ia_files_checksums = [],
     ia_files_checksum_func_names = [], ia_file_temperature = kUnknownTemperature\<rparr>"

text \<open>The outputs \<open>'v\<close> are those the base class does not touch.\<close>

datatype 'v db_reply =
    D_void | D_status Status | D_out Status 'v | D_value 'v | D_bool bool | D_bool_out bool 'v
  | D_found bool "bool option" | D_int int | D_handle pointer_handle | D_statuses "Status list"
  | D_get Status "nat PinnableSlice" "string option"
  | D_multi "nat PinnableSlice list" "string list option" "Status list"
  | D_groups "nat PinnableAttributeGroup list list" | D_pure_virtual

section \<open>Writes\<close>

datatype (plugins only: code size) Write_call =
      WR_Put WriteOptions pointer_handle Slice Slice
  | WR_Put_ts WriteOptions pointer_handle Slice Slice Slice
  | WR_Put_default WriteOptions Slice Slice | WR_Put_ts_default WriteOptions Slice Slice Slice
  | WR_PutEntity WriteOptions pointer_handle Slice "WideColumn list"
  | WR_PutEntity_groups WriteOptions Slice "AttributeGroup list"
  | WR_Delete WriteOptions pointer_handle Slice
  | WR_Delete_ts WriteOptions pointer_handle Slice Slice | WR_Delete_default WriteOptions Slice
  | WR_Delete_ts_default WriteOptions Slice Slice
  | WR_SingleDelete WriteOptions pointer_handle Slice
  | WR_SingleDelete_ts WriteOptions pointer_handle Slice Slice
  | WR_SingleDelete_default WriteOptions Slice
  | WR_SingleDelete_ts_default WriteOptions Slice Slice
  | WR_DeleteRange WriteOptions pointer_handle Slice Slice
  | WR_DeleteRange_ts WriteOptions pointer_handle Slice Slice Slice
  | WR_DeleteRange_default WriteOptions Slice Slice
  | WR_DeleteRange_ts_default WriteOptions Slice Slice Slice
  | WR_Merge WriteOptions pointer_handle Slice Slice | WR_Merge_default WriteOptions Slice Slice
  | WR_Merge_ts WriteOptions pointer_handle Slice Slice Slice
  | WR_Write WriteOptions pointer_handle
  | WR_WriteWithCallback WriteOptions pointer_handle pointer_handle

definition write_default :: "Write_call \<Rightarrow> (pointer_handle \<Rightarrow> Write_call) option" where
  "write_default c =
     (case c of
        WR_Put_default opts k v \<Rightarrow> Some (\<lambda>cf. WR_Put opts cf k v)
      | WR_Put_ts_default opts k ts v \<Rightarrow> Some (\<lambda>cf. WR_Put_ts opts cf k ts v)
      | WR_Delete_default opts k \<Rightarrow> Some (\<lambda>cf. WR_Delete opts cf k)
      | WR_Delete_ts_default opts k ts \<Rightarrow> Some (\<lambda>cf. WR_Delete_ts opts cf k ts)
      | WR_SingleDelete_default opts k \<Rightarrow> Some (\<lambda>cf. WR_SingleDelete opts cf k)
      | WR_SingleDelete_ts_default opts k ts \<Rightarrow>
          Some (\<lambda>cf. WR_SingleDelete_ts opts cf k ts)
      | WR_DeleteRange_default opts b e \<Rightarrow>
          Some (\<lambda>cf. WR_DeleteRange opts cf b e)
      | WR_DeleteRange_ts_default opts b e ts \<Rightarrow>
          Some (\<lambda>cf. WR_DeleteRange_ts opts cf b e ts)
      | WR_Merge_default opts k v \<Rightarrow> Some (\<lambda>cf. WR_Merge opts cf k v)
      | _ \<Rightarrow> None)"

definition write_base ::
    "msg_ctor \<Rightarrow> (Write_call \<Rightarrow> 's \<Rightarrow> 'v db_reply \<times> 's) \<Rightarrow> Write_call \<Rightarrow> 's \<Rightarrow> 'v db_reply \<times> 's" where
  "write_base mk elsewhere c s =
     (case c of
        WR_PutEntity opts cf k cols \<Rightarrow> elsewhere c s
      | WR_PutEntity_groups opts k gs \<Rightarrow> elsewhere c s
      | WR_DeleteRange opts cf b e \<Rightarrow> elsewhere c s
      | WR_DeleteRange_ts opts cf b e ts \<Rightarrow> elsewhere c s
      | WR_Merge_ts opts cf k ts v \<Rightarrow> elsewhere c s
      | WR_WriteWithCallback opts updates cb \<Rightarrow>
          (D_status (not_supported mk ''WriteWithCallback not implemented for this interface.''), s)
      | _ \<Rightarrow> (D_pure_virtual, s))"

section \<open>Reads\<close>

datatype (plugins only: code size) Read_call =
      RD_Get ReadOptions pointer_handle Slice "nat PinnableSlice" bool
  | RD_GetEntity ReadOptions pointer_handle Slice
  | RD_GetEntity_groups ReadOptions Slice "nat PinnableAttributeGroup list list"
  | RD_GetMergeOperands ReadOptions pointer_handle Slice pointer_handle
  | RD_MultiGet ReadOptions nat "pointer_handle list" "Slice list" "nat PinnableSlice list" bool bool
  | RD_MultiGetEntity ReadOptions pointer_handle nat "Slice list" bool
  | RD_MultiGetEntity_cfs ReadOptions nat "pointer_handle list" "Slice list" bool
  | RD_MultiGetEntity_groups ReadOptions nat "Slice list" "nat PinnableAttributeGroup list list"
  | RD_KeyMayExist_ts ReadOptions pointer_handle Slice bool bool bool
  | RD_KeyMayExist ReadOptions pointer_handle Slice bool bool
  | RD_KeyMayExist_default ReadOptions Slice bool bool
  | RD_KeyMayExist_ts_default ReadOptions Slice bool bool bool
  | RD_NewIterator ReadOptions pointer_handle | RD_NewIterator_default ReadOptions
  | RD_NewIterators ReadOptions "pointer_handle list"
  | RD_NewCoalescingIterator ReadOptions "pointer_handle list"
  | RD_NewAttributeGroupIterator ReadOptions "pointer_handle list" | RD_GetSnapshot
  | RD_ReleaseSnapshot pointer_handle

definition read_default :: "Read_call \<Rightarrow> (pointer_handle \<Rightarrow> Read_call) option" where
  "read_default c =
     (case c of
        RD_KeyMayExist_default opts k val found \<Rightarrow>
          Some (\<lambda>cf. RD_KeyMayExist opts cf k val found)
      | RD_KeyMayExist_ts_default opts k val ts found \<Rightarrow>
          Some (\<lambda>cf. RD_KeyMayExist_ts opts cf k val ts found)
      | RD_NewIterator_default opts \<Rightarrow> Some (\<lambda>cf. RD_NewIterator opts cf)
      | _ \<Rightarrow> None)"

definition read_redirect :: "Read_call \<Rightarrow> Read_call option" where
  "read_redirect c =
     (case c of
        RD_KeyMayExist opts cf k val found \<Rightarrow>
          Some (RD_KeyMayExist_ts opts cf k val False found)
      | _ \<Rightarrow> None)"

definition read_base ::
    "msg_ctor \<Rightarrow> (Read_call \<Rightarrow> 's \<Rightarrow> 'v db_reply \<times> 's) \<Rightarrow> Read_call \<Rightarrow> 's \<Rightarrow> 'v db_reply \<times> 's" where
  "read_base mk elsewhere c s =
     (case c of
        RD_GetEntity opts cf k \<Rightarrow>
          (D_status (not_supported mk ''GetEntity not supported''), s)
      | RD_GetEntity_groups opts k gs \<Rightarrow>
          (D_status (not_supported mk ''GetEntity not supported''), s)
      | RD_MultiGetEntity opts cf n ks sorted_input \<Rightarrow>
          (D_statuses (replicate n (not_supported mk ''MultiGetEntity not supported'')), s)
      | RD_MultiGetEntity_cfs opts n cfs ks sorted_input \<Rightarrow>
          (D_statuses (replicate n (not_supported mk ''MultiGetEntity not supported'')), s)
      | RD_MultiGetEntity_groups opts n ks results \<Rightarrow>
          (D_groups (map (map (SetStatus (not_supported mk ''MultiGetEntity not supported''))) (take n results) @ drop n results), s)
      | RD_KeyMayExist_ts opts cf k val ts found \<Rightarrow>
          (D_found True (if found then Some False else None), s)
      | _ \<Rightarrow> (D_pure_virtual, s))"

section \<open>Properties and sizes\<close>

datatype (plugins only: code size) Property_call =
      PR_GetProperty pointer_handle Slice | PR_GetProperty_default Slice
  | PR_GetMapProperty pointer_handle Slice | PR_GetMapProperty_default Slice
  | PR_GetIntProperty pointer_handle Slice | PR_GetIntProperty_default Slice | PR_ResetStats
  | PR_GetAggregatedIntProperty Slice
  | PR_GetApproximateSizes SizeApproximationOptions pointer_handle "Range list" int
  | PR_GetApproximateSizes_flags pointer_handle "Range list" int "8 word"
  | PR_GetApproximateSizes_flags_default "Range list" int "8 word"
  | PR_GetApproximateMemTableStats pointer_handle Range
  | PR_GetApproximateMemTableStats_default Range

text \<open>\<open>SizeApproximationFlags\<close> and the options an overload with flags builds.\<close>

definition SAF_NONE :: "8 word" where "SAF_NONE = 0"
definition SAF_INCLUDE_MEMTABLES :: "8 word" where "SAF_INCLUDE_MEMTABLES = push_bit 0 1"
definition SAF_INCLUDE_FILES :: "8 word" where "SAF_INCLUDE_FILES = push_bit 1 1"

definition SAF_and :: "8 word \<Rightarrow> 8 word \<Rightarrow> 8 word" where
  "SAF_and lhs rhs = Bit_Operations.and lhs rhs"

definition SAF_or :: "8 word \<Rightarrow> 8 word \<Rightarrow> 8 word" where
  "SAF_or lhs rhs = Bit_Operations.or lhs rhs"

definition sizes_options :: "8 word \<Rightarrow> SizeApproximationOptions" where
  "sizes_options flags = SizeApproximationOptions_default
     \<lparr>include_memtables := SAF_and flags SAF_INCLUDE_MEMTABLES \<noteq> SAF_NONE,
      include_files := SAF_and flags SAF_INCLUDE_FILES \<noteq> SAF_NONE\<rparr>"

definition property_default :: "Property_call \<Rightarrow> (pointer_handle \<Rightarrow> Property_call) option" where
  "property_default c =
     (case c of
        PR_GetProperty_default property \<Rightarrow>
          Some (\<lambda>cf. PR_GetProperty cf property)
      | PR_GetMapProperty_default property \<Rightarrow>
          Some (\<lambda>cf. PR_GetMapProperty cf property)
      | PR_GetIntProperty_default property \<Rightarrow>
          Some (\<lambda>cf. PR_GetIntProperty cf property)
      | PR_GetApproximateSizes_flags_default ranges n flags \<Rightarrow>
          Some (\<lambda>cf. PR_GetApproximateSizes_flags cf ranges n flags)
      | PR_GetApproximateMemTableStats_default rng \<Rightarrow>
          Some (\<lambda>cf. PR_GetApproximateMemTableStats cf rng)
      | _ \<Rightarrow> None)"

definition property_redirect :: "Property_call \<Rightarrow> Property_call option" where
  "property_redirect c =
     (case c of
        PR_GetApproximateSizes_flags cf ranges n flags \<Rightarrow>
          Some (PR_GetApproximateSizes (sizes_options flags) cf ranges n)
      | _ \<Rightarrow> None)"

definition property_base ::
    "msg_ctor \<Rightarrow> (Property_call \<Rightarrow> 's \<Rightarrow> 'v db_reply \<times> 's) \<Rightarrow> Property_call \<Rightarrow> 's \<Rightarrow> 'v db_reply \<times> 's" where
  "property_base mk elsewhere c s =
     (case c of
        PR_ResetStats \<Rightarrow> (D_status (not_supported mk ''Not implemented''), s)
      | _ \<Rightarrow> (D_pure_virtual, s))"

section \<open>Compaction, options, flushes\<close>

datatype (plugins only: code size) Maintenance_call =
      MT_CompactRange CompactRangeOptions pointer_handle "Slice option" "Slice option"
  | MT_CompactRange_default CompactRangeOptions "Slice option" "Slice option"
  | MT_SetOptions pointer_handle "(string \<times> string) list"
  | MT_SetOptions_default "(string \<times> string) list"
  | MT_SetDBOptions "(string \<times> string) list"
  | MT_CompactFiles CompactionOptions pointer_handle "string list" int int bool bool
  | MT_CompactFiles_default CompactionOptions "string list" int int bool bool
  | MT_PauseBackgroundWork | MT_ContinueBackgroundWork
  | MT_EnableAutoCompaction "pointer_handle list" | MT_DisableManualCompaction
  | MT_EnableManualCompaction | MT_WaitForCompact WaitForCompactOptions
  | MT_NumberLevels pointer_handle | MT_NumberLevels_default
  | MT_MaxMemCompactionLevel pointer_handle | MT_MaxMemCompactionLevel_default
  | MT_Level0StopWriteTrigger pointer_handle | MT_Level0StopWriteTrigger_default | MT_GetName
  | MT_GetEnv | MT_GetFileSystem | MT_GetOptions pointer_handle | MT_GetOptions_default
  | MT_GetDBOptions | MT_Flush FlushOptions pointer_handle | MT_Flush_default FlushOptions
  | MT_Flush_cfs FlushOptions "pointer_handle list" | MT_FlushWAL bool | MT_SyncWAL | MT_LockWAL
  | MT_UnlockWAL

definition maintenance_default :: "Maintenance_call \<Rightarrow> (pointer_handle \<Rightarrow> Maintenance_call) option" where
  "maintenance_default c =
     (case c of
        MT_CompactRange_default opts b e \<Rightarrow>
          Some (\<lambda>cf. MT_CompactRange opts cf b e)
      | MT_SetOptions_default new_options \<Rightarrow>
          Some (\<lambda>cf. MT_SetOptions cf new_options)
      | MT_CompactFiles_default opts files output_level output_path_id names info \<Rightarrow>
          Some (\<lambda>cf. MT_CompactFiles opts cf files output_level output_path_id names info)
      | MT_NumberLevels_default \<Rightarrow> Some (\<lambda>cf. MT_NumberLevels cf)
      | MT_MaxMemCompactionLevel_default \<Rightarrow>
          Some (\<lambda>cf. MT_MaxMemCompactionLevel cf)
      | MT_Level0StopWriteTrigger_default \<Rightarrow>
          Some (\<lambda>cf. MT_Level0StopWriteTrigger cf)
      | MT_GetOptions_default \<Rightarrow> Some (\<lambda>cf. MT_GetOptions cf)
      | MT_Flush_default opts \<Rightarrow> Some (\<lambda>cf. MT_Flush opts cf)
      | _ \<Rightarrow> None)"

definition maintenance_base ::
    "msg_ctor \<Rightarrow> (Maintenance_call \<Rightarrow> 's \<Rightarrow> 'v db_reply \<times> 's) \<Rightarrow> Maintenance_call \<Rightarrow> 's \<Rightarrow> 'v db_reply \<times> 's" where
  "maintenance_base mk elsewhere c s =
     (case c of
        MT_SetOptions cf new_options \<Rightarrow>
          (D_status (not_supported mk ''Not implemented''), s)
      | MT_GetFileSystem \<Rightarrow> elsewhere c s
      | MT_FlushWAL sync \<Rightarrow>
          (D_status (not_supported mk ''FlushWAL not implemented''), s)
      | MT_LockWAL \<Rightarrow> (D_status (not_supported mk ''LockWAL not implemented''), s)
      | MT_UnlockWAL \<Rightarrow> (D_status (not_supported mk ''UnlockWAL not implemented''), s)
      | _ \<Rightarrow> (D_pure_virtual, s))"

section \<open>Files and sequence numbers\<close>

datatype (plugins only: code size) File_call =
      FI_GetLatestSequenceNumber | FI_IncreaseFullHistoryTsLow pointer_handle string
  | FI_GetFullHistoryTsLow pointer_handle | FI_DisableFileDeletions | FI_EnableFileDeletions
  | FI_GetCreationTimeOfOldestFile | FI_GetUpdatesSince uint64 bool | FI_DeleteFile string
  | FI_GetLiveFilesMetaData | FI_GetLiveFilesChecksumInfo
  | FI_GetLiveFilesStorageInfo LiveFilesStorageInfoOptions
  | FI_GetColumnFamilyMetaData pointer_handle | FI_GetColumnFamilyMetaData_default
  | FI_GetAllColumnFamilyMetaData | FI_GetLiveFiles bool | FI_GetSortedWalFiles
  | FI_GetCurrentWalFile
  | FI_IngestExternalFile pointer_handle "string list" IngestExternalFileOptions
  | FI_IngestExternalFile_default "string list" IngestExternalFileOptions
  | FI_IngestExternalFiles "IngestExternalFileArg list"
  | FI_CreateColumnFamilyWithImport pointer_handle string ImportColumnFamilyOptions ExportImportFilesMetaData
  | FI_CreateColumnFamilyWithImport_list pointer_handle string ImportColumnFamilyOptions "ExportImportFilesMetaData list"
  | FI_ClipColumnFamily pointer_handle Slice Slice

definition file_default :: "File_call \<Rightarrow> (pointer_handle \<Rightarrow> File_call) option" where
  "file_default c =
     (case c of
        FI_GetColumnFamilyMetaData_default \<Rightarrow>
          Some (\<lambda>cf. FI_GetColumnFamilyMetaData cf)
      | FI_IngestExternalFile_default files opts \<Rightarrow>
          Some (\<lambda>cf. FI_IngestExternalFile cf files opts)
      | _ \<Rightarrow> None)"

definition file_redirect :: "File_call \<Rightarrow> File_call option" where
  "file_redirect c =
     (case c of
        FI_CreateColumnFamilyWithImport opts name import metadata \<Rightarrow>
          Some (FI_CreateColumnFamilyWithImport_list opts name import [metadata])
      | _ \<Rightarrow> None)"

definition file_base ::
    "msg_ctor \<Rightarrow> (File_call \<Rightarrow> 's \<Rightarrow> 'v db_reply \<times> 's) \<Rightarrow> File_call \<Rightarrow> 's \<Rightarrow> 'v db_reply \<times> 's" where
  "file_base mk elsewhere c s =
     (case c of
        FI_GetLiveFilesMetaData \<Rightarrow> (D_void, s)
      | FI_GetColumnFamilyMetaData cf \<Rightarrow> (D_void, s)
      | FI_GetAllColumnFamilyMetaData \<Rightarrow> (D_void, s)
      | _ \<Rightarrow> (D_pure_virtual, s))"

section \<open>Column families, verification, traces\<close>

datatype (plugins only: code size) Admin_call =
      AD_Resume | AD_Close | AD_CreateColumnFamily pointer_handle string
  | AD_CreateColumnFamilies_names pointer_handle "string list"
  | AD_CreateColumnFamilies "string list" | AD_DropColumnFamily pointer_handle
  | AD_DropColumnFamilies "pointer_handle list" | AD_DestroyColumnFamilyHandle pointer_handle
  | AD_VerifyFileChecksums ReadOptions | AD_VerifyChecksum ReadOptions | AD_VerifyChecksum_all
  | AD_GetDbIdentity | AD_GetDbSessionId | AD_DefaultColumnFamily
  | AD_GetPropertiesOfAllTables pointer_handle | AD_GetPropertiesOfAllTables_default
  | AD_GetPropertiesOfTablesInRange pointer_handle "Range list" nat
  | AD_SuggestCompactRange pointer_handle "Slice option" "Slice option"
  | AD_PromoteL0 pointer_handle int | AD_StartTrace TraceOptions pointer_handle | AD_EndTrace
  | AD_StartIOTrace TraceOptions pointer_handle | AD_EndIOTrace
  | AD_StartBlockCacheTrace TraceOptions pointer_handle
  | AD_StartBlockCacheTrace_opts pointer_handle pointer_handle | AD_EndBlockCacheTrace
  | AD_NewDefaultReplayer "pointer_handle list" pointer_handle | AD_GetRootDB
  | AD_GetStatsHistory uint64 uint64 | AD_TryCatchUpWithPrimary

definition admin_default :: "Admin_call \<Rightarrow> (pointer_handle \<Rightarrow> Admin_call) option" where
  "admin_default c =
     (case c of
        AD_GetPropertiesOfAllTables_default \<Rightarrow>
          Some (\<lambda>cf. AD_GetPropertiesOfAllTables cf)
      | _ \<Rightarrow> None)"

definition admin_redirect :: "Admin_call \<Rightarrow> Admin_call option" where
  "admin_redirect c =
     (case c of
        AD_VerifyChecksum_all \<Rightarrow> Some (AD_VerifyChecksum ReadOptions_default)
      | _ \<Rightarrow> None)"

definition admin_base ::
    "msg_ctor \<Rightarrow> (Admin_call \<Rightarrow> 's \<Rightarrow> 'v db_reply \<times> 's) \<Rightarrow> pointer_handle \<Rightarrow> Admin_call \<Rightarrow> 's \<Rightarrow> 'v db_reply \<times> 's" where
  "admin_base mk elsewhere self c s =
     (case c of
        AD_Resume \<Rightarrow> (D_status (Status_code kNotSupported kNone), s)
      | AD_Close \<Rightarrow> (D_status (Status_code kNotSupported kNone), s)
      | AD_CreateColumnFamily opts name \<Rightarrow> elsewhere c s
      | AD_CreateColumnFamilies_names opts names \<Rightarrow> elsewhere c s
      | AD_CreateColumnFamilies families \<Rightarrow> elsewhere c s
      | AD_DropColumnFamily cf \<Rightarrow> elsewhere c s
      | AD_DropColumnFamilies cfs \<Rightarrow> elsewhere c s
      | AD_DestroyColumnFamilyHandle cf \<Rightarrow> elsewhere c s
      | AD_VerifyFileChecksums opts \<Rightarrow>
          (D_status (not_supported mk ''File verification not supported''), s)
      | AD_SuggestCompactRange cf b e \<Rightarrow>
          (D_status (not_supported mk ''SuggestCompactRange() is not implemented.''), s)
      | AD_PromoteL0 cf to_level \<Rightarrow>
          (D_status (not_supported mk ''PromoteL0() is not implemented.''), s)
      | AD_StartTrace opts writer \<Rightarrow>
          (D_status (not_supported mk ''StartTrace() is not implemented.''), s)
      | AD_EndTrace \<Rightarrow>
          (D_status (not_supported mk ''EndTrace() is not implemented.''), s)
      | AD_StartIOTrace opts writer \<Rightarrow>
          (D_status (not_supported mk ''StartIOTrace() is not implemented.''), s)
      | AD_EndIOTrace \<Rightarrow>
          (D_status (not_supported mk ''EndIOTrace() is not implemented.''), s)
      | AD_StartBlockCacheTrace opts writer \<Rightarrow>
          (D_status (not_supported mk ''StartBlockCacheTrace() is not implemented.''), s)
      | AD_StartBlockCacheTrace_opts opts writer \<Rightarrow>
          (D_status (not_supported mk ''StartBlockCacheTrace() is not implemented.''), s)
      | AD_EndBlockCacheTrace \<Rightarrow>
          (D_status (not_supported mk ''EndBlockCacheTrace() is not implemented.''), s)
      | AD_NewDefaultReplayer handles reader \<Rightarrow>
          (D_status (not_supported mk ''NewDefaultReplayer() is not implemented.''), s)
      | AD_GetRootDB \<Rightarrow> (D_handle self, s)
      | AD_GetStatsHistory start_time end_time \<Rightarrow>
          (D_status (not_supported mk ''GetStatsHistory() is not implemented.''), s)
      | AD_TryCatchUpWithPrimary \<Rightarrow>
          (D_status (not_supported mk ''Supported only by secondary instance''), s)
      | _ \<Rightarrow> (D_pure_virtual, s))"

section \<open>A database\<close>

datatype (plugins only: code size) DB_call =
    DB_Write Write_call | DB_Read Read_call | DB_Property Property_call
  | DB_Maintenance Maintenance_call | DB_File File_call | DB_Admin Admin_call

definition db_default :: "DB_call \<Rightarrow> (pointer_handle \<Rightarrow> DB_call) option" where
  "db_default call =
     (case call of
        DB_Write c \<Rightarrow> map_option (\<lambda>f cf. DB_Write (f cf)) (write_default c)
      | DB_Read c \<Rightarrow> map_option (\<lambda>f cf. DB_Read (f cf)) (read_default c)
      | DB_Property c \<Rightarrow> map_option (\<lambda>f cf. DB_Property (f cf)) (property_default c)
      | DB_Maintenance c \<Rightarrow> map_option (\<lambda>f cf. DB_Maintenance (f cf)) (maintenance_default c)
      | DB_File c \<Rightarrow> map_option (\<lambda>f cf. DB_File (f cf)) (file_default c)
      | DB_Admin c \<Rightarrow> map_option (\<lambda>f cf. DB_Admin (f cf)) (admin_default c))"

definition db_redirect :: "DB_call \<Rightarrow> DB_call option" where
  "db_redirect call =
     (case call of
        DB_Read c \<Rightarrow> map_option DB_Read (read_redirect c)
      | DB_Property c \<Rightarrow> map_option DB_Property (property_redirect c)
      | DB_File c \<Rightarrow> map_option DB_File (file_redirect c)
      | DB_Admin c \<Rightarrow> map_option DB_Admin (admin_redirect c)
      | _ \<Rightarrow> None)"

type_synonym ('s, 'v) database = "DB_call \<Rightarrow> 's \<Rightarrow> 'v db_reply \<times> 's"

definition db_base :: "msg_ctor \<Rightarrow> ('s, 'v) database \<Rightarrow> pointer_handle \<Rightarrow> ('s, 'v) database" where
  "db_base mk elsewhere self call s =
     (case call of
        DB_Write c \<Rightarrow> write_base mk (\<lambda>c. elsewhere (DB_Write c)) c s
      | DB_Read c \<Rightarrow> read_base mk (\<lambda>c. elsewhere (DB_Read c)) c s
      | DB_Property c \<Rightarrow> property_base mk (\<lambda>c. elsewhere (DB_Property c)) c s
      | DB_Maintenance c \<Rightarrow> maintenance_base mk (\<lambda>c. elsewhere (DB_Maintenance c)) c s
      | DB_File c \<Rightarrow> file_base mk (\<lambda>c. elsewhere (DB_File c)) c s
      | DB_Admin c \<Rightarrow> admin_base mk (\<lambda>c. elsewhere (DB_Admin c)) self c s)"

text \<open>
  Virtual dispatch over the overrides \<open>over\<close> of a class: a call that neither asks the default column
  family nor calls another overload, then one that may call another overload, then any call.
\<close>

type_synonym ('s, 'v) db_overrides = "DB_call \<Rightarrow> ('s \<Rightarrow> 'v db_reply \<times> 's) option"

definition db_plain :: "msg_ctor \<Rightarrow> ('s, 'v) database \<Rightarrow> pointer_handle \<Rightarrow> ('s, 'v) db_overrides \<Rightarrow> ('s, 'v) database" where
  "db_plain mk elsewhere self over c s =
     (case over c of Some f \<Rightarrow> f s | None \<Rightarrow> db_base mk elsewhere self c s)"

definition db_with_cf :: "msg_ctor \<Rightarrow> ('s, 'v) database \<Rightarrow> pointer_handle \<Rightarrow> ('s, 'v) db_overrides \<Rightarrow> ('s, 'v) database" where
  "db_with_cf mk elsewhere self over c s =
     (case over c of
        Some f \<Rightarrow> f s
      | None \<Rightarrow> (case db_redirect c of
                  Some c1 \<Rightarrow> db_plain mk elsewhere self over c1 s
                | None \<Rightarrow> db_base mk elsewhere self c s))"

definition handle_of :: "'v db_reply \<Rightarrow> pointer_handle" where
  "handle_of r = (case r of D_handle h \<Rightarrow> h | _ \<Rightarrow> None)"

definition DB_object :: "msg_ctor \<Rightarrow> ('s, 'v) database \<Rightarrow> pointer_handle \<Rightarrow> ('s, 'v) db_overrides \<Rightarrow> ('s, 'v) database" where
  "DB_object mk elsewhere self over c s =
     (case over c of
        Some f \<Rightarrow> f s
      | None \<Rightarrow> (case db_default c of
                  Some g \<Rightarrow>
                    (let (r, s1) = db_plain mk elsewhere self over (DB_Admin AD_DefaultColumnFamily) s in
                     db_with_cf mk elsewhere self over (g (handle_of r)) s1)
                | None \<Rightarrow> db_with_cf mk elsewhere self over c s))"

section \<open>Final functions\<close>

text \<open>\<open>Get\<close> into a string: \<open>c0\<close> is the empty list of cleanups of a new pinnable slice.\<close>

definition Get_string_ts ::
    "nat Cleanable \<Rightarrow> ('s, 'v) database \<Rightarrow> ReadOptions \<Rightarrow> pointer_handle \<Rightarrow> Slice \<Rightarrow> bytes \<Rightarrow> bool \<Rightarrow> 's \<Rightarrow>
     ((Status \<times> bytes \<times> string option) \<times> 's) option" where
  "Get_string_ts c0 db options cf key val timestamp s =
     (let pinnable_val = PinnableSlice_buf c0 val in
      do {
        asserting (\<not> IsPinned pinnable_val) ();
        (case db (DB_Read (RD_Get options cf key pinnable_val timestamp)) s of
           (D_get st p ts, s1) \<Rightarrow>
             Some ((st, if status_ok st \<and> IsPinned p then ps_bytes p else GetSelf p, ts), s1)
         | _ \<Rightarrow> None)
      })"

definition Get_pinnable ::
    "('s, 'v) database \<Rightarrow> ReadOptions \<Rightarrow> pointer_handle \<Rightarrow> Slice \<Rightarrow> nat PinnableSlice \<Rightarrow> 's \<Rightarrow> 'v db_reply \<times> 's" where
  "Get_pinnable db options cf key p s = db (DB_Read (RD_Get options cf key p False)) s"

definition Get_string ::
    "nat Cleanable \<Rightarrow> ('s, 'v) database \<Rightarrow> ReadOptions \<Rightarrow> pointer_handle \<Rightarrow> Slice \<Rightarrow> bytes \<Rightarrow> 's \<Rightarrow>
     ((Status \<times> bytes) \<times> 's) option" where
  "Get_string c0 db options cf key val s =
     (let pinnable_val = PinnableSlice_buf c0 val in
      do {
        asserting (\<not> IsPinned pinnable_val) ();
        (case Get_pinnable db options cf key pinnable_val s of
           (D_get st p ts, s1) \<Rightarrow>
             Some ((st, if status_ok st \<and> IsPinned p then ps_bytes p else GetSelf p), s1)
         | _ \<Rightarrow> None)
      })"

definition default_cf :: "('s, 'v) database \<Rightarrow> 's \<Rightarrow> pointer_handle \<times> 's" where
  "default_cf db s = (let (r, s1) = db (DB_Admin AD_DefaultColumnFamily) s in (handle_of r, s1))"

definition Get_string_default ::
    "nat Cleanable \<Rightarrow> ('s, 'v) database \<Rightarrow> ReadOptions \<Rightarrow> Slice \<Rightarrow> bytes \<Rightarrow> 's \<Rightarrow> ((Status \<times> bytes) \<times> 's) option" where
  "Get_string_default c0 db options key val s =
     (let (cf, s1) = default_cf db s in Get_string c0 db options cf key val s1)"

definition Get_string_ts_default ::
    "nat Cleanable \<Rightarrow> ('s, 'v) database \<Rightarrow> ReadOptions \<Rightarrow> Slice \<Rightarrow> bytes \<Rightarrow> bool \<Rightarrow> 's \<Rightarrow>
     ((Status \<times> bytes \<times> string option) \<times> 's) option" where
  "Get_string_ts_default c0 db options key val timestamp s =
     (let (cf, s1) = default_cf db s in Get_string_ts c0 db options cf key val timestamp s1)"

text \<open>
  \<open>MultiGet\<close> over vectors. The callee fills the arrays it is given, each of \<open>num_keys\<close> elements; a
  reply of another shape is None. \<open>timestamps\<close> is None for a null pointer.
\<close>

fun value_loop :: "nat \<Rightarrow> nat \<Rightarrow> Status list \<Rightarrow> nat PinnableSlice list \<Rightarrow> bytes list \<Rightarrow> bytes list" where
  "value_loop i 0 statuses pin_values values = values"
| "value_loop i (Suc m) statuses pin_values values =
     value_loop (Suc i) m statuses pin_values
       (if status_ok (statuses ! i) then values[i := ps_bytes (pin_values ! i)] else values)"

definition MultiGet_vectors_ts ::
    "nat Cleanable \<Rightarrow> ('s, 'v) database \<Rightarrow> ReadOptions \<Rightarrow> pointer_handle list \<Rightarrow> Slice list \<Rightarrow> bytes list \<Rightarrow>
     string list option \<Rightarrow> 's \<Rightarrow> ((Status list \<times> bytes list \<times> string list option) \<times> 's) option" where
  "MultiGet_vectors_ts c0 db options cfs keys values timestamps s =
     (let num_keys = length keys;
          pin_values = replicate num_keys (PinnableSlice_default c0);
          values = resize [] num_keys values;
          timestamps = map_option (resize [] num_keys) timestamps in
      (case db (DB_Read (RD_MultiGet options num_keys cfs keys pin_values (timestamps \<noteq> None) False)) s of
         (D_multi pins ts statuses, s1) \<Rightarrow>
           asserting (length pins = num_keys \<and> length statuses = num_keys)
             ((statuses, value_loop 0 num_keys statuses pins values, ts), s1)
       | _ \<Rightarrow> None))"

definition MultiGet_vectors ::
    "nat Cleanable \<Rightarrow> ('s, 'v) database \<Rightarrow> ReadOptions \<Rightarrow> pointer_handle list \<Rightarrow> Slice list \<Rightarrow> bytes list \<Rightarrow> 's \<Rightarrow>
     ((Status list \<times> bytes list \<times> string list option) \<times> 's) option" where
  "MultiGet_vectors c0 db options cfs keys values s =
     MultiGet_vectors_ts c0 db options cfs keys (resize [] (length keys) values) None s"

definition MultiGet_default ::
    "nat Cleanable \<Rightarrow> ('s, 'v) database \<Rightarrow> ReadOptions \<Rightarrow> Slice list \<Rightarrow> bytes list \<Rightarrow> 's \<Rightarrow>
     ((Status list \<times> bytes list \<times> string list option) \<times> 's) option" where
  "MultiGet_default c0 db options keys values s =
     (let values = resize [] (length keys) values; (cf, s1) = default_cf db s in
      MultiGet_vectors c0 db options (replicate (length keys) cf) keys values s1)"

definition MultiGet_default_ts ::
    "nat Cleanable \<Rightarrow> ('s, 'v) database \<Rightarrow> ReadOptions \<Rightarrow> Slice list \<Rightarrow> bytes list \<Rightarrow> string list option \<Rightarrow> 's \<Rightarrow>
     ((Status list \<times> bytes list \<times> string list option) \<times> 's) option" where
  "MultiGet_default_ts c0 db options keys values timestamps s =
     (let values = resize [] (length keys) values; (cf, s1) = default_cf db s in
      MultiGet_vectors_ts c0 db options (replicate (length keys) cf) keys values timestamps s1)"

text \<open>The array overloads without timestamps.\<close>

definition MultiGet_arrays ::
    "('s, 'v) database \<Rightarrow> ReadOptions \<Rightarrow> nat \<Rightarrow> pointer_handle list \<Rightarrow> Slice list \<Rightarrow> nat PinnableSlice list \<Rightarrow> bool \<Rightarrow>
     's \<Rightarrow> 'v db_reply \<times> 's" where
  "MultiGet_arrays db options num_keys cfs keys values sorted_input s =
     db (DB_Read (RD_MultiGet options num_keys cfs keys values False sorted_input)) s"

section \<open>Overloads\<close>

lemmas overload_defs = write_default_def read_default_def property_default_def maintenance_default_def
  file_default_def admin_default_def read_redirect_def property_redirect_def file_redirect_def
  admin_redirect_def

text \<open>An overload calls one with a column family, which calls at most one more.\<close>

lemma group_default_once:
  "write_default w = Some gw \<Longrightarrow> write_default (gw cf) = None"
  "read_default r = Some gr \<Longrightarrow> read_default (gr cf) = None"
  "property_default p = Some gp \<Longrightarrow> property_default (gp cf) = None"
  "maintenance_default t = Some gt \<Longrightarrow> maintenance_default (gt cf) = None"
  "file_default f = Some gf \<Longrightarrow> file_default (gf cf) = None"
  "admin_default a = Some ga \<Longrightarrow> admin_default (ga cf) = None"
proof -
  show "write_default w = Some gw \<Longrightarrow> write_default (gw cf) = None"
    by (cases w) (auto simp: write_default_def)
  show "read_default r = Some gr \<Longrightarrow> read_default (gr cf) = None"
    by (cases r) (auto simp: read_default_def)
  show "property_default p = Some gp \<Longrightarrow> property_default (gp cf) = None"
    by (cases p) (auto simp: property_default_def)
  show "maintenance_default t = Some gt \<Longrightarrow> maintenance_default (gt cf) = None"
    by (cases t) (auto simp: maintenance_default_def)
  show "file_default f = Some gf \<Longrightarrow> file_default (gf cf) = None"
    by (cases f) (auto simp: file_default_def)
  show "admin_default a = Some ga \<Longrightarrow> admin_default (ga cf) = None"
    by (cases a) (auto simp: admin_default_def)
qed

lemma group_redirect_once:
  "read_redirect r = Some r1 \<Longrightarrow> read_redirect r1 = None \<and> read_default r1 = None \<and> read_default r = None"
  "property_redirect p = Some p1 \<Longrightarrow>
     property_redirect p1 = None \<and> property_default p1 = None \<and> property_default p = None"
  "file_redirect f = Some f1 \<Longrightarrow> file_redirect f1 = None \<and> file_default f1 = None \<and> file_default f = None"
  "admin_redirect a = Some a1 \<Longrightarrow> admin_redirect a1 = None \<and> admin_default a1 = None \<and> admin_default a = None"
proof -
  show "read_redirect r = Some r1 \<Longrightarrow> read_redirect r1 = None \<and> read_default r1 = None \<and> read_default r = None"
    by (cases r) (auto simp: read_redirect_def read_default_def)
  show "property_redirect p = Some p1 \<Longrightarrow>
      property_redirect p1 = None \<and> property_default p1 = None \<and> property_default p = None"
    by (cases p) (auto simp: property_redirect_def property_default_def)
  show "file_redirect f = Some f1 \<Longrightarrow> file_redirect f1 = None \<and> file_default f1 = None \<and> file_default f = None"
    by (cases f) (auto simp: file_redirect_def file_default_def)
  show "admin_redirect a = Some a1 \<Longrightarrow> admin_redirect a1 = None \<and> admin_default a1 = None \<and> admin_default a = None"
    by (cases a) (auto simp: admin_redirect_def admin_default_def)
qed

lemma db_default_once: "db_default c = Some g \<Longrightarrow> db_default (g cf) = None"
  by (cases c) (auto simp: db_default_def group_default_once)

lemma db_redirect_once:
  "db_redirect c = Some c1 \<Longrightarrow> db_redirect c1 = None \<and> db_default c1 = None \<and> db_default c = None"
  by (cases c) (auto simp: db_default_def db_redirect_def dest: group_redirect_once)

lemma default_cf_call [simp]:
  "db_default (DB_Admin AD_DefaultColumnFamily) = None"
  "db_redirect (DB_Admin AD_DefaultColumnFamily) = None"
  by (simp_all add: db_default_def db_redirect_def overload_defs)

lemma DB_object_over: "over c = Some f \<Longrightarrow> DB_object mk elsewhere self over c = f"
  by (simp add: DB_object_def fun_eq_iff)

lemma DB_object_cf:
  "db_default c = None \<Longrightarrow> DB_object mk elsewhere self over c = db_with_cf mk elsewhere self over c"
  by (simp add: DB_object_def db_with_cf_def fun_eq_iff split: option.split)

lemma DB_object_plain:
  "db_default c = None \<Longrightarrow> db_redirect c = None \<Longrightarrow>
     DB_object mk elsewhere self over c = db_plain mk elsewhere self over c"
  by (simp add: DB_object_def db_with_cf_def db_plain_def fun_eq_iff split: option.split)

text \<open>What an overload of a class that does not override it does, in terms of the object itself.\<close>

lemma DB_object_default:
  assumes "db_default c = Some g" "over c = None"
  shows "DB_object mk elsewhere self over c s =
    (let (cf, s1) = default_cf (DB_object mk elsewhere self over) s in
     DB_object mk elsewhere self over (g cf) s1)"
proof -
  have "db_default (g cf) = None" for cf by (rule db_default_once [OF assms(1)])
  then show ?thesis
    using assms by (simp add: DB_object_def [of mk elsewhere self over c] default_cf_def DB_object_plain DB_object_cf
        split: prod.split)
qed

lemma DB_object_redirect:
  assumes "db_redirect c = Some c1" "over c = None"
  shows "DB_object mk elsewhere self over c s = DB_object mk elsewhere self over c1 s"
  using db_redirect_once [OF assms(1)] assms
  by (simp add: DB_object_plain [of c1] DB_object_cf [of c] db_with_cf_def [of mk elsewhere self over c])

text \<open>The flags of \<open>GetApproximateSizes\<close>, bit by bit.\<close>

lemma SAF_and_bit0: "SAF_and f SAF_INCLUDE_MEMTABLES \<noteq> SAF_NONE \<longleftrightarrow> bit f 0"
  by (simp add: SAF_and_def SAF_INCLUDE_MEMTABLES_def SAF_NONE_def and_exp_eq_0_iff_not_bit [of f 0, simplified])

lemma SAF_and_bit1: "SAF_and f SAF_INCLUDE_FILES \<noteq> SAF_NONE \<longleftrightarrow> bit f 1"
  using and_exp_eq_0_iff_not_bit [of f 1]
  by (simp add: SAF_and_def SAF_INCLUDE_FILES_def SAF_NONE_def push_bit_of_1)

section \<open>Filling the values\<close>

lemma length_value_loop [simp]: "length (value_loop i m sts pins vals) = length vals"
  by (induction i m sts pins vals rule: value_loop.induct) simp_all

lemma value_loop_nth:
  assumes "k < length vals"
  shows "value_loop i m sts pins vals ! k =
    (if i \<le> k \<and> k < i + m \<and> status_ok (sts ! k) then ps_bytes (pins ! k) else vals ! k)"
  using assms
proof (induction i m sts pins vals rule: value_loop.induct)
  case (2 i m sts pins vals)
  then show ?case by (cases "k = i") (auto simp: nth_list_update)
qed auto

lemma resize_nth: "k < n \<Longrightarrow> resize d n xs ! k = (if k < length xs then xs ! k else d)"
  by (simp add: resize_def nth_append)

section \<open>Properties\<close>


definition put_only :: "(nat, unit) db_overrides" where
  "put_only c = (case c of
     DB_Write (WR_Put opts cf k v) \<Rightarrow> Some (\<lambda>n. (D_handle cf, n + 1))
   | DB_Admin AD_DefaultColumnFamily \<Rightarrow> Some (\<lambda>n. (D_handle (Some 7), n + 10)) | _ \<Rightarrow> None)"


text \<open>
  \<open>Get\<close> into a string: whatever the implementation does with the pinnable slice it is given, on
  success the string holds the bytes the slice shows, pinned or not; otherwise it holds what the
  implementation left in the buffer.
\<close>

theorem Get_string_result:
  assumes "db (DB_Read (RD_Get options cf key (PinnableSlice_buf c0 val) timestamp)) s = (D_get st p ts, s1)"
    "ps_ok p"
  shows "Get_string_ts c0 db options cf key val timestamp s =
      Some ((st, if status_ok st then ps_bytes p else ps_buf p, ts), s1) \<and>
    (\<not> timestamp \<longrightarrow> Get_string c0 db options cf key val s =
      Some ((st, if status_ok st then ps_bytes p else ps_buf p), s1))"
  using assms ps_bytes_unpinned [OF assms(2)]
  by (auto simp: Get_string_ts_def Get_string_def Get_pinnable_def IsPinned_def GetSelf_def PinnableSlice_buf_def)

theorem Get_string_result_witness:
  "Get_string no_cleanups (\<lambda>c s. (D_get Status_default (PinnableSlice_default no_cleanups
       \<lparr>ps_pinned := True, ps_data := External ''abc'', ps_size := 2\<rparr>) None, s))
     ReadOptions_default None Slice_empty ''old'' () = Some ((Status_default, ''ab''), ())"
  using Get_string_result [of "\<lambda>c s. (D_get Status_default (PinnableSlice_default no_cleanups
       \<lparr>ps_pinned := True, ps_data := External ''abc'', ps_size := 2\<rparr>) None, s)"
      ReadOptions_default None Slice_empty no_cleanups "''old''" False "()" Status_default
      "PinnableSlice_default no_cleanups \<lparr>ps_pinned := True, ps_data := External ''abc'', ps_size := 2\<rparr>" None "()"]
  by (auto simp: ps_ok_def ps_bytes_def ps_memory_def status_ok_def Status_default_def numeral_2_eq_2)

text \<open>
  C24. \<open>MultiGet\<close> over vectors answers key by key: as many statuses and values as keys; the value of a
  key that was found is the bytes of its slice, and the value of any other key is what the caller had
  there, or empty where the caller's vector was shorter.
\<close>

theorem MultiGet_vectors_result:
  assumes "MultiGet_vectors_ts c0 db options cfs keys values timestamps s = Some ((sts, vals, ts), s1)"
  shows "length sts = length keys \<and> length vals = length keys \<and>
    (\<exists>pins. fst (db (DB_Read (RD_MultiGet options (length keys) cfs keys
        (replicate (length keys) (PinnableSlice_default c0)) (timestamps \<noteq> None) False)) s) = D_multi pins ts sts \<and>
      (\<forall>i < length keys. vals ! i =
        (if status_ok (sts ! i) then ps_bytes (pins ! i) else if i < length values then values ! i else [])))"
  using assms
  by (auto simp: MultiGet_vectors_ts_def Let_def value_loop_nth resize_nth split: prod.splits db_reply.splits)

theorem MultiGet_vectors_result_witness:
  "\<exists>r. MultiGet_vectors_ts no_cleanups (\<lambda>c s. (D_multi [PinnableSlice_default no_cleanups
       \<lparr>ps_pinned := True, ps_data := External ''v'', ps_size := 1\<rparr>, PinnableSlice_default no_cleanups] None
       [Status_default, Status_code kNotFound kNone] :: unit db_reply, s)) ReadOptions_default [None, None]
       [Slice_empty, Slice_empty] [''x'', ''y'', ''z''] None () = Some r \<and> fst (snd (fst r)) ! 1 = ''y''"
proof -
  let ?db = "\<lambda>c s. (D_multi [PinnableSlice_default no_cleanups
       \<lparr>ps_pinned := True, ps_data := External ''v'', ps_size := 1\<rparr>, PinnableSlice_default no_cleanups] None
       [Status_default, Status_code kNotFound kNone] :: unit db_reply, s)"
  obtain sts vals ts s1 where r: "MultiGet_vectors_ts no_cleanups ?db ReadOptions_default [None, None]
       [Slice_empty, Slice_empty] [''x'', ''y'', ''z''] None () = Some ((sts, vals, ts), s1)"
    by (simp add: MultiGet_vectors_ts_def)
  from MultiGet_vectors_result [OF r] have "vals ! 1 = ''y''"
    by (auto simp: status_ok_def Status_code_def dest: spec [of _ 1])
  with r show ?thesis by (intro exI [of _ "((sts, vals, ts), s1)"]) simp
qed

end
