(* ===== verification/StackableModel.thy ===== *)
theory StackableModel
  imports DatabaseModel
begin

text \<open>
  include/rocksdb/utilities/stackable_db.h: a database that wraps another one. \<open>stack_\<dots>\<close> are the functions of
  each group it overrides, each a call of the wrapped database; the rest is inherited from \<open>DB\<close>.
  \<open>stacked\<close> is a stack of such wrappers.
\<close>

section \<open>Ownership\<close>

record StackableDB_state =
  sd_db :: pointer_handle
  sd_shared_db_ptr :: pointer_handle

definition StackableDB_raw :: "pointer_handle \<Rightarrow> StackableDB_state" where
  "StackableDB_raw db = \<lparr>sd_db = db, sd_shared_db_ptr = None\<rparr>"

definition StackableDB_shared :: "pointer_handle \<Rightarrow> StackableDB_state" where
  "StackableDB_shared db = \<lparr>sd_db = db, sd_shared_db_ptr = db\<rparr>"

definition GetBaseDB :: "StackableDB_state \<Rightarrow> pointer_handle" where
  "GetBaseDB d = sd_db d"

text \<open>The destructor: the databases it deletes itself, None when its assertion fails.\<close>

definition StackableDB_destroy :: "StackableDB_state \<Rightarrow> (pointer_handle list \<times> StackableDB_state) option" where
  "StackableDB_destroy d =
     (if sd_shared_db_ptr d = None then Some ([sd_db d], d\<lparr>sd_db := None\<rparr>)
      else asserting (sd_shared_db_ptr d = sd_db d) ([], d\<lparr>sd_db := None\<rparr>))"

section \<open>Forwarded calls\<close>

primrec stack_write ::
    "(Write_call \<Rightarrow> 's \<Rightarrow> 'v db_reply \<times> 's) \<Rightarrow> Write_call \<Rightarrow> ('s \<Rightarrow> 'v db_reply \<times> 's) option" where
  "stack_write target (WR_Put opts cf k v) = Some (target (WR_Put opts cf k v))"
| "stack_write target (WR_Put_ts opts cf k ts v) = Some (target (WR_Put_ts opts cf k ts v))"
| "stack_write target (WR_Put_default opts k v) = None"
| "stack_write target (WR_Put_ts_default opts k ts v) = None"
| "stack_write target (WR_PutEntity opts cf k cols) = Some (target (WR_PutEntity opts cf k cols))"
| "stack_write target (WR_PutEntity_groups opts k gs) = Some (target (WR_PutEntity_groups opts k gs))"
| "stack_write target (WR_Delete opts cf k) = Some (target (WR_Delete opts cf k))"
| "stack_write target (WR_Delete_ts opts cf k ts) = Some (target (WR_Delete_ts opts cf k ts))"
| "stack_write target (WR_Delete_default opts k) = None"
| "stack_write target (WR_Delete_ts_default opts k ts) = None"
| "stack_write target (WR_SingleDelete opts cf k) = Some (target (WR_SingleDelete opts cf k))"
| "stack_write target (WR_SingleDelete_ts opts cf k ts) = Some (target (WR_SingleDelete_ts opts cf k ts))"
| "stack_write target (WR_SingleDelete_default opts k) = None"
| "stack_write target (WR_SingleDelete_ts_default opts k ts) = None"
| "stack_write target (WR_DeleteRange opts cf b e) = Some (target (WR_DeleteRange opts cf b e))"
| "stack_write target (WR_DeleteRange_ts opts cf b e ts) = None"
| "stack_write target (WR_DeleteRange_default opts b e) = None"
| "stack_write target (WR_DeleteRange_ts_default opts b e ts) = None"
| "stack_write target (WR_Merge opts cf k v) = Some (target (WR_Merge opts cf k v))"
| "stack_write target (WR_Merge_default opts k v) = None"
| "stack_write target (WR_Merge_ts opts cf k ts v) = Some (target (WR_Merge_ts opts cf k ts v))"
| "stack_write target (WR_Write opts updates) = Some (target (WR_Write opts updates))"
| "stack_write target (WR_WriteWithCallback opts updates cb) = None"

primrec stack_read ::
    "(Read_call \<Rightarrow> 's \<Rightarrow> 'v db_reply \<times> 's) \<Rightarrow> Read_call \<Rightarrow> ('s \<Rightarrow> 'v db_reply \<times> 's) option" where
  "stack_read target (RD_Get opts cf k val ts) = Some (target (RD_Get opts cf k val ts))"
| "stack_read target (RD_GetEntity opts cf k) = Some (target (RD_GetEntity opts cf k))"
| "stack_read target (RD_GetEntity_groups opts k gs) = Some (target (RD_GetEntity_groups opts k gs))"
| "stack_read target (RD_GetMergeOperands opts cf k merge_opts) = Some (target (RD_GetMergeOperands opts cf k merge_opts))"
| "stack_read target (RD_MultiGet opts n cfs ks vals ts sorted_input) = Some (target (RD_MultiGet opts n cfs ks vals ts sorted_input))"
| "stack_read target (RD_MultiGetEntity opts cf n ks sorted_input) = Some (target (RD_MultiGetEntity opts cf n ks sorted_input))"
| "stack_read target (RD_MultiGetEntity_cfs opts n cfs ks sorted_input) = Some (target (RD_MultiGetEntity_cfs opts n cfs ks sorted_input))"
| "stack_read target (RD_MultiGetEntity_groups opts n ks results) = Some (target (RD_MultiGetEntity_groups opts n ks results))"
| "stack_read target (RD_KeyMayExist_ts opts cf k val ts found) = None"
| "stack_read target (RD_KeyMayExist opts cf k val found) = Some (target (RD_KeyMayExist opts cf k val found))"
| "stack_read target (RD_KeyMayExist_default opts k val found) = None"
| "stack_read target (RD_KeyMayExist_ts_default opts k val ts found) = None"
| "stack_read target (RD_NewIterator opts cf) = Some (target (RD_NewIterator opts cf))"
| "stack_read target (RD_NewIterator_default opts) = None"
| "stack_read target (RD_NewIterators opts cfs) = Some (target (RD_NewIterators opts cfs))"
| "stack_read target (RD_NewCoalescingIterator opts cfs) = Some (target (RD_NewCoalescingIterator opts cfs))"
| "stack_read target (RD_NewAttributeGroupIterator opts cfs) = Some (target (RD_NewAttributeGroupIterator opts cfs))"
| "stack_read target RD_GetSnapshot = Some (target RD_GetSnapshot)"
| "stack_read target (RD_ReleaseSnapshot snap) = Some (target (RD_ReleaseSnapshot snap))"

primrec stack_property ::
    "(Property_call \<Rightarrow> 's \<Rightarrow> 'v db_reply \<times> 's) \<Rightarrow> Property_call \<Rightarrow> ('s \<Rightarrow> 'v db_reply \<times> 's) option" where
  "stack_property target (PR_GetProperty cf property) = Some (target (PR_GetProperty cf property))"
| "stack_property target (PR_GetProperty_default property) = None"
| "stack_property target (PR_GetMapProperty cf property) = Some (target (PR_GetMapProperty cf property))"
| "stack_property target (PR_GetMapProperty_default property) = None"
| "stack_property target (PR_GetIntProperty cf property) = Some (target (PR_GetIntProperty cf property))"
| "stack_property target (PR_GetIntProperty_default property) = None"
| "stack_property target PR_ResetStats = Some (target PR_ResetStats)"
| "stack_property target (PR_GetAggregatedIntProperty property) = Some (target (PR_GetAggregatedIntProperty property))"
| "stack_property target (PR_GetApproximateSizes opts cf ranges n) = Some (target (PR_GetApproximateSizes opts cf ranges n))"
| "stack_property target (PR_GetApproximateSizes_flags cf ranges n flags) = None"
| "stack_property target (PR_GetApproximateSizes_flags_default ranges n flags) = None"
| "stack_property target (PR_GetApproximateMemTableStats cf rng) = Some (target (PR_GetApproximateMemTableStats cf rng))"
| "stack_property target (PR_GetApproximateMemTableStats_default rng) = None"

primrec stack_maintenance ::
    "(Maintenance_call \<Rightarrow> 's \<Rightarrow> 'v db_reply \<times> 's) \<Rightarrow> Maintenance_call \<Rightarrow> ('s \<Rightarrow> 'v db_reply \<times> 's) option" where
  "stack_maintenance target (MT_CompactRange opts cf b e) = Some (target (MT_CompactRange opts cf b e))"
| "stack_maintenance target (MT_CompactRange_default opts b e) = None"
| "stack_maintenance target (MT_SetOptions cf new_options) = Some (target (MT_SetOptions cf new_options))"
| "stack_maintenance target (MT_SetOptions_default new_options) = None"
| "stack_maintenance target (MT_SetDBOptions new_options) = Some (target (MT_SetDBOptions new_options))"
| "stack_maintenance target (MT_CompactFiles opts cf files output_level output_path_id names info) = Some (target (MT_CompactFiles opts cf files output_level output_path_id names info))"
| "stack_maintenance target (MT_CompactFiles_default opts files output_level output_path_id names info) = None"
| "stack_maintenance target MT_PauseBackgroundWork = Some (target MT_PauseBackgroundWork)"
| "stack_maintenance target MT_ContinueBackgroundWork = Some (target MT_ContinueBackgroundWork)"
| "stack_maintenance target (MT_EnableAutoCompaction cfs) = Some (target (MT_EnableAutoCompaction cfs))"
| "stack_maintenance target MT_DisableManualCompaction = Some (target MT_DisableManualCompaction)"
| "stack_maintenance target MT_EnableManualCompaction = Some (target MT_EnableManualCompaction)"
| "stack_maintenance target (MT_WaitForCompact opts) = Some (target (MT_WaitForCompact opts))"
| "stack_maintenance target (MT_NumberLevels cf) = Some (target (MT_NumberLevels cf))"
| "stack_maintenance target MT_NumberLevels_default = None"
| "stack_maintenance target (MT_MaxMemCompactionLevel cf) = Some (target (MT_MaxMemCompactionLevel cf))"
| "stack_maintenance target MT_MaxMemCompactionLevel_default = None"
| "stack_maintenance target (MT_Level0StopWriteTrigger cf) = Some (target (MT_Level0StopWriteTrigger cf))"
| "stack_maintenance target MT_Level0StopWriteTrigger_default = None"
| "stack_maintenance target MT_GetName = Some (target MT_GetName)"
| "stack_maintenance target MT_GetEnv = Some (target MT_GetEnv)"
| "stack_maintenance target MT_GetFileSystem = Some (target MT_GetFileSystem)"
| "stack_maintenance target (MT_GetOptions cf) = Some (target (MT_GetOptions cf))"
| "stack_maintenance target MT_GetOptions_default = None"
| "stack_maintenance target MT_GetDBOptions = Some (target MT_GetDBOptions)"
| "stack_maintenance target (MT_Flush opts cf) = Some (target (MT_Flush opts cf))"
| "stack_maintenance target (MT_Flush_default opts) = None"
| "stack_maintenance target (MT_Flush_cfs opts cfs) = Some (target (MT_Flush_cfs opts cfs))"
| "stack_maintenance target (MT_FlushWAL sync) = Some (target (MT_FlushWAL sync))"
| "stack_maintenance target MT_SyncWAL = Some (target MT_SyncWAL)"
| "stack_maintenance target MT_LockWAL = Some (target MT_LockWAL)"
| "stack_maintenance target MT_UnlockWAL = Some (target MT_UnlockWAL)"

primrec stack_file ::
    "(File_call \<Rightarrow> 's \<Rightarrow> 'v db_reply \<times> 's) \<Rightarrow> File_call \<Rightarrow> ('s \<Rightarrow> 'v db_reply \<times> 's) option" where
  "stack_file target FI_GetLatestSequenceNumber = Some (target FI_GetLatestSequenceNumber)"
| "stack_file target (FI_IncreaseFullHistoryTsLow cf ts_low) = Some (target (FI_IncreaseFullHistoryTsLow cf ts_low))"
| "stack_file target (FI_GetFullHistoryTsLow cf) = Some (target (FI_GetFullHistoryTsLow cf))"
| "stack_file target FI_DisableFileDeletions = Some (target FI_DisableFileDeletions)"
| "stack_file target FI_EnableFileDeletions = Some (target FI_EnableFileDeletions)"
| "stack_file target FI_GetCreationTimeOfOldestFile = Some (target FI_GetCreationTimeOfOldestFile)"
| "stack_file target (FI_GetUpdatesSince seq_number opts) = Some (target (FI_GetUpdatesSince seq_number opts))"
| "stack_file target (FI_DeleteFile name) = Some (target (FI_DeleteFile name))"
| "stack_file target FI_GetLiveFilesMetaData = Some (target FI_GetLiveFilesMetaData)"
| "stack_file target FI_GetLiveFilesChecksumInfo = Some (target FI_GetLiveFilesChecksumInfo)"
| "stack_file target (FI_GetLiveFilesStorageInfo opts) = Some (target (FI_GetLiveFilesStorageInfo opts))"
| "stack_file target (FI_GetColumnFamilyMetaData cf) = Some (target (FI_GetColumnFamilyMetaData cf))"
| "stack_file target FI_GetColumnFamilyMetaData_default = None"
| "stack_file target FI_GetAllColumnFamilyMetaData = None"
| "stack_file target (FI_GetLiveFiles flush_memtable) = Some (target (FI_GetLiveFiles flush_memtable))"
| "stack_file target FI_GetSortedWalFiles = Some (target FI_GetSortedWalFiles)"
| "stack_file target FI_GetCurrentWalFile = Some (target FI_GetCurrentWalFile)"
| "stack_file target (FI_IngestExternalFile cf files opts) = Some (target (FI_IngestExternalFile cf files opts))"
| "stack_file target (FI_IngestExternalFile_default files opts) = None"
| "stack_file target (FI_IngestExternalFiles args) = Some (target (FI_IngestExternalFiles args))"
| "stack_file target (FI_CreateColumnFamilyWithImport opts name import metadata) = Some (target (FI_CreateColumnFamilyWithImport opts name import metadata))"
| "stack_file target (FI_CreateColumnFamilyWithImport_list opts name import metadatas) = Some (target (FI_CreateColumnFamilyWithImport_list opts name import metadatas))"
| "stack_file target (FI_ClipColumnFamily cf b e) = Some (target (FI_ClipColumnFamily cf b e))"

primrec stack_admin ::
    "(Admin_call \<Rightarrow> 's \<Rightarrow> 'v db_reply \<times> 's) \<Rightarrow> Admin_call \<Rightarrow> ('s \<Rightarrow> 'v db_reply \<times> 's) option" where
  "stack_admin target AD_Resume = Some (target AD_Resume)"
| "stack_admin target AD_Close = Some (target AD_Close)"
| "stack_admin target (AD_CreateColumnFamily opts name) = Some (target (AD_CreateColumnFamily opts name))"
| "stack_admin target (AD_CreateColumnFamilies_names opts names) = Some (target (AD_CreateColumnFamilies_names opts names))"
| "stack_admin target (AD_CreateColumnFamilies families) = Some (target (AD_CreateColumnFamilies families))"
| "stack_admin target (AD_DropColumnFamily cf) = Some (target (AD_DropColumnFamily cf))"
| "stack_admin target (AD_DropColumnFamilies cfs) = Some (target (AD_DropColumnFamilies cfs))"
| "stack_admin target (AD_DestroyColumnFamilyHandle cf) = Some (target (AD_DestroyColumnFamilyHandle cf))"
| "stack_admin target (AD_VerifyFileChecksums opts) = Some (target (AD_VerifyFileChecksums opts))"
| "stack_admin target (AD_VerifyChecksum opts) = Some (target (AD_VerifyChecksum opts))"
| "stack_admin target AD_VerifyChecksum_all = Some (target AD_VerifyChecksum_all)"
| "stack_admin target AD_GetDbIdentity = Some (target AD_GetDbIdentity)"
| "stack_admin target AD_GetDbSessionId = Some (target AD_GetDbSessionId)"
| "stack_admin target AD_DefaultColumnFamily = Some (target AD_DefaultColumnFamily)"
| "stack_admin target (AD_GetPropertiesOfAllTables cf) = Some (target (AD_GetPropertiesOfAllTables cf))"
| "stack_admin target AD_GetPropertiesOfAllTables_default = None"
| "stack_admin target (AD_GetPropertiesOfTablesInRange cf ranges n) = Some (target (AD_GetPropertiesOfTablesInRange cf ranges n))"
| "stack_admin target (AD_SuggestCompactRange cf b e) = Some (target (AD_SuggestCompactRange cf b e))"
| "stack_admin target (AD_PromoteL0 cf to_level) = Some (target (AD_PromoteL0 cf to_level))"
| "stack_admin target (AD_StartTrace opts writer) = Some (target (AD_StartTrace opts writer))"
| "stack_admin target AD_EndTrace = Some (target AD_EndTrace)"
| "stack_admin target (AD_StartIOTrace opts writer) = Some (target (AD_StartIOTrace opts writer))"
| "stack_admin target AD_EndIOTrace = Some (target AD_EndIOTrace)"
| "stack_admin target (AD_StartBlockCacheTrace opts writer) = Some (target (AD_StartBlockCacheTrace opts writer))"
| "stack_admin target (AD_StartBlockCacheTrace_opts opts writer) = Some (target (AD_StartBlockCacheTrace_opts opts writer))"
| "stack_admin target AD_EndBlockCacheTrace = Some (target AD_EndBlockCacheTrace)"
| "stack_admin target (AD_NewDefaultReplayer handles reader) = Some (target (AD_NewDefaultReplayer handles reader))"
| "stack_admin target AD_GetRootDB = Some (target AD_GetRootDB)"
| "stack_admin target (AD_GetStatsHistory start_time end_time) = None"
| "stack_admin target AD_TryCatchUpWithPrimary = Some (target AD_TryCatchUpWithPrimary)"

definition StackableDB :: "('s, 'v) database \<Rightarrow> ('s, 'v) db_overrides" where
  "StackableDB target call =
     (case call of
        DB_Write c \<Rightarrow> stack_write (\<lambda>c. target (DB_Write c)) c
      | DB_Read c \<Rightarrow> stack_read (\<lambda>c. target (DB_Read c)) c
      | DB_Property c \<Rightarrow> stack_property (\<lambda>c. target (DB_Property c)) c
      | DB_Maintenance c \<Rightarrow> stack_maintenance (\<lambda>c. target (DB_Maintenance c)) c
      | DB_File c \<Rightarrow> stack_file (\<lambda>c. target (DB_File c)) c
      | DB_Admin c \<Rightarrow> stack_admin (\<lambda>c. target (DB_Admin c)) c)"

text \<open>\<open>n\<close> wrappers on top of a database; \<open>mk\<close>, \<open>elsewhere\<close> and the objects' addresses are parameters.\<close>

primrec stacked ::
    "msg_ctor \<Rightarrow> ('s, 'v) database \<Rightarrow> (nat \<Rightarrow> pointer_handle) \<Rightarrow> nat \<Rightarrow> ('s, 'v) database \<Rightarrow> ('s, 'v) database" where
  "stacked mk elsewhere addr 0 target = target"
| "stacked mk elsewhere addr (Suc n) target =
     DB_object mk elsewhere (addr n) (StackableDB (stacked mk elsewhere addr n target))"

section \<open>Transparency\<close>

text \<open>The virtual functions the wrapper does not override and does not inherit in terms of overridden ones.\<close>

definition not_stacked :: "DB_call \<Rightarrow> bool" where
  "not_stacked c \<longleftrightarrow>
     (case c of
        DB_Write w \<Rightarrow> (case w of
            WR_WriteWithCallback opts updates cb \<Rightarrow> True | WR_DeleteRange_ts opts cf b e ts \<Rightarrow> True
          | WR_DeleteRange_ts_default opts b e ts \<Rightarrow> True | _ \<Rightarrow> False)
      | DB_Read r \<Rightarrow> (case r of
            RD_KeyMayExist_ts opts cf k val ts found \<Rightarrow> True
          | RD_KeyMayExist_ts_default opts k val ts found \<Rightarrow> True | _ \<Rightarrow> False)
      | DB_File f \<Rightarrow> (case f of FI_GetAllColumnFamilyMetaData \<Rightarrow> True | _ \<Rightarrow> False)
      | DB_Admin a \<Rightarrow> (case a of AD_GetStatsHistory start_time end_time \<Rightarrow> True | _ \<Rightarrow> False)
      | _ \<Rightarrow> False)"

definition is_flags_call :: "DB_call \<Rightarrow> bool" where
  "is_flags_call c \<longleftrightarrow>
     (case c of
        DB_Property p \<Rightarrow> (case p of PR_GetApproximateSizes_flags cf ranges n flags \<Rightarrow> True | _ \<Rightarrow> False)
      | _ \<Rightarrow> False)"

lemma stack_overrides:
  "stack_write t w = (if not_stacked (DB_Write w) \<or> write_default w \<noteq> None then None else Some (t w))"
  "stack_read u r = (if not_stacked (DB_Read r) \<or> read_default r \<noteq> None then None else Some (u r))"
  "stack_property v p =
     (if is_flags_call (DB_Property p) \<or> property_default p \<noteq> None then None else Some (v p))"
  "stack_maintenance x m = (if maintenance_default m \<noteq> None then None else Some (x m))"
  "stack_file y f = (if not_stacked (DB_File f) \<or> file_default f \<noteq> None then None else Some (y f))"
  "stack_admin z a = (if not_stacked (DB_Admin a) \<or> admin_default a \<noteq> None then None else Some (z a))"
proof -
  show "stack_write t w = (if not_stacked (DB_Write w) \<or> write_default w \<noteq> None then None else Some (t w))"
    by (cases w) (simp_all add: not_stacked_def write_default_def)
  show "stack_read u r = (if not_stacked (DB_Read r) \<or> read_default r \<noteq> None then None else Some (u r))"
    by (cases r) (simp_all add: not_stacked_def read_default_def)
  show "stack_property v p =
      (if is_flags_call (DB_Property p) \<or> property_default p \<noteq> None then None else Some (v p))"
    by (cases p) (simp_all add: is_flags_call_def property_default_def)
  show "stack_maintenance x m = (if maintenance_default m \<noteq> None then None else Some (x m))"
    by (cases m) (simp_all add: maintenance_default_def)
  show "stack_file y f = (if not_stacked (DB_File f) \<or> file_default f \<noteq> None then None else Some (y f))"
    by (cases f) (simp_all add: not_stacked_def file_default_def)
  show "stack_admin z a = (if not_stacked (DB_Admin a) \<or> admin_default a \<noteq> None then None else Some (z a))"
    by (cases a) (simp_all add: not_stacked_def admin_default_def)
qed

lemma StackableDB_overrides:
  "StackableDB t c =
     (if not_stacked c \<or> is_flags_call c \<or> db_default c \<noteq> None then None else Some (t c))"
  by (cases c) (simp_all add: StackableDB_def stack_overrides db_default_def not_stacked_def is_flags_call_def)

text \<open>A database whose overloads are those of the base class.\<close>

definition inherits_overloads :: "('s, 'v) database \<Rightarrow> bool" where
  "inherits_overloads db \<longleftrightarrow>
     (\<forall>c g s. db_default c = Some g \<longrightarrow> db c s = (let (cf, s1) = default_cf db s in db (g cf) s1)) \<and>
     (\<forall>cf ranges n flags. db (DB_Property (PR_GetApproximateSizes_flags cf ranges n flags)) =
        db (DB_Property (PR_GetApproximateSizes (sizes_options flags) cf ranges n)))"

lemma flags_call_redirect:
  "is_flags_call c \<Longrightarrow> \<exists>cf ranges n flags. c = DB_Property (PR_GetApproximateSizes_flags cf ranges n flags)"
  by (auto simp: is_flags_call_def split: DB_call.splits Property_call.splits)

lemma flags_redirect [simp]:
  "db_redirect (DB_Property (PR_GetApproximateSizes_flags cf ranges n flags)) =
     Some (DB_Property (PR_GetApproximateSizes (sizes_options flags) cf ranges n))"
  by (simp add: db_redirect_def property_redirect_def)

lemma DB_object_inherits:
  assumes "\<And>c. db_default c \<noteq> None \<or> is_flags_call c \<Longrightarrow> over c = None"
  shows "inherits_overloads (DB_object mk elsewhere self over)"
  unfolding inherits_overloads_def
proof (intro conjI allI impI)
  fix c g s
  assume "db_default c = Some g"
  then show "DB_object mk elsewhere self over c s =
      (let (cf, s1) = default_cf (DB_object mk elsewhere self over) s in DB_object mk elsewhere self over (g cf) s1)"
    using assms [of c] by (intro DB_object_default) auto
next
  fix cf ranges n flags
  have "over (DB_Property (PR_GetApproximateSizes_flags cf ranges n flags)) = None"
    by (rule assms) (simp add: is_flags_call_def)
  then show "DB_object mk elsewhere self over (DB_Property (PR_GetApproximateSizes_flags cf ranges n flags)) =
      DB_object mk elsewhere self over (DB_Property (PR_GetApproximateSizes (sizes_options flags) cf ranges n))"
    by (intro ext DB_object_redirect) simp_all
qed

lemma wrapper_inherits: "inherits_overloads (DB_object mk elsewhere self (StackableDB target))"
  by (rule DB_object_inherits) (auto simp: StackableDB_overrides)

lemma wrapper_default_cf:
  "default_cf (DB_object mk elsewhere self (StackableDB target)) s = default_cf target s"
  by (simp add: default_cf_def DB_object_over StackableDB_overrides not_stacked_def is_flags_call_def)

lemma default_not_stacked:
  "db_default c = Some g \<Longrightarrow> not_stacked (g cf) \<longleftrightarrow> not_stacked c"
proof (cases c)
  case (DB_Write w)
  then show "db_default c = Some g \<Longrightarrow> ?thesis"
    by (cases w) (auto simp: db_default_def write_default_def not_stacked_def)
next
  case (DB_Read r)
  then show "db_default c = Some g \<Longrightarrow> ?thesis"
    by (cases r) (auto simp: db_default_def read_default_def not_stacked_def)
next
  case (DB_File f)
  then show "db_default c = Some g \<Longrightarrow> ?thesis"
    by (cases f) (auto simp: db_default_def file_default_def not_stacked_def)
next
  case (DB_Admin a)
  then show "db_default c = Some g \<Longrightarrow> ?thesis"
    by (cases a) (auto simp: db_default_def admin_default_def not_stacked_def)
qed (auto simp: db_default_def not_stacked_def)

text \<open>One wrapper over a database with inherited overloads.\<close>

lemma wrapper_with_cf:
  assumes "inherits_overloads target" "\<not> not_stacked c" "db_default c = None"
  shows "DB_object mk elsewhere self (StackableDB target) c = target c"
proof (cases "is_flags_call c")
  case True
  then obtain cf ranges n flags where c: "c = DB_Property (PR_GetApproximateSizes_flags cf ranges n flags)"
    using flags_call_redirect by blast
  let ?d = "DB_Property (PR_GetApproximateSizes (sizes_options flags) cf ranges n)"
  have "DB_object mk elsewhere self (StackableDB target) c = DB_object mk elsewhere self (StackableDB target) ?d"
    using wrapper_inherits [of mk elsewhere self target] by (simp add: inherits_overloads_def c)
  also have "\<dots> = target ?d"
    by (rule DB_object_over)
      (simp add: StackableDB_overrides not_stacked_def is_flags_call_def db_default_def property_default_def)
  also have "\<dots> = target c" using assms(1) by (simp add: inherits_overloads_def c)
  finally show ?thesis .
next
  case False
  then show ?thesis using assms by (intro DB_object_over) (simp add: StackableDB_overrides)
qed

lemma wrapper_transparent:
  assumes "inherits_overloads target" "\<not> not_stacked c"
  shows "DB_object mk elsewhere self (StackableDB target) c s = target c s"
proof (cases "db_default c")
  case None
  then show ?thesis using wrapper_with_cf [OF assms None] by simp
next
  case (Some g)
  let ?w = "DB_object mk elsewhere self (StackableDB target)"
  have "?w c s = (let (cf, s1) = default_cf ?w s in ?w (g cf) s1)"
    using wrapper_inherits [of mk elsewhere self target] Some unfolding inherits_overloads_def by blast
  moreover have "?w (g cf) = target (g cf)" for cf
    using default_not_stacked [OF Some] assms(2) by (intro wrapper_with_cf [OF assms(1)] db_default_once [OF Some]) simp
  moreover have "target c s = (let (cf, s1) = default_cf target s in target (g cf) s1)"
    using assms(1) Some unfolding inherits_overloads_def by blast
  ultimately show ?thesis by (simp add: wrapper_default_cf)
qed

interpretation stackable: forwarding "DB_object mk elsewhere self (StackableDB target)" target id
    "\<lambda>c. inherits_overloads target \<and> \<not> not_stacked c" for mk elsewhere self target
  by unfold_locales (simp add: wrapper_transparent)

lemma stacked_inherits:
  "inherits_overloads target \<Longrightarrow> inherits_overloads (stacked mk elsewhere addr n target)"
  by (cases n) (simp_all add: wrapper_inherits)

section \<open>Properties\<close>

text \<open>
  C14. A stack of wrappers of any height over a database with inherited overloads is that database, on
  every sequence of calls without those the wrapper does not override.
\<close>

theorem stack_transparent:
  assumes "inherits_overloads target" "\<forall>c \<in> set cs. \<not> not_stacked c"
  shows "run_calls (stacked mk elsewhere addr n target) cs s = run_calls target cs s"
proof (induction n)
  case (Suc n)
  have "run_calls (stacked mk elsewhere addr (Suc n) target) cs s =
      run_calls (stacked mk elsewhere addr n target) cs s"
    unfolding stacked.simps
    by (rule id_forwarding_run_on [OF stackable.forwarding_axioms])
      (use assms stacked_inherits [OF assms(1), of mk elsewhere addr n] in simp)
  with Suc show ?case by simp
qed simp

text \<open>The sample database inherits its overloads.\<close>

lemma put_only_inherits: "inherits_overloads (DB_object mk elsewhere self put_only)"
proof (rule DB_object_inherits)
  show "put_only c = None" if "db_default c \<noteq> None \<or> is_flags_call c" for c
    using that by (auto simp: put_only_def db_default_def write_default_def admin_default_def is_flags_call_def
        split: DB_call.split Write_call.split Admin_call.split)
qed

theorem stack_transparent_witness:
  "run_calls (stacked plain_ctor (\<lambda>c s. (D_void, s)) (\<lambda>n. Some n) 3
       (DB_object plain_ctor (\<lambda>c s. (D_void, s)) None put_only))
     [DB_Write (WR_Put_default WriteOptions_default Slice_empty Slice_empty)] 0 = ([D_handle (Some 7)], 11)"
proof -
  let ?t = "DB_object plain_ctor (\<lambda>c s. (D_void, s)) None put_only"
  from stack_transparent [OF put_only_inherits [of plain_ctor "\<lambda>c s. (D_void, s)" None], of "[DB_Write (WR_Put_default WriteOptions_default Slice_empty Slice_empty)]"
      plain_ctor "\<lambda>c s. (D_void, s)" "\<lambda>n. Some n" 3 0]
  show ?thesis
    by (simp add: not_stacked_def DB_object_def db_default_def write_default_def db_plain_def put_only_def
        handle_of_def db_with_cf_def)
qed


text \<open>
  Ownership: a wrapper made from a raw pointer deletes the database when it is destroyed, one made
  from a shared pointer leaves it to the pointer, and neither destructor fails its assertion.
\<close>

theorem stack_ownership:
  "StackableDB_destroy (StackableDB_raw db) = Some ([db], (StackableDB_raw db)\<lparr>sd_db := None\<rparr>) \<and>
   StackableDB_destroy (StackableDB_shared (Some a)) = Some ([], (StackableDB_shared (Some a))\<lparr>sd_db := None\<rparr>) \<and>
   GetBaseDB (StackableDB_raw db) = db \<and> GetBaseDB (StackableDB_shared db) = db"
  by (simp add: StackableDB_destroy_def StackableDB_raw_def StackableDB_shared_def GetBaseDB_def)

end
