(* ===== verification/TransactionModel.thy ===== *)
theory TransactionModel
  imports AttributeGroups OptionRecords Forwarding
begin

text \<open>
  include/rocksdb/utilities/transaction.h: the interface of a transaction, its data members, and the
  defaults of its virtual functions. The overloads that read into a \<open>PinnableSlice\<close> read into its
  buffer through the overload for strings and pin the buffer afterwards; \<open>MultiGet\<close> reads key by key
  with \<open>GetImpl\<close>. A failed assertion is None.
\<close>

section \<open>Data\<close>

type_synonym TxnTimestamp = uint64
type_synonym TransactionID = uint64

definition kMaxTxnTimestamp :: TxnTimestamp where
  "kMaxTxnTimestamp = - 1"

record Endpoint =
  ep_slice :: Slice
  ep_inf_suffix :: bool

definition Endpoint_slice :: "Slice \<Rightarrow> bool \<Rightarrow> Endpoint" where
  "Endpoint_slice s infinity = \<lparr>ep_slice = s, ep_inf_suffix = infinity\<rparr>"

definition Endpoint_cstr :: "bytes option \<Rightarrow> bool \<Rightarrow> Endpoint option" where
  "Endpoint_cstr s infinity = map_option (\<lambda>sl. \<lparr>ep_slice = sl, ep_inf_suffix = infinity\<rparr>) (Slice_cstr s)"

definition Endpoint_ptr :: "bytes option \<Rightarrow> nat \<Rightarrow> bool \<Rightarrow> Endpoint" where
  "Endpoint_ptr s n infinity = \<lparr>ep_slice = Slice_ptr s n, ep_inf_suffix = infinity\<rparr>"

definition Endpoint_default :: Endpoint where
  "Endpoint_default = \<lparr>ep_slice = Slice_empty, ep_inf_suffix = False\<rparr>"

datatype TransactionState =
    STARTED | AWAITING_PREPARE | PREPARED | AWAITING_COMMIT | COMMITTED | AWAITING_ROLLBACK
  | ROLLEDBACK | LOCKS_STOLEN

definition TransactionState_val :: "TransactionState \<Rightarrow> nat" where
  "TransactionState_val st =
     (case st of STARTED \<Rightarrow> 0 | AWAITING_PREPARE \<Rightarrow> 1 | PREPARED \<Rightarrow> 2 | AWAITING_COMMIT \<Rightarrow> 3
      | COMMITTED \<Rightarrow> 4 | AWAITING_ROLLBACK \<Rightarrow> 5 | ROLLEDBACK \<Rightarrow> 6 | LOCKS_STOLEN \<Rightarrow> 7)"

record Transaction =
  tx_log_number :: uint64
  tx_name :: string
  tx_state :: TransactionState
  tx_id :: uint64

definition Transaction_default :: Transaction where
  "Transaction_default = \<lparr>tx_log_number = 0, tx_name = [], tx_state = STARTED, tx_id = 0\<rparr>"

text \<open>The constructor from a database leaves the log number and the state uninitialised (\<open>indet\<close>).\<close>

definition Transaction_db :: "uint64 \<Rightarrow> TransactionState \<Rightarrow> Transaction" where
  "Transaction_db indet indet_state =
     \<lparr>tx_log_number = indet, tx_name = [], tx_state = indet_state, tx_id = 0\<rparr>"

definition GetState :: "Transaction \<Rightarrow> TransactionState" where
  "GetState t = tx_state t"

definition SetState :: "TransactionState \<Rightarrow> Transaction \<Rightarrow> Transaction" where
  "SetState st t = t\<lparr>tx_state := st\<rparr>"

definition tx_GetId :: "Transaction \<Rightarrow> uint64" where
  "tx_GetId t = tx_id t"

definition tx_SetId :: "uint64 \<Rightarrow> Transaction \<Rightarrow> Transaction option" where
  "tx_SetId id' t = asserting (tx_id t = 0) (t\<lparr>tx_id := id'\<rparr>)"

section \<open>Calls\<close>

datatype (plugins only: code size) Txn_read_call =
    TR_Get ReadOptions pointer_handle Slice bytes
  | TR_Get_pin ReadOptions pointer_handle Slice "nat PinnableSlice option"
  | TR_Get_default ReadOptions Slice bytes
  | TR_Get_default_pin ReadOptions Slice "nat PinnableSlice option"
  | TR_GetEntity ReadOptions pointer_handle Slice
  | TR_MultiGet_vectors ReadOptions "pointer_handle list" "Slice list" "bytes list"
  | TR_MultiGet_vectors_default ReadOptions "Slice list" "bytes list"
  | TR_MultiGet ReadOptions pointer_handle nat "Slice list" "nat PinnableSlice list" "Status list" bool
  | TR_MultiGetEntity ReadOptions pointer_handle nat "Slice list" "Status list" bool
  | TR_GetForUpdate ReadOptions pointer_handle Slice "bytes option" bool bool
  | TR_GetForUpdate_pin ReadOptions pointer_handle Slice "nat PinnableSlice option" bool bool
  | TR_GetForUpdate_default ReadOptions Slice "bytes option" bool bool
  | TR_GetForUpdate_default_pin ReadOptions Slice "nat PinnableSlice option" bool bool
  | TR_GetEntityForUpdate ReadOptions pointer_handle Slice bool bool
  | TR_MultiGetForUpdate ReadOptions "pointer_handle list" "Slice list" "bytes list"
  | TR_MultiGetForUpdate_default ReadOptions "Slice list" "bytes list"
  | TR_GetIterator_default ReadOptions | TR_GetIterator ReadOptions pointer_handle
  | TR_GetImpl ReadOptions pointer_handle Slice bytes
  | TR_GetImpl_pin ReadOptions pointer_handle Slice "nat PinnableSlice option"

datatype (plugins only: code size) Txn_write_call =
    TW_Put pointer_handle Slice Slice bool | TW_Put_default Slice Slice
  | TW_Put_parts pointer_handle SliceParts SliceParts bool | TW_Put_parts_default SliceParts SliceParts
  | TW_PutEntity pointer_handle Slice "WideColumn list" bool
  | TW_Merge pointer_handle Slice Slice bool | TW_Merge_default Slice Slice
  | TW_Delete pointer_handle Slice bool | TW_Delete_default Slice
  | TW_Delete_parts pointer_handle SliceParts bool | TW_Delete_parts_default SliceParts
  | TW_SingleDelete pointer_handle Slice bool | TW_SingleDelete_default Slice
  | TW_SingleDelete_parts pointer_handle SliceParts bool | TW_SingleDelete_parts_default SliceParts
  | TW_PutUntracked pointer_handle Slice Slice | TW_PutUntracked_default Slice Slice
  | TW_PutUntracked_parts pointer_handle SliceParts SliceParts
  | TW_PutUntracked_parts_default SliceParts SliceParts
  | TW_PutEntityUntracked pointer_handle Slice "WideColumn list"
  | TW_MergeUntracked pointer_handle Slice Slice | TW_MergeUntracked_default Slice Slice
  | TW_DeleteUntracked pointer_handle Slice | TW_DeleteUntracked_default Slice
  | TW_DeleteUntracked_parts pointer_handle SliceParts | TW_DeleteUntracked_parts_default SliceParts
  | TW_SingleDeleteUntracked pointer_handle Slice | TW_SingleDeleteUntracked_default Slice
  | TW_CollapseKey ReadOptions Slice pointer_handle | TW_PutLogData Slice
  | TW_DisableIndexing | TW_EnableIndexing

datatype (plugins only: code size) Txn_control_call =
    TC_SetSnapshot | TC_SetSnapshotOnNextOperation pointer_handle | TC_GetSnapshot
  | TC_GetTimestampedSnapshot | TC_ClearSnapshot | TC_Prepare | TC_Commit | TC_Rollback
  | TC_SetSavePoint | TC_RollbackToSavePoint | TC_PopSavePoint
  | TC_GetRangeLock pointer_handle Endpoint Endpoint
  | TC_GetNumKeys | TC_GetNumPuts | TC_GetNumPutEntities | TC_GetNumDeletes | TC_GetNumMerges
  | TC_GetElapsedTime | TC_GetWriteBatch | TC_SetLockTimeout int | TC_GetWriteOptions
  | TC_SetWriteOptions WriteOptions | TC_UndoGetForUpdate pointer_handle Slice
  | TC_UndoGetForUpdate_default Slice | TC_RebuildFromWriteBatch pointer_handle
  | TC_GetCommitTimeWriteBatch | TC_SetLogNumber uint64 | TC_GetLogNumber | TC_SetName string
  | TC_GetName | TC_GetID | TC_IsDeadlockDetect | TC_GetWaitingTxns
  | TC_SetReadTimestampForValidation TxnTimestamp | TC_SetCommitTimestamp TxnTimestamp
  | TC_GetCommitTimestamp | TC_SetId uint64 | TC_GetLastLogNumber

datatype (plugins only: code size) Txn_call =
    TX_Read Txn_read_call | TX_Write Txn_write_call | TX_Control Txn_control_call

text \<open>\<open>T_get\<close> carries the string read into (None for a null pointer), \<open>T_pin\<close> the slice read into.\<close>

datatype 'v txn_reply =
    T_void | T_status Status | T_get Status "bytes option" | T_pin Status "nat PinnableSlice option"
  | T_multi "nat PinnableSlice list" "Status list" | T_number uint64 | T_name string | T_bool bool
  | T_value 'v | T_pure_virtual

section \<open>Defaults that call no other function\<close>

definition txn_read_own :: "msg_ctor \<Rightarrow> Txn_read_call \<Rightarrow> 'v txn_reply" where
  "txn_read_own mk c =
     (case c of
        TR_GetImpl opts cf k val \<Rightarrow> T_get (not_supported mk ''Not implemented'') (Some val)
      | _ \<Rightarrow> T_pure_virtual)"

definition txn_write_own :: "msg_ctor \<Rightarrow> Txn_write_call \<Rightarrow> 'v txn_reply" where
  "txn_write_own mk c =
     (case c of
        TW_CollapseKey opts k cf \<Rightarrow> T_status (not_supported mk ''collpase not supported'')
      | _ \<Rightarrow> T_pure_virtual)"

definition txn_control_own ::
    "msg_ctor \<Rightarrow> Txn_control_call \<Rightarrow> Transaction \<Rightarrow> ('v txn_reply \<times> Transaction) option" where
  "txn_control_own mk c t =
     (case c of
        TC_GetRangeLock cf e1 e2 \<Rightarrow> Some (T_status (NotSupported kNone), t)
      | TC_SetLogNumber log \<Rightarrow> Some (T_void, t\<lparr>tx_log_number := log\<rparr>)
      | TC_GetLogNumber \<Rightarrow> Some (T_number (tx_log_number t), t)
      | TC_GetName \<Rightarrow> Some (T_name (tx_name t), t)
      | TC_GetID \<Rightarrow> Some (T_number 0, t)
      | TC_IsDeadlockDetect \<Rightarrow> Some (T_bool False, t)
      | TC_GetWaitingTxns \<Rightarrow> None
      | TC_SetReadTimestampForValidation ts \<Rightarrow>
          Some (T_status (not_supported mk ''timestamp not supported''), t)
      | TC_SetCommitTimestamp ts \<Rightarrow> Some (T_status (not_supported mk ''timestamp not supported''), t)
      | TC_GetCommitTimestamp \<Rightarrow> Some (T_number kMaxTxnTimestamp, t)
      | TC_SetId id' \<Rightarrow> map_option (Pair T_void) (tx_SetId id' t)
      | TC_GetLastLogNumber \<Rightarrow> Some (T_number (tx_log_number t), t)
      | _ \<Rightarrow> Some (T_pure_virtual, t))"

text \<open>The state of a transaction: its members and those of its derived class.\<close>

type_synonym ('s, 'v) txn_step = "Transaction \<times> 's \<Rightarrow> ('v txn_reply \<times> Transaction \<times> 's) option"
type_synonym ('s, 'v) txn_overrides = "Txn_call \<Rightarrow> ('s, 'v) txn_step option"

definition txn_plain :: "msg_ctor \<Rightarrow> ('s, 'v) txn_overrides \<Rightarrow> Txn_call \<Rightarrow> ('s, 'v) txn_step" where
  "txn_plain mk over c s =
     (case over c of
        Some f \<Rightarrow> f s
      | None \<Rightarrow> (case c of
                  TX_Read r \<Rightarrow> Some (txn_read_own mk r, s)
                | TX_Write w \<Rightarrow> Some (txn_write_own mk w, s)
                | TX_Control k \<Rightarrow>
                    (case txn_control_own mk k (fst s) of
                       None \<Rightarrow> None
                     | Some (r, t) \<Rightarrow> Some (r, t, snd s))))"

section \<open>Reading into a pinnable slice\<close>

text \<open>
  Asserts on a null slice, reads into its buffer with the call \<open>string_call\<close>, and pins the buffer,
  whatever the status.
\<close>

definition read_pinned ::
    "msg_ctor \<Rightarrow> ('s, 'v) txn_overrides \<Rightarrow> (bytes \<Rightarrow> Txn_read_call) \<Rightarrow> nat PinnableSlice option \<Rightarrow> ('s, 'v) txn_step" where
  "read_pinned mk over string_call pinnable_val s =
     do {
       p \<leftarrow> pinnable_val;
       (r, s1) \<leftarrow> txn_plain mk over (TX_Read (string_call (GetSelf p))) s;
       (case r of
          T_get st (Some buf) \<Rightarrow>
            do {
              q \<leftarrow> PinSelf (p\<lparr>ps_buf := buf\<rparr>);
              Some (T_pin st (Some q), s1)
            }
        | _ \<Rightarrow> None)
     }"

definition pinned_or_null ::
    "msg_ctor \<Rightarrow> ('s, 'v) txn_overrides \<Rightarrow> (bytes option \<Rightarrow> Txn_read_call) \<Rightarrow> nat PinnableSlice option \<Rightarrow> ('s, 'v) txn_step" where
  "pinned_or_null mk over string_call pinnable_val s =
     (case pinnable_val of
        None \<Rightarrow> txn_plain mk over (TX_Read (string_call None)) s
      | Some p \<Rightarrow> read_pinned mk over (\<lambda>buf. string_call (Some buf)) pinnable_val s)"

definition txn_pinning :: "msg_ctor \<Rightarrow> ('s, 'v) txn_overrides \<Rightarrow> Txn_call \<Rightarrow> ('s, 'v) txn_step" where
  "txn_pinning mk over c s =
     (case over c of
        Some f \<Rightarrow> f s
      | None \<Rightarrow> (case c of
          TX_Read r \<Rightarrow> (case r of
              TR_Get_pin opts cf k pv \<Rightarrow> read_pinned mk over (TR_Get opts cf k) pv s
            | TR_Get_default_pin opts k pv \<Rightarrow> read_pinned mk over (TR_Get_default opts k) pv s
            | TR_GetImpl_pin opts cf k pv \<Rightarrow> read_pinned mk over (TR_GetImpl opts cf k) pv s
            | TR_GetForUpdate_pin opts cf k pv exclusive do_validate \<Rightarrow>
                pinned_or_null mk over (\<lambda>v. TR_GetForUpdate opts cf k v exclusive do_validate) pv s
            | TR_GetForUpdate_default_pin opts k pv exclusive do_validate \<Rightarrow>
                pinned_or_null mk over (\<lambda>v. TR_GetForUpdate_default opts k v exclusive do_validate) pv s
            | _ \<Rightarrow> txn_plain mk over c s)
        | _ \<Rightarrow> txn_plain mk over c s))"

section \<open>MultiGet\<close>

fun multi_get_loop ::
    "(Txn_call \<Rightarrow> ('s, 'v) txn_step) \<Rightarrow> ReadOptions \<Rightarrow> pointer_handle \<Rightarrow> Slice list \<Rightarrow> nat \<Rightarrow> nat \<Rightarrow>
     nat PinnableSlice list \<Rightarrow> Status list \<Rightarrow> Transaction \<times> 's \<Rightarrow>
     (nat PinnableSlice list \<times> Status list \<times> Transaction \<times> 's) option" where
  "multi_get_loop obj opts cf keys i 0 values statuses s = Some (values, statuses, s)"
| "multi_get_loop obj opts cf keys i (Suc m) values statuses s =
     do {
       (r, s1) \<leftarrow> obj (TX_Read (TR_GetImpl_pin opts cf (keys ! i) (Some (values ! i)))) s;
       (case r of
          T_pin st (Some p) \<Rightarrow>
            multi_get_loop obj opts cf keys (Suc i) m (values[i := p]) (statuses[i := st]) s1
        | _ \<Rightarrow> None)
     }"

text \<open>The arrays have at least \<open>num_keys\<close> elements; reading beyond them is None.\<close>

definition MultiGet_txn ::
    "msg_ctor \<Rightarrow> (Txn_call \<Rightarrow> ('s, 'v) txn_step) \<Rightarrow> ReadOptions \<Rightarrow> pointer_handle \<Rightarrow> nat \<Rightarrow> Slice list \<Rightarrow>
     nat PinnableSlice list \<Rightarrow> Status list \<Rightarrow> ('s, 'v) txn_step" where
  "MultiGet_txn mk obj opts cf num_keys keys values statuses s =
     do {
       asserting (num_keys \<le> length keys \<and> num_keys \<le> length values \<and> num_keys \<le> length statuses) ();
       (if ro_io_activity opts \<noteq> kUnknownActivity \<and> ro_io_activity opts \<noteq> kMultiGet then
          (let st = invalid_argument mk (''Can only call MultiGet with `ReadOptions::io_activity` is '' @
                 ''`Env::IOActivity::kUnknown` or `Env::IOActivity::kMultiGet`'') in
           Some (T_multi values
             (map (\<lambda>x. if status_ok x then st else x) (take num_keys statuses) @ drop num_keys statuses), s))
        else
          do {
            (vals, sts, s1) \<leftarrow> multi_get_loop obj opts cf keys 0 num_keys values statuses s;
            Some (T_multi vals sts, s1)
          })
     }"

definition Transaction_object :: "msg_ctor \<Rightarrow> ('s, 'v) txn_overrides \<Rightarrow> Txn_call \<Rightarrow> ('s, 'v) txn_step" where
  "Transaction_object mk over c s =
     (case over c of
        Some f \<Rightarrow> f s
      | None \<Rightarrow> (case c of
          TX_Read (TR_MultiGet opts cf num_keys keys values statuses sorted_input) \<Rightarrow>
            MultiGet_txn mk (txn_pinning mk over) opts cf num_keys keys values statuses s
        | _ \<Rightarrow> txn_pinning mk over c s))"

section \<open>Pinned reads\<close>

text \<open>
  The overload for strings behind a read into a pinnable slice, the slice given, and whether a null
  slice is passed on.
\<close>

definition string_overload ::
    "Txn_read_call \<Rightarrow> (nat PinnableSlice option \<times> bool \<times> (bytes option \<Rightarrow> Txn_read_call)) option" where
  "string_overload c =
     (case c of
        TR_Get_pin opts cf k pv \<Rightarrow> Some (pv, False, \<lambda>v. TR_Get opts cf k (the v))
      | TR_Get_default_pin opts k pv \<Rightarrow> Some (pv, False, \<lambda>v. TR_Get_default opts k (the v))
      | TR_GetImpl_pin opts cf k pv \<Rightarrow> Some (pv, False, \<lambda>v. TR_GetImpl opts cf k (the v))
      | TR_GetForUpdate_pin opts cf k pv exclusive do_validate \<Rightarrow>
          Some (pv, True, \<lambda>v. TR_GetForUpdate opts cf k v exclusive do_validate)
      | TR_GetForUpdate_default_pin opts k pv exclusive do_validate \<Rightarrow>
          Some (pv, True, \<lambda>v. TR_GetForUpdate_default opts k v exclusive do_validate)
      | _ \<Rightarrow> None)"

definition pinned_buffer :: "bytes \<Rightarrow> nat PinnableSlice \<Rightarrow> nat PinnableSlice" where
  "pinned_buffer buf p = p\<lparr>ps_buf := buf, ps_data := ToBuffer, ps_size := length buf\<rparr>"

lemma pinned_buffer_shows:
  assumes "\<not> ps_pinned p"
  shows "ps_ok (pinned_buffer buf p)" "ps_bytes (pinned_buffer buf p) = buf"
    "\<not> IsPinned (pinned_buffer buf p)" "ps_cleanable (pinned_buffer buf p) = ps_cleanable p"
  using assms by (simp_all add: pinned_buffer_def ps_ok_def ps_bytes_def ps_memory_def IsPinned_def)

lemma PinSelf_pinned_buffer:
  "PinSelf (p\<lparr>ps_buf := buf\<rparr>) = (if ps_pinned p then None else Some (pinned_buffer buf p))"
  by (simp add: PinSelf_def pinned_buffer_def asserting_def)

lemma read_pinned_reads:
  assumes "txn_plain mk over (TX_Read (string_call (GetSelf p))) s = Some (T_get st (Some buf), s1)"
  shows "read_pinned mk over string_call (Some p) s =
    (if ps_pinned p then None else Some (T_pin st (Some (pinned_buffer buf p)), s1))"
  using assms by (simp add: read_pinned_def PinSelf_pinned_buffer)

lemma Transaction_object_string:
  "string_overload c = Some (pv, null_ok, string_call) \<Longrightarrow>
     Transaction_object mk over (TX_Read (string_call v)) s = txn_plain mk over (TX_Read (string_call v)) s"
  by (cases c) (auto simp: string_overload_def Transaction_object_def txn_pinning_def txn_plain_def
      split: option.splits)

lemma Transaction_object_pinned:
  assumes "string_overload c = Some (pv, null_ok, string_call)" "over (TX_Read c) = None"
  shows "Transaction_object mk over (TX_Read c) s =
    (case pv of
       None \<Rightarrow> if null_ok then txn_plain mk over (TX_Read (string_call None)) s else None
     | Some p \<Rightarrow> read_pinned mk over (\<lambda>buf. string_call (Some buf)) pv s)"
  using assms by (cases c) (auto simp: string_overload_def Transaction_object_def txn_pinning_def
      pinned_or_null_def read_pinned_def split: option.splits)

section \<open>Key by key\<close>

text \<open>The reference for \<open>MultiGet\<close>: one read after the other.\<close>

fun get_each ::
    "(Txn_call \<Rightarrow> ('s, 'v) txn_step) \<Rightarrow> ReadOptions \<Rightarrow> pointer_handle \<Rightarrow> (Slice \<times> nat PinnableSlice) list \<Rightarrow>
     Transaction \<times> 's \<Rightarrow> ((nat PinnableSlice \<times> Status) list \<times> Transaction \<times> 's) option" where
  "get_each obj opts cf [] s = Some ([], s)"
| "get_each obj opts cf (kv # kvs) s =
     do {
       (r, s1) \<leftarrow> obj (TX_Read (TR_GetImpl_pin opts cf (fst kv) (Some (snd kv)))) s;
       (case r of
          T_pin st (Some p) \<Rightarrow>
            do {
              (rest, s2) \<leftarrow> get_each obj opts cf kvs s1;
              Some ((p, st) # rest, s2)
            }
        | _ \<Rightarrow> None)
     }"

lemma take_Suc_update: "i < length xs \<Longrightarrow> take (Suc i) (xs[i := x]) = take i xs @ [x]"
  by (simp add: take_Suc_conv_app_nth)

lemma multi_get_loop_each:
  assumes "i + m \<le> length keys" "i + m \<le> length vals" "i + m \<le> length sts"
  shows "multi_get_loop obj opts cf keys i m vals sts s =
    map_option (\<lambda>(rs, s'). (take i vals @ map fst rs @ drop (i + m) vals,
        take i sts @ map snd rs @ drop (i + m) sts, s'))
      (get_each obj opts cf (zip (take m (drop i keys)) (take m (drop i vals))) s)"
  using assms
proof (induction m arbitrary: i vals sts s)
  case (Suc m)
  let ?r = "obj (TX_Read (TR_GetImpl_pin opts cf (keys ! i) (Some (vals ! i)))) s"
  have zip: "zip (take (Suc m) (drop i keys)) (take (Suc m) (drop i vals)) =
      (keys ! i, vals ! i) # zip (take m (drop (Suc i) keys)) (take m (drop (Suc i) vals))"
    using Suc.prems by (simp add: Cons_nth_drop_Suc [symmetric])
  show ?case
  proof (cases "\<exists>st p s1. ?r = Some (T_pin st (Some p), s1)")
    case True
    then obtain st p s1 where r: "?r = Some (T_pin st (Some p), s1)" by blast
    obtain res where rest: "get_each obj opts cf
        (zip (take m (drop (Suc i) keys)) (take m (drop (Suc i) vals))) s1 = res" by simp
    show ?thesis
      using Suc.prems
      by (cases res) (auto simp: r zip Suc.IH rest take_Suc_update)
  next
    case False
    then show ?thesis
      by (auto simp: zip split: bind_splits txn_reply.splits option.splits)
  qed
qed simp

lemma get_each_not_implemented:
  assumes "\<And>k pv. over (TX_Read (TR_GetImpl_pin opts cf k pv)) = None"
    "\<And>k v. over (TX_Read (TR_GetImpl opts cf k v)) = None"
    "\<forall>kv \<in> set kvs. \<not> ps_pinned (snd kv)"
  shows "get_each (txn_pinning mk over) opts cf kvs s =
    Some (map (\<lambda>kv. (pinned_buffer (GetSelf (snd kv)) (snd kv), not_supported mk ''Not implemented'')) kvs, s)"
  using assms(3)
proof (induction kvs)
  case (Cons kv kvs)
  have "txn_plain mk over (TX_Read (TR_GetImpl opts cf (fst kv) (GetSelf (snd kv)))) s =
      Some (T_get (not_supported mk ''Not implemented'') (Some (GetSelf (snd kv))), s)"
    by (simp add: txn_plain_def assms(2) txn_read_own_def)
  from read_pinned_reads [where string_call = "TR_GetImpl opts cf (fst kv)", OF this] have "txn_pinning mk over
      (TX_Read (TR_GetImpl_pin opts cf (fst kv) (Some (snd kv)))) s =
      Some (T_pin (not_supported mk ''Not implemented'') (Some (pinned_buffer (GetSelf (snd kv)) (snd kv))), s)"
    using Cons.prems by (simp add: txn_pinning_def assms(1))
  with Cons show ?case by simp
qed simp

lemma get_each_object:
  "get_each (Transaction_object mk over) opts cf kvs s = get_each (txn_pinning mk over) opts cf kvs s"
proof -
  have "Transaction_object mk over (TX_Read (TR_GetImpl_pin opts cf k pv)) s =
      txn_pinning mk over (TX_Read (TR_GetImpl_pin opts cf k pv)) s" for k pv s
    by (simp add: Transaction_object_def txn_pinning_def split: option.splits)
  then show ?thesis
    by (induction kvs arbitrary: s) (simp_all cong: txn_reply.case_cong option.case_cong)
qed

lemma set_zip_take: "kv \<in> set (zip (take n xs) (take n ys)) \<Longrightarrow> snd kv \<in> set (take n ys)"
  by (cases kv) (auto dest: set_zip_rightD)

definition activity_ok :: "ReadOptions \<Rightarrow> bool" where
  "activity_ok opts \<longleftrightarrow> ro_io_activity opts = kUnknownActivity \<or> ro_io_activity opts = kMultiGet"

lemma MultiGet_reads_all:
  assumes "over (TX_Read (TR_MultiGet opts cf n keys vals sts sorted_input)) = None"
    "n \<le> length keys" "n \<le> length vals" "n \<le> length sts" "activity_ok opts"
    "get_each (txn_pinning mk over) opts cf (zip (take n keys) (take n vals)) s = Some (rs, s')"
  shows "Transaction_object mk over (TX_Read (TR_MultiGet opts cf n keys vals sts sorted_input)) s =
    Some (T_multi (map fst rs @ drop n vals) (map snd rs @ drop n sts), s')"
  using assms multi_get_loop_each [of 0 n keys vals sts "txn_pinning mk over" opts cf s]
  by (auto simp: Transaction_object_def MultiGet_txn_def activity_ok_def)

section \<open>Properties\<close>

text \<open>
  C19. The overloads of \<open>Get\<close>, \<open>GetForUpdate\<close> and \<open>GetImpl\<close> that read into a pinnable slice: with an unpinned
  slice, the status and the effect are those of the overload for strings, and the slice shows exactly
  the string read, in its own buffer, with its cleanups; a pinned slice fails the assertion of
  \<open>PinSelf\<close> after the read; a null slice is passed on by \<open>GetForUpdate\<close> and fails an assertion of the
  others.
\<close>

theorem pinnable_read_overloads:
  assumes "string_overload c = Some (pv, null_ok, string_call)" "over (TX_Read c) = None"
  shows "case pv of
      None \<Rightarrow> Transaction_object mk over (TX_Read c) s =
        (if null_ok then Transaction_object mk over (TX_Read (string_call None)) s else None)
    | Some p \<Rightarrow> Transaction_object mk over (TX_Read (string_call (Some (GetSelf p)))) s = Some (T_get st (Some buf), s1) \<longrightarrow>
        (if IsPinned p then Transaction_object mk over (TX_Read c) s = None
         else \<exists>q. Transaction_object mk over (TX_Read c) s = Some (T_pin st (Some q), s1) \<and>
           ps_ok q \<and> ps_bytes q = buf \<and> \<not> IsPinned q \<and> ps_cleanable q = ps_cleanable p)"
proof (cases pv)
  case None
  then show ?thesis
    using Transaction_object_pinned [where over = over, OF assms] Transaction_object_string [where over = over, OF assms(1)] by simp
next
  case (Some p)
  have "Transaction_object mk over (TX_Read c) s =
      (if ps_pinned p then None else Some (T_pin st (Some (pinned_buffer buf p)), s1))"
    if "Transaction_object mk over (TX_Read (string_call (Some (GetSelf p)))) s = Some (T_get st (Some buf), s1)"
  proof -
    have "txn_plain mk over (TX_Read (string_call (Some (GetSelf p)))) s = Some (T_get st (Some buf), s1)"
      using that Transaction_object_string [where over = over, OF assms(1)] by simp
    then show ?thesis
      using Transaction_object_pinned [where over = over, OF assms] Some
      by (simp add: read_pinned_reads [where string_call = "\<lambda>buf. string_call (Some buf)"])
  qed
  then show ?thesis
    using Some pinned_buffer_shows [of p buf] by (auto simp: IsPinned_def)
qed

definition reads_key :: "(nat, unit) txn_overrides" where
  "reads_key c = (case c of
     TX_Read (TR_Get opts cf k v) \<Rightarrow> Some (\<lambda>(t, n). Some (T_get Status_OK (Some (v @ slice_bytes k)), t, n + 1))
   | TX_Read (TR_GetImpl opts cf k v) \<Rightarrow> Some (\<lambda>(t, n). Some (T_get Status_OK (Some (slice_bytes k)), t, n + 1))
   | _ \<Rightarrow> None)"

theorem pinnable_read_overloads_witness:
  "\<exists>q. Transaction_object plain_ctor reads_key (TX_Read (TR_Get_pin ReadOptions_default None (Slice_string ''k'')
       (Some (PinnableSlice_buf sample_cleanable ''old'')))) (Transaction_default, 0) =
     Some (T_pin Status_OK (Some q), Transaction_default, 1) \<and> ps_bytes q = ''oldk''"
  using pinnable_read_overloads [where c = "TR_Get_pin ReadOptions_default None (Slice_string ''k'')
       (Some (PinnableSlice_buf sample_cleanable ''old''))" and over = reads_key and s = "(Transaction_default, 0)"
      and ?s1.0 = "(Transaction_default, 1)" and mk = plain_ctor and st = Status_OK and buf = "''oldk''"]
  by (auto simp: string_overload_def reads_key_def Transaction_object_def IsPinned_def GetSelf_def
      PinnableSlice_buf_def slice_bytes_def Slice_string_def storage_def slice_size_def)

text \<open>
  C18. \<open>MultiGet\<close> over arrays of at least \<open>num_keys\<close> elements reads each key with \<open>GetImpl\<close>, one after the
  other, in the state the previous read left, and stores slice and status at its place; options for
  another activity make it answer \<open>InvalidArgument\<close> at the places that were OK and read nothing.
\<close>

theorem MultiGet_reads_each:
  assumes "over (TX_Read (TR_MultiGet opts cf n keys vals sts sorted_input)) = None"
    "n \<le> length keys" "n \<le> length vals" "n \<le> length sts"
  shows "Transaction_object mk over (TX_Read (TR_MultiGet opts cf n keys vals sts sorted_input)) s =
    (if activity_ok opts then
       map_option (\<lambda>(rs, s'). (T_multi (map fst rs @ drop n vals) (map snd rs @ drop n sts), s'))
         (get_each (Transaction_object mk over) opts cf (zip (take n keys) (take n vals)) s)
     else Some (T_multi vals (map (\<lambda>x. if status_ok x then
         invalid_argument mk (''Can only call MultiGet with `ReadOptions::io_activity` is '' @
           ''`Env::IOActivity::kUnknown` or `Env::IOActivity::kMultiGet`'') else x) (take n sts) @ drop n sts), s))"
  using assms multi_get_loop_each [of 0 n keys vals sts "txn_pinning mk over" opts cf s]
  by (cases "get_each (txn_pinning mk over) opts cf (zip (take n keys) (take n vals)) s")
    (auto simp: Transaction_object_def MultiGet_txn_def activity_ok_def get_each_object Let_def)

theorem MultiGet_reads_each_witness:
  "\<exists>vs. Transaction_object plain_ctor reads_key (TX_Read (TR_MultiGet ReadOptions_default None 2
       [Slice_string ''a'', Slice_string ''b''] (replicate 2 (PinnableSlice_default sample_cleanable))
       [Status_OK, Status_code kNotFound kNone] False)) (Transaction_default, 0) =
     Some (T_multi vs [Status_OK, Status_OK], Transaction_default, 2) \<and> map ps_bytes vs = [''a'', ''b'']"
proof -
  let ?p = "PinnableSlice_default sample_cleanable"
  have each: "get_each (Transaction_object plain_ctor reads_key) ReadOptions_default None
      [(Slice_string ''a'', ?p), (Slice_string ''b'', ?p)] (Transaction_default, 0) =
    Some ([(pinned_buffer ''a'' ?p, Status_OK), (pinned_buffer ''b'' ?p, Status_OK)], Transaction_default, 2)"
    unfolding get_each_object
    by (simp add: txn_pinning_def read_pinned_def txn_plain_def reads_key_def PinSelf_def pinned_buffer_def asserting_def
        slice_bytes_def Slice_string_def storage_def slice_size_def PinnableSlice_default_def)
  have ok: "activity_ok ReadOptions_default" by (simp add: activity_ok_def ReadOptions_default_def)
  have inherited: "reads_key (TX_Read (TR_MultiGet ReadOptions_default None 2 [Slice_string ''a'', Slice_string ''b'']
      [?p, ?p] [Status_OK, Status_code kNotFound kNone] False)) = None" by (simp add: reads_key_def)
  have prefix: "take 2 [x, y] = [x, y]" "drop 2 [x, y] = []" "replicate 2 x = [x, x]" for x y :: 'a
    by (simp_all add: numeral_2_eq_2)
  have unpinned: "\<not> ps_pinned ?p" by (simp add: PinnableSlice_default_def)
  show ?thesis
    using MultiGet_reads_each [where over = reads_key and mk = plain_ctor and s = "(Transaction_default, 0)", OF inherited] ok
    by (simp add: prefix each pinned_buffer_shows unpinned del: get_each.simps)
qed

text \<open>
  A transaction that implements only the pure virtual functions cannot use the inherited \<open>MultiGet\<close>:
  every key is answered with \<open>NotSupported\<close>, whatever \<open>Get\<close> would read, the state stays as it was, and
  the slices show what was in their buffers.
\<close>

theorem MultiGet_needs_GetImpl:
  assumes "over (TX_Read (TR_MultiGet opts cf n keys vals sts sorted_input)) = None"
    "\<And>k pv. over (TX_Read (TR_GetImpl_pin opts cf k pv)) = None"
    "\<And>k v. over (TX_Read (TR_GetImpl opts cf k v)) = None"
    "n \<le> length keys" "n \<le> length vals" "n \<le> length sts" "activity_ok opts"
    "\<forall>p \<in> set (take n vals). \<not> ps_pinned p"
  shows "\<exists>qs. Transaction_object mk over (TX_Read (TR_MultiGet opts cf n keys vals sts sorted_input)) s =
      Some (T_multi (qs @ drop n vals) (replicate n (not_supported mk ''Not implemented'') @ drop n sts), s) \<and>
    map ps_bytes qs = map GetSelf (take n vals)"
proof -
  let ?kvs = "zip (take n keys) (take n vals)"
  let ?rs = "map (\<lambda>kv. (pinned_buffer (GetSelf (snd kv)) (snd kv), not_supported mk ''Not implemented'')) ?kvs"
  have unpinned: "\<forall>kv \<in> set ?kvs. \<not> ps_pinned (snd kv)" using assms(8) by (blast dest: set_zip_take)
  have each: "get_each (txn_pinning mk over) opts cf ?kvs s = Some (?rs, s)"
    by (rule get_each_not_implemented) (use assms(2,3) unpinned in simp_all)
  have object: "Transaction_object mk over (TX_Read (TR_MultiGet opts cf n keys vals sts sorted_input)) s =
      Some (T_multi (map fst ?rs @ drop n vals) (map snd ?rs @ drop n sts), s)"
    by (rule MultiGet_reads_all [OF assms(1) assms(4-7) each])
  have vals: "map snd ?kvs = take n vals" and len: "length ?kvs = n" using assms(4,5) by simp_all
  have "map ps_bytes (map fst ?rs) = map (\<lambda>kv. GetSelf (snd kv)) ?kvs"
    unfolding map_map using unpinned by (intro map_cong refl) (simp add: pinned_buffer_shows(2))
  also have "\<dots> = map GetSelf (take n vals)" using vals by (metis (no_types) comp_def map_map map_eq_conv)
  finally have bytes: "map ps_bytes (map fst ?rs) = map GetSelf (take n vals)" .
  have sts: "map snd ?rs = replicate n (not_supported mk ''Not implemented'')"
    using len by (simp add: map_replicate_const comp_def)
  show ?thesis using object bytes unfolding sts by blast
qed

definition gets_only :: "(nat, unit) txn_overrides" where
  "gets_only c = (case c of
     TX_Read (TR_Get opts cf k v) \<Rightarrow> Some (\<lambda>(t, n). Some (T_get Status_OK (Some ''x''), t, n + 1))
   | _ \<Rightarrow> None)"

theorem MultiGet_needs_GetImpl_witness:
  "\<exists>q. Transaction_object plain_ctor gets_only (TX_Read (TR_MultiGet ReadOptions_default None 1
       [Slice_string ''a''] [PinnableSlice_default sample_cleanable] [Status_OK] False)) (Transaction_default, 0) =
     Some (T_multi [q] [not_supported plain_ctor ''Not implemented''], Transaction_default, 0) \<and> ps_bytes q = []"
  using MultiGet_needs_GetImpl [of gets_only ReadOptions_default None 1 "[Slice_string ''a'']"
      "[PinnableSlice_default sample_cleanable]" "[Status_OK]" False plain_ctor "(Transaction_default, 0)"]
  by (auto simp: gets_only_def activity_ok_def ReadOptions_default_def PinnableSlice_default_def GetSelf_def
      map_eq_Cons_conv)

end
