(* ===== verification/TransactionDBModel.thy ===== *)
theory TransactionDBModel
  imports StackableModel TransactionModel
begin

text \<open>
  include/rocksdb/utilities/transaction_db.h and utilities/optimistic_transaction_db.h: option structs
  and lock reports, and \<open>TransactionDB\<close>, a stackable database that rejects range deletions. Its own
  virtual functions are a second set of calls.
\<close>

section \<open>Options\<close>

datatype TxnDBWritePolicy = WRITE_COMMITTED | WRITE_PREPARED | WRITE_UNPREPARED

definition kInitialMaxDeadlocks :: uint32 where
  "kInitialMaxDeadlocks = 5"

record TransactionDBOptions =
  to_max_num_locks :: int
  to_max_num_deadlocks :: uint32
  to_num_stripes :: nat
  to_transaction_lock_timeout :: int
  to_default_lock_timeout :: int
  to_custom_mutex_factory :: pointer_handle
  to_write_policy :: TxnDBWritePolicy
  to_rollback_merge_operands :: bool
  to_lock_mgr_handle :: pointer_handle
  to_skip_concurrency_control :: bool
  to_default_write_batch_flush_threshold :: int
  to_rollback_deletion_type_callback :: pointer_handle
  to_wp_snapshot_cache_bits :: nat
  to_wp_commit_cache_bits :: nat
  to_autogenerate_name :: bool

definition TransactionDBOptions_default :: TransactionDBOptions where
  "TransactionDBOptions_default =
     \<lparr>to_max_num_locks = - 1, to_max_num_deadlocks = kInitialMaxDeadlocks, to_num_stripes = 16,
      to_transaction_lock_timeout = 1000, to_default_lock_timeout = 1000, to_custom_mutex_factory = None,
      to_write_policy = WRITE_COMMITTED, to_rollback_merge_operands = False, to_lock_mgr_handle = None,
      to_skip_concurrency_control = False, to_default_write_batch_flush_threshold = 0,
      to_rollback_deletion_type_callback = None, to_wp_snapshot_cache_bits = 7,
      to_wp_commit_cache_bits = 23, to_autogenerate_name = False\<rparr>"

record TransactionOptions =
  tn_set_snapshot :: bool
  tn_deadlock_detect :: bool
  tn_use_only_the_last_commit_time_batch_for_recovery :: bool
  tn_lock_timeout :: int
  tn_expiration :: int
  tn_deadlock_detect_depth :: int
  tn_max_write_batch_size :: nat
  tn_skip_concurrency_control :: bool
  tn_skip_prepare :: bool
  tn_write_batch_flush_threshold :: int

definition TransactionOptions_default :: TransactionOptions where
  "TransactionOptions_default =
     \<lparr>tn_set_snapshot = False, tn_deadlock_detect = False,
      tn_use_only_the_last_commit_time_batch_for_recovery = False, tn_lock_timeout = - 1,
      tn_expiration = - 1, tn_deadlock_detect_depth = 50, tn_max_write_batch_size = 0,
      tn_skip_concurrency_control = False, tn_skip_prepare = True, tn_write_batch_flush_threshold = - 1\<rparr>"

record TransactionDBWriteOptimizations =
  wz_skip_concurrency_control :: bool
  wz_skip_duplicate_key_check :: bool

definition TransactionDBWriteOptimizations_default :: TransactionDBWriteOptimizations where
  "TransactionDBWriteOptimizations_default =
     \<lparr>wz_skip_concurrency_control = False, wz_skip_duplicate_key_check = False\<rparr>"

record OptimisticTransactionOptions =
  oo_set_snapshot :: bool
  oo_cmp :: pointer_handle

text \<open>\<open>bytewise_comparator\<close> is the address \<open>BytewiseComparator()\<close> returns.\<close>

definition OptimisticTransactionOptions_default :: "pointer_handle \<Rightarrow> OptimisticTransactionOptions" where
  "OptimisticTransactionOptions_default bytewise_comparator =
     \<lparr>oo_set_snapshot = False, oo_cmp = bytewise_comparator\<rparr>"

datatype OccValidationPolicy = kValidateSerial | kValidateParallel

record OptimisticTransactionDBOptions =
  od_validate_policy :: OccValidationPolicy
  od_occ_lock_buckets :: uint32
  od_shared_lock_buckets :: pointer_handle

definition OptimisticTransactionDBOptions_default :: OptimisticTransactionDBOptions where
  "OptimisticTransactionDBOptions_default =
     \<lparr>od_validate_policy = kValidateParallel, od_occ_lock_buckets = push_bit 20 1, od_shared_lock_buckets = None\<rparr>"

section \<open>Locks and deadlocks\<close>

record EndpointWithString =
  es_slice :: string
  es_inf_suffix :: bool

record RangeDeadlockInfo =
  rd_txn_id :: TransactionID
  rd_cf_id :: uint32
  rd_exclusive :: bool
  rd_start :: EndpointWithString
  rd_end :: EndpointWithString

record DeadlockInfo =
  di_txn_id :: TransactionID
  di_cf_id :: uint32
  di_exclusive :: bool
  di_waiting_key :: string

text \<open>\<open>RangeDeadlockPath\<close> and \<open>DeadlockPath\<close> differ in the type of their entries \<open>'i\<close> only.\<close>

record 'i DeadlockPath =
  dp_path :: "'i list"
  dp_limit_exceeded :: bool
  dp_deadlock_time :: int

type_synonym RangeDeadlockPath = "RangeDeadlockInfo DeadlockPath"

definition DeadlockPath_new :: "'i list \<Rightarrow> int \<Rightarrow> 'i DeadlockPath" where
  "DeadlockPath_new path_entry dl_time =
     \<lparr>dp_path = path_entry, dp_limit_exceeded = False, dp_deadlock_time = dl_time\<rparr>"

definition DeadlockPath_empty :: "int \<Rightarrow> bool \<Rightarrow> 'i DeadlockPath" where
  "DeadlockPath_empty dl_time limit =
     \<lparr>dp_path = [], dp_limit_exceeded = limit, dp_deadlock_time = dl_time\<rparr>"

definition dp_is_empty :: "'i DeadlockPath \<Rightarrow> bool" where
  "dp_is_empty p \<longleftrightarrow> dp_path p = [] \<and> \<not> dp_limit_exceeded p"

record KeyLockInfo =
  kl_key :: string
  kl_ids :: "TransactionID list"
  kl_exclusive :: bool

record RangeLockInfo =
  rl_start :: EndpointWithString
  rl_end :: EndpointWithString
  rl_ids :: "TransactionID list"
  rl_exclusive :: bool

record RangeLock_Counters =
  ct_escalation_count :: uint64
  ct_lock_wait_count :: uint64
  ct_current_lock_memory :: uint64

section \<open>TransactionDB\<close>

text \<open>\<open>derived\<close> is what the class derived from \<open>TransactionDB\<close> overrides.\<close>

definition TransactionDB :: "('s, 'v) db_overrides \<Rightarrow> ('s, 'v) database \<Rightarrow> ('s, 'v) db_overrides" where
  "TransactionDB derived target c =
     (case derived c of
        Some f \<Rightarrow> Some f
      | None \<Rightarrow> (case c of
          DB_Write (WR_DeleteRange opts cf b e) \<Rightarrow> Some (\<lambda>s. (D_status (NotSupported kNone), s))
        | _ \<Rightarrow> StackableDB target c))"

datatype (plugins only: code size) TransactionDB_call =
    TD_Write WriteOptions TransactionDBWriteOptimizations pointer_handle
  | TD_BeginTransaction WriteOptions TransactionOptions pointer_handle
  | TD_GetTransactionByName string | TD_GetAllPreparedTransactions | TD_GetLockStatusData
  | TD_GetDeadlockInfoBuffer | TD_SetDeadlockInfoBufferSize uint32
  | TD_CreateTimestampedSnapshot TxnTimestamp | TD_GetTimestampedSnapshot TxnTimestamp
  | TD_ReleaseTimestampedSnapshotsOlderThan TxnTimestamp
  | TD_GetTimestampedSnapshots TxnTimestamp TxnTimestamp

text \<open>The base class; \<open>db\<close> is the object itself as a database.\<close>

definition TransactionDB_object ::
    "('s, 'v) database \<Rightarrow> (TransactionDB_call \<Rightarrow> ('s \<Rightarrow> 'v db_reply \<times> 's) option) \<Rightarrow>
     TransactionDB_call \<Rightarrow> 's \<Rightarrow> 'v db_reply \<times> 's" where
  "TransactionDB_object db over c s =
     (case over c of
        Some f \<Rightarrow> f s
      | None \<Rightarrow> (case c of
          TD_Write opts optimizations updates \<Rightarrow> db (DB_Write (WR_Write opts updates)) s
        | _ \<Rightarrow> (D_pure_virtual, s)))"

definition GetLatestTimestampedSnapshot :: "(TransactionDB_call \<Rightarrow> 's \<Rightarrow> 'v db_reply \<times> 's) \<Rightarrow> 's \<Rightarrow> 'v db_reply \<times> 's" where
  "GetLatestTimestampedSnapshot obj s = obj (TD_GetTimestampedSnapshot kMaxTxnTimestamp) s"

definition GetAllTimestampedSnapshots :: "(TransactionDB_call \<Rightarrow> 's \<Rightarrow> 'v db_reply \<times> 's) \<Rightarrow> 's \<Rightarrow> 'v db_reply \<times> 's" where
  "GetAllTimestampedSnapshots obj s = obj (TD_GetTimestampedSnapshots 0 kMaxTxnTimestamp) s"

section \<open>A transaction database behind wrappers\<close>

definition deletes_range :: "DB_call \<Rightarrow> bool" where
  "deletes_range c \<longleftrightarrow>
     (case c of
        DB_Write w \<Rightarrow> (case w of WR_DeleteRange opts cf b e \<Rightarrow> True | WR_DeleteRange_default opts b e \<Rightarrow> True | _ \<Rightarrow> False)
      | _ \<Rightarrow> False)"

lemma TransactionDB_overrides:
  "derived c = None \<Longrightarrow> \<not> deletes_range c \<Longrightarrow> TransactionDB derived target c = StackableDB target c"
  by (simp add: TransactionDB_def deletes_range_def split: DB_call.splits Write_call.splits)

lemma TransactionDB_DeleteRange:
  "derived (DB_Write (WR_DeleteRange opts cf b e)) = None \<Longrightarrow>
     DB_object mk elsewhere self (TransactionDB derived target) (DB_Write (WR_DeleteRange opts cf b e)) s =
       (D_status (NotSupported kNone), s)"
  by (simp add: DB_object_over TransactionDB_def)

lemma stacked_DeleteRange:
  "stacked mk elsewhere addr n db (DB_Write (WR_DeleteRange opts cf b e)) = db (DB_Write (WR_DeleteRange opts cf b e))"
  by (induction n) (simp_all add: DB_object_over StackableDB_overrides not_stacked_def is_flags_call_def
      db_default_def write_default_def)

lemma stacked_default_cf: "default_cf (stacked mk elsewhere addr n db) s = default_cf db s"
  by (induction n) (simp_all add: wrapper_default_cf)

lemma TransactionDB_default_cf:
  assumes "derived (DB_Admin AD_DefaultColumnFamily) = None"
  shows "default_cf (DB_object mk elsewhere self (TransactionDB derived target)) s = default_cf target s"
  using TransactionDB_overrides [where derived = derived, OF assms, of target]
  by (simp add: default_cf_def DB_object_over StackableDB_overrides not_stacked_def is_flags_call_def
      db_default_def admin_default_def deletes_range_def)

lemma default_deletes_range:
  "db_default c = Some g \<Longrightarrow> deletes_range (g cf) \<longleftrightarrow> deletes_range c"
  by (cases c) (auto simp: db_default_def write_default_def read_default_def property_default_def
      maintenance_default_def file_default_def admin_default_def deletes_range_def
      split: Write_call.splits Read_call.splits Property_call.splits Maintenance_call.splits
        File_call.splits Admin_call.splits)

lemma redirect_deletes_range: "db_redirect c = Some c1 \<Longrightarrow> \<not> deletes_range c1"
  by (cases c) (auto simp: db_redirect_def deletes_range_def split: DB_call.splits Write_call.splits)

text \<open>Range deletions apart, a transaction database is the stackable database it derives from.\<close>

lemma TransactionDB_is_stackable:
  assumes "\<not> deletes_range c"
  shows "DB_object mk elsewhere self (TransactionDB (\<lambda>c. None) target) c s =
    DB_object mk elsewhere self (StackableDB target) c s"
proof -
  have over: "TransactionDB (\<lambda>c. None) target c = StackableDB target c" if "\<not> deletes_range c" for c
    using that by (simp add: TransactionDB_overrides)
  have plain: "db_plain mk elsewhere self (TransactionDB (\<lambda>c. None) target) c =
      db_plain mk elsewhere self (StackableDB target) c" if "\<not> deletes_range c" for c
    using over [OF that] by (simp add: db_plain_def fun_eq_iff)
  have cf: "db_with_cf mk elsewhere self (TransactionDB (\<lambda>c. None) target) c =
      db_with_cf mk elsewhere self (StackableDB target) c" if "\<not> deletes_range c" for c
    using over [OF that] plain [OF redirect_deletes_range]
    by (auto simp: db_with_cf_def fun_eq_iff split: option.splits)
  have "\<not> deletes_range (DB_Admin AD_DefaultColumnFamily)" by (simp add: deletes_range_def)
  then show ?thesis
    using over [OF assms] cf [OF assms] plain cf default_deletes_range [of c] assms
    by (auto simp: DB_object_def split: option.splits)
qed

lemma TransactionDB_inherits: "inherits_overloads (DB_object mk elsewhere self (TransactionDB (\<lambda>c. None) target))"
  by (rule DB_object_inherits)
    (auto simp: TransactionDB_def StackableDB_overrides is_flags_call_def db_default_def write_default_def
      split: DB_call.splits Write_call.splits)

interpretation transaction_db: forwarding "DB_object mk elsewhere self (TransactionDB (\<lambda>c. None) target)" target id
    "\<lambda>c. inherits_overloads target \<and> \<not> not_stacked c \<and> \<not> deletes_range c" for mk elsewhere self target
  by unfold_locales (simp add: TransactionDB_is_stackable wrapper_transparent)

section \<open>Properties\<close>



definition deletes_log :: "(nat, unit) database" where
  "deletes_log c s = (case c of
     DB_Write (WR_Delete opts cf k) \<Rightarrow> (D_status Status_OK, s + 1)
   | DB_Admin AD_DefaultColumnFamily \<Rightarrow> (D_handle (Some 7), s)
   | _ \<Rightarrow> (D_status (Status_code kCorruption kNone), s + 100))"



end
