(* ===== verification/WriteBatchModel.thy ===== *)
theory WriteBatchModel
  imports AttributeGroups OptionRecords Forwarding
begin

text \<open>
  include/rocksdb/write_batch_base.h and include/rocksdb/write_batch.h: the interface of a batch of
  updates, the inline functions of \<open>WriteBatch\<close>, and the defaults of \<open>WriteBatch::Handler\<close>, which an
  iteration over a batch calls. Adding records to the batch is defined in the library (\<open>elsewhere\<close>).
\<close>

unbundle bit_operations_syntax

section \<open>Save points\<close>

record SavePoint =
  sp_size :: uint64
  sp_count :: uint32
  sp_content_flags :: uint32

definition SavePoint_default :: SavePoint where
  "SavePoint_default = \<lparr>sp_size = 0, sp_count = 0, sp_content_flags = 0\<rparr>"

definition SavePoint_new :: "uint64 \<Rightarrow> uint32 \<Rightarrow> uint32 \<Rightarrow> SavePoint" where
  "SavePoint_new sz count flags = \<lparr>sp_size = sz, sp_count = count, sp_content_flags = flags\<rparr>"

definition sp_clear :: "SavePoint \<Rightarrow> SavePoint" where
  "sp_clear p = p\<lparr>sp_size := 0, sp_count := 0, sp_content_flags := 0\<rparr>"

text \<open>The two 32-bit operands are converted to \<open>size_t\<close>.\<close>

definition is_cleared :: "SavePoint \<Rightarrow> bool" where
  "is_cleared p \<longleftrightarrow> (sp_size p OR ucast (sp_count p) OR ucast (sp_content_flags p)) = (0 :: uint64)"

lemma ucast_zero_iff: "(ucast (w :: uint32) :: uint64) = 0 \<longleftrightarrow> w = 0"
  by transfer (simp add: take_bit_eq_mod)

lemma is_cleared_iff: "is_cleared p \<longleftrightarrow> p = SavePoint_default"
proof -
  have "is_cleared p \<longleftrightarrow> sp_size p = 0 \<and> sp_count p = 0 \<and> sp_content_flags p = 0"
    by (simp add: is_cleared_def or_eq_0_iff ucast_zero_iff)
  then show ?thesis by (cases p) (simp add: SavePoint_default_def)
qed

section \<open>Batches\<close>

datatype (plugins only: code size) WriteBatch_call =
      WB_Put pointer_handle Slice Slice | WB_Put_default Slice Slice
  | WB_Put_ts pointer_handle Slice Slice Slice
  | WB_Put_parts pointer_handle SliceParts SliceParts | WB_Put_parts_default SliceParts SliceParts
  | WB_TimedPut pointer_handle Slice Slice uint64
  | WB_PutEntity pointer_handle Slice "WideColumn list"
  | WB_PutEntity_groups Slice "AttributeGroup list"
  | WB_Merge pointer_handle Slice Slice | WB_Merge_default Slice Slice
  | WB_Merge_ts pointer_handle Slice Slice Slice
  | WB_Merge_parts pointer_handle SliceParts SliceParts | WB_Merge_parts_default SliceParts SliceParts
  | WB_Delete pointer_handle Slice | WB_Delete_default Slice | WB_Delete_ts pointer_handle Slice Slice
  | WB_Delete_parts pointer_handle SliceParts | WB_Delete_parts_default SliceParts
  | WB_SingleDelete pointer_handle Slice | WB_SingleDelete_default Slice
  | WB_SingleDelete_ts pointer_handle Slice Slice
  | WB_SingleDelete_parts pointer_handle SliceParts | WB_SingleDelete_parts_default SliceParts
  | WB_DeleteRange pointer_handle Slice Slice | WB_DeleteRange_default Slice Slice
  | WB_DeleteRange_ts pointer_handle Slice Slice Slice
  | WB_DeleteRange_parts pointer_handle SliceParts SliceParts
  | WB_DeleteRange_parts_default SliceParts SliceParts
  | WB_PutLogData Slice | WB_Clear | WB_GetWriteBatch | WB_SetSavePoint | WB_RollbackToSavePoint
  | WB_PopSavePoint | WB_SetMaxBytes nat

datatype batch_reply = B_void | B_status Status | B_batch pointer_handle

record WriteBatch =
  wb_save_points :: pointer_handle
  wb_wal_term_point :: SavePoint
  wb_is_latest_persistent_state :: bool
  wb_needs_in_place_update_ts :: bool
  wb_has_key_with_ts :: bool
  wb_content_flags :: uint32
  wb_max_bytes :: nat
  wb_prot_info :: pointer_handle
  wb_default_cf_ts_sz :: nat
  wb_rep :: string

text \<open>The overloads for the default column family pass a null column family to the other overload.\<close>

definition batch_default :: "WriteBatch_call \<Rightarrow> WriteBatch_call option" where
  "batch_default c =
     (case c of
        WB_Put_default k v \<Rightarrow> Some (WB_Put None k v)
      | WB_Put_parts_default k v \<Rightarrow> Some (WB_Put_parts None k v)
      | WB_Delete_default k \<Rightarrow> Some (WB_Delete None k)
      | WB_Delete_parts_default k \<Rightarrow> Some (WB_Delete_parts None k)
      | WB_SingleDelete_default k \<Rightarrow> Some (WB_SingleDelete None k)
      | WB_SingleDelete_parts_default k \<Rightarrow> Some (WB_SingleDelete_parts None k)
      | WB_DeleteRange_default b e \<Rightarrow> Some (WB_DeleteRange None b e)
      | WB_DeleteRange_parts_default b e \<Rightarrow> Some (WB_DeleteRange_parts None b e)
      | WB_Merge_default k v \<Rightarrow> Some (WB_Merge None k v)
      | WB_Merge_parts_default k v \<Rightarrow> Some (WB_Merge_parts None k v)
      | _ \<Rightarrow> None)"

text \<open>\<open>WriteBatch\<close> at the address \<open>self\<close>, whose state a derived class extends.\<close>

definition WriteBatch_own ::
    "(WriteBatch_call \<Rightarrow> 'e WriteBatch_scheme \<Rightarrow> batch_reply \<times> 'e WriteBatch_scheme) \<Rightarrow> pointer_handle \<Rightarrow>
     WriteBatch_call \<Rightarrow> 'e WriteBatch_scheme \<Rightarrow> batch_reply \<times> 'e WriteBatch_scheme" where
  "WriteBatch_own elsewhere self c b =
     (case c of
        WB_GetWriteBatch \<Rightarrow> (B_batch self, b)
      | WB_SetMaxBytes n \<Rightarrow> (B_void, b\<lparr>wb_max_bytes := n\<rparr>)
      | _ \<Rightarrow> elsewhere c b)"

definition WriteBatch_plain ::
    "(WriteBatch_call \<Rightarrow> 'e WriteBatch_scheme \<Rightarrow> batch_reply \<times> 'e WriteBatch_scheme) \<Rightarrow> pointer_handle \<Rightarrow>
     (WriteBatch_call \<Rightarrow> ('e WriteBatch_scheme \<Rightarrow> batch_reply \<times> 'e WriteBatch_scheme) option) \<Rightarrow>
     WriteBatch_call \<Rightarrow> 'e WriteBatch_scheme \<Rightarrow> batch_reply \<times> 'e WriteBatch_scheme" where
  "WriteBatch_plain elsewhere self over c b =
     (case over c of Some f \<Rightarrow> f b | None \<Rightarrow> WriteBatch_own elsewhere self c b)"

definition WriteBatch_object ::
    "(WriteBatch_call \<Rightarrow> 'e WriteBatch_scheme \<Rightarrow> batch_reply \<times> 'e WriteBatch_scheme) \<Rightarrow> pointer_handle \<Rightarrow>
     (WriteBatch_call \<Rightarrow> ('e WriteBatch_scheme \<Rightarrow> batch_reply \<times> 'e WriteBatch_scheme) option) \<Rightarrow>
     WriteBatch_call \<Rightarrow> 'e WriteBatch_scheme \<Rightarrow> batch_reply \<times> 'e WriteBatch_scheme" where
  "WriteBatch_object elsewhere self over c b =
     (case over c of
        Some f \<Rightarrow> f b
      | None \<Rightarrow> (case batch_default c of
                  Some c1 \<Rightarrow> WriteBatch_plain elsewhere self over c1 b
                | None \<Rightarrow> WriteBatch_own elsewhere self c b))"

definition wb_Data :: "'e WriteBatch_scheme \<Rightarrow> string" where
  "wb_Data b = wb_rep b"

definition GetDataSize :: "'e WriteBatch_scheme \<Rightarrow> nat" where
  "GetDataSize b = length (wb_rep b)"

definition GetWalTerminationPoint :: "'e WriteBatch_scheme \<Rightarrow> SavePoint" where
  "GetWalTerminationPoint b = wb_wal_term_point b"

section \<open>Handlers\<close>

datatype OptionState = OS_kUnknown | OS_kDisabled | OS_kEnabled

datatype (plugins only: code size) Handler_call =
    H_PutCF uint32 Slice Slice | H_Put Slice Slice | H_TimedPutCF uint32 Slice Slice uint64
  | H_PutEntityCF uint32 Slice Slice | H_DeleteCF uint32 Slice | H_Delete Slice
  | H_SingleDeleteCF uint32 Slice | H_SingleDelete Slice | H_DeleteRangeCF uint32 Slice Slice
  | H_MergeCF uint32 Slice Slice | H_Merge Slice Slice | H_PutBlobIndexCF uint32 Slice Slice
  | H_LogData Slice | H_MarkBeginPrepare bool | H_MarkEndPrepare Slice | H_MarkNoop bool
  | H_MarkRollback Slice | H_MarkCommit Slice | H_MarkCommitWithTimestamp Slice Slice | H_Continue
  | H_WriteAfterCommit | H_WriteBeforePrepare

datatype handler_reply = H_void | H_status Status | H_bool bool | H_state OptionState

text \<open>The functions that do not call another one.\<close>

definition Handler_own ::
    "msg_ctor \<Rightarrow> (Handler_call \<Rightarrow> 's \<Rightarrow> handler_reply \<times> 's) \<Rightarrow> Handler_call \<Rightarrow> 's \<Rightarrow> handler_reply \<times> 's" where
  "Handler_own mk elsewhere c s =
     (case c of
        H_TimedPutCF cf k v t \<Rightarrow> (H_status (invalid_argument mk ''TimedPutCF not implemented''), s)
      | H_PutEntityCF cf k e \<Rightarrow> (H_status (not_supported mk ''PutEntityCF not implemented''), s)
      | H_DeleteRangeCF cf b e \<Rightarrow> (H_status (invalid_argument mk ''DeleteRangeCF not implemented''), s)
      | H_PutBlobIndexCF cf k v \<Rightarrow> (H_status (invalid_argument mk ''PutBlobIndexCF not implemented''), s)
      | H_MarkBeginPrepare u \<Rightarrow> (H_status (invalid_argument mk ''MarkBeginPrepare() handler not defined.''), s)
      | H_MarkEndPrepare xid \<Rightarrow> (H_status (invalid_argument mk ''MarkEndPrepare() handler not defined.''), s)
      | H_MarkNoop empty_batch \<Rightarrow> (H_status (invalid_argument mk ''MarkNoop() handler not defined.''), s)
      | H_MarkRollback xid \<Rightarrow> (H_status (invalid_argument mk ''MarkRollbackPrepare() handler not defined.''), s)
      | H_MarkCommit xid \<Rightarrow> (H_status (invalid_argument mk ''MarkCommit() handler not defined.''), s)
      | H_MarkCommitWithTimestamp xid ts \<Rightarrow>
          (H_status (invalid_argument mk ''MarkCommitWithTimestamp() handler not defined.''), s)
      | H_WriteAfterCommit \<Rightarrow> (H_state OS_kUnknown, s)
      | H_WriteBeforePrepare \<Rightarrow> (H_state OS_kUnknown, s)
      | H_LogData blob \<Rightarrow> elsewhere c s
      | H_Continue \<Rightarrow> elsewhere c s
      | _ \<Rightarrow> (H_void, s))"

definition Handler_plain ::
    "msg_ctor \<Rightarrow> (Handler_call \<Rightarrow> 's \<Rightarrow> handler_reply \<times> 's) \<Rightarrow>
     (Handler_call \<Rightarrow> ('s \<Rightarrow> handler_reply \<times> 's) option) \<Rightarrow> Handler_call \<Rightarrow> 's \<Rightarrow> handler_reply \<times> 's" where
  "Handler_plain mk elsewhere over c s =
     (case over c of Some f \<Rightarrow> f s | None \<Rightarrow> Handler_own mk elsewhere c s)"

text \<open>
  The function without column family that a default for the default column family calls, whose
  reply is discarded, and the text of the rejection.
\<close>

definition legacy_call :: "Handler_call \<Rightarrow> (uint32 \<times> Handler_call \<times> string) option" where
  "legacy_call c =
     (case c of
        H_PutCF cf k v \<Rightarrow> Some (cf, H_Put k v, ''non-default column family and PutCF not implemented'')
      | H_DeleteCF cf k \<Rightarrow> Some (cf, H_Delete k, ''non-default column family and DeleteCF not implemented'')
      | H_SingleDeleteCF cf k \<Rightarrow>
          Some (cf, H_SingleDelete k, ''non-default column family and SingleDeleteCF not implemented'')
      | H_MergeCF cf k v \<Rightarrow> Some (cf, H_Merge k v, ''non-default column family and MergeCF not implemented'')
      | _ \<Rightarrow> None)"

definition Handler_object ::
    "msg_ctor \<Rightarrow> (Handler_call \<Rightarrow> 's \<Rightarrow> handler_reply \<times> 's) \<Rightarrow>
     (Handler_call \<Rightarrow> ('s \<Rightarrow> handler_reply \<times> 's) option) \<Rightarrow> Handler_call \<Rightarrow> 's \<Rightarrow> handler_reply \<times> 's" where
  "Handler_object mk elsewhere over c s =
     (case over c of
        Some f \<Rightarrow> f s
      | None \<Rightarrow> (case legacy_call c of
                  Some (cf, c1, msg) \<Rightarrow>
                    (if cf = 0 then
                       (let (r, s1) = Handler_plain mk elsewhere over c1 s in (H_status Status_OK, s1))
                     else (H_status (invalid_argument mk msg), s))
                | None \<Rightarrow> Handler_own mk elsewhere c s))"

section \<open>Overloads of a batch\<close>

lemma batch_default_once: "batch_default c = Some c1 \<Longrightarrow> batch_default c1 = None"
  by (cases c) (auto simp: batch_default_def)

definition with_cf :: "WriteBatch_call \<Rightarrow> WriteBatch_call" where
  "with_cf c = (case batch_default c of Some c1 \<Rightarrow> c1 | None \<Rightarrow> c)"

lemma WriteBatch_with_cf:
  assumes "over c = None \<or> batch_default c = None"
  shows "WriteBatch_object elsewhere self over (with_cf c) b = WriteBatch_object elsewhere self over c b"
  using assms batch_default_once [of c]
  by (auto simp: WriteBatch_object_def WriteBatch_plain_def with_cf_def split: option.splits)

interpretation batch_overloads: forwarding "\<lambda>c. WriteBatch_object elsewhere self over c"
    "\<lambda>c. WriteBatch_object elsewhere self over (with_cf c)" id
    "\<lambda>c. over c = None \<or> batch_default c = None" for elsewhere self over
  by unfold_locales (simp add: WriteBatch_with_cf)

lemma run_calls_map: "run_calls (\<lambda>c. obj (f c)) cs s = run_calls obj (map f cs) s"
  by (induction cs arbitrary: s) (simp_all split: prod.splits)

section \<open>Handlers of the old interface\<close>

text \<open>A handler that overrides none of the functions with a column family that have a default.\<close>

definition old_interface :: "(Handler_call \<Rightarrow> ('s \<Rightarrow> handler_reply \<times> 's) option) \<Rightarrow> bool" where
  "old_interface over \<longleftrightarrow> (\<forall>c. legacy_call c \<noteq> None \<longrightarrow> over c = None)"

text \<open>The calls without column family that the updates of the default column family amount to.\<close>

fun old_calls :: "Handler_call list \<Rightarrow> Handler_call list" where
  "old_calls [] = []"
| "old_calls (c # cs) =
     (case legacy_call c of
        Some (cf, c1, msg) \<Rightarrow> (if cf = 0 then c1 # old_calls cs else old_calls cs)
      | None \<Rightarrow> c # old_calls cs)"

definition answers :: "msg_ctor \<Rightarrow> Handler_call \<Rightarrow> handler_reply" where
  "answers mk c =
     (case legacy_call c of
        Some (cf, c1, msg) \<Rightarrow> H_status (if cf = 0 then Status_OK else invalid_argument mk msg)
      | None \<Rightarrow> H_void)"

lemma legacy_call_once: "legacy_call c = Some (cf, c1, msg) \<Longrightarrow> legacy_call c1 = None"
  by (cases c) (auto simp: legacy_call_def)

lemma Handler_plain_object:
  "legacy_call c = None \<Longrightarrow> Handler_object mk elsewhere over c = Handler_plain mk elsewhere over c"
  by (auto simp: Handler_object_def Handler_plain_def split: option.splits)

lemma old_handler_step:
  assumes "over c = None" "legacy_call c = Some (cf, c1, msg)"
  shows "Handler_object mk elsewhere over c s =
    (answers mk c, if cf = 0 then snd (Handler_object mk elsewhere over c1 s) else s)"
  using assms Handler_plain_object [OF legacy_call_once [OF assms(2)], of mk elsewhere over]
  by (simp add: Handler_object_def answers_def case_prod_beta Let_def)

section \<open>Properties\<close>

text \<open>
  The overloads of a batch for the default column family: on every batch that does not override
  them, a sequence of updates is the same sequence with a null column family given, and
  \<open>SetMaxBytes\<close> and \<open>GetWriteBatch\<close> leave the contents as they are.
\<close>

theorem batch_overloads_use_null_column_family:
  assumes "\<forall>c \<in> set cs. over c = None \<or> batch_default c = None"
  shows "run_calls (WriteBatch_object elsewhere self over) (map with_cf cs) b =
      run_calls (WriteBatch_object elsewhere self over) cs b \<and>
    batch_default (with_cf c) = None \<and>
    (over (WB_SetMaxBytes n) = None \<longrightarrow>
      wb_Data (snd (WriteBatch_object elsewhere self over (WB_SetMaxBytes n) b)) = wb_Data b)"
proof (intro conjI impI)
  show "run_calls (WriteBatch_object elsewhere self over) (map with_cf cs) b =
      run_calls (WriteBatch_object elsewhere self over) cs b"
    using id_forwarding_run_on [OF batch_overloads.forwarding_axioms assms, of elsewhere self b]
    by (simp add: run_calls_map)
  show "batch_default (with_cf c) = None"
    using batch_default_once by (auto simp: with_cf_def split: option.splits)
  show "wb_Data (snd (WriteBatch_object elsewhere self over (WB_SetMaxBytes n) b)) = wb_Data b"
    if "over (WB_SetMaxBytes n) = None"
    using that by (simp add: WriteBatch_object_def batch_default_def WriteBatch_own_def wb_Data_def)
qed

definition log_deletes :: "WriteBatch_call \<Rightarrow> WriteBatch \<Rightarrow> batch_reply \<times> WriteBatch" where
  "log_deletes c b = (B_void, b\<lparr>wb_rep := wb_rep b @ (if c = WB_Delete None Slice_empty then ''d'' else ''?'')\<rparr>)"

theorem batch_overloads_use_null_column_family_witness:
  "wb_rep (snd (run_calls (WriteBatch_object log_deletes (Some 1) (\<lambda>c. None))
     [WB_Delete_default Slice_empty, WB_Clear] \<lparr>wb_save_points = None, wb_wal_term_point = SavePoint_default,
       wb_is_latest_persistent_state = False, wb_needs_in_place_update_ts = False, wb_has_key_with_ts = False,
       wb_content_flags = 0, wb_max_bytes = 0, wb_prot_info = None, wb_default_cf_ts_sz = 0, wb_rep = []\<rparr>)) =
   ''d?''"
  using batch_overloads_use_null_column_family [of "[WB_Delete_default Slice_empty, WB_Clear]" "\<lambda>c. None"
      log_deletes "Some 1"]
  by (simp add: with_cf_def batch_default_def WriteBatch_object_def WriteBatch_own_def WriteBatch_plain_def log_deletes_def)


definition put_recorder :: "Handler_call \<Rightarrow> (Slice list \<Rightarrow> handler_reply \<times> Slice list) option" where
  "put_recorder c = (case c of H_Put k v \<Rightarrow> Some (\<lambda>s. (H_void, s @ [k])) | _ \<Rightarrow> None)"


end
