(* ===== verification/IndexedBatchModel.thy ===== *)
theory IndexedBatchModel
  imports WriteBatchModel
begin

text \<open>
  include/rocksdb/utilities/write_batch_with_index.h: the batch of updates with an index over its
  keys, its overrides of \<open>WriteBatchBase\<close> that are inline, and the overloads of its reads; and
  \<open>BatchResult\<close> of include/rocksdb/transaction_log.h. The functions that are only declared are
  defined in the library (\<open>elsewhere\<close>).
\<close>

section \<open>Entries\<close>

datatype WriteType =
    kPutRecord | kMergeRecord | kDeleteRecord | kSingleDeleteRecord | kDeleteRangeRecord | kLogDataRecord
  | kXIDRecord | kPutEntityRecord | kUnknownRecord

record WriteEntry =
  we_type :: WriteType
  we_key :: Slice
  we_value :: Slice

definition WriteEntry_default :: WriteEntry where
  "WriteEntry_default = \<lparr>we_type = kUnknownRecord, we_key = Slice_empty, we_value = Slice_empty\<rparr>"

section \<open>Updates\<close>

text \<open>
  The functions that only report. An empty list of attribute groups is an invalid argument; every
  other call of these is not supported.
\<close>

definition indexed_rejection :: "msg_ctor \<Rightarrow> WriteBatch_call \<Rightarrow> Status option" where
  "indexed_rejection mk c =
     (case c of
        WB_TimedPut cf k v t \<Rightarrow> Some (not_supported mk ''TimedPut not supported by WriteBatchWithIndex'')
      | WB_PutEntity_groups k groups \<Rightarrow>
          Some (if groups = [] then
                  invalid_argument mk ''Cannot call this method without attribute groups''
                else not_supported mk ''PutEntity with AttributeGroups not supported by WriteBatchWithIndex'')
      | WB_Merge_ts cf k ts v \<Rightarrow> Some (not_supported mk ''Merge does not support user-defined timestamp'')
      | WB_DeleteRange cf b e \<Rightarrow> Some (not_supported mk ''DeleteRange unsupported in WriteBatchWithIndex'')
      | WB_DeleteRange_default b e \<Rightarrow> Some (not_supported mk ''DeleteRange unsupported in WriteBatchWithIndex'')
      | WB_DeleteRange_ts cf b e ts \<Rightarrow> Some (not_supported mk ''DeleteRange unsupported in WriteBatchWithIndex'')
      | _ \<Rightarrow> None)"

definition WriteBatchWithIndex_object ::
    "msg_ctor \<Rightarrow> (WriteBatch_call \<Rightarrow> 's \<Rightarrow> batch_reply \<times> 's) \<Rightarrow>
     (WriteBatch_call \<Rightarrow> ('s \<Rightarrow> batch_reply \<times> 's) option) \<Rightarrow> WriteBatch_call \<Rightarrow> 's \<Rightarrow> batch_reply \<times> 's" where
  "WriteBatchWithIndex_object mk elsewhere over c s =
     (case over c of
        Some f \<Rightarrow> f s
      | None \<Rightarrow> (case indexed_rejection mk c of
                  Some e \<Rightarrow> (B_status e, s)
                | None \<Rightarrow> elsewhere c s))"

section \<open>Reads\<close>

text \<open>
  \<open>GetFromBatch\<close> of a column family, and the two reads with a \<open>ReadCallback\<close>, are private or declared
  only (the first three arguments); the overloads pass a null column family or callback.
\<close>

definition GetFromBatch_default ::
    "(pointer_handle \<Rightarrow> 'o \<Rightarrow> Slice \<Rightarrow> 's \<Rightarrow> (Status \<times> string) \<times> 's) \<Rightarrow> 'o \<Rightarrow> Slice \<Rightarrow> 's \<Rightarrow> (Status \<times> string) \<times> 's" where
  "GetFromBatch_default GetFromBatch options k s = GetFromBatch None options k s"

definition GetEntityFromBatchAndDB ::
    "('db \<Rightarrow> 'ro \<Rightarrow> pointer_handle \<Rightarrow> Slice \<Rightarrow> pointer_handle \<Rightarrow> 's \<Rightarrow> (Status \<times> 'c) \<times> 's) \<Rightarrow>
     'db \<Rightarrow> 'ro \<Rightarrow> pointer_handle \<Rightarrow> Slice \<Rightarrow> 's \<Rightarrow> (Status \<times> 'c) \<times> 's" where
  "GetEntityFromBatchAndDB with_callback db ro cf k s = with_callback db ro cf k None s"

definition MultiGetEntityFromBatchAndDB ::
    "('db \<Rightarrow> 'ro \<Rightarrow> pointer_handle \<Rightarrow> Slice list \<Rightarrow> bool \<Rightarrow> pointer_handle \<Rightarrow> 's \<Rightarrow> (Status list \<times> 'c list) \<times> 's) \<Rightarrow>
     'db \<Rightarrow> 'ro \<Rightarrow> pointer_handle \<Rightarrow> Slice list \<Rightarrow> bool \<Rightarrow> 's \<Rightarrow> (Status list \<times> 'c list) \<times> 's" where
  "MultiGetEntityFromBatchAndDB with_callback db ro cf ks sorted_input s = with_callback db ro cf ks sorted_input None s"

section \<open>Batches of the write-ahead log\<close>

datatype WalFileType = kArchivedLogFile | kAliveLogFile

text \<open>\<open>writeBatchPtr\<close> owns its batch: moving it leaves the source null and drops what the target owned.\<close>

record BatchResult =
  br_sequence :: uint64
  writeBatchPtr :: pointer_handle

definition BatchResult_default :: BatchResult where
  "BatchResult_default = \<lparr>br_sequence = 0, writeBatchPtr = None\<rparr>"

definition BatchResult_move :: "BatchResult \<Rightarrow> BatchResult \<times> BatchResult" where
  "BatchResult_move b = (\<lparr>br_sequence = br_sequence b, writeBatchPtr = writeBatchPtr b\<rparr>, b\<lparr>writeBatchPtr := None\<rparr>)"

text \<open>The new target, the source, and the batch that is deleted.\<close>

definition BatchResult_move_assign :: "BatchResult \<Rightarrow> BatchResult \<Rightarrow> BatchResult \<times> BatchResult \<times> pointer_handle" where
  "BatchResult_move_assign this b =
     (this\<lparr>br_sequence := br_sequence b, writeBatchPtr := writeBatchPtr b\<rparr>, b\<lparr>writeBatchPtr := None\<rparr>,
      writeBatchPtr this)"

definition verify_checksums_default :: bool where
  "verify_checksums_default = True"

section \<open>Sequences of updates\<close>

definition rejected :: "WriteBatch_call \<Rightarrow> bool" where
  "rejected c \<longleftrightarrow> indexed_rejection plain_ctor c \<noteq> None"

lemma rejected_iff: "rejected c \<longleftrightarrow> indexed_rejection mk c \<noteq> None"
  by (cases c) (simp_all add: rejected_def indexed_rejection_def)

text \<open>What the caller of each update is told, given the replies to the updates that are carried out.\<close>

fun merge_replies :: "msg_ctor \<Rightarrow> WriteBatch_call list \<Rightarrow> batch_reply list \<Rightarrow> batch_reply list" where
  "merge_replies mk [] rs = []"
| "merge_replies mk (c # cs) rs =
     (case indexed_rejection mk c of
        Some e \<Rightarrow> B_status e # merge_replies mk cs rs
      | None \<Rightarrow> (case rs of [] \<Rightarrow> [] | r # rs1 \<Rightarrow> r # merge_replies mk cs rs1))"

lemma indexed_rejects:
  assumes "\<forall>c. rejected c \<longrightarrow> over c = None" "indexed_rejection mk c = Some e"
  shows "WriteBatchWithIndex_object mk elsewhere over c s = (B_status e, s)"
  using assms rejected_iff [of c mk] by (simp add: WriteBatchWithIndex_object_def)

lemma rejection_codes:
  assumes "message_constructor mk" "indexed_rejection mk c = Some e"
  shows "\<not> status_ok e"
  using assms message_constructor.factory_not_ok [OF assms(1)]
  by (cases c) (auto simp: indexed_rejection_def not_supported_def invalid_argument_def
      NotSupported_msg_def InvalidArgument_msg_def split: if_splits)

lemma indexed_batch_run:
  assumes "\<forall>c. rejected c \<longrightarrow> over c = None"
  shows "run_calls (WriteBatchWithIndex_object mk elsewhere over) cs s =
    (let (rs, s1) = run_calls (WriteBatchWithIndex_object mk elsewhere over) (filter (\<lambda>c. \<not> rejected c) cs) s in
     (merge_replies mk cs rs, s1))"
proof (induction cs arbitrary: s)
  case (Cons c cs)
  show ?case
  proof (cases "indexed_rejection mk c")
    case None
    then show ?thesis using Cons.IH rejected_iff [of c mk]
      by (simp add: case_prod_beta Let_def)
  next
    case (Some e)
    then show ?thesis using Cons.IH [of s] rejected_iff [of c mk] indexed_rejects [OF assms Some]
      by (simp add: case_prod_beta Let_def)
  qed
qed simp

section \<open>Properties\<close>


definition put_logger :: "WriteBatch_call \<Rightarrow> WriteBatch_call list \<Rightarrow> batch_reply \<times> WriteBatch_call list" where
  "put_logger c s = (B_status Status_OK, s @ [c])"


end
