(* ===== verification/CacheModel.thy ===== *)
theory CacheModel
  imports OptionRecords Forwarding
begin

text \<open>
  include/rocksdb/advanced_cache.h and include/rocksdb/secondary_cache.h: the item helpers that
  describe the entries of a cache, the interface of caches with the defaults of the base class, and
  the wrappers of caches and of secondary caches. Objects, handles and callbacks are handles.
\<close>

section \<open>Item helpers\<close>

text \<open>
  \<open>without_secondary_compat\<close> points to the helper itself (None) or to another helper. Callbacks are
  function pointers.
\<close>

datatype CacheItemHelper = CacheItemHelper
  (del_cb: pointer_handle) (size_cb: pointer_handle) (saveto_cb: pointer_handle)
  (create_cb: pointer_handle) (helper_role: CacheEntryRole) (helper_without: "CacheItemHelper option")

definition without_secondary_compat :: "CacheItemHelper \<Rightarrow> CacheItemHelper" where
  "without_secondary_compat h = (case helper_without h of None \<Rightarrow> h | Some w \<Rightarrow> w)"

definition IsSecondaryCacheCompatible :: "CacheItemHelper \<Rightarrow> bool" where
  "IsSecondaryCacheCompatible h \<longleftrightarrow> size_cb h \<noteq> None"

text \<open>The constructors; None when an assertion fails.\<close>

definition CacheItemHelper_full ::
    "CacheEntryRole \<Rightarrow> pointer_handle \<Rightarrow> pointer_handle \<Rightarrow> pointer_handle \<Rightarrow> pointer_handle \<Rightarrow>
     CacheItemHelper option \<Rightarrow> CacheItemHelper option" where
  "CacheItemHelper_full role del sz saveto create without =
     (let h = CacheItemHelper del sz saveto create role without; w = without_secondary_compat h in
      do {
        asserting ((size_cb h \<noteq> None) = (saveto_cb h \<noteq> None)) ();
        asserting ((size_cb h \<noteq> None) = (create_cb h \<noteq> None)) ();
        asserting (helper_role h = helper_role w) ();
        asserting (del_cb h = del_cb w) ();
        asserting (\<not> IsSecondaryCacheCompatible w) ();
        Some h
      })"

definition CacheItemHelper_basic :: "CacheEntryRole \<Rightarrow> pointer_handle \<Rightarrow> CacheItemHelper option" where
  "CacheItemHelper_basic role del = CacheItemHelper_full role del None None None None"

definition CacheItemHelper_default :: "CacheItemHelper option" where
  "CacheItemHelper_default = CacheItemHelper_basic kMisc None"

section \<open>Caches\<close>

datatype CacheTier = kVolatileTier | kVolatileCompressedTier | kNonVolatileBlockTier

datatype Cache_Priority = Priority_HIGH | Priority_LOW | Priority_BOTTOM

record AsyncLookupHandle =
  al_key :: Slice
  al_helper :: "CacheItemHelper option"
  al_create_context :: pointer_handle
  al_priority :: Cache_Priority
  al_stats :: pointer_handle
  al_result_handle :: pointer_handle
  al_pending_handle :: pointer_handle
  al_pending_cache :: pointer_handle
  al_found_dummy_entry :: bool
  al_kept_in_sec_cache :: bool

definition AsyncLookupHandle_new ::
    "Slice \<Rightarrow> CacheItemHelper option \<Rightarrow> pointer_handle \<Rightarrow> Cache_Priority \<Rightarrow> pointer_handle \<Rightarrow> AsyncLookupHandle" where
  "AsyncLookupHandle_new k helper ctx priority stats =
     \<lparr>al_key = k, al_helper = helper, al_create_context = ctx, al_priority = priority, al_stats = stats,
      al_result_handle = None, al_pending_handle = None, al_pending_cache = None,
      al_found_dummy_entry = False, al_kept_in_sec_cache = False\<rparr>"

definition AsyncLookupHandle_default :: AsyncLookupHandle where
  "AsyncLookupHandle_default = AsyncLookupHandle_new Slice_empty None None Priority_LOW None"

definition average_entries_per_lock_default :: nat where
  "average_entries_per_lock_default = 256"

datatype (plugins only: code size) Cache_call =
    CA_Insert Slice pointer_handle "CacheItemHelper option" nat bool Cache_Priority Slice CompressionType
  | CA_CreateStandalone Slice pointer_handle "CacheItemHelper option" nat bool
  | CA_Lookup Slice "CacheItemHelper option" pointer_handle Cache_Priority pointer_handle
  | CA_Ref pointer_handle | CA_Release pointer_handle bool | CA_Value pointer_handle | CA_Erase Slice
  | CA_NewId | CA_SetCapacity nat | CA_SetStrictCapacityLimit bool | CA_HasStrictCapacityLimit
  | CA_GetOccupancyCount | CA_GetTableAddressCount | CA_GetCapacity | CA_GetUsage
  | CA_GetUsage_handle pointer_handle | CA_GetPinnedUsage | CA_GetCharge pointer_handle
  | CA_GetCacheItemHelper pointer_handle | CA_ApplyToAllEntries pointer_handle nat
  | CA_EraseUnRefEntries | CA_StartAsyncLookup AsyncLookupHandle
  | CA_WaitAll "AsyncLookupHandle list" | CA_GetHashSeed | CA_ReportProblems pointer_handle
  | CA_Release_useful pointer_handle bool bool | CA_Name | CA_GetSecondaryCacheCapacity
  | CA_GetSecondaryCachePinnedUsage | CA_DisownData | CA_GetPrintableOptions

text \<open>The outputs \<open>'v\<close> are those the base class does not produce.\<close>

datatype 'v cache_reply =
    C_void | C_status Status | C_number uint64 | C_text string | C_value 'v | C_pure_virtual

text \<open>\<open>SIZE_MAX\<close> is the largest \<open>size_t\<close>. \<open>elsewhere\<close> is what the library defines.\<close>

definition Cache_own :: "(Cache_call \<Rightarrow> 's \<Rightarrow> 'v cache_reply \<times> 's) \<Rightarrow> Cache_call \<Rightarrow> 's \<Rightarrow> 'v cache_reply \<times> 's" where
  "Cache_own elsewhere c s =
     (case c of
        CA_GetOccupancyCount \<Rightarrow> (C_number (- 1), s)
      | CA_GetTableAddressCount \<Rightarrow> (C_number 0, s)
      | CA_GetSecondaryCacheCapacity \<Rightarrow> (C_status (NotSupported kNone), s)
      | CA_GetSecondaryCachePinnedUsage \<Rightarrow> (C_status (NotSupported kNone), s)
      | CA_DisownData \<Rightarrow> (C_void, s)
      | CA_GetPrintableOptions \<Rightarrow> (C_text [], s)
      | CA_ReportProblems info_log \<Rightarrow> (C_void, s)
      | CA_GetHashSeed \<Rightarrow> (C_number 0, s)
      | CA_StartAsyncLookup async_handle \<Rightarrow> elsewhere c s
      | CA_WaitAll async_handles \<Rightarrow> elsewhere c s
      | _ \<Rightarrow> (C_pure_virtual, s))"

definition Cache_object ::
    "(Cache_call \<Rightarrow> 's \<Rightarrow> 'v cache_reply \<times> 's) \<Rightarrow> (Cache_call \<Rightarrow> ('s \<Rightarrow> 'v cache_reply \<times> 's) option) \<Rightarrow>
     Cache_call \<Rightarrow> 's \<Rightarrow> 'v cache_reply \<times> 's" where
  "Cache_object elsewhere over c s =
     (case over c of
        Some f \<Rightarrow> f s
      | None \<Rightarrow> (case c of
          CA_Release_useful h useful erase_if_last_ref \<Rightarrow>
            (case over (CA_Release h erase_if_last_ref) of
               Some f \<Rightarrow> f s
             | None \<Rightarrow> Cache_own elsewhere (CA_Release h erase_if_last_ref) s)
        | _ \<Rightarrow> Cache_own elsewhere c s))"

definition BasicLookup ::
    "(Cache_call \<Rightarrow> 's \<Rightarrow> 'v cache_reply \<times> 's) \<Rightarrow> Slice \<Rightarrow> pointer_handle \<Rightarrow> 's \<Rightarrow> 'v cache_reply \<times> 's" where
  "BasicLookup cache k stats s = cache (CA_Lookup k None None Priority_LOW stats) s"

record Cache_members =
  cm_memory_allocator :: pointer_handle
  cm_eviction_callback :: pointer_handle

definition Cache_new :: "pointer_handle \<Rightarrow> Cache_members" where
  "Cache_new allocator = \<lparr>cm_memory_allocator = allocator, cm_eviction_callback = None\<rparr>"

definition cache_memory_allocator :: "'e Cache_members_scheme \<Rightarrow> pointer_handle" where
  "cache_memory_allocator c = cm_memory_allocator c"

record CacheWrapper_members = Cache_members +
  cw_target :: pointer_handle

definition CacheWrapper_new :: "pointer_handle \<Rightarrow> CacheWrapper_members" where
  "CacheWrapper_new target =
     \<lparr>cm_memory_allocator = None, cm_eviction_callback = None, cw_target = target\<rparr>"

definition GetTarget :: "CacheWrapper_members \<Rightarrow> pointer_handle" where
  "GetTarget c = cw_target c"

primrec CacheWrapper ::
    "(Cache_call \<Rightarrow> 's \<Rightarrow> 'v cache_reply \<times> 's) \<Rightarrow> Cache_call \<Rightarrow> ('s \<Rightarrow> 'v cache_reply \<times> 's) option" where
  "CacheWrapper target (CA_Insert k obj helper charge want_handle priority compressed typ) = Some (target (CA_Insert k obj helper charge want_handle priority compressed typ))"
| "CacheWrapper target (CA_CreateStandalone k obj helper charge allow_uncharged) = Some (target (CA_CreateStandalone k obj helper charge allow_uncharged))"
| "CacheWrapper target (CA_Lookup k helper ctx priority stats) = Some (target (CA_Lookup k helper ctx priority stats))"
| "CacheWrapper target (CA_Ref h) = Some (target (CA_Ref h))"
| "CacheWrapper target (CA_Release h erase_if_last_ref) = Some (target (CA_Release h erase_if_last_ref))"
| "CacheWrapper target (CA_Value h) = Some (target (CA_Value h))"
| "CacheWrapper target (CA_Erase k) = Some (target (CA_Erase k))"
| "CacheWrapper target CA_NewId = Some (target CA_NewId)"
| "CacheWrapper target (CA_SetCapacity capacity) = Some (target (CA_SetCapacity capacity))"
| "CacheWrapper target (CA_SetStrictCapacityLimit strict) = Some (target (CA_SetStrictCapacityLimit strict))"
| "CacheWrapper target CA_HasStrictCapacityLimit = Some (target CA_HasStrictCapacityLimit)"
| "CacheWrapper target CA_GetOccupancyCount = Some (target CA_GetOccupancyCount)"
| "CacheWrapper target CA_GetTableAddressCount = Some (target CA_GetTableAddressCount)"
| "CacheWrapper target CA_GetCapacity = Some (target CA_GetCapacity)"
| "CacheWrapper target CA_GetUsage = Some (target CA_GetUsage)"
| "CacheWrapper target (CA_GetUsage_handle h) = Some (target (CA_GetUsage_handle h))"
| "CacheWrapper target CA_GetPinnedUsage = Some (target CA_GetPinnedUsage)"
| "CacheWrapper target (CA_GetCharge h) = Some (target (CA_GetCharge h))"
| "CacheWrapper target (CA_GetCacheItemHelper h) = Some (target (CA_GetCacheItemHelper h))"
| "CacheWrapper target (CA_ApplyToAllEntries callback opts) = Some (target (CA_ApplyToAllEntries callback opts))"
| "CacheWrapper target CA_EraseUnRefEntries = Some (target CA_EraseUnRefEntries)"
| "CacheWrapper target (CA_StartAsyncLookup async_handle) = Some (target (CA_StartAsyncLookup async_handle))"
| "CacheWrapper target (CA_WaitAll async_handles) = Some (target (CA_WaitAll async_handles))"
| "CacheWrapper target CA_GetHashSeed = Some (target CA_GetHashSeed)"
| "CacheWrapper target (CA_ReportProblems info_log) = Some (target (CA_ReportProblems info_log))"
| "CacheWrapper target (CA_Release_useful h useful erase_if_last_ref) = None"
| "CacheWrapper target CA_Name = None"
| "CacheWrapper target CA_GetSecondaryCacheCapacity = None"
| "CacheWrapper target CA_GetSecondaryCachePinnedUsage = None"
| "CacheWrapper target CA_DisownData = None"
| "CacheWrapper target CA_GetPrintableOptions = None"

section \<open>Secondary caches\<close>

datatype (plugins only: code size) SecondaryCache_call =
    SC_Insert Slice pointer_handle "CacheItemHelper option" bool
  | SC_InsertSaved Slice Slice CompressionType CacheTier
  | SC_Lookup Slice "CacheItemHelper option" pointer_handle bool bool pointer_handle
  | SC_SupportForceErase | SC_Erase Slice | SC_WaitAll "pointer_handle list" | SC_SetCapacity nat
  | SC_GetCapacity | SC_Deflate nat | SC_Inflate nat

definition SecondaryCache_object ::
    "(SecondaryCache_call \<Rightarrow> ('s \<Rightarrow> 'v cache_reply \<times> 's) option) \<Rightarrow> SecondaryCache_call \<Rightarrow> 's \<Rightarrow>
     'v cache_reply \<times> 's" where
  "SecondaryCache_object over c s =
     (case over c of
        Some f \<Rightarrow> f s
      | None \<Rightarrow> (case c of
          SC_SetCapacity capacity \<Rightarrow> (C_status (NotSupported kNone), s)
        | SC_GetCapacity \<Rightarrow> (C_status (NotSupported kNone), s)
        | SC_Deflate decrease \<Rightarrow> (C_status (NotSupported kNone), s)
        | SC_Inflate increase \<Rightarrow> (C_status (NotSupported kNone), s)
        | _ \<Rightarrow> (C_pure_virtual, s)))"

primrec SecondaryCacheWrapper ::
    "(SecondaryCache_call \<Rightarrow> 's \<Rightarrow> 'v cache_reply \<times> 's) \<Rightarrow> SecondaryCache_call \<Rightarrow>
     ('s \<Rightarrow> 'v cache_reply \<times> 's) option" where
  "SecondaryCacheWrapper target (SC_Insert k obj helper force_insert) = Some (target (SC_Insert k obj helper force_insert))"
| "SecondaryCacheWrapper target (SC_InsertSaved k saved typ source) = Some (target (SC_InsertSaved k saved typ source))"
| "SecondaryCacheWrapper target (SC_Lookup k helper ctx wait advise_erase stats) =
     Some (target (SC_Lookup k helper ctx wait advise_erase stats))"
| "SecondaryCacheWrapper target SC_SupportForceErase = Some (target SC_SupportForceErase)"
| "SecondaryCacheWrapper target (SC_Erase k) = Some (target (SC_Erase k))"
| "SecondaryCacheWrapper target (SC_WaitAll handles) = Some (target (SC_WaitAll handles))"
| "SecondaryCacheWrapper target (SC_SetCapacity capacity) = Some (target (SC_SetCapacity capacity))"
| "SecondaryCacheWrapper target SC_GetCapacity = Some (target SC_GetCapacity)"
| "SecondaryCacheWrapper target (SC_Deflate decrease) = Some (target (SC_Deflate decrease))"
| "SecondaryCacheWrapper target (SC_Inflate increase) = Some (target (SC_Inflate increase))"

section \<open>What the wrappers forward\<close>

definition cache_forwarded :: "Cache_call \<Rightarrow> bool" where
  "cache_forwarded c \<longleftrightarrow>
     (case c of
        CA_Release_useful h useful erase_if_last_ref \<Rightarrow> False | CA_Name \<Rightarrow> False
      | CA_GetSecondaryCacheCapacity \<Rightarrow> False | CA_GetSecondaryCachePinnedUsage \<Rightarrow> False
      | CA_DisownData \<Rightarrow> False | CA_GetPrintableOptions \<Rightarrow> False | _ \<Rightarrow> True)"

lemma CacheWrapper_overrides: "CacheWrapper target c = (if cache_forwarded c then Some (target c) else None)"
  by (cases c) (simp_all add: cache_forwarded_def)

lemma SecondaryCacheWrapper_overrides: "SecondaryCacheWrapper target c = Some (target c)"
  by (cases c) simp_all

interpretation cache_wrapper: forwarding "Cache_object elsewhere (CacheWrapper target)" target id cache_forwarded
    for elsewhere target
  by unfold_locales (simp add: Cache_object_def CacheWrapper_overrides)

interpretation secondary_cache_wrapper: forwarding "SecondaryCache_object (SecondaryCacheWrapper target)" target id
    "\<lambda>c. True" for target
  by unfold_locales (simp add: SecondaryCache_object_def SecondaryCacheWrapper_overrides)

text \<open>\<open>n\<close> wrappers around a cache.\<close>

primrec wrapped_cache ::
    "(Cache_call \<Rightarrow> 's \<Rightarrow> 'v cache_reply \<times> 's) \<Rightarrow> nat \<Rightarrow> (Cache_call \<Rightarrow> 's \<Rightarrow> 'v cache_reply \<times> 's) \<Rightarrow>
     Cache_call \<Rightarrow> 's \<Rightarrow> 'v cache_reply \<times> 's" where
  "wrapped_cache elsewhere 0 target = target"
| "wrapped_cache elsewhere (Suc n) target = Cache_object elsewhere (CacheWrapper (wrapped_cache elsewhere n target))"

lemma wrapped_cache_run:
  assumes "\<forall>c \<in> set cs. cache_forwarded c"
  shows "run_calls (wrapped_cache elsewhere n target) cs s = run_calls target cs s"
proof (induction n)
  case (Suc n)
  have "run_calls (wrapped_cache elsewhere (Suc n) target) cs s = run_calls (wrapped_cache elsewhere n target) cs s"
    unfolding wrapped_cache.simps by (rule id_forwarding_run_on [OF cache_wrapper.forwarding_axioms assms])
  with Suc show ?case by simp
qed simp

section \<open>Well-formed helpers\<close>

text \<open>The helpers a program can construct.\<close>

inductive constructed_helper :: "CacheItemHelper \<Rightarrow> bool" where
  basic: "CacheItemHelper_basic role del = Some h \<Longrightarrow> constructed_helper h"
| full: "constructed_helper w \<Longrightarrow> CacheItemHelper_full role del sz saveto create (Some w) = Some h \<Longrightarrow>
    constructed_helper h"

definition helper_ok :: "CacheItemHelper \<Rightarrow> bool" where
  "helper_ok h \<longleftrightarrow>
     (IsSecondaryCacheCompatible h = (saveto_cb h \<noteq> None)) \<and>
     (IsSecondaryCacheCompatible h = (create_cb h \<noteq> None)) \<and>
     helper_role (without_secondary_compat h) = helper_role h \<and>
     del_cb (without_secondary_compat h) = del_cb h \<and>
     \<not> IsSecondaryCacheCompatible (without_secondary_compat h)"

lemma full_ok: "CacheItemHelper_full role del sz saveto create without = Some h \<Longrightarrow> helper_ok h"
  by (auto simp: CacheItemHelper_full_def helper_ok_def IsSecondaryCacheCompatible_def Let_def bind_eq_Some_conv)

section \<open>Properties\<close>

text \<open>
  C20. The type of item helpers: every helper a program can construct has all three callbacks of the
  secondary cache or none; the helper to use without a secondary cache has the same role and deleter
  and none of them, and is constructed itself. The basic constructor never fails an assertion; the
  full one does exactly if the callbacks are mixed or the other helper does not fit.
\<close>

theorem cache_item_helper_type:
  "(constructed_helper h \<longrightarrow> helper_ok h \<and> constructed_helper (without_secondary_compat h) \<and>
      saveto_cb (without_secondary_compat h) = None \<and> create_cb (without_secondary_compat h) = None) \<and>
   CacheItemHelper_basic role del \<noteq> None \<and>
   (CacheItemHelper_full role del sz saveto create (Some w) \<noteq> None \<longleftrightarrow>
      (sz = None \<longleftrightarrow> saveto = None) \<and> (sz = None \<longleftrightarrow> create = None) \<and>
      helper_role w = role \<and> del_cb w = del \<and> \<not> IsSecondaryCacheCompatible w)"
proof (intro conjI impI)
  assume h: "constructed_helper h"
  have ok: "helper_ok g" if "constructed_helper g" for g
    using that by cases (auto simp: CacheItemHelper_basic_def dest: full_ok)
  show "helper_ok h" by (rule ok [OF h])
  have w: "constructed_helper (without_secondary_compat h)"
    using h
  proof cases
    case (basic role del)
    then have "without_secondary_compat h = h"
      by (auto simp: CacheItemHelper_basic_def CacheItemHelper_full_def without_secondary_compat_def Let_def
          bind_eq_Some_conv)
    with h show ?thesis by simp
  next
    case (full w role del sz saveto create)
    then have "without_secondary_compat h = w"
      by (auto simp: CacheItemHelper_full_def without_secondary_compat_def Let_def bind_eq_Some_conv)
    with full(1) show ?thesis by simp
  qed
  then show "constructed_helper (without_secondary_compat h)" .
  show "saveto_cb (without_secondary_compat h) = None" "create_cb (without_secondary_compat h) = None"
    using ok [OF w] ok [OF h] by (auto simp: helper_ok_def)
next
  show "CacheItemHelper_basic role del \<noteq> None"
    by (simp add: CacheItemHelper_basic_def CacheItemHelper_full_def without_secondary_compat_def
        IsSecondaryCacheCompatible_def)
  show "CacheItemHelper_full role del sz saveto create (Some w) \<noteq> None \<longleftrightarrow>
      (sz = None \<longleftrightarrow> saveto = None) \<and> (sz = None \<longleftrightarrow> create = None) \<and>
      helper_role w = role \<and> del_cb w = del \<and> \<not> IsSecondaryCacheCompatible w"
    by (auto simp: CacheItemHelper_full_def without_secondary_compat_def IsSecondaryCacheCompatible_def
        asserting_def Let_def split: if_splits)
qed

theorem cache_item_helper_type_witness:
  "\<exists>b h. CacheItemHelper_basic kDataBlock (Some 1) = Some b \<and>
     CacheItemHelper_full kDataBlock (Some 1) (Some 2) (Some 3) (Some 4) (Some b) = Some h \<and>
     constructed_helper h \<and> helper_ok h \<and> IsSecondaryCacheCompatible h"
proof -
  let ?b = "CacheItemHelper (Some 1) None None None kDataBlock None"
  let ?h = "CacheItemHelper (Some 1) (Some 2) (Some 3) (Some 4) kDataBlock (Some ?b)"
  have b: "CacheItemHelper_basic kDataBlock (Some 1) = Some ?b" by code_simp
  have h: "CacheItemHelper_full kDataBlock (Some 1) (Some 2) (Some 3) (Some 4) (Some ?b) = Some ?h" by code_simp
  have c: "constructed_helper ?h" by (rule constructed_helper.full [OF constructed_helper.basic [OF b] h])
  with cache_item_helper_type [of ?h] b h show ?thesis by (auto simp: IsSecondaryCacheCompatible_def)
qed

text \<open>
  C32. Caches behind any number of wrappers, and a secondary cache behind its wrapper, behave as the
  cache itself on every sequence of forwarded calls. Releasing with the usefulness flag loses the
  flag at the first wrapper; \<open>GetSecondaryCacheCapacity\<close>, \<open>GetSecondaryCachePinnedUsage\<close>,
  \<open>GetPrintableOptions\<close> and \<open>DisownData\<close> never reach the wrapped cache, and the wrapper has no memory
  allocator, whatever the wrapped cache has.
\<close>

theorem cache_wrapper_transparent:
  "((\<forall>c \<in> set cs. cache_forwarded c) \<longrightarrow> run_calls (wrapped_cache elsewhere n target) cs s = run_calls target cs s) \<and>
   run_calls (SecondaryCache_object (SecondaryCacheWrapper sec)) scs s2 = run_calls sec scs s2 \<and>
   wrapped_cache elsewhere (Suc n) target (CA_Release_useful h useful erase_if_last_ref) s =
     target (CA_Release h erase_if_last_ref) s \<and>
   run_calls (wrapped_cache elsewhere (Suc n) target)
     [CA_GetSecondaryCacheCapacity, CA_GetSecondaryCachePinnedUsage, CA_GetPrintableOptions, CA_DisownData] s =
     ([C_status (NotSupported kNone), C_status (NotSupported kNone), C_text [], C_void], s) \<and>
   cache_memory_allocator (CacheWrapper_new target_address) = None"
proof (intro conjI impI)
  show "run_calls (wrapped_cache elsewhere n target) cs s = run_calls target cs s" if "\<forall>c \<in> set cs. cache_forwarded c"
    by (rule wrapped_cache_run [OF that])
  show "run_calls (SecondaryCache_object (SecondaryCacheWrapper sec)) scs s2 = run_calls sec scs s2"
    by (rule id_forwarding_run [OF secondary_cache_wrapper.forwarding_axioms])
  have "wrapped_cache elsewhere n target (CA_Release h erase_if_last_ref) s = target (CA_Release h erase_if_last_ref) s"
    using wrapped_cache_run [of "[CA_Release h erase_if_last_ref]" elsewhere n target s]
    by (simp add: cache_forwarded_def split: prod.splits)
  then show "wrapped_cache elsewhere (Suc n) target (CA_Release_useful h useful erase_if_last_ref) s =
      target (CA_Release h erase_if_last_ref) s"
    by (simp add: Cache_object_def)
qed (simp_all add: Cache_object_def Cache_own_def cache_memory_allocator_def CacheWrapper_new_def)

theorem cache_wrapper_transparent_witness:
  "run_calls (wrapped_cache (\<lambda>c s. (C_void, s)) 3 (\<lambda>c n. (C_value n, n + 1)))
     [CA_Ref None, CA_Erase Slice_empty, CA_GetUsage] (0 :: nat) = ([C_value 0, C_value 1, C_value 2], 3)"
proof -
  let ?cs = "[CA_Ref None, CA_Erase Slice_empty, CA_GetUsage]"
  have eq: "run_calls (wrapped_cache (\<lambda>c s. (C_void, s)) 3 (\<lambda>c n. (C_value n, n + 1))) ?cs (0 :: nat) =
      run_calls (\<lambda>c n. (C_value n, n + 1)) ?cs 0"
    by (rule cache_wrapper_transparent [THEN conjunct1, THEN mp]) (simp add: cache_forwarded_def)
  show ?thesis unfolding eq by simp
qed

end
