(* ===== verification/CacheOptionsModel.thy ===== *)
theory CacheOptionsModel
  imports Complex_Main CacheModel
begin

text \<open>
  The options of caches (include/rocksdb/cache.h), of table formats (include/rocksdb/table.h) and of
  the allocator of include/rocksdb/memory_allocator.h, with their initialisers, constructors and
  factory functions. The structs that derive from another are record extensions. A double is the
  rational number its literal denotes. Shared pointers are handles; making a cache is in the library.
\<close>

section \<open>Sharded caches\<close>

datatype CacheMetadataChargePolicy = kDontChargeCacheMetadata | kFullChargeCacheMetadata

definition kDefaultCacheMetadataChargePolicy :: CacheMetadataChargePolicy where
  "kDefaultCacheMetadataChargePolicy = kFullChargeCacheMetadata"

definition kQuasiRandomHashSeed :: int where "kQuasiRandomHashSeed = - 1"
definition kHostHashSeed :: int where "kHostHashSeed = - 2"

record ShardedCacheOptions =
  cache_capacity :: nat
  num_shard_bits :: int
  strict_capacity_limit :: bool
  memory_allocator :: pointer_handle
  metadata_charge_policy :: CacheMetadataChargePolicy
  secondary_cache :: pointer_handle
  hash_seed :: int

definition ShardedCacheOptions_default :: ShardedCacheOptions where
  "ShardedCacheOptions_default = \<lparr>cache_capacity = 0, num_shard_bits = - 1, strict_capacity_limit = False,
     memory_allocator = None, metadata_charge_policy = kDefaultCacheMetadataChargePolicy,
     secondary_cache = None, hash_seed = kHostHashSeed\<rparr>"

definition ShardedCacheOptions_new ::
    "nat \<Rightarrow> int \<Rightarrow> bool \<Rightarrow> pointer_handle \<Rightarrow> CacheMetadataChargePolicy \<Rightarrow> ShardedCacheOptions" where
  "ShardedCacheOptions_new cap bits strict alloc policy =
     \<lparr>cache_capacity = cap, num_shard_bits = bits, strict_capacity_limit = strict, memory_allocator = alloc,
      metadata_charge_policy = policy, secondary_cache = None, hash_seed = kHostHashSeed\<rparr>"

section \<open>LRU caches\<close>

text \<open>\<open>kDefaultToAdaptiveMutex\<close> is defined in the library: the argument \<open>adaptive\<close>.\<close>

record LRUCacheOptions = ShardedCacheOptions +
  high_pri_pool_ratio :: rat
  low_pri_pool_ratio :: rat
  use_adaptive_mutex :: bool

definition LRUCacheOptions_default :: "bool \<Rightarrow> LRUCacheOptions" where
  "LRUCacheOptions_default adaptive = ShardedCacheOptions.extend ShardedCacheOptions_default
     (LRUCacheOptions.fields (1 / 2) 0 adaptive)"

definition LRUCacheOptions_new ::
    "nat \<Rightarrow> int \<Rightarrow> bool \<Rightarrow> rat \<Rightarrow> pointer_handle \<Rightarrow> bool \<Rightarrow> CacheMetadataChargePolicy \<Rightarrow> rat \<Rightarrow> LRUCacheOptions" where
  "LRUCacheOptions_new cap bits strict high alloc mutex policy low =
     ShardedCacheOptions.extend (ShardedCacheOptions_new cap bits strict alloc policy)
       (LRUCacheOptions.fields high low mutex)"

text \<open>The default arguments of the constructor and of the factory function.\<close>

definition LRUCacheOptions_defaulted :: "bool \<Rightarrow> nat \<Rightarrow> int \<Rightarrow> bool \<Rightarrow> rat \<Rightarrow> LRUCacheOptions" where
  "LRUCacheOptions_defaulted adaptive cap bits strict high =
     LRUCacheOptions_new cap bits strict high None adaptive kDefaultCacheMetadataChargePolicy 0"

definition NewLRUCache ::
    "(LRUCacheOptions \<Rightarrow> 'c) \<Rightarrow> nat \<Rightarrow> int \<Rightarrow> bool \<Rightarrow> rat \<Rightarrow> pointer_handle \<Rightarrow> bool \<Rightarrow> CacheMetadataChargePolicy \<Rightarrow> rat \<Rightarrow> 'c" where
  "NewLRUCache MakeSharedCache cap bits strict high alloc mutex policy low =
     MakeSharedCache (LRUCacheOptions_new cap bits strict high alloc mutex policy low)"

definition NewLRUCache_capacity :: "(LRUCacheOptions \<Rightarrow> 'c) \<Rightarrow> bool \<Rightarrow> nat \<Rightarrow> 'c" where
  "NewLRUCache_capacity MakeSharedCache adaptive cap =
     NewLRUCache MakeSharedCache cap (- 1) False (1 / 2) None adaptive kDefaultCacheMetadataChargePolicy 0"

definition NewLRUCache_opts :: "(LRUCacheOptions \<Rightarrow> 'c) \<Rightarrow> LRUCacheOptions \<Rightarrow> 'c" where
  "NewLRUCache_opts MakeSharedCache opts = MakeSharedCache opts"

section \<open>Compressed secondary caches\<close>

text \<open>The set of roles is a word whose bits are enumerators; its initialiser has one element.\<close>

definition filter_block_only :: enum_state where
  "filter_block_only = EnumSet_empty OR push_bit (nat (CacheEntryRole_val kFilterBlock)) 1"

record CompressedSecondaryCacheOptions = LRUCacheOptions +
  cs_compression_type :: CompressionType
  cs_compression_opts :: CompressionOptions
  compress_format_version :: uint32
  enable_custom_split_merge :: bool
  do_not_compress_roles :: enum_state

definition CompressedSecondaryCacheOptions_default :: "bool \<Rightarrow> CompressedSecondaryCacheOptions" where
  "CompressedSecondaryCacheOptions_default adaptive = LRUCacheOptions.extend (LRUCacheOptions_default adaptive)
     (CompressedSecondaryCacheOptions.fields kLZ4Compression CompressionOptions_default 2 False filter_block_only)"

definition CompressedSecondaryCacheOptions_new ::
    "nat \<Rightarrow> int \<Rightarrow> bool \<Rightarrow> rat \<Rightarrow> rat \<Rightarrow> pointer_handle \<Rightarrow> bool \<Rightarrow> CacheMetadataChargePolicy \<Rightarrow> CompressionType \<Rightarrow>
     uint32 \<Rightarrow> bool \<Rightarrow> enum_state \<Rightarrow> CompressedSecondaryCacheOptions" where
  "CompressedSecondaryCacheOptions_new cap bits strict high low alloc mutex policy ctype version split roles =
     LRUCacheOptions.extend (LRUCacheOptions_new cap bits strict high alloc mutex policy low)
       (CompressedSecondaryCacheOptions.fields ctype CompressionOptions_default version split roles)"

definition NewCompressedSecondaryCache ::
    "(CompressedSecondaryCacheOptions \<Rightarrow> 'c) \<Rightarrow> nat \<Rightarrow> int \<Rightarrow> bool \<Rightarrow> rat \<Rightarrow> rat \<Rightarrow> pointer_handle \<Rightarrow> bool \<Rightarrow>
     CacheMetadataChargePolicy \<Rightarrow> CompressionType \<Rightarrow> uint32 \<Rightarrow> bool \<Rightarrow> enum_state \<Rightarrow> 'c" where
  "NewCompressedSecondaryCache MakeSharedSecondaryCache cap bits strict high low alloc mutex policy ctype version split roles =
     MakeSharedSecondaryCache
       (CompressedSecondaryCacheOptions_new cap bits strict high low alloc mutex policy ctype version split roles)"

definition NewCompressedSecondaryCache_capacity ::
    "(CompressedSecondaryCacheOptions \<Rightarrow> 'c) \<Rightarrow> bool \<Rightarrow> nat \<Rightarrow> 'c" where
  "NewCompressedSecondaryCache_capacity MakeSharedSecondaryCache adaptive cap =
     NewCompressedSecondaryCache MakeSharedSecondaryCache cap (- 1) False (1 / 2) 0 None adaptive
       kDefaultCacheMetadataChargePolicy kLZ4Compression 2 False filter_block_only"

definition NewCompressedSecondaryCache_opts ::
    "(CompressedSecondaryCacheOptions \<Rightarrow> 'c) \<Rightarrow> CompressedSecondaryCacheOptions \<Rightarrow> 'c" where
  "NewCompressedSecondaryCache_opts MakeSharedSecondaryCache opts = MakeSharedSecondaryCache opts"

section \<open>Clock caches and tiered caches\<close>

record HyperClockCacheOptions = ShardedCacheOptions +
  estimated_entry_charge :: nat
  min_avg_entry_charge :: nat
  eviction_effort_cap :: int

definition HyperClockCacheOptions_new ::
    "nat \<Rightarrow> nat \<Rightarrow> int \<Rightarrow> bool \<Rightarrow> pointer_handle \<Rightarrow> CacheMetadataChargePolicy \<Rightarrow> HyperClockCacheOptions" where
  "HyperClockCacheOptions_new cap charge bits strict alloc policy =
     ShardedCacheOptions.extend (ShardedCacheOptions_new cap bits strict alloc policy)
       (HyperClockCacheOptions.fields charge 450 30)"

definition HyperClockCacheOptions_defaulted :: "nat \<Rightarrow> nat \<Rightarrow> HyperClockCacheOptions" where
  "HyperClockCacheOptions_defaulted cap charge =
     HyperClockCacheOptions_new cap charge (- 1) False None kDefaultCacheMetadataChargePolicy"

datatype PrimaryCacheType = kCacheTypeLRU | kCacheTypeHCC | kCacheTypeMax

datatype TieredAdmissionPolicy =
    kAdmPolicyAuto | kAdmPolicyPlaceholder | kAdmPolicyAllowCacheHits | kAdmPolicyThreeQueue
  | kAdmPolicyAllowAll | kAdmPolicyMax

record TieredCacheOptions =
  tc_cache_opts :: pointer_handle
  tc_cache_type :: PrimaryCacheType
  tc_adm_policy :: TieredAdmissionPolicy
  tc_comp_cache_opts :: CompressedSecondaryCacheOptions
  tc_total_capacity :: nat
  tc_compressed_secondary_ratio :: rat
  tc_nvm_sec_cache :: pointer_handle

definition TieredCacheOptions_default :: "bool \<Rightarrow> TieredCacheOptions" where
  "TieredCacheOptions_default adaptive = \<lparr>tc_cache_opts = None, tc_cache_type = kCacheTypeLRU,
     tc_adm_policy = kAdmPolicyAuto, tc_comp_cache_opts = CompressedSecondaryCacheOptions_default adaptive,
     tc_total_capacity = 0, tc_compressed_secondary_ratio = 0, tc_nvm_sec_cache = None\<rparr>"

section \<open>Allocators\<close>

definition UsableSize_default :: "pointer_handle \<Rightarrow> nat \<Rightarrow> nat" where
  "UsableSize_default p allocation_size = allocation_size"

record JemallocAllocatorOptions =
  limit_tcache_size :: bool
  tcache_size_lower_bound :: nat
  tcache_size_upper_bound :: nat
  num_arenas :: nat

definition JemallocAllocatorOptions_default :: JemallocAllocatorOptions where
  "JemallocAllocatorOptions_default = \<lparr>limit_tcache_size = False, tcache_size_lower_bound = 1024,
     tcache_size_upper_bound = 16 * 1024, num_arenas = 1\<rparr>"

section \<open>Table formats\<close>

datatype ChecksumType = kNoChecksum | kCRC32c | kxxHash | kxxHash64 | kXXH3

datatype PinningTier = PT_kFallback | PT_kNone | kFlushedAndSimilar | PT_kAll

record MetadataCacheOptions =
  top_level_index_pinning :: PinningTier
  partition_pinning :: PinningTier
  unpartitioned_pinning :: PinningTier

definition MetadataCacheOptions_default :: MetadataCacheOptions where
  "MetadataCacheOptions_default = \<lparr>top_level_index_pinning = PT_kFallback, partition_pinning = PT_kFallback,
     unpartitioned_pinning = PT_kFallback\<rparr>"

datatype ChargeDecision = Decision_kEnabled | Decision_kDisabled | Decision_kFallback

record CacheEntryRoleOptions =
  charged :: ChargeDecision

definition CacheEntryRoleOptions_default :: CacheEntryRoleOptions where
  "CacheEntryRoleOptions_default = \<lparr>charged = Decision_kFallback\<rparr>"

definition CacheEntryRoleOptions_eq :: "CacheEntryRoleOptions \<Rightarrow> CacheEntryRoleOptions \<Rightarrow> bool" where
  "CacheEntryRoleOptions_eq this other \<longleftrightarrow> charged this = charged other"

record CacheUsageOptions =
  cu_options :: CacheEntryRoleOptions
  options_overrides :: "CacheEntryRole \<rightharpoonup> CacheEntryRoleOptions"

definition CacheUsageOptions_default :: CacheUsageOptions where
  "CacheUsageOptions_default = \<lparr>cu_options = CacheEntryRoleOptions_default, options_overrides = Map.empty\<rparr>"

datatype IndexType = kBinarySearch | kHashSearch | kTwoLevelIndexSearch | kBinarySearchWithFirstKey

datatype DataBlockIndexType = kDataBlockBinarySearch | kDataBlockBinaryAndHash

datatype IndexShorteningMode = kNoShortening | kShortenSeparators | kShortenSeparatorsAndSuccessor

datatype PrepopulateBlockCache = PBC_kDisable | PBC_kFlushOnly

record BlockBasedTableOptions =
  flush_block_policy_factory :: pointer_handle
  cache_index_and_filter_blocks :: bool
  cache_index_and_filter_blocks_with_high_priority :: bool
  pin_l0_filter_and_index_blocks_in_cache :: bool
  pin_top_level_index_and_filter :: bool
  metadata_cache_options :: MetadataCacheOptions
  index_type :: IndexType
  data_block_index_type :: DataBlockIndexType
  data_block_hash_table_util_ratio :: rat
  bbt_checksum :: ChecksumType
  no_block_cache :: bool
  block_cache :: pointer_handle
  persistent_cache :: pointer_handle
  block_size :: uint64
  block_size_deviation :: int
  block_restart_interval :: int
  index_block_restart_interval :: int
  metadata_block_size :: uint64
  cache_usage_options :: CacheUsageOptions
  partition_filters :: bool
  optimize_filters_for_memory :: bool
  use_delta_encoding :: bool
  filter_policy :: pointer_handle
  whole_key_filtering :: bool
  detect_filter_construct_corruption :: bool
  verify_compression :: bool
  read_amp_bytes_per_bit :: uint32
  format_version :: uint32
  enable_index_compression :: bool
  block_align :: bool
  index_shortening :: IndexShorteningMode
  max_auto_readahead_size :: nat
  prepopulate_block_cache :: PrepopulateBlockCache
  initial_auto_readahead_size :: nat
  num_file_reads_for_auto_readahead :: uint64

definition BlockBasedTableOptions_default :: BlockBasedTableOptions where
  "BlockBasedTableOptions_default = \<lparr>flush_block_policy_factory = None, cache_index_and_filter_blocks = False,
     cache_index_and_filter_blocks_with_high_priority = True, pin_l0_filter_and_index_blocks_in_cache = False,
     pin_top_level_index_and_filter = True, metadata_cache_options = MetadataCacheOptions_default,
     index_type = kBinarySearch, data_block_index_type = kDataBlockBinarySearch,
     data_block_hash_table_util_ratio = 3 / 4, bbt_checksum = kXXH3, no_block_cache = False, block_cache = None,
     persistent_cache = None, block_size = 4 * 1024, block_size_deviation = 10, block_restart_interval = 16,
     index_block_restart_interval = 1, metadata_block_size = 4096,
     cache_usage_options = CacheUsageOptions_default, partition_filters = False,
     optimize_filters_for_memory = True, use_delta_encoding = True, filter_policy = None,
     whole_key_filtering = True, detect_filter_construct_corruption = False, verify_compression = False,
     read_amp_bytes_per_bit = 0, format_version = 6, enable_index_compression = True, block_align = False,
     index_shortening = kShortenSeparators, max_auto_readahead_size = 256 * 1024,
     prepopulate_block_cache = PBC_kDisable, initial_auto_readahead_size = 8 * 1024,
     num_file_reads_for_auto_readahead = 2\<rparr>"

definition kPlainTableVariableLength :: uint32 where "kPlainTableVariableLength = 0"

datatype EncodingType = kPlain | kPrefix

record PlainTableOptions =
  user_key_len :: uint32
  bloom_bits_per_key :: int
  pt_hash_table_ratio :: rat
  index_sparseness :: nat
  huge_page_tlb_size :: nat
  encoding_type :: EncodingType
  full_scan_mode :: bool
  store_index_in_file :: bool

definition PlainTableOptions_default :: PlainTableOptions where
  "PlainTableOptions_default = \<lparr>user_key_len = kPlainTableVariableLength, bloom_bits_per_key = 10,
     pt_hash_table_ratio = 3 / 4, index_sparseness = 16, huge_page_tlb_size = 0, encoding_type = kPlain,
     full_scan_mode = False, store_index_in_file = False\<rparr>"

record CuckooTableOptions =
  ct_hash_table_ratio :: rat
  max_search_depth :: uint32
  cuckoo_block_size :: uint32
  identity_as_first_hash :: bool
  use_module_hash :: bool

definition CuckooTableOptions_default :: CuckooTableOptions where
  "CuckooTableOptions_default = \<lparr>ct_hash_table_ratio = 9 / 10, max_search_depth = 100, cuckoo_block_size = 5,
     identity_as_first_hash = False, use_module_hash = True\<rparr>"

text \<open>
  \<open>TableFactory::NewTableReader\<close> without read options gives the other overload default ones; the
  reader options, the file, its size and whether to prefetch are passed on.
\<close>

definition NewTableReader_default ::
    "(ReadOptions \<Rightarrow> 'tro \<Rightarrow> pointer_handle \<Rightarrow> uint64 \<Rightarrow> bool \<Rightarrow> 's \<Rightarrow> (Status \<times> pointer_handle) \<times> 's) \<Rightarrow>
     'tro \<Rightarrow> pointer_handle \<Rightarrow> uint64 \<Rightarrow> bool \<Rightarrow> 's \<Rightarrow> (Status \<times> pointer_handle) \<times> 's" where
  "NewTableReader_default NewTableReader tro file sz prefetch s =
     NewTableReader ReadOptions_default tro file sz prefetch s"

definition IsDeleteRangeSupported_default :: bool where
  "IsDeleteRangeSupported_default = False"

section \<open>Properties\<close>

lemmas cache_option_defs =
  ShardedCacheOptions.defs LRUCacheOptions.defs CompressedSecondaryCacheOptions.defs HyperClockCacheOptions.defs
  ShardedCacheOptions_default_def ShardedCacheOptions_new_def LRUCacheOptions_default_def LRUCacheOptions_new_def
  LRUCacheOptions_defaulted_def CompressedSecondaryCacheOptions_default_def CompressedSecondaryCacheOptions_new_def
  HyperClockCacheOptions_new_def HyperClockCacheOptions_defaulted_def NewLRUCache_def NewLRUCache_capacity_def
  NewLRUCache_opts_def NewCompressedSecondaryCache_def NewCompressedSecondaryCache_capacity_def
  NewCompressedSecondaryCache_opts_def

text \<open>
  The two ways of making a cache agree: a factory function given only the capacity builds the cache
  that default options with that capacity build, for LRU caches and for compressed secondary caches,
  and the base part of every options struct is the struct of a sharded cache with the same arguments.
\<close>

theorem cache_factories_agree:
  "NewLRUCache_capacity lru adaptive cap =
     NewLRUCache_opts lru ((LRUCacheOptions_default adaptive)\<lparr>cache_capacity := cap\<rparr>) \<and>
   NewCompressedSecondaryCache_capacity compressed adaptive cap =
     NewCompressedSecondaryCache_opts compressed
       ((CompressedSecondaryCacheOptions_default adaptive)\<lparr>cache_capacity := cap\<rparr>) \<and>
   ShardedCacheOptions.truncate (HyperClockCacheOptions_defaulted cap charge) =
     ShardedCacheOptions_default\<lparr>cache_capacity := cap\<rparr> \<and>
   LRUCacheOptions.truncate (CompressedSecondaryCacheOptions_new cap bits strict high low alloc mutex policy ctype version split roles) =
     (LRUCacheOptions_new cap bits strict high alloc mutex policy low) \<and>
   ShardedCacheOptions.truncate (LRUCacheOptions_new cap bits strict high alloc mutex policy low) =
     ShardedCacheOptions_new cap bits strict alloc policy"
  by (simp add: cache_option_defs)

lemma CacheEntryRoleOptions_eq_iff: "CacheEntryRoleOptions_eq a b \<longleftrightarrow> a = b"
  by (cases a; cases b) (simp add: CacheEntryRoleOptions_eq_def)

lemma filter_block_only_of:
  "EnumSet_of CacheEntryRoleSet_max [CacheEntryRole_val kFilterBlock] = Some filter_block_only"
  by (simp add: With_def filter_block_only_def CacheEntryRole_val_valid)

end
