(* ===== verification/DBOptionsModel.thy ===== *)
theory DBOptionsModel
  imports Complex_Main CacheModel EnvWrappers
begin

text \<open>
  The options of column families and of databases: \<open>AdvancedColumnFamilyOptions\<close> of
  include/rocksdb/advanced_options.h, \<open>ColumnFamilyOptions\<close>, \<open>DBOptions\<close> and \<open>Options\<close> of
  include/rocksdb/options.h, every member with its initialiser. The default constructors are only
  declared, so a default-constructed value is a parameter wherever one is needed; what the headers
  fix are the member initialisers. Shared pointers, pointers and the callback are handles; a double is
  the rational number its literal denotes.
\<close>

section \<open>Enumerations\<close>

datatype CompactionStyle =
    kCompactionStyleLevel | kCompactionStyleUniversal | kCompactionStyleFIFO | kCompactionStyleNone

primrec CompactionStyle_val :: "CompactionStyle \<Rightarrow> nat" where
  "CompactionStyle_val kCompactionStyleLevel = 0" | "CompactionStyle_val kCompactionStyleUniversal = 1"
| "CompactionStyle_val kCompactionStyleFIFO = 2" | "CompactionStyle_val kCompactionStyleNone = 3"

datatype CompactionPri =
    kByCompensatedSize | kOldestLargestSeqFirst | kOldestSmallestSeqFirst | kMinOverlappingRatio | kRoundRobin

primrec CompactionPri_val :: "CompactionPri \<Rightarrow> nat" where
  "CompactionPri_val kByCompensatedSize = 0" | "CompactionPri_val kOldestLargestSeqFirst = 1"
| "CompactionPri_val kOldestSmallestSeqFirst = 2" | "CompactionPri_val kMinOverlappingRatio = 3"
| "CompactionPri_val kRoundRobin = 4"

datatype UpdateStatus = UPDATE_FAILED | UPDATED_INPLACE | UPDATED

datatype PrepopulateBlobCache = PB_kDisable | PB_kFlushOnly

section \<open>Column families\<close>

record AdvancedColumnFamilyOptions =
  ac_max_write_buffer_number :: int
  ac_min_write_buffer_number_to_merge :: int
  ac_max_write_buffer_number_to_maintain :: int
  ac_max_write_buffer_size_to_maintain :: int
  ac_inplace_update_support :: bool
  ac_inplace_update_num_locks :: nat
  ac_experimental_mempurge_threshold :: rat
  ac_inplace_callback :: pointer_handle
  ac_memtable_prefix_bloom_size_ratio :: rat
  ac_memtable_whole_key_filtering :: bool
  ac_memtable_huge_page_size :: nat
  ac_memtable_insert_with_hint_prefix_extractor :: pointer_handle
  ac_bloom_locality :: uint32
  ac_arena_block_size :: nat
  ac_compression_per_level :: "CompressionType list"
  ac_num_levels :: int
  ac_level0_slowdown_writes_trigger :: int
  ac_level0_stop_writes_trigger :: int
  ac_target_file_size_base :: uint64
  ac_target_file_size_multiplier :: int
  ac_level_compaction_dynamic_level_bytes :: bool
  ac_max_bytes_for_level_multiplier :: rat
  ac_max_bytes_for_level_multiplier_additional :: "int list"
  ac_max_compaction_bytes :: uint64
  ac_soft_pending_compaction_bytes_limit :: uint64
  ac_hard_pending_compaction_bytes_limit :: uint64
  ac_compaction_style :: CompactionStyle
  ac_compaction_pri :: CompactionPri
  ac_compaction_options_universal :: CompactionOptionsUniversal
  ac_compaction_options_fifo :: CompactionOptionsFIFO
  ac_max_sequential_skip_in_iterations :: uint64
  ac_memtable_factory :: pointer_handle
  ac_table_properties_collector_factories :: "pointer_handle list"
  ac_max_successive_merges :: nat
  ac_strict_max_successive_merges :: bool
  ac_optimize_filters_for_hits :: bool
  ac_paranoid_file_checks :: bool
  ac_force_consistency_checks :: bool
  ac_report_bg_io_stats :: bool
  ac_ttl :: uint64
  ac_periodic_compaction_seconds :: uint64
  ac_sample_for_compression :: uint64
  ac_last_level_temperature :: Temperature
  ac_default_write_temperature :: Temperature
  ac_default_temperature :: Temperature
  ac_preclude_last_level_data_seconds :: uint64
  ac_preserve_internal_time_seconds :: uint64
  ac_enable_blob_files :: bool
  ac_min_blob_size :: uint64
  ac_blob_file_size :: uint64
  ac_blob_compression_type :: CompressionType
  ac_enable_blob_garbage_collection :: bool
  ac_blob_garbage_collection_age_cutoff :: rat
  ac_blob_garbage_collection_force_threshold :: rat
  ac_blob_compaction_readahead_size :: uint64
  ac_blob_file_starting_level :: int
  ac_blob_cache :: pointer_handle
  ac_prepopulate_blob_cache :: PrepopulateBlobCache
  ac_memtable_protection_bytes_per_key :: uint32
  ac_persist_user_defined_timestamps :: bool
  ac_block_protection_bytes_per_key :: "8 word"
  ac_bottommost_file_compaction_delay :: uint32

text \<open>
  The factory is a new \<open>SkipListFactory\<close> (\<open>skip_list\<close>). The multipliers are a vector of \<open>num_levels\<close> ones;
  \<open>num_levels\<close> is declared before and is 7.
\<close>

definition AdvancedColumnFamilyOptions_init :: "pointer_handle \<Rightarrow> AdvancedColumnFamilyOptions" where
  "AdvancedColumnFamilyOptions_init skip_list = \<lparr>ac_max_write_buffer_number = 2, ac_min_write_buffer_number_to_merge = 1,
     ac_max_write_buffer_number_to_maintain = 0, ac_max_write_buffer_size_to_maintain = 0,
     ac_inplace_update_support = False, ac_inplace_update_num_locks = 10000,
     ac_experimental_mempurge_threshold = 0, ac_inplace_callback = None,
     ac_memtable_prefix_bloom_size_ratio = 0, ac_memtable_whole_key_filtering = False,
     ac_memtable_huge_page_size = 0, ac_memtable_insert_with_hint_prefix_extractor = None,
     ac_bloom_locality = 0, ac_arena_block_size = 0, ac_compression_per_level = [], ac_num_levels = 7,
     ac_level0_slowdown_writes_trigger = 20, ac_level0_stop_writes_trigger = 36,
     ac_target_file_size_base = 64 * 1048576, ac_target_file_size_multiplier = 1,
     ac_level_compaction_dynamic_level_bytes = True, ac_max_bytes_for_level_multiplier = 10,
     ac_max_bytes_for_level_multiplier_additional = replicate 7 1, ac_max_compaction_bytes = 0,
     ac_soft_pending_compaction_bytes_limit = 64 * 1073741824,
     ac_hard_pending_compaction_bytes_limit = 256 * 1073741824, ac_compaction_style = kCompactionStyleLevel,
     ac_compaction_pri = kMinOverlappingRatio,
     ac_compaction_options_universal = CompactionOptionsUniversal_default,
     ac_compaction_options_fifo = CompactionOptionsFIFO_default, ac_max_sequential_skip_in_iterations = 8,
     ac_memtable_factory = skip_list, ac_table_properties_collector_factories = [],
     ac_max_successive_merges = 0, ac_strict_max_successive_merges = False,
     ac_optimize_filters_for_hits = False, ac_paranoid_file_checks = False,
     ac_force_consistency_checks = True, ac_report_bg_io_stats = False, ac_ttl = 0xfffffffffffffffe,
     ac_periodic_compaction_seconds = 0xfffffffffffffffe, ac_sample_for_compression = 0,
     ac_last_level_temperature = kUnknownTemperature, ac_default_write_temperature = kUnknownTemperature,
     ac_default_temperature = kUnknownTemperature, ac_preclude_last_level_data_seconds = 0,
     ac_preserve_internal_time_seconds = 0, ac_enable_blob_files = False, ac_min_blob_size = 0,
     ac_blob_file_size = 1 * 2 ^ 28, ac_blob_compression_type = kNoCompression,
     ac_enable_blob_garbage_collection = False, ac_blob_garbage_collection_age_cutoff = 1 / 4,
     ac_blob_garbage_collection_force_threshold = 1, ac_blob_compaction_readahead_size = 0,
     ac_blob_file_starting_level = 0, ac_blob_cache = None, ac_prepopulate_blob_cache = PB_kDisable,
     ac_memtable_protection_bytes_per_key = 0, ac_persist_user_defined_timestamps = True,
     ac_block_protection_bytes_per_key = 0, ac_bottommost_file_compaction_delay = 0\<rparr>"

record ColumnFamilyOptions = AdvancedColumnFamilyOptions +
  cf_comparator :: pointer_handle
  cf_merge_operator :: pointer_handle
  cf_compaction_filter :: pointer_handle
  cf_compaction_filter_factory :: pointer_handle
  cf_write_buffer_size :: nat
  cf_compression :: CompressionType
  cf_bottommost_compression :: CompressionType
  cf_bottommost_compression_opts :: CompressionOptions
  cf_compression_opts :: CompressionOptions
  cf_level0_file_num_compaction_trigger :: int
  cf_prefix_extractor :: pointer_handle
  cf_max_bytes_for_level_base :: uint64
  cf_snap_refresh_nanos :: uint64
  cf_disable_auto_compactions :: bool
  cf_table_factory :: pointer_handle
  cf_cf_paths :: "DbPath list"
  cf_compaction_thread_limiter :: pointer_handle
  cf_sst_partitioner_factory :: pointer_handle
  cf_memtable_max_range_deletions :: uint32
  cf_uncache_aggressiveness :: uint32

text \<open>\<open>compression\<close> has no initialiser (\<open>indet\<close>); \<open>bytewise\<close> is \<open>BytewiseComparator()\<close>.\<close>

definition ColumnFamilyOptions_init :: "pointer_handle \<Rightarrow> CompressionType \<Rightarrow> pointer_handle \<Rightarrow> ColumnFamilyOptions" where
  "ColumnFamilyOptions_init skip_list indet bytewise =
     AdvancedColumnFamilyOptions.extend (AdvancedColumnFamilyOptions_init skip_list)
       (ColumnFamilyOptions.fields
          bytewise None None None (64 * 2 ^ 20) indet kDisableCompressionOption CompressionOptions_default
          CompressionOptions_default 4 None (256 * 1048576) 0 False None [] None None 0 0)"

section \<open>Databases\<close>

record DBOptions =
  db_create_if_missing :: bool
  db_create_missing_column_families :: bool
  db_error_if_exists :: bool
  db_paranoid_checks :: bool
  db_flush_verify_memtable_count :: bool
  db_compaction_verify_record_count :: bool
  db_track_and_verify_wals_in_manifest :: bool
  db_verify_sst_unique_id_in_manifest :: bool
  db_env :: pointer_handle
  db_rate_limiter :: pointer_handle
  db_sst_file_manager :: pointer_handle
  db_info_log :: pointer_handle
  db_info_log_level :: InfoLogLevel
  db_max_open_files :: int
  db_max_file_opening_threads :: int
  db_max_total_wal_size :: uint64
  db_statistics :: pointer_handle
  db_use_fsync :: bool
  db_db_paths :: "DbPath list"
  db_db_log_dir :: string
  db_wal_dir :: string
  db_delete_obsolete_files_period_micros :: uint64
  db_max_background_jobs :: int
  db_max_background_compactions :: int
  db_max_subcompactions :: uint32
  db_max_background_flushes :: int
  db_max_log_file_size :: nat
  db_log_file_time_to_roll :: nat
  db_keep_log_file_num :: nat
  db_recycle_log_file_num :: nat
  db_max_manifest_file_size :: uint64
  db_table_cache_numshardbits :: int
  db_WAL_ttl_seconds :: uint64
  db_WAL_size_limit_MB :: uint64
  db_manifest_preallocation_size :: nat
  db_allow_mmap_reads :: bool
  db_allow_mmap_writes :: bool
  db_use_direct_reads :: bool
  db_use_direct_io_for_flush_and_compaction :: bool
  db_allow_fallocate :: bool
  db_is_fd_close_on_exec :: bool
  db_stats_dump_period_sec :: uint32
  db_stats_persist_period_sec :: uint32
  db_persist_stats_to_disk :: bool
  db_stats_history_buffer_size :: nat
  db_advise_random_on_open :: bool
  db_db_write_buffer_size :: nat
  db_write_buffer_manager :: pointer_handle
  db_compaction_readahead_size :: nat
  db_random_access_max_buffer_size :: nat
  db_writable_file_max_buffer_size :: nat
  db_use_adaptive_mutex :: bool
  db_bytes_per_sync :: uint64
  db_wal_bytes_per_sync :: uint64
  db_strict_bytes_per_sync :: bool
  db_listeners :: "pointer_handle list"
  db_enable_thread_tracking :: bool
  db_delayed_write_rate :: uint64
  db_enable_pipelined_write :: bool
  db_unordered_write :: bool
  db_allow_concurrent_memtable_write :: bool
  db_enable_write_thread_adaptive_yield :: bool
  db_max_write_batch_group_size_bytes :: uint64
  db_write_thread_max_yield_usec :: uint64
  db_write_thread_slow_yield_usec :: uint64
  db_skip_stats_update_on_db_open :: bool
  db_skip_checking_sst_file_sizes_on_db_open :: bool
  db_wal_recovery_mode :: WALRecoveryMode
  db_allow_2pc :: bool
  db_row_cache :: pointer_handle
  db_wal_filter :: pointer_handle
  db_fail_if_options_file_error :: bool
  db_dump_malloc_stats :: bool
  db_avoid_flush_during_recovery :: bool
  db_avoid_flush_during_shutdown :: bool
  db_allow_ingest_behind :: bool
  db_two_write_queues :: bool
  db_manual_wal_flush :: bool
  db_wal_compression :: CompressionType
  db_background_close_inactive_wals :: bool
  db_atomic_flush :: bool
  db_avoid_unnecessary_blocking_io :: bool
  db_write_dbid_to_manifest :: bool
  db_log_readahead_size :: nat
  db_file_checksum_gen_factory :: pointer_handle
  db_best_efforts_recovery :: bool
  db_max_bgerror_resume_count :: int
  db_bgerror_resume_retry_interval :: uint64
  db_allow_data_in_errors :: bool
  db_db_host_id :: string
  db_checksum_handoff_file_types :: enum_state
  db_compaction_service :: pointer_handle
  db_lowest_used_cache_tier :: CacheTier
  db_enforce_single_del_contracts :: bool
  db_daily_offpeak_time_utc :: string
  db_follower_refresh_catchup_period_ms :: uint64
  db_follower_catchup_retry_count :: uint64
  db_follower_catchup_retry_wait_ms :: uint64

text \<open>\<open>env\<close> is \<open>Env::Default()\<close>, \<open>level\<close> is \<open>Logger::kDefaultLogLevel\<close>, \<open>hostname\<close> is \<open>kHostnameForDbHostId\<close>.\<close>

definition DBOptions_init :: "pointer_handle \<Rightarrow> InfoLogLevel \<Rightarrow> string \<Rightarrow> DBOptions" where
  "DBOptions_init env level hostname = \<lparr>db_create_if_missing = False, db_create_missing_column_families = False, db_error_if_exists = False,
     db_paranoid_checks = True, db_flush_verify_memtable_count = True,
     db_compaction_verify_record_count = True, db_track_and_verify_wals_in_manifest = False,
     db_verify_sst_unique_id_in_manifest = True, db_env = env, db_rate_limiter = None,
     db_sst_file_manager = None, db_info_log = None, db_info_log_level = level, db_max_open_files = - 1,
     db_max_file_opening_threads = 16, db_max_total_wal_size = 0, db_statistics = None, db_use_fsync = False,
     db_db_paths = [], db_db_log_dir = [], db_wal_dir = [],
     db_delete_obsolete_files_period_micros = 6 * 60 * 60 * 1000000, db_max_background_jobs = 2,
     db_max_background_compactions = - 1, db_max_subcompactions = 1, db_max_background_flushes = - 1,
     db_max_log_file_size = 0, db_log_file_time_to_roll = 0, db_keep_log_file_num = 1000,
     db_recycle_log_file_num = 0, db_max_manifest_file_size = 1024 * 1024 * 1024,
     db_table_cache_numshardbits = 6, db_WAL_ttl_seconds = 0, db_WAL_size_limit_MB = 0,
     db_manifest_preallocation_size = 4 * 1024 * 1024, db_allow_mmap_reads = False,
     db_allow_mmap_writes = False, db_use_direct_reads = False,
     db_use_direct_io_for_flush_and_compaction = False, db_allow_fallocate = True,
     db_is_fd_close_on_exec = True, db_stats_dump_period_sec = 600, db_stats_persist_period_sec = 600,
     db_persist_stats_to_disk = False, db_stats_history_buffer_size = 1024 * 1024,
     db_advise_random_on_open = True, db_db_write_buffer_size = 0, db_write_buffer_manager = None,
     db_compaction_readahead_size = 2 * 1024 * 1024, db_random_access_max_buffer_size = 1024 * 1024,
     db_writable_file_max_buffer_size = 1024 * 1024, db_use_adaptive_mutex = False, db_bytes_per_sync = 0,
     db_wal_bytes_per_sync = 0, db_strict_bytes_per_sync = False, db_listeners = [],
     db_enable_thread_tracking = False, db_delayed_write_rate = 0, db_enable_pipelined_write = False,
     db_unordered_write = False, db_allow_concurrent_memtable_write = True,
     db_enable_write_thread_adaptive_yield = True, db_max_write_batch_group_size_bytes = 1 * 2 ^ 20,
     db_write_thread_max_yield_usec = 100, db_write_thread_slow_yield_usec = 3,
     db_skip_stats_update_on_db_open = False, db_skip_checking_sst_file_sizes_on_db_open = False,
     db_wal_recovery_mode = kPointInTimeRecovery, db_allow_2pc = False, db_row_cache = None,
     db_wal_filter = None, db_fail_if_options_file_error = True, db_dump_malloc_stats = False,
     db_avoid_flush_during_recovery = False, db_avoid_flush_during_shutdown = False,
     db_allow_ingest_behind = False, db_two_write_queues = False, db_manual_wal_flush = False,
     db_wal_compression = kNoCompression, db_background_close_inactive_wals = False, db_atomic_flush = False,
     db_avoid_unnecessary_blocking_io = False, db_write_dbid_to_manifest = False, db_log_readahead_size = 0,
     db_file_checksum_gen_factory = None, db_best_efforts_recovery = False,
     db_max_bgerror_resume_count = 2147483647, db_bgerror_resume_retry_interval = 1000000,
     db_allow_data_in_errors = False, db_db_host_id = hostname,
     db_checksum_handoff_file_types = EnumSet_empty, db_compaction_service = None,
     db_lowest_used_cache_tier = kNonVolatileBlockTier, db_enforce_single_del_contracts = True,
     db_daily_offpeak_time_utc = [], db_follower_refresh_catchup_period_ms = 10000,
     db_follower_catchup_retry_count = 10, db_follower_catchup_retry_wait_ms = 100\<rparr>"

section \<open>Both\<close>

text \<open>\<open>Options\<close> derives from the two structs: a record of both.\<close>

record Options =
  opt_db :: DBOptions
  opt_cf :: ColumnFamilyOptions

definition Options_default :: "DBOptions \<Rightarrow> ColumnFamilyOptions \<Rightarrow> Options" where
  "Options_default DBOptions_ctor ColumnFamilyOptions_ctor =
     \<lparr>opt_db = DBOptions_ctor, opt_cf = ColumnFamilyOptions_ctor\<rparr>"

definition Options_new :: "DBOptions \<Rightarrow> ColumnFamilyOptions \<Rightarrow> Options" where
  "Options_new db cf = \<lparr>opt_db = db, opt_cf = cf\<rparr>"

section \<open>Properties\<close>

text \<open>
  The options fit together the way their descriptions require: at least two write buffers, of which
  fewer are needed for a merge; compaction starts before writes are slowed down, and they are slowed
  down before they stop, both for files of level 0 and for pending bytes; one additional multiplier per
  level; a level holds a file and a file fits a write buffer.
\<close>

definition column_family_wf :: "ColumnFamilyOptions \<Rightarrow> bool" where
  "column_family_wf c \<longleftrightarrow>
     2 \<le> ac_max_write_buffer_number c \<and>
     1 \<le> ac_min_write_buffer_number_to_merge c \<and>
     ac_min_write_buffer_number_to_merge c < ac_max_write_buffer_number c \<and>
     cf_level0_file_num_compaction_trigger c \<le> ac_level0_slowdown_writes_trigger c \<and>
     ac_level0_slowdown_writes_trigger c \<le> ac_level0_stop_writes_trigger c \<and>
     ac_soft_pending_compaction_bytes_limit c \<le> ac_hard_pending_compaction_bytes_limit c \<and>
     int (length (ac_max_bytes_for_level_multiplier_additional c)) = ac_num_levels c \<and>
     ac_target_file_size_base c \<le> cf_max_bytes_for_level_base c \<and>
     of_nat (cf_write_buffer_size c) \<le> ac_target_file_size_base c \<and>
     0 \<le> ac_blob_garbage_collection_age_cutoff c \<and> ac_blob_garbage_collection_age_cutoff c \<le> 1"

theorem column_family_initialisers_wf:
  "column_family_wf (ColumnFamilyOptions_init skip_list indet bytewise)"
  by (simp add: column_family_wf_def ColumnFamilyOptions_init_def AdvancedColumnFamilyOptions_init_def
      AdvancedColumnFamilyOptions.defs ColumnFamilyOptions.defs word_le_nat_alt)

text \<open>
  Two initialisers differ from their comments: the number of locks for updates in place is 10000 although
  such updates are disabled, for which 0 is documented, and the limit of a compaction is 0, which the
  library is said to replace, not the documented 25 times the size of a file.
\<close>

theorem initialisers_differ_from_comments:
  "\<not> ac_inplace_update_support (AdvancedColumnFamilyOptions_init skip_list) \<and>
   ac_inplace_update_num_locks (AdvancedColumnFamilyOptions_init skip_list) = 10000 \<and>
   ac_max_compaction_bytes (AdvancedColumnFamilyOptions_init skip_list) \<noteq>
     ac_target_file_size_base (AdvancedColumnFamilyOptions_init skip_list) * 25"
  by (simp add: AdvancedColumnFamilyOptions_init_def)

end
