(* ===== verification/EventModel.thy ===== *)
theory EventModel
  imports CompactionFilterModel IOStatusModel OptionRecords Forwarding
begin

text \<open>
  What RocksDB reports to its users: include/rocksdb/table_properties.h (properties of tables and their
  collectors), include/rocksdb/listener.h (the records of the events and \<open>EventListener\<close>),
  include/rocksdb/compaction_job_stats.h and include/rocksdb/sst_file_writer.h (\<open>ExternalSstFileInfo\<close>),
  with the enumerations of types.h they use. Structs that derive from another are record extensions.
  Members a constructor leaves uninitialised are the argument \<open>indet\<close>; copies of a status go through
  the copy constructors of \<open>StatusModel\<close> and \<open>IOStatusModel\<close>.
\<close>

section \<open>Types\<close>

datatype BlobFileCreationReason = BFC_kFlush | BFC_kCompaction | BFC_kRecovery

datatype EntryType =
    kEntryPut | kEntryDelete | kEntrySingleDelete | kEntryMerge | kEntryRangeDeletion | kEntryBlobIndex
  | kEntryDeleteWithTimestamp | kEntryWideColumnEntity | kEntryTimedPut | kEntryOther

datatype WriteStallCondition = WSC_kDelayed | WSC_kStopped | WSC_kNormal

datatype WriteStallCause =
    kMemtableLimit | kL0FileCountLimit | kPendingCompactionBytes | kCFScopeWriteStallCauseEnumMax
  | kWriteBufferManagerLimit | kDBScopeWriteStallCauseEnumMax | WSCause_kNone

record ParsedEntryInfo =
  pe_user_key :: Slice
  pe_timestamp :: Slice
  pe_sequence :: uint64
  pe_type :: EntryType

section \<open>Properties of tables\<close>

type_synonym UserCollectedProperties = "string \<rightharpoonup> string"

record TableProperties =
  tp_orig_file_number :: uint64
  tp_data_size :: uint64
  tp_index_size :: uint64
  tp_index_partitions :: uint64
  tp_top_level_index_size :: uint64
  tp_index_key_is_user_key :: uint64
  tp_index_value_is_delta_encoded :: uint64
  tp_filter_size :: uint64
  tp_raw_key_size :: uint64
  tp_raw_value_size :: uint64
  tp_num_data_blocks :: uint64
  tp_num_entries :: uint64
  tp_num_filter_entries :: uint64
  tp_num_deletions :: uint64
  tp_num_merge_operands :: uint64
  tp_num_range_deletions :: uint64
  tp_format_version :: uint64
  tp_fixed_key_len :: uint64
  tp_column_family_id :: uint64
  tp_creation_time :: uint64
  tp_oldest_key_time :: uint64
  tp_file_creation_time :: uint64
  tp_slow_compression_estimated_data_size :: uint64
  tp_fast_compression_estimated_data_size :: uint64
  tp_external_sst_file_global_seqno_offset :: uint64
  tp_tail_start_offset :: uint64
  tp_user_defined_timestamps_persisted :: uint64
  tp_db_id :: string
  tp_db_session_id :: string
  tp_db_host_id :: string
  tp_column_family_name :: string
  tp_filter_policy_name :: string
  tp_comparator_name :: string
  tp_merge_operator_name :: string
  tp_prefix_extractor_name :: string
  tp_property_collectors_names :: string
  tp_compression_name :: string
  tp_compression_options :: string
  tp_seqno_to_time_mapping :: string
  tp_user_collected_properties :: UserCollectedProperties
  tp_readable_properties :: UserCollectedProperties

text \<open>\<open>kUnknownColumnFamily\<close> is defined in the library: the argument.\<close>

definition TableProperties_default :: "uint32 \<Rightarrow> TableProperties" where
  "TableProperties_default unknown_column_family = \<lparr>tp_orig_file_number = 0, tp_data_size = 0, tp_index_size = 0, tp_index_partitions = 0,
     tp_top_level_index_size = 0, tp_index_key_is_user_key = 0, tp_index_value_is_delta_encoded = 0,
     tp_filter_size = 0, tp_raw_key_size = 0, tp_raw_value_size = 0, tp_num_data_blocks = 0, tp_num_entries = 0,
     tp_num_filter_entries = 0, tp_num_deletions = 0, tp_num_merge_operands = 0, tp_num_range_deletions = 0,
     tp_format_version = 0, tp_fixed_key_len = 0, tp_column_family_id = ucast unknown_column_family,
     tp_creation_time = 0, tp_oldest_key_time = 0, tp_file_creation_time = 0,
     tp_slow_compression_estimated_data_size = 0, tp_fast_compression_estimated_data_size = 0,
     tp_external_sst_file_global_seqno_offset = 0, tp_tail_start_offset = 0,
     tp_user_defined_timestamps_persisted = 1, tp_db_id = [], tp_db_session_id = [], tp_db_host_id = [],
     tp_column_family_name = [], tp_filter_policy_name = [], tp_comparator_name = [],
     tp_merge_operator_name = [], tp_prefix_extractor_name = [], tp_property_collectors_names = [],
     tp_compression_name = [], tp_compression_options = [], tp_seqno_to_time_mapping = [],
     tp_user_collected_properties = Map.empty, tp_readable_properties = Map.empty\<rparr>"

section \<open>Collectors\<close>

datatype Collector_call =
    TC_Add Slice Slice | TC_AddUserKey Slice Slice EntryType uint64 uint64 | TC_BlockAdd uint64 uint64 uint64
  | TC_NeedCompact | TC_AsInternal

datatype collector_reply = TC_void | TC_status Status | TC_bool bool | TC_internal pointer_handle

definition Collector_own :: "msg_ctor \<Rightarrow> Collector_call \<Rightarrow> 's \<Rightarrow> collector_reply \<times> 's" where
  "Collector_own mk c s =
     (case c of
        TC_Add k v \<Rightarrow> (TC_status (invalid_argument mk ''TablePropertiesCollector::Add() deprecated.''), s)
      | TC_NeedCompact \<Rightarrow> (TC_bool False, s)
      | TC_AsInternal \<Rightarrow> (TC_internal None, s)
      | _ \<Rightarrow> (TC_void, s))"

definition Collector_plain ::
    "msg_ctor \<Rightarrow> (Collector_call \<Rightarrow> ('s \<Rightarrow> collector_reply \<times> 's) option) \<Rightarrow> Collector_call \<Rightarrow> 's \<Rightarrow> collector_reply \<times> 's" where
  "Collector_plain mk over c s = (case over c of Some f \<Rightarrow> f s | None \<Rightarrow> Collector_own mk c s)"

text \<open>\<open>AddUserKey\<close> calls the deprecated \<open>Add\<close>, without the type, sequence number and file size.\<close>

definition Collector_object ::
    "msg_ctor \<Rightarrow> (Collector_call \<Rightarrow> ('s \<Rightarrow> collector_reply \<times> 's) option) \<Rightarrow> Collector_call \<Rightarrow> 's \<Rightarrow> collector_reply \<times> 's" where
  "Collector_object mk over c s =
     (case over c of
        Some f \<Rightarrow> f s
      | None \<Rightarrow> (case c of
                  TC_AddUserKey k v t seq sz \<Rightarrow> Collector_plain mk over (TC_Add k v) s
                | _ \<Rightarrow> Collector_own mk c s))"

definition kUnknownLevelAtCreation :: int where "kUnknownLevelAtCreation = - 1"
definition kUnknownNumLevels :: int where "kUnknownNumLevels = - 1"

record CollectorContext =
  cc_column_family_id :: uint32
  level_at_creation :: int
  num_levels :: int
  last_level_inclusive_max_seqno_threshold :: uint64

definition CollectorContext_default :: "CollectorContext \<Rightarrow> CollectorContext" where
  "CollectorContext_default indet = indet\<lparr>level_at_creation := kUnknownLevelAtCreation, num_levels := kUnknownNumLevels\<rparr>"

definition CollectorContext_new :: "uint32 \<Rightarrow> int \<Rightarrow> int \<Rightarrow> uint64 \<Rightarrow> CollectorContext" where
  "CollectorContext_new cf lvl n threshold = \<lparr>cc_column_family_id = cf, level_at_creation = lvl, num_levels = n,
     last_level_inclusive_max_seqno_threshold = threshold\<rparr>"

definition CollectorFactory_ToString :: "string \<Rightarrow> string" where
  "CollectorFactory_ToString Name = Name"

section \<open>Files created and deleted\<close>

record FileCreationBriefInfo =
  fc_db_name :: string
  fc_cf_name :: string
  fc_file_path :: string
  fc_job_id :: int

definition FileCreationBriefInfo_default :: FileCreationBriefInfo where
  "FileCreationBriefInfo_default = \<lparr>fc_db_name = [], fc_cf_name = [], fc_file_path = [], fc_job_id = 0\<rparr>"

definition FileCreationBriefInfo_new :: "string \<Rightarrow> string \<Rightarrow> string \<Rightarrow> int \<Rightarrow> FileCreationBriefInfo" where
  "FileCreationBriefInfo_new db cf path job =
     \<lparr>fc_db_name = db, fc_cf_name = cf, fc_file_path = path, fc_job_id = job\<rparr>"

record TableFileCreationBriefInfo = FileCreationBriefInfo +
  tf_reason :: TableFileCreationReason

record TableFileCreationInfo = TableFileCreationBriefInfo +
  tf_file_size :: uint64
  tf_table_properties :: TableProperties
  tf_status :: Status
  tf_file_checksum :: string
  tf_file_checksum_func_name :: string

text \<open>The reason and the file size are uninitialised.\<close>

definition TableFileCreationInfo_new ::
    "TableFileCreationReason \<Rightarrow> uint64 \<Rightarrow> TableProperties \<Rightarrow> TableFileCreationInfo" where
  "TableFileCreationInfo_new indet_reason indet_size props =
     TableFileCreationBriefInfo.extend
       (FileCreationBriefInfo.extend FileCreationBriefInfo_default (TableFileCreationBriefInfo.fields indet_reason))
       (TableFileCreationInfo.fields indet_size props Status_default [] [])"

record BlobFileCreationBriefInfo = FileCreationBriefInfo +
  bf_reason :: BlobFileCreationReason

definition BlobFileCreationBriefInfo_new ::
    "string \<Rightarrow> string \<Rightarrow> string \<Rightarrow> int \<Rightarrow> BlobFileCreationReason \<Rightarrow> BlobFileCreationBriefInfo" where
  "BlobFileCreationBriefInfo_new db cf path job why =
     FileCreationBriefInfo.extend (FileCreationBriefInfo_new db cf path job) (BlobFileCreationBriefInfo.fields why)"

record BlobFileCreationInfo = BlobFileCreationBriefInfo +
  bf_total_blob_count :: uint64
  bf_total_blob_bytes :: uint64
  bf_status :: Status
  bf_file_checksum :: string
  bf_file_checksum_func_name :: string

text \<open>The status is passed by value and copied again: \<open>cs\<close> copies the text of a message.\<close>

definition BlobFileCreationInfo_new ::
    "(bytes \<Rightarrow> bytes) \<Rightarrow> string \<Rightarrow> string \<Rightarrow> string \<Rightarrow> int \<Rightarrow> BlobFileCreationReason \<Rightarrow> uint64 \<Rightarrow> uint64 \<Rightarrow> Status \<Rightarrow>
     string \<Rightarrow> string \<Rightarrow> BlobFileCreationInfo" where
  "BlobFileCreationInfo_new cs db cf path job why count nbytes st checksum func =
     BlobFileCreationBriefInfo.extend (BlobFileCreationBriefInfo_new db cf path job why)
       (BlobFileCreationInfo.fields count nbytes (Status_copy cs st) checksum func)"

record WriteStallInfo =
  ws_cf_name :: string
  ws_cur :: WriteStallCondition
  ws_prev :: WriteStallCondition

record FileDeletionInfo =
  fd_db_name :: string
  fd_file_path :: string
  fd_job_id :: int
  fd_status :: Status

definition FileDeletionInfo_default :: FileDeletionInfo where
  "FileDeletionInfo_default = \<lparr>fd_db_name = [], fd_file_path = [], fd_job_id = 0, fd_status = Status_default\<rparr>"

definition FileDeletionInfo_new :: "(bytes \<Rightarrow> bytes) \<Rightarrow> string \<Rightarrow> string \<Rightarrow> int \<Rightarrow> Status \<Rightarrow> FileDeletionInfo" where
  "FileDeletionInfo_new cs db path job st =
     \<lparr>fd_db_name = db, fd_file_path = path, fd_job_id = job, fd_status = Status_copy cs st\<rparr>"

definition BlobFileDeletionInfo_new :: "(bytes \<Rightarrow> bytes) \<Rightarrow> string \<Rightarrow> string \<Rightarrow> int \<Rightarrow> Status \<Rightarrow> FileDeletionInfo" where
  "BlobFileDeletionInfo_new cs db path job st = FileDeletionInfo_new cs db path job (Status_copy cs st)"

section \<open>File operations\<close>

datatype FileOperationType =
    FO_kRead | FO_kWrite | FO_kTruncate | FO_kClose | FO_kFlush | FO_kSync | FO_kFsync | FO_kRangeSync
  | FO_kAppend | FO_kPositionedAppend | FO_kOpen | FO_kVerify

text \<open>Time points and durations count nanoseconds. The offset and the length are uninitialised.\<close>

record FileOperationInfo =
  op_type :: FileOperationType
  op_path :: string
  op_temperature :: Temperature
  op_offset :: uint64
  op_length :: nat
  op_duration :: int
  op_start_ts :: int
  op_status :: Status

definition FileOperationInfo_new ::
    "(bytes \<Rightarrow> bytes) \<Rightarrow> uint64 \<Rightarrow> nat \<Rightarrow> FileOperationType \<Rightarrow> string \<Rightarrow> int \<times> int \<Rightarrow> int \<Rightarrow> Status \<Rightarrow> Temperature \<Rightarrow> FileOperationInfo" where
  "FileOperationInfo_new cs indet_offset indet_length t path start finish st temp =
     \<lparr>op_type = t, op_path = path, op_temperature = temp, op_offset = indet_offset, op_length = indet_length,
      op_duration = finish - snd start, op_start_ts = fst start, op_status = Status_copy cs st\<rparr>"

text \<open>The two clocks, as functions that read the time from the state of the world.\<close>

definition StartNow :: "('w \<Rightarrow> int \<times> 'w) \<Rightarrow> ('w \<Rightarrow> int \<times> 'w) \<Rightarrow> 'w \<Rightarrow> (int \<times> int) \<times> 'w" where
  "StartNow system_now steady_now w = (let (a, w1) = system_now w; (b, w2) = steady_now w1 in ((a, b), w2))"

definition FinishNow :: "('w \<Rightarrow> int \<times> 'w) \<Rightarrow> 'w \<Rightarrow> int \<times> 'w" where
  "FinishNow steady_now w = steady_now w"

record IOErrorInfo =
  ie_io_status :: Status
  ie_operation :: FileOperationType
  ie_file_path :: string
  ie_length :: nat
  ie_offset :: uint64

definition IOErrorInfo_new ::
    "(bytes \<Rightarrow> bytes) \<Rightarrow> Status \<Rightarrow> FileOperationType \<Rightarrow> string \<Rightarrow> nat \<Rightarrow> uint64 \<Rightarrow> IOErrorInfo" where
  "IOErrorInfo_new cs st t path len off =
     \<lparr>ie_io_status = IOStatus_copy cs st, ie_operation = t, ie_file_path = path, ie_length = len, ie_offset = off\<rparr>"

section \<open>Blob files\<close>

record BlobFileInfo =
  blob_file_path :: string
  blob_file_number :: uint64

definition BlobFileInfo_new :: "string \<Rightarrow> uint64 \<Rightarrow> BlobFileInfo" where
  "BlobFileInfo_new path n = \<lparr>blob_file_path = path, blob_file_number = n\<rparr>"

record BlobFileAdditionInfo = BlobFileInfo +
  total_blob_count :: uint64
  total_blob_bytes :: uint64

definition BlobFileAdditionInfo_new :: "string \<Rightarrow> uint64 \<Rightarrow> uint64 \<Rightarrow> uint64 \<Rightarrow> BlobFileAdditionInfo" where
  "BlobFileAdditionInfo_new path n count nbytes =
     BlobFileInfo.extend (BlobFileInfo_new path n) (BlobFileAdditionInfo.fields count nbytes)"

record BlobFileGarbageInfo = BlobFileInfo +
  garbage_blob_count :: uint64
  garbage_blob_bytes :: uint64

definition BlobFileGarbageInfo_new :: "string \<Rightarrow> uint64 \<Rightarrow> uint64 \<Rightarrow> uint64 \<Rightarrow> BlobFileGarbageInfo" where
  "BlobFileGarbageInfo_new path n count nbytes =
     BlobFileInfo.extend (BlobFileInfo_new path n) (BlobFileGarbageInfo.fields count nbytes)"

section \<open>Jobs\<close>

record CompactionJobStats =
  cs_elapsed_micros :: uint64
  cs_cpu_micros :: uint64
  cs_has_num_input_records :: bool
  cs_num_input_records :: uint64
  cs_num_blobs_read :: uint64
  cs_num_input_files :: nat
  cs_num_input_files_at_output_level :: nat
  cs_num_output_records :: uint64
  cs_num_output_files :: nat
  cs_num_output_files_blob :: nat
  cs_is_full_compaction :: bool
  cs_is_manual_compaction :: bool
  cs_total_input_bytes :: uint64
  cs_total_blob_bytes_read :: uint64
  cs_total_output_bytes :: uint64
  cs_total_output_bytes_blob :: uint64
  cs_num_records_replaced :: uint64
  cs_total_input_raw_key_bytes :: uint64
  cs_total_input_raw_value_bytes :: uint64
  cs_num_input_deletion_records :: uint64
  cs_num_expired_deletion_records :: uint64
  cs_num_corrupt_keys :: uint64
  cs_file_write_nanos :: uint64
  cs_file_range_sync_nanos :: uint64
  cs_file_fsync_nanos :: uint64
  cs_file_prepare_write_nanos :: uint64
  cs_smallest_output_key_prefix :: string
  cs_largest_output_key_prefix :: string
  cs_num_single_del_fallthru :: uint64
  cs_num_single_del_mismatch :: uint64

text \<open>The constructor calls \<open>Reset\<close>, which is defined in the library.\<close>

definition CompactionJobStats_new :: "(CompactionJobStats \<Rightarrow> CompactionJobStats) \<Rightarrow> CompactionJobStats \<Rightarrow> CompactionJobStats" where
  "CompactionJobStats_new Reset indet = Reset indet"

datatype (plugins only: code size) CompactionReason =
    CR_kUnknown | kLevelL0FilesNum | kLevelMaxLevelSize | kUniversalSizeAmplification | kUniversalSizeRatio
  | kUniversalSortedRunNum | kFIFOMaxSize | kFIFOReduceNumFiles | kFIFOTtl | CR_kManualCompaction
  | kFilesMarkedForCompaction | kBottommostFiles | kTtl | CR_kFlush | CR_kExternalSstIngestion
  | kPeriodicCompaction | kChangeTemperature | kForcedBlobGC | kRoundRobinTtl | kRefitLevel | kNumOfReasons

datatype (plugins only: code size) FlushReason =
    FR_kOthers | FR_kGetLiveFiles | FR_kShutDown | FR_kExternalFileIngestion | FR_kManualCompaction
  | FR_kWriteBufferManager | FR_kWriteBufferFull | FR_kTest | FR_kDeleteFiles | FR_kAutoCompaction
  | FR_kManualFlush | FR_kErrorRecovery | FR_kErrorRecoveryRetryFlush | FR_kWalFull
  | FR_kCatchUpAfterErrorRecovery

datatype BackgroundErrorReason =
    BE_kFlush | BE_kCompaction | BE_kWriteCallback | BE_kMemTable | BE_kManifestWrite | BE_kFlushNoWAL
  | BE_kManifestWriteNoWAL

record ManualFlushInfo =
  mf_cf_id :: uint32
  mf_cf_name :: string
  mf_flush_reason :: FlushReason

record FlushJobInfo =
  fj_cf_id :: uint32
  fj_cf_name :: string
  fj_file_path :: string
  fj_file_number :: uint64
  fj_oldest_blob_file_number :: uint64
  fj_thread_id :: uint64
  fj_job_id :: int
  fj_triggered_writes_slowdown :: bool
  fj_triggered_writes_stop :: bool
  fj_smallest_seqno :: uint64
  fj_largest_seqno :: uint64
  fj_table_properties :: TableProperties
  fj_flush_reason :: FlushReason
  fj_blob_compression_type :: CompressionType
  fj_blob_file_addition_infos :: "BlobFileAdditionInfo list"

record CompactionFileInfo =
  cfi_level :: int
  cfi_file_number :: uint64
  cfi_oldest_blob_file_number :: uint64

record SubcompactionJobInfo =
  sj_cf_id :: uint32
  sj_cf_name :: string
  sj_status :: Status
  sj_thread_id :: uint64
  sj_job_id :: int
  sj_subcompaction_job_id :: int
  sj_base_input_level :: int
  sj_output_level :: int
  sj_compaction_reason :: CompactionReason
  sj_compression :: CompressionType
  sj_stats :: CompactionJobStats
  sj_blob_compression_type :: CompressionType

record CompactionJobInfo =
  ci_cf_id :: uint32
  ci_cf_name :: string
  ci_status :: Status
  ci_thread_id :: uint64
  ci_job_id :: int
  ci_base_input_level :: int
  ci_output_level :: int
  ci_input_files :: "string list"
  ci_input_file_infos :: "CompactionFileInfo list"
  ci_output_files :: "string list"
  ci_output_file_infos :: "CompactionFileInfo list"
  ci_table_properties :: "string \<rightharpoonup> TableProperties"
  ci_compaction_reason :: CompactionReason
  ci_compression :: CompressionType
  ci_stats :: CompactionJobStats
  ci_blob_compression_type :: CompressionType
  ci_blob_file_addition_infos :: "BlobFileAdditionInfo list"
  ci_blob_file_garbage_infos :: "BlobFileGarbageInfo list"

record MemTableInfo =
  mt_cf_name :: string
  mt_first_seqno :: uint64
  mt_earliest_seqno :: uint64
  mt_num_entries :: uint64
  mt_num_deletes :: uint64
  mt_newest_udt :: string

record ExternalFileIngestionInfo =
  ei_cf_name :: string
  ei_external_file_path :: string
  ei_internal_file_path :: string
  ei_global_seqno :: uint64
  ei_table_properties :: TableProperties

record BackgroundErrorRecoveryInfo =
  er_old_bg_error :: Status
  er_new_bg_error :: Status

text \<open>sst_file_writer.h.\<close>

record ExternalSstFileInfo =
  es_file_path :: string
  es_smallest_key :: string
  es_largest_key :: string
  es_smallest_range_del_key :: string
  es_largest_range_del_key :: string
  es_file_checksum :: string
  es_file_checksum_func_name :: string
  es_sequence_number :: uint64
  es_file_size :: uint64
  es_num_entries :: uint64
  es_num_range_del_entries :: uint64
  es_version :: "32 word"

definition ExternalSstFileInfo_new ::
    "string \<Rightarrow> string \<Rightarrow> string \<Rightarrow> uint64 \<Rightarrow> uint64 \<Rightarrow> uint64 \<Rightarrow> 32 word \<Rightarrow> ExternalSstFileInfo" where
  "ExternalSstFileInfo_new path lo hi seqno sz entries version =
     \<lparr>es_file_path = path, es_smallest_key = lo, es_largest_key = hi, es_smallest_range_del_key = [],
      es_largest_range_del_key = [], es_file_checksum = [], es_file_checksum_func_name = [],
      es_sequence_number = seqno, es_file_size = sz, es_num_entries = entries, es_num_range_del_entries = 0,
      es_version = version\<rparr>"

definition ExternalSstFileInfo_default :: ExternalSstFileInfo where
  "ExternalSstFileInfo_default =
     \<lparr>es_file_path = [], es_smallest_key = [], es_largest_key = [], es_smallest_range_del_key = [],
      es_largest_range_del_key = [], es_file_checksum = [], es_file_checksum_func_name = [],
      es_sequence_number = 0, es_file_size = 0, es_num_entries = 0, es_num_range_del_entries = 0,
      es_version = 0\<rparr>"

section \<open>Listeners\<close>

text \<open>
  The callbacks. \<open>OnBackgroundError\<close> may change the error it is given, \<open>OnErrorRecoveryBegin\<close> the flag
  that allows an automatic recovery: their replies are the values left there.
\<close>

datatype (plugins only: code size) Listener_call =
    OnFlushCompleted pointer_handle FlushJobInfo | OnFlushBegin pointer_handle FlushJobInfo
  | OnManualFlushScheduled pointer_handle "ManualFlushInfo list" | OnTableFileDeleted FileDeletionInfo
  | OnCompactionBegin pointer_handle CompactionJobInfo | OnCompactionCompleted pointer_handle CompactionJobInfo
  | OnSubcompactionBegin SubcompactionJobInfo | OnSubcompactionCompleted SubcompactionJobInfo
  | OnTableFileCreated TableFileCreationInfo | OnTableFileCreationStarted TableFileCreationBriefInfo
  | OnMemTableSealed MemTableInfo | OnColumnFamilyHandleDeletionStarted pointer_handle
  | OnExternalFileIngested pointer_handle ExternalFileIngestionInfo
  | OnBackgroundError BackgroundErrorReason Status | OnStallConditionsChanged WriteStallInfo
  | OnFileReadFinish FileOperationInfo | OnFileWriteFinish FileOperationInfo
  | OnFileFlushFinish FileOperationInfo | OnFileSyncFinish FileOperationInfo
  | OnFileRangeSyncFinish FileOperationInfo | OnFileTruncateFinish FileOperationInfo
  | OnFileCloseFinish FileOperationInfo | ShouldBeNotifiedOnFileIO
  | OnErrorRecoveryBegin BackgroundErrorReason Status bool | OnErrorRecoveryCompleted Status
  | OnErrorRecoveryEnd BackgroundErrorRecoveryInfo | OnBlobFileCreationStarted BlobFileCreationBriefInfo
  | OnBlobFileCreated BlobFileCreationInfo | OnBlobFileDeleted FileDeletionInfo | OnIOError IOErrorInfo

datatype listener_reply = EL_void | EL_error Status | EL_bool bool

definition EventListener_own :: "Listener_call \<Rightarrow> listener_reply" where
  "EventListener_own c =
     (case c of
        OnBackgroundError why e \<Rightarrow> EL_error e
      | OnErrorRecoveryBegin why e auto_recovery \<Rightarrow> EL_bool auto_recovery
      | ShouldBeNotifiedOnFileIO \<Rightarrow> EL_bool False
      | _ \<Rightarrow> EL_void)"

definition EventListener_object ::
    "(Listener_call \<Rightarrow> ('s \<Rightarrow> listener_reply \<times> 's) option) \<Rightarrow> Listener_call \<Rightarrow> 's \<Rightarrow> listener_reply \<times> 's" where
  "EventListener_object over c s = (case over c of Some f \<Rightarrow> f s | None \<Rightarrow> (EventListener_own c, s))"

definition EventListener_Name :: string where
  "EventListener_Name = []"

section \<open>Properties\<close>

text \<open>
  A listener's state is changed by the events it overrides, in their order, and by nothing else:
  any sequence of events leaves it as its overridden events do. An event it does not override leaves
  a background error and the permission to recover as they were.
\<close>

theorem listener_sees_overridden_events:
  "snd (run_calls (EventListener_object over) cs s) =
     snd (run_calls (EventListener_object over) (filter (\<lambda>c. over c \<noteq> None) cs) s) \<and>
   EventListener_object (\<lambda>c. None) (OnBackgroundError why e) s = (EL_error e, s) \<and>
   EventListener_object (\<lambda>c. None) (OnErrorRecoveryBegin why e auto_recovery) s = (EL_bool auto_recovery, s)"
proof (intro conjI)
  show "snd (run_calls (EventListener_object over) cs s) =
     snd (run_calls (EventListener_object over) (filter (\<lambda>c. over c \<noteq> None) cs) s)"
    by (induction cs arbitrary: s) (auto simp: EventListener_object_def case_prod_beta)
qed (simp_all add: EventListener_object_def EventListener_own_def)

text \<open>A collector of the old interface overrides at most \<open>Add\<close>.\<close>

fun add_of :: "Collector_call \<Rightarrow> Collector_call" where
  "add_of (TC_AddUserKey k v t seq sz) = TC_Add k v"
| "add_of c = c"

text \<open>
  A table with any entries looks to a collector that overrides at most \<open>Add\<close> like the sequence of
  its keys and values: each new call acts and replies as the deprecated one. A collector that
  overrides neither rejects every entry and keeps its state.
\<close>

theorem old_collector_sees_keys_and_values:
  assumes "\<forall>k v t seq sz. over (TC_AddUserKey k v t seq sz) = None"
  shows "run_calls (Collector_object mk over) cs s = run_calls (Collector_object mk over) (map add_of cs) s \<and>
    ((\<forall>k v. over (TC_Add k v) = None) \<longrightarrow>
      Collector_object mk over (TC_AddUserKey k v t seq sz) s =
        (TC_status (invalid_argument mk ''TablePropertiesCollector::Add() deprecated.''), s))"
proof (intro conjI)
  have "Collector_object mk over c s = Collector_object mk over (add_of c) s" for c s
    using assms by (cases c) (simp_all add: Collector_object_def Collector_plain_def split: option.split)
  then show "run_calls (Collector_object mk over) cs s = run_calls (Collector_object mk over) (map add_of cs) s"
    by (induction cs arbitrary: s) (simp_all split: prod.splits)
qed (simp add: assms Collector_object_def Collector_plain_def Collector_own_def)

definition key_collector :: "Collector_call \<Rightarrow> (Slice list \<Rightarrow> collector_reply \<times> Slice list) option" where
  "key_collector c = (case c of TC_Add k v \<Rightarrow> Some (\<lambda>s. (TC_status Status_OK, s @ [k])) | _ \<Rightarrow> None)"

theorem old_collector_sees_keys_and_values_witness:
  "run_calls (Collector_object plain_ctor key_collector)
     [TC_AddUserKey (Slice_string ''a'') Slice_empty kEntryPut 1 2, TC_NeedCompact] [] =
   ([TC_status Status_OK, TC_bool False], [Slice_string ''a''])"
proof -
  have "\<forall>k v t seq sz. key_collector (TC_AddUserKey k v t seq sz) = None"
    by (simp add: key_collector_def)
  from conjunct1 [OF old_collector_sees_keys_and_values [OF this, of plain_ctor
      "[TC_AddUserKey (Slice_string ''a'') Slice_empty kEntryPut 1 2, TC_NeedCompact]" "[]"]]
  show ?thesis
    by (simp add: Collector_object_def Collector_plain_def key_collector_def Collector_own_def)
qed

text \<open>
  A listener never learns how severe an I/O error is: whatever the severity of the status the error is
  made from, \<open>OnIOError\<close> gets a record whose status has none, while a file operation keeps it.
\<close>

theorem io_error_info_loses_severity:
  assumes "\<And>m. cs m = m"
  shows "ie_io_status (IOErrorInfo_new cs st t path len off) = st\<lparr>st_sev := kNoError\<rparr> \<and>
    op_status (FileOperationInfo_new cs indet_offset indet_length t path start finish st temp) = st"
  using IOStatus_copy_drops_severity [of cs st, OF assms] Status_copy_id [of cs st, OF assms]
  by (simp add: IOErrorInfo_new_def FileOperationInfo_new_def)

theorem io_error_info_loses_severity_witness:
  "st_sev (ie_io_status (IOErrorInfo_new id (Status_default\<lparr>st_code := kIOError, st_sev := kFatalError\<rparr>)
     FO_kRead [] 0 0)) = kNoError"
  using io_error_info_loses_severity [of id "Status_default\<lparr>st_code := kIOError, st_sev := kFatalError\<rparr>" FO_kRead "[]" 0 0]
  by simp

end
