(* ===== verification/TraceModel.thy ===== *)
theory TraceModel
  imports Complex_Main OptionRecords
begin

text \<open>
  What RocksDB traces and measures: include/rocksdb/trace_record.h, trace_record_result.h,
  block_cache_trace_writer.h, table_reader_caller.h, thread_status.h, perf_context.h (the counters of
  a level), iostats_context.h, perf_level.h and utilities/replayer.h. Counters and times keep their 64 bits.
\<close>

section \<open>Traces\<close>

datatype (plugins only: code size) TraceType =
    kTraceNone | kTraceBegin | kTraceEnd | kTraceWrite | kTraceGet | kTraceIteratorSeek | kTraceIteratorSeekForPrev
  | kBlockTraceIndexBlock | kBlockTraceFilterBlock | kBlockTraceDataBlock | kBlockTraceUncompressionDictBlock
  | kBlockTraceRangeDeletionBlock | kIOTracer | kTraceMultiGet | kTraceMax

primrec TraceType_val :: "TraceType \<Rightarrow> nat" where
  "TraceType_val kTraceNone = 0" | "TraceType_val kTraceBegin = 1" | "TraceType_val kTraceEnd = 2"
| "TraceType_val kTraceWrite = 3" | "TraceType_val kTraceGet = 4" | "TraceType_val kTraceIteratorSeek = 5"
| "TraceType_val kTraceIteratorSeekForPrev = 6" | "TraceType_val kBlockTraceIndexBlock = 7"
| "TraceType_val kBlockTraceFilterBlock = 8" | "TraceType_val kBlockTraceDataBlock = 9"
| "TraceType_val kBlockTraceUncompressionDictBlock = 10" | "TraceType_val kBlockTraceRangeDeletionBlock = 11"
| "TraceType_val kIOTracer = 12" | "TraceType_val kTraceMultiGet = 13" | "TraceType_val kTraceMax = 14"

datatype SeekType = kSeek | kSeekForPrev

definition SeekType_val :: "SeekType \<Rightarrow> nat" where
  "SeekType_val t = (case t of kSeek \<Rightarrow> TraceType_val kTraceIteratorSeek
     | kSeekForPrev \<Rightarrow> TraceType_val kTraceIteratorSeekForPrev)"

text \<open>The records of the queries, and the type each reports. \<open>GetTraceType\<close> of a seek is in the library.\<close>

datatype QueryTraceRecord =
    WriteQueryTraceRecord (tr_rep: bytes) (query_timestamp: uint64)
  | GetQueryTraceRecord (tr_cf_id: uint32) (tr_key: bytes) (query_timestamp: uint64)
  | IteratorSeekQueryTraceRecord (tr_type: SeekType) (tr_cf_id: uint32) (tr_key: bytes) (tr_lower: bytes) (tr_upper: bytes)
      (query_timestamp: uint64)
  | MultiGetQueryTraceRecord (tr_cf_ids: "uint32 list") (tr_keys: "bytes list") (query_timestamp: uint64)

definition GetTraceType :: "(SeekType \<Rightarrow> TraceType) \<Rightarrow> QueryTraceRecord \<Rightarrow> TraceType" where
  "GetTraceType seek_trace_type r =
     (case r of
        WriteQueryTraceRecord rep ts \<Rightarrow> kTraceWrite
      | GetQueryTraceRecord cf k ts \<Rightarrow> kTraceGet
      | IteratorSeekQueryTraceRecord t cf k lo hi ts \<Rightarrow> seek_trace_type t
      | MultiGetQueryTraceRecord cfs ks ts \<Rightarrow> kTraceMultiGet)"

text \<open>The two time stamps are read through virtual functions (the first two arguments).\<close>

definition GetLatency :: "('r \<Rightarrow> uint64) \<Rightarrow> ('r \<Rightarrow> uint64) \<Rightarrow> 'r \<Rightarrow> uint64" where
  "GetLatency GetStartTimestamp GetEndTimestamp r = GetEndTimestamp r - GetStartTimestamp r"

record ReplayOptions =
  num_threads :: uint32
  fast_forward :: rat

text \<open>The factor is a double, kept as the rational number it is.\<close>

definition ReplayOptions_default :: ReplayOptions where
  "ReplayOptions_default = \<lparr>num_threads = 1, fast_forward = 1\<rparr>"

definition ReplayOptions_new :: "uint32 \<Rightarrow> rat \<Rightarrow> ReplayOptions" where
  "ReplayOptions_new num_of_threads ratio = \<lparr>num_threads = num_of_threads, fast_forward = ratio\<rparr>"

section \<open>Block cache traces\<close>

datatype (plugins only: code size) TableReaderCaller =
    kUserGet | kUserMultiGet | kUserIterator | kUserApproximateSize | kUserVerifyChecksum | kSSTDumpTool
  | kExternalSSTIngestion | kRepair | kPrefetch | TRC_kCompaction | kCompactionRefill | TRC_kFlush
  | kSSTFileReader | kUncategorized | kMaxBlockCacheLookupCaller

record BlockCacheTraceRecord =
  access_timestamp :: uint64
  bc_block_key :: string
  bc_block_type :: TraceType
  bc_block_size :: uint64
  bc_cf_id :: uint64
  bc_cf_name :: string
  bc_level :: uint32
  sst_fd_number :: uint64
  bc_caller :: TableReaderCaller
  is_cache_hit :: bool
  no_insert :: bool
  get_id :: uint64
  get_from_user_specified_snapshot :: bool
  referenced_key :: string
  referenced_data_size :: uint64
  num_keys_in_block :: uint64
  referenced_key_exist_in_block :: bool

text \<open>\<open>kReservedGetId\<close> is defined in the library: the argument.\<close>

definition BlockCacheTraceRecord_default :: "uint64 \<Rightarrow> BlockCacheTraceRecord" where
  "BlockCacheTraceRecord_default reserved_get_id = \<lparr>access_timestamp = 0, bc_block_key = [], bc_block_type = kTraceMax,
     bc_block_size = 0, bc_cf_id = 0, bc_cf_name = [], bc_level = 0, sst_fd_number = 0,
     bc_caller = kMaxBlockCacheLookupCaller, is_cache_hit = False, no_insert = False, get_id = reserved_get_id,
     get_from_user_specified_snapshot = False, referenced_key = [], referenced_data_size = 0,
     num_keys_in_block = 0, referenced_key_exist_in_block = False\<rparr>"

definition BlockCacheTraceRecord_new ::
    "uint64 \<Rightarrow> string \<Rightarrow> TraceType \<Rightarrow> uint64 \<Rightarrow> uint64 \<Rightarrow> string \<Rightarrow> uint32 \<Rightarrow> uint64 \<Rightarrow> TableReaderCaller \<Rightarrow> bool \<Rightarrow> bool \<Rightarrow>
     uint64 \<Rightarrow> bool \<Rightarrow> string \<Rightarrow> uint64 \<Rightarrow> uint64 \<Rightarrow> bool \<Rightarrow> BlockCacheTraceRecord" where
  "BlockCacheTraceRecord_new ts k t sz cf name lvl fd who hit skip gid snap ref_key ref_size nkeys exists =
     \<lparr>access_timestamp = ts, bc_block_key = k, bc_block_type = t, bc_block_size = sz, bc_cf_id = cf,
      bc_cf_name = name, bc_level = lvl, sst_fd_number = fd, bc_caller = who, is_cache_hit = hit,
      no_insert = skip, get_id = gid, get_from_user_specified_snapshot = snap, referenced_key = ref_key,
      referenced_data_size = ref_size, num_keys_in_block = nkeys, referenced_key_exist_in_block = exists\<rparr>"

text \<open>The default arguments of the last five parameters.\<close>

definition BlockCacheTraceRecord_short ::
    "uint64 \<Rightarrow> string \<Rightarrow> TraceType \<Rightarrow> uint64 \<Rightarrow> uint64 \<Rightarrow> string \<Rightarrow> uint32 \<Rightarrow> uint64 \<Rightarrow> TableReaderCaller \<Rightarrow> bool \<Rightarrow> bool \<Rightarrow>
     uint64 \<Rightarrow> BlockCacheTraceRecord" where
  "BlockCacheTraceRecord_short ts k t sz cf name lvl fd who hit skip gid =
     BlockCacheTraceRecord_new ts k t sz cf name lvl fd who hit skip gid False [] 0 0 False"

definition sampling_frequency_default :: uint64 where "sampling_frequency_default = 1"

definition max_trace_file_size_default :: uint64 where "max_trace_file_size_default = 64 * 1024 * 1024 * 1024"

section \<open>Threads\<close>

datatype ThreadType = HIGH_PRIORITY | LOW_PRIORITY | THREAD_USER | BOTTOM_PRIORITY | NUM_THREAD_TYPES

datatype (plugins only: code size) OperationType =
    OP_UNKNOWN | OP_COMPACTION | OP_FLUSH | OP_DBOPEN | OP_GET | OP_MULTIGET | OP_DBITERATOR
  | OP_VERIFY_DB_CHECKSUM | OP_VERIFY_FILE_CHECKSUMS | OP_GETENTITY | OP_MULTIGETENTITY | NUM_OP_TYPES

datatype (plugins only: code size) OperationStage =
    STAGE_UNKNOWN | STAGE_FLUSH_RUN | STAGE_FLUSH_WRITE_L0 | STAGE_COMPACTION_PREPARE | STAGE_COMPACTION_RUN
  | STAGE_COMPACTION_PROCESS_KV | STAGE_COMPACTION_INSTALL | STAGE_COMPACTION_SYNC_FILE
  | STAGE_PICK_MEMTABLES_TO_FLUSH | STAGE_MEMTABLE_ROLLBACK | STAGE_MEMTABLE_INSTALL_FLUSH_RESULTS | NUM_OP_STAGES

datatype CompactionPropertyType =
    COMPACTION_JOB_ID | COMPACTION_INPUT_OUTPUT_LEVEL | COMPACTION_PROP_FLAGS | COMPACTION_TOTAL_INPUT_BYTES
  | COMPACTION_BYTES_READ | COMPACTION_BYTES_WRITTEN | NUM_COMPACTION_PROPERTIES

primrec CompactionPropertyType_val :: "CompactionPropertyType \<Rightarrow> nat" where
  "CompactionPropertyType_val COMPACTION_JOB_ID = 0" | "CompactionPropertyType_val COMPACTION_INPUT_OUTPUT_LEVEL = 1"
| "CompactionPropertyType_val COMPACTION_PROP_FLAGS = 2" | "CompactionPropertyType_val COMPACTION_TOTAL_INPUT_BYTES = 3"
| "CompactionPropertyType_val COMPACTION_BYTES_READ = 4" | "CompactionPropertyType_val COMPACTION_BYTES_WRITTEN = 5"
| "CompactionPropertyType_val NUM_COMPACTION_PROPERTIES = 6"

datatype FlushPropertyType = FLUSH_JOB_ID | FLUSH_BYTES_MEMTABLES | FLUSH_BYTES_WRITTEN | NUM_FLUSH_PROPERTIES

primrec FlushPropertyType_val :: "FlushPropertyType \<Rightarrow> nat" where
  "FlushPropertyType_val FLUSH_JOB_ID = 0" | "FlushPropertyType_val FLUSH_BYTES_MEMTABLES = 1"
| "FlushPropertyType_val FLUSH_BYTES_WRITTEN = 2" | "FlushPropertyType_val NUM_FLUSH_PROPERTIES = 3"

definition constexpr_max :: "nat \<Rightarrow> nat \<Rightarrow> nat" where
  "constexpr_max a b = (if a > b then a else b)"

definition kNumOperationProperties :: nat where
  "kNumOperationProperties =
     constexpr_max (CompactionPropertyType_val NUM_COMPACTION_PROPERTIES) (FlushPropertyType_val NUM_FLUSH_PROPERTIES)"

datatype StateType = STATE_UNKNOWN | STATE_MUTEX_WAIT | NUM_STATE_TYPES

record ThreadStatus =
  thread_id :: uint64
  thread_type :: ThreadType
  th_db_name :: string
  th_cf_name :: string
  operation_type :: OperationType
  op_elapsed_micros :: uint64
  operation_stage :: OperationStage
  op_properties :: "uint64 list"
  state_type :: StateType

text \<open>
  The loop of the constructor: the member array is \<open>dst\<close>, the argument the array \<open>src\<close>, of which the
  code knows no length. Reading beyond it is None.
\<close>

function copy_props :: "nat \<Rightarrow> uint64 list \<Rightarrow> uint64 list \<Rightarrow> uint64 list option" where
  "copy_props i src dst =
     (if i < kNumOperationProperties then
        (if i < length src then copy_props (i + 1) src (dst[i := src ! i]) else None)
      else Some dst)"
  by auto
termination by (relation "measure (\<lambda>(i, src, dst). kNumOperationProperties - i)") auto

declare copy_props.simps [simp del]

definition ThreadStatus_new ::
    "uint64 list \<Rightarrow> uint64 \<Rightarrow> ThreadType \<Rightarrow> string \<Rightarrow> string \<Rightarrow> OperationType \<Rightarrow> uint64 \<Rightarrow> OperationStage \<Rightarrow>
     uint64 list \<Rightarrow> StateType \<Rightarrow> ThreadStatus option" where
  "ThreadStatus_new indet tid ttype db cf op elapsed stage props st =
     (case copy_props 0 props indet of
        None \<Rightarrow> None
      | Some ps \<Rightarrow> Some \<lparr>thread_id = tid, thread_type = ttype, th_db_name = db, th_cf_name = cf, operation_type = op,
                      op_elapsed_micros = elapsed, operation_stage = stage, op_properties = ps, state_type = st\<rparr>)"

section \<open>Counters\<close>

datatype PerfLevel =
    PL_kUninitialized | PL_kDisable | PL_kEnableCount | PL_kEnableWait | PL_kEnableTimeExceptForMutex
  | PL_kEnableTimeAndCPUTimeExceptForMutex | PL_kEnableTime | PL_kOutOfBounds

record PerfContextByLevelBase =
  bloom_filter_useful :: uint64
  bloom_filter_full_positive :: uint64
  bloom_filter_full_true_positive :: uint64
  user_key_return_count :: uint64
  get_from_table_nanos :: uint64
  pc_block_cache_hit_count :: uint64
  pc_block_cache_miss_count :: uint64

definition PerfContextByLevelBase_default :: PerfContextByLevelBase where
  "PerfContextByLevelBase_default = \<lparr>bloom_filter_useful = 0, bloom_filter_full_positive = 0,
     bloom_filter_full_true_positive = 0, user_key_return_count = 0, get_from_table_nanos = 0,
     pc_block_cache_hit_count = 0, pc_block_cache_miss_count = 0\<rparr>"

record FileIOByTemperature =
  hot_file_bytes_read :: uint64
  warm_file_bytes_read :: uint64
  cold_file_bytes_read :: uint64
  hot_file_read_count :: uint64
  warm_file_read_count :: uint64
  cold_file_read_count :: uint64

definition FileIO_Reset :: "FileIOByTemperature \<Rightarrow> FileIOByTemperature" where
  "FileIO_Reset f = f\<lparr>hot_file_bytes_read := 0, warm_file_bytes_read := 0, cold_file_bytes_read := 0,
     hot_file_read_count := 0, warm_file_read_count := 0, cold_file_read_count := 0\<rparr>"

record IOStatsContext =
  thread_pool_id :: uint64
  io_bytes_written :: uint64
  io_bytes_read :: uint64
  open_nanos :: uint64
  allocate_nanos :: uint64
  write_nanos :: uint64
  read_nanos :: uint64
  range_sync_nanos :: uint64
  fsync_nanos :: uint64
  prepare_write_nanos :: uint64
  logger_nanos :: uint64
  cpu_write_nanos :: uint64
  cpu_read_nanos :: uint64
  file_io_stats_by_temperature :: FileIOByTemperature
  disable_iostats :: bool

section \<open>Properties\<close>

lemma kNumOperationProperties_eq: "kNumOperationProperties = 6"
  by (simp add: kNumOperationProperties_def constexpr_max_def)

lemma copy_props_from:
  assumes "kNumOperationProperties \<le> length src" "i \<le> kNumOperationProperties" "length dst = kNumOperationProperties"
    "take i dst = take i src"
  shows "copy_props i src dst = Some (take kNumOperationProperties src)"
  using assms
proof (induction i src dst rule: copy_props.induct)
  case (1 i src dst)
  show ?case
  proof (cases "i < kNumOperationProperties")
    case True
    have "take (i + 1) (dst[i := src ! i]) = take (i + 1) src"
      using True "1.prems" by (simp add: take_Suc_conv_app_nth)
    with 1 True show ?thesis
      by (subst copy_props.simps) simp
  next
    case False
    with "1.prems" show ?thesis by (subst copy_props.simps) simp
  qed
qed

lemma copy_props_short:
  assumes "length src < kNumOperationProperties" "i \<le> length src"
  shows "copy_props i src dst = None"
  using assms
proof (induction i src dst rule: copy_props.induct)
  case (1 i src dst)
  then show ?case by (subst copy_props.simps) auto
qed

text \<open>
  C40. The constructor of a thread status copies the first six properties it is given, the number that
  both kinds of operations fit in, whatever its array held before; it never reads beyond them, and
  reads beyond the end of an array of fewer than six.
\<close>

theorem thread_status_properties:
  assumes "length indet = kNumOperationProperties"
  shows "map_option op_properties (ThreadStatus_new indet tid ttype db cf op elapsed stage props st) =
      (if kNumOperationProperties \<le> length props then Some (take kNumOperationProperties props) else None) \<and>
    CompactionPropertyType_val NUM_COMPACTION_PROPERTIES \<le> kNumOperationProperties \<and>
    FlushPropertyType_val NUM_FLUSH_PROPERTIES \<le> kNumOperationProperties"
  using copy_props_from [of props 0 indet] copy_props_short [of props 0 indet] assms
  by (auto simp: ThreadStatus_new_def kNumOperationProperties_eq not_le)

theorem thread_status_properties_witness:
  "map_option op_properties (ThreadStatus_new [0, 0, 0, 0, 0, 0] 1 THREAD_USER [] [] OP_GET 5 STAGE_UNKNOWN
     [1, 2, 3, 4, 5, 6, 7] STATE_UNKNOWN) = Some [1, 2, 3, 4, 5, 6]"
  using thread_status_properties [of "[0, 0, 0, 0, 0, 0]" 1 THREAD_USER "[]" "[]" OP_GET 5 STAGE_UNKNOWN
      "[1, 2, 3, 4, 5, 6, 7]" STATE_UNKNOWN]
  by (simp add: kNumOperationProperties_eq)

text \<open>
  A latency is computed in 64 bits: added to the start it gives the end, and as a number it is the
  difference of the two times when the clock did not go back, and otherwise 2^64 more than it.
\<close>

theorem latency_wraps:
  "GetStartTimestamp r + GetLatency GetStartTimestamp GetEndTimestamp r = GetEndTimestamp r \<and>
   uint (GetLatency GetStartTimestamp GetEndTimestamp r) =
     (if GetStartTimestamp r \<le> GetEndTimestamp r then uint (GetEndTimestamp r) - uint (GetStartTimestamp r)
      else uint (GetEndTimestamp r) - uint (GetStartTimestamp r) + 2 ^ 64)"
  by (simp add: GetLatency_def uint_sub_if' word_le_def)

text \<open>The trace types that queries report are distinct, and different from the other ones.\<close>

theorem query_trace_types:
  "TraceType_val s = TraceType_val t \<longleftrightarrow> s = t"
  by (cases s; cases t) simp_all

end
