(* ===== verification/PluginModel.thy ===== *)
theory PluginModel
  imports OptionRecords WideColumnsModel Forwarding
begin

text \<open>
  Interfaces that users implement, with the defaults of their virtual functions: memtables
  (include/rocksdb/memtablerep.h), statistics (statistics.h), iterators (iterator_base.h, iterator.h),
  filters of the write-ahead log (wal_filter.h), merge operators (merge_operator.h), and the result of
  an ldb command (utilities/ldb_cmd_execute_result.h). A failed assertion is None.
\<close>

section \<open>Memtables\<close>

text \<open>Keys are handles of memory in the memtable; a hint is the address of a pointer.\<close>

datatype (plugins only: code size) MemTableRep_call =
    MR_Insert nat | MR_InsertKey nat | MR_InsertWithHint nat pointer_handle
  | MR_InsertKeyWithHint nat pointer_handle | MR_InsertWithHintConcurrently nat pointer_handle
  | MR_InsertKeyWithHintConcurrently nat pointer_handle | MR_InsertConcurrently nat
  | MR_InsertKeyConcurrently nat | MR_Allocate nat | MR_Contains bytes | MR_MarkReadOnly | MR_MarkFlushed
  | MR_Get Slice pointer_handle pointer_handle | MR_ApproximateNumEntries Slice Slice
  | MR_UniqueRandomSample uint64 uint64 | MR_ApproximateMemoryUsage | MR_GetIterator pointer_handle
  | MR_GetDynamicPrefixIterator pointer_handle | MR_IsMergeOperatorSupported | MR_IsSnapshotSupported
  | MR_UserKey bytes

datatype 'v memtable_reply = M_void | M_bool bool | M_number uint64 | M_value 'v | M_pure_virtual

type_synonym ('s, 'v) memtable_step = "'s \<Rightarrow> ('v memtable_reply \<times> 's) option"

text \<open>
  \<open>InsertConcurrently\<close>, \<open>Get\<close>, \<open>Allocate\<close> and \<open>UserKey\<close> are defined in the library (\<open>elsewhere\<close>).
\<close>

definition MemTableRep_plain ::
    "(MemTableRep_call \<Rightarrow> ('s, 'v) memtable_step) \<Rightarrow> (MemTableRep_call \<Rightarrow> ('s, 'v) memtable_step option) \<Rightarrow>
     MemTableRep_call \<Rightarrow> ('s, 'v) memtable_step" where
  "MemTableRep_plain elsewhere over c s =
     (case over c of
        Some f \<Rightarrow> f s
      | None \<Rightarrow> (case c of
          MR_InsertConcurrently h \<Rightarrow> elsewhere c s
        | MR_Allocate n \<Rightarrow> elsewhere c s
        | MR_Get k args callback \<Rightarrow> elsewhere c s
        | MR_UserKey k \<Rightarrow> elsewhere c s
        | MR_MarkReadOnly \<Rightarrow> Some (M_void, s)
        | MR_MarkFlushed \<Rightarrow> Some (M_void, s)
        | MR_ApproximateNumEntries a b \<Rightarrow> Some (M_number 0, s)
        | MR_UniqueRandomSample n m \<Rightarrow> None
        | MR_IsMergeOperatorSupported \<Rightarrow> Some (M_bool True, s)
        | MR_IsSnapshotSupported \<Rightarrow> Some (M_bool True, s)
        | _ \<Rightarrow> Some (M_pure_virtual, s)))"

text \<open>A call whose reply is replaced by one's own.\<close>

definition replying :: "'v memtable_reply \<Rightarrow> ('v memtable_reply \<times> 's) option \<Rightarrow> ('v memtable_reply \<times> 's) option" where
  "replying r x = map_option (\<lambda>(q, s). (r, s)) x"

definition MemTableRep_hint ::
    "(MemTableRep_call \<Rightarrow> ('s, 'v) memtable_step) \<Rightarrow> (MemTableRep_call \<Rightarrow> ('s, 'v) memtable_step option) \<Rightarrow>
     MemTableRep_call \<Rightarrow> ('s, 'v) memtable_step" where
  "MemTableRep_hint elsewhere over c s =
     (case over c of
        Some f \<Rightarrow> f s
      | None \<Rightarrow> (case c of
          MR_InsertWithHint h hint \<Rightarrow> replying M_void (MemTableRep_plain elsewhere over (MR_Insert h) s)
        | MR_InsertWithHintConcurrently h hint \<Rightarrow>
            replying M_void (MemTableRep_plain elsewhere over (MR_InsertConcurrently h) s)
        | MR_GetDynamicPrefixIterator arena \<Rightarrow> MemTableRep_plain elsewhere over (MR_GetIterator arena) s
        | _ \<Rightarrow> MemTableRep_plain elsewhere over c s))"

definition MemTableRep_object ::
    "(MemTableRep_call \<Rightarrow> ('s, 'v) memtable_step) \<Rightarrow> (MemTableRep_call \<Rightarrow> ('s, 'v) memtable_step option) \<Rightarrow>
     MemTableRep_call \<Rightarrow> ('s, 'v) memtable_step" where
  "MemTableRep_object elsewhere over c s =
     (case over c of
        Some f \<Rightarrow> f s
      | None \<Rightarrow> (case c of
          MR_InsertKey h \<Rightarrow> replying (M_bool True) (MemTableRep_hint elsewhere over (MR_Insert h) s)
        | MR_InsertKeyWithHint h hint \<Rightarrow>
            replying (M_bool True) (MemTableRep_hint elsewhere over (MR_InsertWithHint h hint) s)
        | MR_InsertKeyWithHintConcurrently h hint \<Rightarrow>
            replying (M_bool True) (MemTableRep_hint elsewhere over (MR_InsertWithHintConcurrently h hint) s)
        | MR_InsertKeyConcurrently h \<Rightarrow>
            replying (M_bool True) (MemTableRep_hint elsewhere over (MR_InsertConcurrently h) s)
        | _ \<Rightarrow> MemTableRep_hint elsewhere over c s))"

definition IsInsertConcurrentlySupported_default :: bool where
  "IsInsertConcurrentlySupported_default = False"

definition CanHandleDuplicatedKey_default :: bool where
  "CanHandleDuplicatedKey_default = False"

section \<open>Statistics\<close>

datatype StatsLevel =
    kDisableAll | kExceptHistogramOrTimers | kExceptTimers | kExceptDetailedTimers
  | kExceptTimeForMutex | kAll

definition StatsLevel_val :: "StatsLevel \<Rightarrow> nat" where
  "StatsLevel_val l =
     (case l of kDisableAll \<Rightarrow> 0 | kExceptHistogramOrTimers \<Rightarrow> 1 | kExceptTimers \<Rightarrow> 2
      | kExceptDetailedTimers \<Rightarrow> 3 | kExceptTimeForMutex \<Rightarrow> 4 | kAll \<Rightarrow> 5)"

definition kExceptTickers :: StatsLevel where
  "kExceptTickers = kDisableAll"

datatype (plugins only: code size) Histograms =
    DB_GET | DB_WRITE | COMPACTION_TIME | COMPACTION_CPU_TIME | SUBCOMPACTION_SETUP_TIME
  | TABLE_SYNC_MICROS | COMPACTION_OUTFILE_SYNC_MICROS | WAL_FILE_SYNC_MICROS
  | MANIFEST_FILE_SYNC_MICROS | TABLE_OPEN_IO_MICROS | DB_MULTIGET | READ_BLOCK_COMPACTION_MICROS
  | READ_BLOCK_GET_MICROS | WRITE_RAW_BLOCK_MICROS | NUM_FILES_IN_SINGLE_COMPACTION | DB_SEEK
  | WRITE_STALL | SST_READ_MICROS | FILE_READ_FLUSH_MICROS | FILE_READ_COMPACTION_MICROS
  | FILE_READ_DB_OPEN_MICROS | FILE_READ_GET_MICROS | FILE_READ_MULTIGET_MICROS
  | FILE_READ_DB_ITERATOR_MICROS | FILE_READ_VERIFY_DB_CHECKSUM_MICROS
  | FILE_READ_VERIFY_FILE_CHECKSUMS_MICROS | SST_WRITE_MICROS | FILE_WRITE_FLUSH_MICROS
  | FILE_WRITE_COMPACTION_MICROS | FILE_WRITE_DB_OPEN_MICROS | NUM_SUBCOMPACTIONS_SCHEDULED
  | BYTES_PER_READ | BYTES_PER_WRITE | BYTES_PER_MULTIGET | COMPRESSION_TIMES_NANOS
  | DECOMPRESSION_TIMES_NANOS | READ_NUM_MERGE_OPERANDS | BLOB_DB_KEY_SIZE | BLOB_DB_VALUE_SIZE
  | BLOB_DB_WRITE_MICROS | BLOB_DB_GET_MICROS | BLOB_DB_MULTIGET_MICROS | BLOB_DB_SEEK_MICROS
  | BLOB_DB_NEXT_MICROS | BLOB_DB_PREV_MICROS | BLOB_DB_BLOB_FILE_WRITE_MICROS
  | BLOB_DB_BLOB_FILE_READ_MICROS | BLOB_DB_BLOB_FILE_SYNC_MICROS | BLOB_DB_COMPRESSION_MICROS
  | BLOB_DB_DECOMPRESSION_MICROS | FLUSH_TIME | SST_BATCH_SIZE | MULTIGET_IO_BATCH_SIZE
  | NUM_INDEX_AND_FILTER_BLOCKS_READ_PER_LEVEL | NUM_SST_READ_PER_LEVEL
  | NUM_LEVEL_READ_PER_MULTIGET | ERROR_HANDLER_AUTORESUME_RETRY_COUNT | ASYNC_READ_BYTES
  | POLL_WAIT_MICROS | PREFETCHED_BYTES_DISCARDED | ASYNC_PREFETCH_ABORT_MICROS
  | TABLE_OPEN_PREFETCH_TAIL_READ_BYTES

primrec Histograms_val :: "Histograms \<Rightarrow> nat" where
  "Histograms_val DB_GET = 0" | "Histograms_val DB_WRITE = 1" | "Histograms_val COMPACTION_TIME = 2"
| "Histograms_val COMPACTION_CPU_TIME = 3" | "Histograms_val SUBCOMPACTION_SETUP_TIME = 4"
| "Histograms_val TABLE_SYNC_MICROS = 5" | "Histograms_val COMPACTION_OUTFILE_SYNC_MICROS = 6"
| "Histograms_val WAL_FILE_SYNC_MICROS = 7" | "Histograms_val MANIFEST_FILE_SYNC_MICROS = 8"
| "Histograms_val TABLE_OPEN_IO_MICROS = 9" | "Histograms_val DB_MULTIGET = 10"
| "Histograms_val READ_BLOCK_COMPACTION_MICROS = 11" | "Histograms_val READ_BLOCK_GET_MICROS = 12"
| "Histograms_val WRITE_RAW_BLOCK_MICROS = 13"
| "Histograms_val NUM_FILES_IN_SINGLE_COMPACTION = 14" | "Histograms_val DB_SEEK = 15"
| "Histograms_val WRITE_STALL = 16" | "Histograms_val SST_READ_MICROS = 17"
| "Histograms_val FILE_READ_FLUSH_MICROS = 18" | "Histograms_val FILE_READ_COMPACTION_MICROS = 19"
| "Histograms_val FILE_READ_DB_OPEN_MICROS = 20" | "Histograms_val FILE_READ_GET_MICROS = 21"
| "Histograms_val FILE_READ_MULTIGET_MICROS = 22"
| "Histograms_val FILE_READ_DB_ITERATOR_MICROS = 23"
| "Histograms_val FILE_READ_VERIFY_DB_CHECKSUM_MICROS = 24"
| "Histograms_val FILE_READ_VERIFY_FILE_CHECKSUMS_MICROS = 25"
| "Histograms_val SST_WRITE_MICROS = 26" | "Histograms_val FILE_WRITE_FLUSH_MICROS = 27"
| "Histograms_val FILE_WRITE_COMPACTION_MICROS = 28"
| "Histograms_val FILE_WRITE_DB_OPEN_MICROS = 29"
| "Histograms_val NUM_SUBCOMPACTIONS_SCHEDULED = 30" | "Histograms_val BYTES_PER_READ = 31"
| "Histograms_val BYTES_PER_WRITE = 32" | "Histograms_val BYTES_PER_MULTIGET = 33"
| "Histograms_val COMPRESSION_TIMES_NANOS = 34" | "Histograms_val DECOMPRESSION_TIMES_NANOS = 35"
| "Histograms_val READ_NUM_MERGE_OPERANDS = 36" | "Histograms_val BLOB_DB_KEY_SIZE = 37"
| "Histograms_val BLOB_DB_VALUE_SIZE = 38" | "Histograms_val BLOB_DB_WRITE_MICROS = 39"
| "Histograms_val BLOB_DB_GET_MICROS = 40" | "Histograms_val BLOB_DB_MULTIGET_MICROS = 41"
| "Histograms_val BLOB_DB_SEEK_MICROS = 42" | "Histograms_val BLOB_DB_NEXT_MICROS = 43"
| "Histograms_val BLOB_DB_PREV_MICROS = 44" | "Histograms_val BLOB_DB_BLOB_FILE_WRITE_MICROS = 45"
| "Histograms_val BLOB_DB_BLOB_FILE_READ_MICROS = 46"
| "Histograms_val BLOB_DB_BLOB_FILE_SYNC_MICROS = 47"
| "Histograms_val BLOB_DB_COMPRESSION_MICROS = 48"
| "Histograms_val BLOB_DB_DECOMPRESSION_MICROS = 49" | "Histograms_val FLUSH_TIME = 50"
| "Histograms_val SST_BATCH_SIZE = 51" | "Histograms_val MULTIGET_IO_BATCH_SIZE = 52"
| "Histograms_val NUM_INDEX_AND_FILTER_BLOCKS_READ_PER_LEVEL = 53"
| "Histograms_val NUM_SST_READ_PER_LEVEL = 54" | "Histograms_val NUM_LEVEL_READ_PER_MULTIGET = 55"
| "Histograms_val ERROR_HANDLER_AUTORESUME_RETRY_COUNT = 56"
| "Histograms_val ASYNC_READ_BYTES = 57" | "Histograms_val POLL_WAIT_MICROS = 58"
| "Histograms_val PREFETCHED_BYTES_DISCARDED = 59"
| "Histograms_val ASYNC_PREFETCH_ABORT_MICROS = 60"
| "Histograms_val TABLE_OPEN_PREFETCH_TAIL_READ_BYTES = 61"

definition HISTOGRAM_ENUM_MAX :: uint32 where
  "HISTOGRAM_ENUM_MAX = of_nat (Histograms_val TABLE_OPEN_PREFETCH_TAIL_READ_BYTES + 1)"

datatype (plugins only: code size) Statistics_call =
    ST_getTickerCount uint32 | ST_histogramData uint32 | ST_getHistogramString uint32
  | ST_recordTick uint32 uint64 | ST_setTickerCount uint32 uint64 | ST_getAndResetTickerCount uint32
  | ST_reportTimeToHistogram uint32 uint64 | ST_measureTime uint32 uint64
  | ST_recordInHistogram uint32 uint64 | ST_Reset | ST_ToString | ST_getTickerMap
  | ST_HistEnabledForType uint32

datatype 'v stats_reply =
    S_void | S_status Status | S_bool bool | S_text string | S_number uint64 | S_value 'v | S_pure_virtual

text \<open>The state: the level, and the state of the derived class.\<close>

type_synonym ('s, 'v) stats_step = "StatsLevel \<times> 's \<Rightarrow> ('v stats_reply \<times> StatsLevel \<times> 's) option"

definition set_stats_level :: "StatsLevel \<Rightarrow> StatsLevel \<times> 's \<Rightarrow> StatsLevel \<times> 's" where
  "set_stats_level sl s = (sl, snd s)"

definition get_stats_level :: "StatsLevel \<times> 's \<Rightarrow> StatsLevel" where
  "get_stats_level s = fst s"

definition initial_stats_level :: StatsLevel where
  "initial_stats_level = kExceptDetailedTimers"

definition Statistics_own :: "msg_ctor \<Rightarrow> Statistics_call \<Rightarrow> ('s, 'v) stats_step" where
  "Statistics_own mk c s =
     (case c of
        ST_getHistogramString t \<Rightarrow> Some (S_text [], s)
      | ST_measureTime t time \<Rightarrow> None
      | ST_Reset \<Rightarrow> Some (S_status (not_supported mk ''Not implemented''), s)
      | ST_ToString \<Rightarrow> Some (S_text ''ToString(): not implemented'', s)
      | ST_getTickerMap \<Rightarrow> Some (S_bool False, s)
      | ST_HistEnabledForType t \<Rightarrow> Some (S_bool (t < HISTOGRAM_ENUM_MAX), s)
      | _ \<Rightarrow> Some (S_pure_virtual, s))"

definition Statistics_measure :: "msg_ctor \<Rightarrow> (Statistics_call \<Rightarrow> ('s, 'v) stats_step option) \<Rightarrow> Statistics_call \<Rightarrow> ('s, 'v) stats_step" where
  "Statistics_measure mk over c s = (case over c of Some f \<Rightarrow> f s | None \<Rightarrow> Statistics_own mk c s)"

definition Statistics_record :: "msg_ctor \<Rightarrow> (Statistics_call \<Rightarrow> ('s, 'v) stats_step option) \<Rightarrow> Statistics_call \<Rightarrow> ('s, 'v) stats_step" where
  "Statistics_record mk over c s =
     (case over c of
        Some f \<Rightarrow> f s
      | None \<Rightarrow> (case c of
          ST_recordInHistogram t time \<Rightarrow> Statistics_measure mk over (ST_measureTime t time) s
        | _ \<Rightarrow> Statistics_own mk c s))"

definition Statistics_object :: "msg_ctor \<Rightarrow> (Statistics_call \<Rightarrow> ('s, 'v) stats_step option) \<Rightarrow> Statistics_call \<Rightarrow> ('s, 'v) stats_step" where
  "Statistics_object mk over c s =
     (case over c of
        Some f \<Rightarrow> f s
      | None \<Rightarrow> (case c of
          ST_reportTimeToHistogram t time \<Rightarrow>
            (if StatsLevel_val (get_stats_level s) \<le> StatsLevel_val kExceptTimers then Some (S_void, s)
             else Statistics_record mk over (ST_recordInHistogram t time) s)
        | _ \<Rightarrow> Statistics_record mk over c s))"

section \<open>Iterators\<close>

datatype (plugins only: code size) Iterator_call =
    IT_Valid | IT_SeekToFirst | IT_SeekToLast | IT_Seek Slice | IT_SeekForPrev Slice | IT_Next | IT_Prev
  | IT_Refresh | IT_Refresh_snapshot pointer_handle | IT_key | IT_status | IT_value | IT_columns
  | IT_GetProperty string | IT_timestamp

datatype 'v iterator_reply = I_status Status | I_value 'v | I_pure_virtual

definition Iterator_object ::
    "msg_ctor \<Rightarrow> (Iterator_call \<Rightarrow> 's \<Rightarrow> ('v iterator_reply \<times> 's) option) \<Rightarrow>
     (Iterator_call \<Rightarrow> ('s \<Rightarrow> ('v iterator_reply \<times> 's) option) option) \<Rightarrow> Iterator_call \<Rightarrow> 's \<Rightarrow>
     ('v iterator_reply \<times> 's) option" where
  "Iterator_object mk elsewhere over c s =
     (case over c of
        Some f \<Rightarrow> f s
      | None \<Rightarrow> (case c of
          IT_Refresh \<Rightarrow>
            (case over (IT_Refresh_snapshot None) of
               Some f \<Rightarrow> f s
             | None \<Rightarrow> Some (I_status (not_supported mk ''Refresh() is not supported''), s))
        | IT_Refresh_snapshot snap \<Rightarrow> Some (I_status (not_supported mk ''Refresh() is not supported''), s)
        | IT_columns \<Rightarrow> None
        | IT_timestamp \<Rightarrow> None
        | IT_GetProperty prop_name \<Rightarrow> elsewhere c s
        | _ \<Rightarrow> Some (I_pure_virtual, s)))"

section \<open>Filters of the write-ahead log\<close>

datatype WalProcessingOption =
    kContinueProcessing | kIgnoreCurrentRecord | kStopReplay | kCorruptedRecord | kWalProcessingOptionMax

text \<open>The reply: the option, what was put into the new batch, and whether the batch changed.\<close>

type_synonym ('b, 's) wal_step = "'b \<Rightarrow> 'b \<Rightarrow> bool \<Rightarrow> 's \<Rightarrow> (WalProcessingOption \<times> 'b \<times> bool) \<times> 's"

definition LogRecord_default :: "('b, 's) wal_step" where
  "LogRecord_default batch new_batch batch_changed s = ((kContinueProcessing, new_batch, batch_changed), s)"

definition LogRecordFound_default ::
    "('b, 's) wal_step option \<Rightarrow> nat \<Rightarrow> string \<Rightarrow> ('b, 's) wal_step" where
  "LogRecordFound_default log_record log_number log_file_name =
     (case log_record of Some f \<Rightarrow> f | None \<Rightarrow> LogRecord_default)"

section \<open>Merge operators\<close>

datatype OpFailureScope = OFS_kDefault | OFS_kTryMerge | OFS_kMustMerge | OFS_kOpFailureScopeMax

record MergeOperationInput =
  mi_key :: Slice
  mi_existing_value :: "Slice option"
  mi_operand_list :: "Slice list"
  mi_logger :: pointer_handle

record MergeOperationOutput =
  mo_new_value :: bytes
  mo_existing_operand :: Slice
  mo_op_failure_scope :: OpFailureScope

definition MergeOperationOutput_new :: "bytes \<Rightarrow> Slice \<Rightarrow> MergeOperationOutput" where
  "MergeOperationOutput_new new_value existing_operand =
     \<lparr>mo_new_value = new_value, mo_existing_operand = existing_operand, mo_op_failure_scope = OFS_kDefault\<rparr>"

datatype ExistingValue = EV_none | EV_slice Slice | EV_columns "WideColumn list"

record MergeOperationInputV3 =
  m3_key :: Slice
  m3_existing_value :: ExistingValue
  m3_operand_list :: "Slice list"
  m3_logger :: pointer_handle

datatype NewValue = NV_string bytes | NV_columns "(bytes \<times> bytes) list" | NV_slice Slice

record MergeOperationOutputV3 =
  o3_new_value :: NewValue
  o3_op_failure_scope :: OpFailureScope

definition MergeOperationOutputV3_default :: MergeOperationOutputV3 where
  "MergeOperationOutputV3_default = \<lparr>o3_new_value = NV_string [], o3_op_failure_scope = OFS_kDefault\<rparr>"

definition FullMerge_default :: "bool option" where
  "FullMerge_default = None"

definition PartialMerge_default :: "bytes \<Rightarrow> bool \<times> bytes" where
  "PartialMerge_default new_value = (False, new_value)"

definition AllowSingleOperand_default :: bool where
  "AllowSingleOperand_default = False"

definition ShouldMerge_default :: "Slice list \<Rightarrow> bool" where
  "ShouldMerge_default operands = False"

section \<open>Results of ldb commands\<close>

datatype ExecState = EXEC_NOT_STARTED | EXEC_SUCCEED | EXEC_FAILED

record LDBCommandExecuteResult =
  ex_state :: ExecState
  ex_message :: string

definition LDBCommandExecuteResult_default :: LDBCommandExecuteResult where
  "LDBCommandExecuteResult_default = \<lparr>ex_state = EXEC_NOT_STARTED, ex_message = []\<rparr>"

definition ex_ToString :: "LDBCommandExecuteResult \<Rightarrow> string" where
  "ex_ToString r =
     (let ret = (case ex_state r of EXEC_SUCCEED \<Rightarrow> [] | EXEC_FAILED \<Rightarrow> ''Failed: '' | EXEC_NOT_STARTED \<Rightarrow> ''Not started: '') in
      if ex_message r \<noteq> [] then ret @ ex_message r else ret)"

definition ex_Reset :: "LDBCommandExecuteResult \<Rightarrow> LDBCommandExecuteResult" where
  "ex_Reset r = r\<lparr>ex_state := EXEC_NOT_STARTED, ex_message := []\<rparr>"

definition IsSucceed :: "LDBCommandExecuteResult \<Rightarrow> bool" where
  "IsSucceed r \<longleftrightarrow> ex_state r = EXEC_SUCCEED"

definition IsNotStarted :: "LDBCommandExecuteResult \<Rightarrow> bool" where
  "IsNotStarted r \<longleftrightarrow> ex_state r = EXEC_NOT_STARTED"

definition IsFailed :: "LDBCommandExecuteResult \<Rightarrow> bool" where
  "IsFailed r \<longleftrightarrow> ex_state r = EXEC_FAILED"

definition ex_Succeed :: "string \<Rightarrow> LDBCommandExecuteResult" where
  "ex_Succeed msg = \<lparr>ex_state = EXEC_SUCCEED, ex_message = msg\<rparr>"

definition ex_Failed :: "string \<Rightarrow> LDBCommandExecuteResult" where
  "ex_Failed msg = \<lparr>ex_state = EXEC_FAILED, ex_message = msg\<rparr>"

section \<open>Insertions\<close>

text \<open>The one insertion a call amounts to, and its reply.\<close>

definition insertion :: "MemTableRep_call \<Rightarrow> (MemTableRep_call \<times> 'v memtable_reply) option" where
  "insertion c =
     (case c of
        MR_InsertKey h \<Rightarrow> Some (MR_Insert h, M_bool True)
      | MR_InsertWithHint h hint \<Rightarrow> Some (MR_Insert h, M_void)
      | MR_InsertKeyWithHint h hint \<Rightarrow> Some (MR_Insert h, M_bool True)
      | MR_InsertWithHintConcurrently h hint \<Rightarrow> Some (MR_InsertConcurrently h, M_void)
      | MR_InsertKeyWithHintConcurrently h hint \<Rightarrow> Some (MR_InsertConcurrently h, M_bool True)
      | MR_InsertKeyConcurrently h \<Rightarrow> Some (MR_InsertConcurrently h, M_bool True)
      | _ \<Rightarrow> None)"

text \<open>A memtable that overrides none of the variants.\<close>

definition only_inserts :: "(MemTableRep_call \<Rightarrow> ('s, 'v) memtable_step option) \<Rightarrow> bool" where
  "only_inserts over \<longleftrightarrow>
     (\<forall>h hint. over (MR_InsertKey h) = None \<and> over (MR_InsertWithHint h hint) = None \<and>
        over (MR_InsertKeyWithHint h hint) = None \<and> over (MR_InsertWithHintConcurrently h hint) = None \<and>
        over (MR_InsertKeyWithHintConcurrently h hint) = None \<and> over (MR_InsertKeyConcurrently h) = None)"

lemma replying_replying [simp]: "replying r (replying q x) = replying r x"
  by (cases x) (auto simp: replying_def)

lemma MemTableRep_base_insert:
  "MemTableRep_hint elsewhere over (MR_Insert h) s = MemTableRep_plain elsewhere over (MR_Insert h) s"
  "MemTableRep_hint elsewhere over (MR_InsertConcurrently h) s = MemTableRep_plain elsewhere over (MR_InsertConcurrently h) s"
  "MemTableRep_object elsewhere over (MR_Insert h) s = MemTableRep_plain elsewhere over (MR_Insert h) s"
  "MemTableRep_object elsewhere over (MR_InsertConcurrently h) s = MemTableRep_plain elsewhere over (MR_InsertConcurrently h) s"
  by (simp_all add: MemTableRep_object_def MemTableRep_hint_def MemTableRep_plain_def split: option.split)

lemma insertion_step:
  assumes "only_inserts over" "insertion c = Some (c1, r)"
  shows "MemTableRep_object elsewhere over c s = replying r (MemTableRep_object elsewhere over c1 s)"
  using assms
  by (cases c) (auto simp: only_inserts_def insertion_def MemTableRep_object_def [of elsewhere over "MR_InsertKey h" for h]
      MemTableRep_object_def MemTableRep_hint_def MemTableRep_plain_def split: option.split)

text \<open>A sequence of fallible calls.\<close>

fun run_steps :: "('c \<Rightarrow> 's \<Rightarrow> ('r \<times> 's) option) \<Rightarrow> 'c list \<Rightarrow> 's \<Rightarrow> ('r list \<times> 's) option" where
  "run_steps obj [] s = Some ([], s)"
| "run_steps obj (c # cs) s =
     do {
       (r, s1) \<leftarrow> obj c s;
       (rs, s2) \<leftarrow> run_steps obj cs s1;
       Some (r # rs, s2)
     }"

lemma HISTOGRAM_ENUM_MAX_value: "HISTOGRAM_ENUM_MAX = 62"
  by (simp add: HISTOGRAM_ENUM_MAX_def)

lemma Histograms_enabled: "of_nat (Histograms_val h) < HISTOGRAM_ENUM_MAX"
  unfolding HISTOGRAM_ENUM_MAX_value by (cases h) simp_all

section \<open>Properties\<close>

text \<open>
  A memtable that implements only \<open>Insert\<close> and \<open>InsertConcurrently\<close>: a sequence of calls of the variants
  with hints and with a result makes exactly the basic insertions, one per call, in order, concurrent
  ones where the variant is concurrent; the variants with a result all report true, also for a key
  that was there before.
\<close>

theorem memtable_variants_insert_once:
  assumes "only_inserts over" "list_all2 (\<lambda>c (c1, r). insertion c = Some (c1, r)) cs basics"
  shows "run_steps (MemTableRep_object elsewhere over) cs s =
    map_option (\<lambda>(rs, s'). (map snd basics, s')) (run_steps (MemTableRep_object elsewhere over) (map fst basics) s)"
  using assms(2)
proof (induction cs basics arbitrary: s rule: list_all2_induct)
  case (Cons c cs b basics)
  obtain c1 r where b: "b = (c1, r)" by fastforce
  have "insertion c = Some (c1, r)" using Cons.hyps(1) b by simp
  note step = insertion_step [where over = over and elsewhere = elsewhere, OF assms(1) this]
  show ?case
  proof (cases "MemTableRep_object elsewhere over c1 s")
    case (Some p)
    obtain a s1 where "p = (a, s1)" by fastforce
    with Some show ?thesis
      by (cases "run_steps (MemTableRep_object elsewhere over) (map fst basics) s1")
        (auto simp: b step replying_def Cons.IH)
  qed (simp add: b step replying_def)
qed simp

definition key_list :: "MemTableRep_call \<Rightarrow> (nat list, unit) memtable_step option" where
  "key_list c = (case c of
     MR_Insert h \<Rightarrow> Some (\<lambda>s. Some (M_void, s @ [h]))
   | MR_InsertConcurrently h \<Rightarrow> Some (\<lambda>s. Some (M_void, s @ [100 + h]))
   | _ \<Rightarrow> None)"

theorem memtable_variants_insert_once_witness:
  "run_steps (MemTableRep_object (\<lambda>c s. None) key_list)
     [MR_InsertKey 1, MR_InsertWithHint 1 None, MR_InsertKeyWithHintConcurrently 2 None] [] =
   Some ([M_bool True, M_void, M_bool True], [1, 1, 102])"
proof -
  have "only_inserts key_list" by (simp add: only_inserts_def key_list_def)
  from memtable_variants_insert_once [OF this, of "[MR_InsertKey 1, MR_InsertWithHint 1 None, MR_InsertKeyWithHintConcurrently 2 None]"
      "[(MR_Insert 1, M_bool True), (MR_Insert 1, M_void), (MR_InsertConcurrently 2, M_bool True)]" "\<lambda>c s. None" "[]"]
  show ?thesis
    by (simp add: insertion_def MemTableRep_base_insert MemTableRep_plain_def key_list_def del: run_steps.simps(2))
      (simp add: MemTableRep_base_insert MemTableRep_plain_def key_list_def)
qed

text \<open>
  Times reported to statistics: nothing happens up to the level \<open>kExceptTimers\<close>; above it the time
  reaches \<open>recordInHistogram\<close>, or \<open>measureTime\<close> of an implementation of the older interface; an
  implementation of neither fails an assertion.
\<close>

theorem reported_times_are_recorded:
  assumes "over (ST_reportTimeToHistogram t time) = None"
  shows "Statistics_object mk over (ST_reportTimeToHistogram t time) s =
    (if get_stats_level s \<in> {kDisableAll, kExceptHistogramOrTimers, kExceptTimers} then Some (S_void, s)
     else case over (ST_recordInHistogram t time) of
            Some f \<Rightarrow> f s
          | None \<Rightarrow> (case over (ST_measureTime t time) of Some f \<Rightarrow> f s | None \<Rightarrow> None))"
  using assms
  by (cases "get_stats_level s")
    (simp_all add: Statistics_object_def Statistics_record_def Statistics_measure_def Statistics_own_def
      StatsLevel_val_def split: option.split)

definition old_statistics :: "Statistics_call \<Rightarrow> (nat, unit) stats_step option" where
  "old_statistics c = (case c of
     ST_measureTime t time \<Rightarrow> Some (\<lambda>(l, n). Some (S_void, l, n + unat time)) | _ \<Rightarrow> None)"

theorem reported_times_are_recorded_witness:
  "Statistics_object plain_ctor old_statistics (ST_reportTimeToHistogram 3 40) (kAll, 2) = Some (S_void, kAll, 42) \<and>
   Statistics_object plain_ctor old_statistics (ST_reportTimeToHistogram 3 40) (kExceptTimers, 2) =
     Some (S_void, kExceptTimers, 2)"
  using reported_times_are_recorded [of old_statistics 3 40 plain_ctor "(kAll, 2)"]
    reported_times_are_recorded [of old_statistics 3 40 plain_ctor "(kExceptTimers, 2)"]
  by (simp add: old_statistics_def get_stats_level_def)

end
