(* ===== verification/UtilityModel.thy ===== *)
theory UtilityModel
  imports Complex_Main CustomizableModel PluginModel
begin

text \<open>
  Smaller interfaces: the key categories and filter inputs of include/rocksdb/experimental.h, the base
  class of the ldb commands (utilities/ldb_cmd.h), the dumper and loader of caches
  (utilities/cache_dump_load.h), the factories of utilities/table_properties_collectors.h, the
  defaults of slice_transform.h, threadpool.h, stats_history.h and utilities/agg_merge.h, and the
  records of sst_partitioner.h, file_checksum.h, utilities/debug.h and env_encryption.h.
\<close>

section \<open>Key categories and filter inputs\<close>

definition kDefaultCategory :: int where "kDefaultCategory = 0"
definition kMinCategory :: int where "kMinCategory = kDefaultCategory"
definition kReservedLowCategory :: int where "kReservedLowCategory = 62"
definition kReservedHighCategory :: int where "kReservedHighCategory = 63"
definition kMaxUsableCategory :: int where "kMaxUsableCategory = kReservedHighCategory"
definition kErrorCategoryFilterScope :: int where "kErrorCategoryFilterScope = 255 - 2"
definition kMinErrorCategory :: int where "kMinErrorCategory = kErrorCategoryFilterScope"
definition kErrorCategoryFileScope :: int where "kErrorCategoryFileScope = 255 - 1"
definition kErrorCategoryDbScope :: int where "kErrorCategoryDbScope = 255"

text \<open>\<open>KeyCategorySet\<close> is the set type of \<open>EnumSet\<close> with this maximum.\<close>

definition KeyCategorySet_max :: nat where
  "KeyCategorySet_max = nat kMaxUsableCategory"

interpretation key_category_set: small_enum KeyCategorySet_max
  by unfold_locales (simp add: KeyCategorySet_max_def kMaxUsableCategory_def kReservedHighCategory_def)

datatype KeyKind = kFullUserKey | kInclusiveLowerBound | kExclusiveUpperBound

record Extractor_Result =
  segment_ends :: "uint32 list"
  category :: int

definition Extractor_Result_default :: Extractor_Result where
  "Extractor_Result_default = \<lparr>segment_ends = [], category = kDefaultCategory\<rparr>"

definition Extractor_GetId_default :: "string \<Rightarrow> string" where
  "Extractor_GetId_default Name = Name"

datatype FilterInput =
    SelectWholeKey | SelectKeySegment "16 word" | SelectKeySegmentRange "8 word" "8 word"
  | SelectLegacyKeyPrefix | SelectUserTimestamp | SelectColumnName | SelectValue

definition update_temperatures_default :: bool where
  "update_temperatures_default = True"

section \<open>Commands of ldb\<close>

record ParsedParams =
  pp_cmd :: string
  cmd_params :: "string list"
  option_map :: "string \<rightharpoonup> string"
  pp_flags :: "string list"

text \<open>The members that the inline functions use.\<close>

record ('options, 'cf, 'ldb) LDBCommand =
  exec_state :: LDBCommandExecuteResult
  cmd_option_map :: "string \<rightharpoonup> string"
  cmd_flags :: "string list"
  cmd_options :: 'options
  column_families :: "'cf list"
  ldb_options :: 'ldb

definition SetDBOptions :: "'options \<Rightarrow> ('options, 'cf, 'ldb) LDBCommand \<Rightarrow> ('options, 'cf, 'ldb) LDBCommand" where
  "SetDBOptions opts c = c\<lparr>cmd_options := opts\<rparr>"

definition SetColumnFamilies :: "'cf list option \<Rightarrow> ('options, 'cf, 'ldb) LDBCommand \<Rightarrow> ('options, 'cf, 'ldb) LDBCommand" where
  "SetColumnFamilies cfs c =
     (case cfs of Some l \<Rightarrow> c\<lparr>column_families := l\<rparr> | None \<Rightarrow> c\<lparr>column_families := []\<rparr>)"

definition SetLDBOptions :: "'ldb \<Rightarrow> ('options, 'cf, 'ldb) LDBCommand \<Rightarrow> ('options, 'cf, 'ldb) LDBCommand" where
  "SetLDBOptions opts c = c\<lparr>ldb_options := opts\<rparr>"

definition TEST_GetOptionMap :: "('options, 'cf, 'ldb) LDBCommand \<Rightarrow> string \<rightharpoonup> string" where
  "TEST_GetOptionMap c = cmd_option_map c"

definition TEST_GetFlags :: "('options, 'cf, 'ldb) LDBCommand \<Rightarrow> string list" where
  "TEST_GetFlags c = cmd_flags c"

definition NoDBOpen_default :: bool where
  "NoDBOpen_default = False"

definition GetExecuteState :: "('options, 'cf, 'ldb) LDBCommand \<Rightarrow> LDBCommandExecuteResult" where
  "GetExecuteState c = exec_state c"

definition ClearPreviousRunState :: "('options, 'cf, 'ldb) LDBCommand \<Rightarrow> ('options, 'cf, 'ldb) LDBCommand" where
  "ClearPreviousRunState c = c\<lparr>exec_state := ex_Reset (exec_state c)\<rparr>"

text \<open>\<open>std::find\<close> returns the iterator of the first match, or the end.\<close>

fun std_find :: "'a list \<Rightarrow> 'a \<Rightarrow> nat" where
  "std_find [] x = 0"
| "std_find (y # ys) x = (if y = x then 0 else Suc (std_find ys x))"

definition IsFlagPresent :: "string list \<Rightarrow> string \<Rightarrow> bool" where
  "IsFlagPresent flags flag \<longleftrightarrow> std_find flags flag \<noteq> length flags"

section \<open>Dumping caches\<close>

definition kCacheDumpMajorVersion :: int where "kCacheDumpMajorVersion = 0"
definition kCacheDumpMinorVersion :: int where "kCacheDumpMinorVersion = 1"

record CacheDumpOptions =
  cd_clock :: pointer_handle
  cd_deadline :: int
  cd_max_size_bytes :: uint64

text \<open>The clock has no initialiser.\<close>

definition CacheDumpOptions_default :: "pointer_handle \<Rightarrow> CacheDumpOptions" where
  "CacheDumpOptions_default indet = \<lparr>cd_clock = indet, cd_deadline = 0, cd_max_size_bytes = 0\<rparr>"

definition SetDumpFilter_default :: "msg_ctor \<Rightarrow> pointer_handle list \<Rightarrow> Status" where
  "SetDumpFilter_default mk dbs = not_supported mk ''SetDumpFilter is not supported''"

definition DumpCacheEntriesToWriter_default :: "Status option" where
  "DumpCacheEntriesToWriter_default = IO_NotSupported_msg (Slice_string ''DumpCacheEntriesToWriter is not supported'') Slice_empty"

definition RestoreCacheEntriesToSecondaryCache_default :: "Status option" where
  "RestoreCacheEntriesToSecondaryCache_default =
     IO_NotSupported_msg (Slice_string ''RestoreCacheEntriesToSecondaryCache is not supported'') Slice_empty"

section \<open>Collector factories\<close>

text \<open>The members are atomics, read and written whole. A double is a rational number.\<close>

record CompactOnDeletionCollectorFactory =
  sliding_window_size :: nat
  deletion_trigger :: nat
  deletion_ratio :: rat

definition SetWindowSize :: "nat \<Rightarrow> CompactOnDeletionCollectorFactory \<Rightarrow> CompactOnDeletionCollectorFactory" where
  "SetWindowSize n f = f\<lparr>sliding_window_size := n\<rparr>"

definition GetWindowSize :: "CompactOnDeletionCollectorFactory \<Rightarrow> nat" where
  "GetWindowSize f = sliding_window_size f"

definition SetDeletionTrigger :: "nat \<Rightarrow> CompactOnDeletionCollectorFactory \<Rightarrow> CompactOnDeletionCollectorFactory" where
  "SetDeletionTrigger n f = f\<lparr>deletion_trigger := n\<rparr>"

definition GetDeletionTrigger :: "CompactOnDeletionCollectorFactory \<Rightarrow> nat" where
  "GetDeletionTrigger f = deletion_trigger f"

definition SetDeletionRatio :: "rat \<Rightarrow> CompactOnDeletionCollectorFactory \<Rightarrow> CompactOnDeletionCollectorFactory" where
  "SetDeletionRatio r f = f\<lparr>deletion_ratio := r\<rparr>"

definition GetDeletionRatio :: "CompactOnDeletionCollectorFactory \<Rightarrow> rat" where
  "GetDeletionRatio f = deletion_ratio f"

record CompactForTieringCollectorFactory =
  compaction_trigger_ratio :: rat

definition SetCompactionTriggerRatio :: "rat \<Rightarrow> CompactForTieringCollectorFactory \<Rightarrow> CompactForTieringCollectorFactory" where
  "SetCompactionTriggerRatio r f = f\<lparr>compaction_trigger_ratio := r\<rparr>"

definition GetCompactionTriggerRatio :: "CompactForTieringCollectorFactory \<Rightarrow> rat" where
  "GetCompactionTriggerRatio f = compaction_trigger_ratio f"

section \<open>Defaults of small interfaces\<close>

text \<open>\<open>FullLengthEnabled\<close> leaves its output parameter as it is.\<close>

definition InRange_default :: "Slice \<Rightarrow> bool" where
  "InRange_default dst = False"

definition FullLengthEnabled_default :: "nat \<Rightarrow> bool \<times> nat" where
  "FullLengthEnabled_default len = (False, len)"

definition SameResultWhenAppended_default :: "Slice \<Rightarrow> bool" where
  "SameResultWhenAppended_default p = False"

definition ReserveThreads_default :: "int \<Rightarrow> int" where
  "ReserveThreads_default n = 0"

definition ReleaseThreads_default :: "int \<Rightarrow> int" where
  "ReleaseThreads_default n = 0"

definition stats_GetFormatVersion_default :: int where
  "stats_GetFormatVersion_default = - 1"

definition DoPartialAggregate_default :: bool where
  "DoPartialAggregate_default = True"

definition GetMarker_default :: string where
  "GetMarker_default = []"

text \<open>
  \<open>EncryptedFileSystem::IsInstanceOf\<close>: its class name, or what \<open>FileSystemWrapper\<close>, which inherits it from
  \<open>Customizable\<close>, says.
\<close>

definition EncryptedFileSystem_IsInstanceOf :: "string \<Rightarrow> string option \<Rightarrow> string \<Rightarrow> bool" where
  "EncryptedFileSystem_IsInstanceOf own_name own_nickname name =
     (if name = ''EncryptedFileSystem'' then True else IsInstanceOf_default own_name own_nickname name)"

datatype PartitionerResult = kNotRequired | kRequired

record PartitionerRequest =
  prev_user_key :: Slice
  current_user_key :: Slice
  current_output_file_size :: uint64

definition PartitionerRequest_new :: "Slice \<Rightarrow> Slice \<Rightarrow> uint64 \<Rightarrow> PartitionerRequest" where
  "PartitionerRequest_new prev cur sz =
     \<lparr>prev_user_key = prev, current_user_key = cur, current_output_file_size = sz\<rparr>"

record Partitioner_Context =
  pc_is_full_compaction :: bool
  pc_is_manual_compaction :: bool
  pc_output_level :: int
  pc_smallest_user_key :: Slice
  pc_largest_user_key :: Slice

definition kUnknownFileChecksum :: string where "kUnknownFileChecksum = []"
definition kUnknownFileChecksumFuncName :: string where "kUnknownFileChecksumFuncName = ''Unknown''"
definition kStandardDbFileChecksumFuncName :: string where "kStandardDbFileChecksumFuncName = ''FileChecksumCrc32c''"

record FileChecksumGenContext =
  gc_file_name :: string
  requested_checksum_func_name :: string

record KeyVersion =
  kv_user_key :: string
  kv_value :: string
  kv_sequence :: uint64
  kv_type :: int

definition KeyVersion_default :: KeyVersion where
  "KeyVersion_default = \<lparr>kv_user_key = [], kv_value = [], kv_sequence = 0, kv_type = 0\<rparr>"

definition KeyVersion_new :: "string \<Rightarrow> string \<Rightarrow> uint64 \<Rightarrow> int \<Rightarrow> KeyVersion" where
  "KeyVersion_new k v seq t = \<lparr>kv_user_key = k, kv_value = v, kv_sequence = seq, kv_type = t\<rparr>"

datatype UsageType = kMemTableTotal | kMemTableUnFlushed | kTableReadersTotal | kCacheTotal | kNumUsageTypes

section \<open>Properties\<close>

lemmas category_defs =
  kDefaultCategory_def kMinCategory_def kReservedLowCategory_def kReservedHighCategory_def kMaxUsableCategory_def
  kErrorCategoryFilterScope_def kMinErrorCategory_def kErrorCategoryFileScope_def kErrorCategoryDbScope_def
  KeyCategorySet_max_def

text \<open>
  The categories an extractor may give to a key: the full set of categories has exactly the numbers
  from 0 to 63, fills all 64 bits of its word, and no set of categories can hold an error category:
  adding one fails its assertion.
\<close>

theorem key_categories:
  "members (EnumSet_All KeyCategorySet_max) = {kMinCategory..kMaxUsableCategory} \<and>
   EnumSet_All KeyCategorySet_max = - 1 \<and>
   (c \<ge> kMinErrorCategory \<longrightarrow> With KeyCategorySet_max s c = None)"
proof (intro conjI impI)
  show "members (EnumSet_All KeyCategorySet_max) = {kMinCategory..kMaxUsableCategory}"
    using EnumSet_All_members [of KeyCategorySet_max] by (simp add: category_defs)
  show "EnumSet_All KeyCategorySet_max = - 1"
    by (simp add: EnumSet_All_def category_defs Let_def)
  show "With KeyCategorySet_max s c = None" if "c \<ge> kMinErrorCategory"
    using that by (simp add: With_def valid_enumerator_def category_defs)
qed

theorem key_categories_witness: "With KeyCategorySet_max 0 254 = None"
  using key_categories [of 254 0] by (simp add: category_defs)

text \<open>Looking for a flag finds exactly the flags that were given.\<close>

lemma std_find_less: "std_find xs x \<noteq> length xs \<longleftrightarrow> x \<in> set xs"
  by (induction xs) auto

theorem IsFlagPresent_member: "IsFlagPresent flags flag \<longleftrightarrow> flag \<in> set flags"
  by (simp add: IsFlagPresent_def std_find_less)

text \<open>An encrypted file system answers to its class name whatever its own name is, and never to the empty name.\<close>

theorem encrypted_file_system_instance:
  "EncryptedFileSystem_IsInstanceOf own nick ''EncryptedFileSystem'' \<and> \<not> EncryptedFileSystem_IsInstanceOf own nick [] \<and>
   (EncryptedFileSystem_IsInstanceOf own None name \<longleftrightarrow> name = ''EncryptedFileSystem'' \<or> name \<noteq> [] \<and> name = own)"
  by (simp add: EncryptedFileSystem_IsInstanceOf_def IsInstanceOf_default_def)

end
