(* ===== verification/BackupEngineModel.thy ===== *)
theory BackupEngineModel
  imports StatusModel "HOL-Library.Word"
begin

text \<open>
  include/rocksdb/utilities/backup_engine.h: the options with their asserting constructor, the
  naming flags, the plain records, and the compatibility overloads, which forward to the pure
  virtual operations of the engine. Pointers to other objects (\<open>'env\<close>, \<open>'log\<close>, \<open>'lim\<close>) are
  options over a type parameter. A callback is a state transformer of the caller's state \<open>'w\<close>,
  or empty.
\<close>

section \<open>Naming flags\<close>

type_synonym ShareFilesNaming = "32 word"

definition kLegacyCrc32cAndFileSize :: ShareFilesNaming where "kLegacyCrc32cAndFileSize = 1"
definition kUseDbSessionId :: ShareFilesNaming where "kUseDbSessionId = 2"
definition kMaskNoNamingFlags :: ShareFilesNaming where "kMaskNoNamingFlags = 0xffff"
definition kFlagIncludeFileSize :: ShareFilesNaming where "kFlagIncludeFileSize = push_bit 31 1"
definition kMaskNamingFlags :: ShareFilesNaming where "kMaskNamingFlags = not kMaskNoNamingFlags"

definition naming_and :: "ShareFilesNaming \<Rightarrow> ShareFilesNaming \<Rightarrow> ShareFilesNaming option" where
  "naming_and l r =
     asserting (r = kMaskNoNamingFlags \<or> and r kMaskNoNamingFlags = 0) (and l r)"

definition naming_or :: "ShareFilesNaming \<Rightarrow> ShareFilesNaming \<Rightarrow> ShareFilesNaming option" where
  "naming_or l r = asserting (and r kMaskNoNamingFlags = 0) (or l r)"

section \<open>Options\<close>

record ('env, 'log, 'lim) BackupEngineOptions =
  backup_dir :: string
  backup_env :: "'env option"
  share_table_files :: bool
  info_log :: "'log option"
  sync :: bool
  destroy_old_data :: bool
  backup_log_files :: bool
  backup_rate_limit :: "64 word"
  backup_rate_limiter :: "'lim option"
  restore_rate_limit :: "64 word"
  restore_rate_limiter :: "'lim option"
  share_files_with_checksum :: bool
  max_background_operations :: int
  callback_trigger_interval_size :: "64 word"
  max_valid_backups_to_open :: int
  share_files_with_checksum_naming :: ShareFilesNaming
  schema_version :: int
  current_temperatures_override_manifest :: bool

definition INT_MAX :: int where
  "INT_MAX = 2 ^ 31 - 1"

text \<open>The constructor, on all its parameters, and with the defaults after the directory.\<close>

definition BackupEngineOptions_new ::
    "string \<Rightarrow> 'env option \<Rightarrow> bool \<Rightarrow> 'log option \<Rightarrow> bool \<Rightarrow> bool \<Rightarrow> bool \<Rightarrow> 64 word \<Rightarrow> 64 word \<Rightarrow>
     int \<Rightarrow> 64 word \<Rightarrow> int \<Rightarrow> ShareFilesNaming \<Rightarrow> ('env, 'log, 'lim) BackupEngineOptions option" where
  "BackupEngineOptions_new dir env share log sy destroy logs brate rrate ops trigger valid naming =
     (let o' = \<lparr>backup_dir = dir, backup_env = env, share_table_files = share, info_log = log,
          sync = sy, destroy_old_data = destroy, backup_log_files = logs,
          backup_rate_limit = brate, backup_rate_limiter = None, restore_rate_limit = rrate,
          restore_rate_limiter = None, share_files_with_checksum = True,
          max_background_operations = ops, callback_trigger_interval_size = trigger,
          max_valid_backups_to_open = valid, share_files_with_checksum_naming = naming,
          schema_version = 1, current_temperatures_override_manifest = False\<rparr> in
      do {
        asserting (share_table_files o' \<or> \<not> share_files_with_checksum o') ();
        asserting (and (share_files_with_checksum_naming o') kMaskNoNamingFlags \<noteq> 0) o'
      })"

definition BackupEngineOptions_dir :: "string \<Rightarrow> ('env, 'log, 'lim) BackupEngineOptions option" where
  "BackupEngineOptions_dir dir =
     BackupEngineOptions_new dir None True None True False True 0 0 1 (4 * 1024 * 1024) INT_MAX
       (or kUseDbSessionId kFlagIncludeFileSize)"

datatype CpuPriority = kIdleCpu | kLowCpu | kNormalCpu | kHighCpu

record BackupExcludedFileInfo =
  relative_file :: string

definition BackupExcludedFileInfo_new :: "string \<Rightarrow> BackupExcludedFileInfo" where
  "BackupExcludedFileInfo_new f = \<lparr>relative_file = f\<rparr>"

record MaybeExcludeBackupFile =
  exclude_info :: BackupExcludedFileInfo
  exclude_decision :: bool

definition MaybeExcludeBackupFile_new :: "BackupExcludedFileInfo \<Rightarrow> MaybeExcludeBackupFile" where
  "MaybeExcludeBackupFile_new info = \<lparr>exclude_info = info, exclude_decision = False\<rparr>"

record 'w CreateBackupOptions =
  flush_before_backup :: bool
  progress_callback :: "('w \<Rightarrow> 'w) option"
  exclude_files_callback ::
    "(MaybeExcludeBackupFile list \<Rightarrow> 'w \<Rightarrow> MaybeExcludeBackupFile list \<times> 'w) option"
  decrease_background_thread_cpu_priority :: bool
  background_thread_cpu_priority :: CpuPriority

definition CreateBackupOptions_default :: "'w CreateBackupOptions" where
  "CreateBackupOptions_default = \<lparr>flush_before_backup = False, progress_callback = None,
     exclude_files_callback = None, decrease_background_thread_cpu_priority = False,
     background_thread_cpu_priority = kNormalCpu\<rparr>"

record 'e RestoreOptions =
  keep_log_files :: bool
  alternate_dirs :: "'e list"

definition RestoreOptions_new :: "bool \<Rightarrow> 'e RestoreOptions" where
  "RestoreOptions_new keep = \<lparr>keep_log_files = keep, alternate_dirs = []\<rparr>"

type_synonym BackupID = "32 word"

record ('file, 'env) BackupInfo =
  backup_id :: BackupID
  timestamp :: int
  info_size :: "64 word"
  number_files :: "32 word"
  app_metadata :: string
  file_details :: "'file list"
  excluded_files :: "BackupExcludedFileInfo list"
  name_for_open :: string
  env_for_open :: "'env option"

definition BackupInfo_default :: "('file, 'env) BackupInfo" where
  "BackupInfo_default = \<lparr>backup_id = 0, timestamp = 0, info_size = 0, number_files = 0,
     app_metadata = '''', file_details = [], excluded_files = [], name_for_open = '''',
     env_for_open = None\<rparr>"

definition BackupInfo_new ::
    "BackupID \<Rightarrow> int \<Rightarrow> 64 word \<Rightarrow> 32 word \<Rightarrow> string \<Rightarrow> ('file, 'env) BackupInfo" where
  "BackupInfo_new ident ts sz n meta =
     BackupInfo_default\<lparr>backup_id := ident, timestamp := ts, info_size := sz, number_files := n,
       app_metadata := meta\<rparr>"

record BackupStatistics =
  number_success_backup :: "32 word"
  number_fail_backup :: "32 word"

definition BackupStatistics_default :: BackupStatistics where
  "BackupStatistics_default = \<lparr>number_success_backup = 0, number_fail_backup = 0\<rparr>"

definition BackupStatistics_new :: "32 word \<Rightarrow> 32 word \<Rightarrow> BackupStatistics" where
  "BackupStatistics_new ok failed = \<lparr>number_success_backup = ok, number_fail_backup = failed\<rparr>"

section \<open>The compatibility overloads\<close>

text \<open>
  \<open>create options db metadata new_id\<close> is the pure virtual \<open>CreateNewBackupWithMetadata\<close>
  (\<open>new_id\<close>: whether the id is to be stored), \<open>restore options id db_dir wal_dir\<close> and
  \<open>restore_latest\<close> the pure virtual restores, and \<open>open_engine options env\<close> the static \<open>Open\<close>.
\<close>

type_synonym ('w, 'db) create_fn =
  "'w CreateBackupOptions \<Rightarrow> 'db \<Rightarrow> string \<Rightarrow> bool \<Rightarrow> 'w \<Rightarrow> Status \<times> BackupID option \<times> 'w"

definition CreateNewBackupWithMetadata_compat ::
    "('w, 'db) create_fn \<Rightarrow> 'db \<Rightarrow> string \<Rightarrow> bool \<Rightarrow> ('w \<Rightarrow> 'w) option \<Rightarrow> 'w \<Rightarrow>
       Status \<times> BackupID option \<times> 'w" where
  "CreateNewBackupWithMetadata_compat create db meta flush callback w =
     (let options = CreateBackupOptions_default\<lparr>flush_before_backup := flush,
          progress_callback := callback\<rparr> in
      create options db meta False w)"

definition CreateNewBackup ::
    "('w, 'db) create_fn \<Rightarrow> 'w CreateBackupOptions \<Rightarrow> 'db \<Rightarrow> bool \<Rightarrow> 'w \<Rightarrow>
       Status \<times> BackupID option \<times> 'w" where
  "CreateNewBackup create options db new_id w = create options db '''' new_id w"

definition CreateNewBackup_compat ::
    "('w, 'db) create_fn \<Rightarrow> 'db \<Rightarrow> bool \<Rightarrow> ('w \<Rightarrow> 'w) option \<Rightarrow> 'w \<Rightarrow>
       Status \<times> BackupID option \<times> 'w" where
  "CreateNewBackup_compat create db flush callback w =
     (let options = CreateBackupOptions_default\<lparr>flush_before_backup := flush,
          progress_callback := callback\<rparr> in
      CreateNewBackup create options db False w)"

definition RestoreDBFromBackup_compat ::
    "('e RestoreOptions \<Rightarrow> BackupID \<Rightarrow> string \<Rightarrow> string \<Rightarrow> 'w \<Rightarrow> Status \<times> 'w) \<Rightarrow> BackupID \<Rightarrow> string \<Rightarrow>
       string \<Rightarrow> 'e RestoreOptions \<Rightarrow> 'w \<Rightarrow> Status \<times> 'w" where
  "RestoreDBFromBackup_compat restore ident db_dir wal_dir options w =
     restore options ident db_dir wal_dir w"

definition RestoreDBFromLatestBackup_compat ::
    "('e RestoreOptions \<Rightarrow> string \<Rightarrow> string \<Rightarrow> 'w \<Rightarrow> Status \<times> 'w) \<Rightarrow> string \<Rightarrow> string \<Rightarrow>
       'e RestoreOptions \<Rightarrow> 'w \<Rightarrow> Status \<times> 'w" where
  "RestoreDBFromLatestBackup_compat restore_latest db_dir wal_dir options w =
     restore_latest options db_dir wal_dir w"

definition BackupEngine_Open_compat ::
    "('opts \<Rightarrow> 'env \<Rightarrow> 'w \<Rightarrow> Status \<times> 'e \<times> 'w) \<Rightarrow> 'env \<Rightarrow> 'opts \<Rightarrow> 'w \<Rightarrow> Status \<times> 'e \<times> 'w" where
  "BackupEngine_Open_compat open_engine db_env options w = open_engine options db_env w"

section \<open>When the constructor is defined\<close>

named_theorems naming_defs

lemmas [naming_defs] = kLegacyCrc32cAndFileSize_def kUseDbSessionId_def kMaskNoNamingFlags_def
  kFlagIncludeFileSize_def kMaskNamingFlags_def

lemma BackupEngineOptions_new_defined:
  "BackupEngineOptions_new dir env share log sy destroy logs br rr ops trigger valid naming \<noteq> None
     \<longleftrightarrow> share \<and> and naming kMaskNoNamingFlags \<noteq> 0"
  by (auto simp: BackupEngineOptions_new_def naming_and_def asserting_def Let_def)

lemma BackupEngineOptions_dir_fields:
  obtains opts :: "('env, 'log, 'lim) BackupEngineOptions"
  where "BackupEngineOptions_dir dir = Some opts" "backup_dir opts = dir" "share_table_files opts"
    "share_files_with_checksum opts" "sync opts" "\<not> destroy_old_data opts" "backup_log_files opts"
proof -
  have "and (or kUseDbSessionId kFlagIncludeFileSize) kMaskNoNamingFlags \<noteq> 0"
    by (simp add: naming_defs)
  then show ?thesis
    by (intro that [OF _ _ _ _ _ _ _]) (auto simp: BackupEngineOptions_dir_def
        BackupEngineOptions_new_def naming_and_def Let_def)
qed

text \<open>Every scheme-free combination of flags keeps the scheme; the two masks split a value.\<close>

lemma naming_masks:
  "and kMaskNoNamingFlags kMaskNamingFlags = 0" "or kMaskNoNamingFlags kMaskNamingFlags = - 1"
  by (simp_all add: kMaskNamingFlags_def)

lemma naming_split: "or (and n kMaskNoNamingFlags) (and n kMaskNamingFlags) = n"
  by (simp add: kMaskNamingFlags_def flip: bit.conj_disj_distrib)

lemma naming_or_keeps_scheme:
  "naming_or n f = Some m \<Longrightarrow> and m kMaskNoNamingFlags = and n kMaskNoNamingFlags"
  by (auto simp: naming_or_def bit.conj_disj_distrib2)

section \<open>Properties\<close>

text \<open>
  The constructor of the backup options passes its assertions exactly if table files are shared
  and the naming value has a naming scheme: \<open>share_table_files = false\<close>, which the comment on that
  field describes as a supported setting, always fails, because the constructor itself sets
  \<open>share_files_with_checksum\<close>. With the directory alone it always passes.
\<close>

theorem BackupEngineOptions_asserts:
  "((BackupEngineOptions_new dir env share log sy destroy logs br rr ops trigger valid naming
       :: ('env, 'log, 'lim) BackupEngineOptions option) \<noteq> None
     \<longleftrightarrow> share \<and> and naming kMaskNoNamingFlags \<noteq> 0) \<and>
   (\<exists>opts. (BackupEngineOptions_dir dir :: ('env, 'log, 'lim) BackupEngineOptions option) = Some opts \<and>
     backup_dir opts = dir \<and> share_table_files opts \<and> \<not> destroy_old_data opts)"
  using BackupEngineOptions_new_defined
    [of dir env share log sy destroy logs br rr ops trigger valid naming]
    BackupEngineOptions_dir_fields [of dir] by metis

text \<open>
  Naming values: the two masks split every value into scheme and flags, \<open>operator&\<close> and
  \<open>operator|\<close> pass their assertions with the masks they are used with, and adding a flag never
  changes the scheme.
\<close>

theorem naming_flags:
  "naming_and n kMaskNoNamingFlags = Some (and n kMaskNoNamingFlags) \<and>
   naming_and n kMaskNamingFlags = Some (and n kMaskNamingFlags) \<and>
   or (and n kMaskNoNamingFlags) (and n kMaskNamingFlags) = n \<and>
   (\<exists>m. naming_or n kFlagIncludeFileSize = Some m \<and>
     and m kMaskNoNamingFlags = and n kMaskNoNamingFlags)"
proof -
  obtain m where m: "naming_or n kFlagIncludeFileSize = Some m"
    by (simp add: naming_or_def naming_defs)
  moreover have "naming_and n kMaskNamingFlags = Some (and n kMaskNamingFlags)"
    using naming_masks(1) by (simp add: naming_and_def and.commute)
  ultimately show ?thesis
    using naming_or_keeps_scheme [OF m] naming_split [of n] by (simp add: naming_and_def)
qed

text \<open>
  The overload of \<open>CreateNewBackup\<close> the tools call asks the engine for one backup of that
  database, without metadata, without storing an id, with the caller's flush flag and callback, and
  with the defaults for everything else.
\<close>

theorem CreateNewBackup_compat_call:
  "CreateNewBackup_compat create db flush callback w = create
     \<lparr>flush_before_backup = flush, progress_callback = callback, exclude_files_callback = None,
      decrease_background_thread_cpu_priority = False, background_thread_cpu_priority = kNormalCpu\<rparr>
     db [] False w"
  by (simp add: CreateNewBackup_compat_def CreateNewBackup_def CreateBackupOptions_default_def Let_def)

end
