(* ===== verification/Tools.thy ===== *)
theory Tools
  imports BackupEngineModel
begin

text \<open>
  The command line tools backup_rocksdb.cc, load_rocksdb.cc and test.cc of
  src/rocksdb_dumpandload. The RocksDB library they call is not part of the sources: it is the
  parameter \<open>api\<close>, a record with one function per call, over an abstract world \<open>'w\<close>. A run
  returns how the process ends, the world, and a trace of everything it did: the texts printed,
  the calls with the status each returned, and the objects deleted. None is undefined behaviour
  (printing a null \<open>argv[0]\<close>).
\<close>

section \<open>The library as the tools see it\<close>

record 'w rocksdb_api =
  db_open :: "string \<Rightarrow> string list \<Rightarrow> 'w \<Rightarrow> Status \<times> nat list \<times> nat \<times> 'w"
  db_flush :: "nat \<Rightarrow> nat \<Rightarrow> 'w \<Rightarrow> Status \<times> 'w"
  engine_open :: "(unit, unit, unit) BackupEngineOptions \<Rightarrow> unit \<Rightarrow> 'w \<Rightarrow> Status \<times> nat \<times> 'w"
  create_backup :: "nat \<Rightarrow> ('w, nat) create_fn"
  get_backup_info :: "nat \<Rightarrow> 'w \<Rightarrow> (unit, unit) BackupInfo list"
  restore_backup ::
    "nat \<Rightarrow> nat RestoreOptions \<Rightarrow> BackupID \<Rightarrow> string \<Rightarrow> string \<Rightarrow> 'w \<Rightarrow> Status \<times> 'w"
  list_column_families :: "string \<Rightarrow> 'w \<Rightarrow> Status \<times> string list \<times> 'w"
  status_string :: "Status \<Rightarrow> string"
  destroy_handle :: "nat \<Rightarrow> 'w \<Rightarrow> 'w"
  destroy_db :: "nat \<Rightarrow> 'w \<Rightarrow> 'w"
  destroy_engine :: "nat \<Rightarrow> 'w \<Rightarrow> 'w"

datatype action =
    Out string | Err string
  | Opened Status "nat list" nat
  | Flushed Status nat nat
  | EngineOpened Status nat
  | Created Status nat nat
  | InfoRead nat
  | Restored Status nat BackupID
  | Listed Status "string list"
  | DelHandle nat | DelDB nat | DelEngine nat

datatype exn = invalid_argument | out_of_range

datatype outcome = Exit int | Uncaught exn

record 'w proc =
  world :: 'w
  trace :: "action list"

definition emit :: "action \<Rightarrow> 'w proc \<Rightarrow> 'w proc" where
  "emit a p = p\<lparr>trace := trace p @ [a]\<rparr>"

definition out :: "string \<Rightarrow> 'w proc \<Rightarrow> 'w proc" where
  "out s p = emit (Out (s @ [CHR 0x0A])) p"

definition err :: "string \<Rightarrow> 'w proc \<Rightarrow> 'w proc" where
  "err s p = emit (Err (s @ [CHR 0x0A])) p"

definition did :: "action \<Rightarrow> 'w \<Rightarrow> 'w proc \<Rightarrow> 'w proc" where
  "did a w p = emit a (p\<lparr>world := w\<rparr>)"

definition delete_handle :: "'w rocksdb_api \<Rightarrow> nat \<Rightarrow> 'w proc \<Rightarrow> 'w proc" where
  "delete_handle api h p = did (DelHandle h) (destroy_handle api h (world p)) p"

definition delete_handles :: "'w rocksdb_api \<Rightarrow> nat list \<Rightarrow> 'w proc \<Rightarrow> 'w proc" where
  "delete_handles api hs p = fold (delete_handle api) hs p"

definition delete_db :: "'w rocksdb_api \<Rightarrow> nat \<Rightarrow> 'w proc \<Rightarrow> 'w proc" where
  "delete_db api db p = did (DelDB db) (destroy_db api db (world p)) p"

definition delete_engine :: "'w rocksdb_api \<Rightarrow> nat \<Rightarrow> 'w proc \<Rightarrow> 'w proc" where
  "delete_engine api e p = did (DelEngine e) (destroy_engine api e (world p)) p"

section \<open>backup\_rocksdb.cc\<close>

text \<open>The flush loop: None, or the status of the first flush that failed.\<close>

fun flush_all :: "'w rocksdb_api \<Rightarrow> nat \<Rightarrow> nat list \<Rightarrow> 'w proc \<Rightarrow> Status option \<times> 'w proc" where
  "flush_all api db [] p = (None, p)"
| "flush_all api db (h # hs) p =
     (let (s, w) = db_flush api db h (world p);
          p = did (Flushed s db h) w p in
      if \<not> status_ok s then (Some s, p) else flush_all api db hs p)"

definition backup_column_families :: "string list" where
  "backup_column_families = [''default'', ''usertable'']"

definition backup_with_engine ::
    "'w rocksdb_api \<Rightarrow> nat list \<Rightarrow> nat \<Rightarrow> nat \<Rightarrow> 'w proc \<Rightarrow> outcome \<times> 'w proc" where
  "backup_with_engine api handles db engine p =
     (let (s, _, w) = CreateNewBackup_compat (create_backup api engine) db False (Some id) (world p);
          p = did (Created s engine db) w p in
      if \<not> status_ok s then
        (let p = err (''Error creating RocksDB backup: '' @ status_string api s) p;
             p = delete_handles api handles p;
             p = delete_db api db p;
             p = delete_engine api engine p in
         (Exit 1, p))
      else
        (let p = out ''Backup created successfully!'' p;
             p = delete_handles api handles p;
             p = delete_db api db p;
             p = delete_engine api engine p in
         (Exit 0, p)))"

definition backup_with_db ::
    "'w rocksdb_api \<Rightarrow> string \<Rightarrow> nat list \<Rightarrow> nat \<Rightarrow> 'w proc \<Rightarrow> (outcome \<times> 'w proc) option" where
  "backup_with_db api backup_path handles db p =
     (case flush_all api db handles p of
        (Some s, p) \<Rightarrow>
          (let p = err (''Error flushing RocksDB column family: '' @ status_string api s) p;
               p = delete_handles api handles p;
               p = delete_db api db p in
           Some (Exit 1, p))
      | (None, p) \<Rightarrow>
          do {
            opts \<leftarrow> BackupEngineOptions_dir backup_path;
            let (s, engine, w) = BackupEngine_Open_compat (engine_open api) () opts (world p);
            let p = did (EngineOpened s engine) w p;
            Some (if \<not> status_ok s then
              (let p = err (''Error opening RocksDB backup engine: '' @ status_string api s) p;
                   p = delete_handles api handles p;
                   p = delete_db api db p in
               (Exit 1, p))
            else backup_with_engine api handles db engine p)
          })"

definition backup_main ::
    "'w rocksdb_api \<Rightarrow> string list \<Rightarrow> 'w proc \<Rightarrow> (outcome \<times> 'w proc) option" where
  "backup_main api argv p =
     (if length argv < 3 then
        (case argv of
           [] \<Rightarrow> None
         | prog # _ \<Rightarrow> Some (Exit 1, err (''Usage: '' @ prog @ '' <db_path> <backup_path>'') p))
      else
        (let db_path = argv ! 1;
             backup_path = argv ! 2;
             (s, handles, db, w) = db_open api db_path backup_column_families (world p);
             p = did (Opened s handles db) w p in
         if \<not> status_ok s then
           Some (Exit 1, err (''Error opening RocksDB database: '' @ status_string api s) p)
         else backup_with_db api backup_path handles db p))"

section \<open>load\_rocksdb.cc\<close>

text \<open>\<open>std::stoi\<close>: \<open>strtol\<close> in base 10, then the range of \<open>int\<close>; what follows the digits is
  ignored.\<close>

definition is_space :: "char \<Rightarrow> bool" where
  "is_space c \<longleftrightarrow> c = CHR 0x20 \<or> (CHR 0x09 \<le> c \<and> c \<le> CHR 0x0D)"

definition stoi :: "string \<Rightarrow> exn + int" where
  "stoi s =
     (let s = dropWhile is_space s;
          neg = (s \<noteq> [] \<and> hd s = CHR ''-'');
          s = (if s \<noteq> [] \<and> (hd s = CHR ''-'' \<or> hd s = CHR ''+'') then tl s else s);
          ds = takeWhile digit s in
      if ds = [] then Inl invalid_argument
      else (let v = (if neg then - int (read_nat ds) else int (read_nat ds)) in
            if v < - (2 ^ 31) \<or> v > INT_MAX then Inl out_of_range else Inr v))"

definition info_line :: "(unit, unit) BackupInfo \<Rightarrow> string" where
  "info_line info =
     ''Backup ID: '' @ show_nat (unat (backup_id info)) @ '', Timestamp: '' @
     show_int (timestamp info) @ '', Size: '' @ show_nat (unat (info_size info)) @
     '', Number of files: '' @ show_nat (unat (number_files info))"

text \<open>The search loop, with its \<open>break\<close>.\<close>

fun usertable_in :: "string list \<Rightarrow> bool" where
  "usertable_in [] = False"
| "usertable_in (name # names) = (if name = ''usertable'' then True else usertable_in names)"

definition load_restored ::
    "'w rocksdb_api \<Rightarrow> string \<Rightarrow> nat \<Rightarrow> 'w proc \<Rightarrow> outcome \<times> 'w proc" where
  "load_restored api db_path engine p =
     (let p = out ''Backup restored successfully!'' p;
          (s, names, w) = list_column_families api db_path (world p);
          p = did (Listed s names) w p in
      if \<not> status_ok s then
        (Exit 1, delete_engine api engine
           (err (''Error listing column families in RocksDB: '' @ status_string api s) p))
      else if \<not> usertable_in names then
        (Exit 1, delete_engine api engine
           (err ''Error: 'usertable' column family not found in the restored database.'' p))
      else
        (let (s, handles, db, w) = db_open api db_path names (world p);
             p = did (Opened s handles db) w p in
         if \<not> status_ok s then
           (Exit 1, delete_engine api engine
              (err (''Error opening RocksDB database: '' @ status_string api s) p))
         else
           (let p = out ''RocksDB database opened successfully!'' p;
                p = delete_handles api handles p;
                p = delete_db api db p;
                p = delete_engine api engine p in
            (Exit 0, p))))"

definition load_with_engine ::
    "'w rocksdb_api \<Rightarrow> string \<Rightarrow> BackupID \<Rightarrow> nat \<Rightarrow> 'w proc \<Rightarrow> outcome \<times> 'w proc" where
  "load_with_engine api db_path ident engine p =
     (let infos = get_backup_info api engine (world p);
          p = emit (InfoRead engine) p;
          p = out ''Available backups:'' p;
          p = fold (\<lambda>info. out (info_line info)) infos p;
          (s, w) = RestoreDBFromBackup_compat (restore_backup api engine) ident db_path db_path
                     (RestoreOptions_new False) (world p);
          p = did (Restored s engine ident) w p in
      if \<not> status_ok s then
        (Exit 1, delete_engine api engine
           (err (''Error restoring RocksDB backup: '' @ status_string api s) p))
      else load_restored api db_path engine p)"

definition load_main ::
    "'w rocksdb_api \<Rightarrow> string list \<Rightarrow> 'w proc \<Rightarrow> (outcome \<times> 'w proc) option" where
  "load_main api argv p =
     (if length argv \<noteq> 4 then
        (case argv of
           [] \<Rightarrow> None
         | prog # _ \<Rightarrow> Some (Exit 1, err (''Usage: '' @ prog @
             '' <db_path> <backup_path> <backup_id_to_restore>'') p))
      else
        (let db_path = argv ! 1;
             backup_path = argv ! 2 in
         case stoi (argv ! 3) of
           Inl e \<Rightarrow> Some (Uncaught e, p)
         | Inr i \<Rightarrow>
             (let ident = word_of_int i :: BackupID in
              do {
                opts \<leftarrow> BackupEngineOptions_dir backup_path;
                let (s, engine, w) = BackupEngine_Open_compat (engine_open api) () opts (world p);
                let p = did (EngineOpened s engine) w p;
                Some (if \<not> status_ok s then
                  (Exit 1, err (''Error opening RocksDB backup engine: '' @ status_string api s) p)
                else load_with_engine api db_path ident engine p)
              })))"

section \<open>test.cc\<close>

definition test_main :: "'w rocksdb_api \<Rightarrow> 'w proc \<Rightarrow> outcome \<times> 'w proc" where
  "test_main api p =
     (let db_path = ''/tmp/rocksdb_restore'';
          (s, names, w) = list_column_families api db_path (world p);
          p = did (Listed s names) w p in
      if \<not> status_ok s then
        (Exit 1, err (''Error listing column families in RocksDB: '' @ status_string api s) p)
      else
        (let p = out ''Column Families:'' p;
             p = fold (\<lambda>name. out (''- '' @ name)) names p in
         (Exit 0,
          if usertable_in names then out ''Database contains 'usertable' column family.'' p
          else out ''Database does not contain 'usertable' column family.'' p)))"

section \<open>Lifetimes\<close>

text \<open>
  What is alive: the handles, the database and the engine. A step is refused (None) when it uses
  or deletes an object that is not alive, deletes the database while a handle is alive, opens a
  second one, or restores over an open database.
\<close>

type_synonym live = "nat list \<times> nat option \<times> nat option"

fun live_step :: "live \<Rightarrow> action \<Rightarrow> live option" where
  "live_step l (Out s) = Some l"
| "live_step l (Err s) = Some l"
| "live_step (hs, d, e) (Opened s hs' d') =
     (if status_ok s then asserting (d = None \<and> hs = [] \<and> distinct hs') (hs', Some d', e)
      else Some (hs, d, e))"
| "live_step (hs, d, e) (Flushed s d' h) = asserting (d = Some d' \<and> h \<in> set hs) (hs, d, e)"
| "live_step (hs, d, e) (EngineOpened s e') =
     (if status_ok s then asserting (e = None) (hs, d, Some e') else Some (hs, d, e))"
| "live_step (hs, d, e) (Created s e' d') = asserting (e = Some e' \<and> d = Some d') (hs, d, e)"
| "live_step (hs, d, e) (InfoRead e') = asserting (e = Some e') (hs, d, e)"
| "live_step (hs, d, e) (Restored s e' ident) = asserting (e = Some e' \<and> d = None) (hs, d, e)"
| "live_step l (Listed s names) = Some l"
| "live_step (hs, d, e) (DelHandle h) = asserting (h \<in> set hs \<and> d \<noteq> None) (remove1 h hs, d, e)"
| "live_step (hs, d, e) (DelDB d') = asserting (d = Some d' \<and> hs = []) (hs, None, e)"
| "live_step (hs, d, e) (DelEngine e') = asserting (e = Some e') (hs, d, None)"

fun live_run :: "live \<Rightarrow> action list \<Rightarrow> live option" where
  "live_run l [] = Some l"
| "live_run l (a # as) = Option.bind (live_step l a) (\<lambda>l. live_run l as)"

definition live_after :: "'w proc \<Rightarrow> live option" where
  "live_after p = live_run ([], None, None) (trace p)"

lemma live_run_append: "live_run l (as @ bs) = Option.bind (live_run l as) (\<lambda>l. live_run l bs)"
  by (induction as arbitrary: l) (auto split: Option.bind_splits)

lemma alive_emit [simp]: "live_after (emit a p) = Option.bind (live_after p) (\<lambda>l. live_step l a)"
  by (simp add: live_after_def emit_def live_run_append)

lemma alive_world [simp]: "live_after (p\<lparr>world := w\<rparr>) = live_after p"
  by (simp add: live_after_def)

lemma alive_did [simp]: "live_after (did a w p) = Option.bind (live_after p) (\<lambda>l. live_step l a)"
  by (simp add: did_def)

lemma alive_print [simp]: "live_after (out s p) = live_after p" "live_after (err s p) = live_after p"
  by (simp_all add: out_def err_def)

lemma alive_print_all [simp]: "live_after (fold (\<lambda>x. out (f x)) xs p) = live_after p"
  by (induction xs arbitrary: p) auto

lemma alive_delete_handles:
  "live_after p = Some (hs, Some d, e) \<Longrightarrow> live_after (delete_handles api hs p) = Some ([], Some d, e)"
  by (induction hs arbitrary: p) (auto simp: delete_handles_def delete_handle_def)

lemma alive_delete_all:
  assumes "live_after p = Some (hs, Some d, e)"
  shows "live_after (delete_db api d (delete_handles api hs p)) = Some ([], None, e)"
  using alive_delete_handles [OF assms] by (simp add: delete_db_def)

lemma alive_delete_engine:
  "live_after p = Some (hs, d, Some e) \<Longrightarrow> live_after (delete_engine api e p) = Some (hs, d, None)"
  by (simp add: delete_engine_def)

lemma alive_flush_all:
  assumes "live_after p = Some (hs', Some db, e)" and "set hs \<subseteq> set hs'"
  shows "live_after (snd (flush_all api db hs p)) = Some (hs', Some db, e)"
  using assms
  by (induction api db hs p rule: flush_all.induct) (auto simp: Let_def split: prod.splits)

text \<open>\<open>DB::Open\<close> creates one handle per column family, each its own object.\<close>

definition opens_distinct :: "'w rocksdb_api \<Rightarrow> bool" where
  "opens_distinct api \<longleftrightarrow> (\<forall>path names w s hs db w'.
     db_open api path names w = (s, hs, db, w') \<longrightarrow> status_ok s \<longrightarrow> distinct hs)"

lemma opens_distinctD:
  "opens_distinct api \<Longrightarrow> db_open api path names w = (s, hs, db, w') \<Longrightarrow> status_ok s \<Longrightarrow> distinct hs"
  unfolding opens_distinct_def by blast

lemma alive_opened:
  assumes "opens_distinct api" "db_open api path names w = (s, hs, db, w')" "status_ok s"
    and "live_after p = Some ([], None, e)"
  shows "live_after (did (Opened s hs db) w' p) = Some (hs, Some db, e)"
  using opens_distinctD [OF assms(1-3)] assms(3,4) by simp

lemma alive_backup_with_engine:
  assumes "live_after p = Some (hs, Some db, Some e)"
  shows "live_after (snd (backup_with_engine api hs db e p)) = Some ([], None, None)"
  using assms
  by (auto simp: backup_with_engine_def Let_def alive_delete_all alive_delete_engine
      split: prod.splits)

lemma alive_backup_with_db:
  assumes "backup_with_db api path hs db p = Some (oc, p')" and "live_after p = Some (hs, Some db, None)"
  shows "live_after p' = Some ([], None, None)"
proof -
  obtain f q where f: "flush_all api db hs p = (f, q)" by fastforce
  then have q: "live_after q = Some (hs, Some db, None)"
    using alive_flush_all [of p hs db None hs api] assms(2) by simp
  show ?thesis
  proof (cases f)
    case (Some s)
    with assms f q show ?thesis by (auto simp: backup_with_db_def Let_def alive_delete_all)
  next
    case None
    obtain opts where opts: "(BackupEngineOptions_dir path :: (unit, unit, unit) BackupEngineOptions option)
        = Some opts"
      using BackupEngineOptions_dir_fields by blast
    obtain s e w where o': "BackupEngine_Open_compat (engine_open api) () opts (world q) = (s, e, w)"
      by (metis prod_cases3)
    show ?thesis
    proof (cases "status_ok s")
      case True
      then have "live_after (did (EngineOpened s e) w q) = Some (hs, Some db, Some e)" using q by simp
      from alive_backup_with_engine [OF this, of api] show ?thesis
        using assms f None opts o' True by (auto simp: backup_with_db_def Let_def)
    next
      case False
      with assms f None opts o' q show ?thesis
        by (auto simp: backup_with_db_def Let_def alive_delete_all)
    qed
  qed
qed

lemma alive_load_restored:
  assumes "opens_distinct api" and "live_after p = Some ([], None, Some e)"
  shows "live_after (snd (load_restored api path e p)) = Some ([], None, None)"
proof -
  obtain s names w where l: "list_column_families api path (world (out ''Backup restored successfully!'' p))
      = (s, names, w)" by (metis prod_cases3)
  define q where "q = did (Listed s names) w (out ''Backup restored successfully!'' p)"
  have q: "live_after q = Some ([], None, Some e)" using assms by (simp add: q_def)
  obtain s' hs db w' where o': "db_open api path names (world q) = (s', hs, db, w')"
    by (metis prod_cases4)
  show ?thesis
  proof (cases "status_ok s \<and> usertable_in names \<and> status_ok s'")
    case True
    then have "live_after (did (Opened s' hs db) w' q) = Some (hs, Some db, Some e)"
      using alive_opened [OF assms(1) o' _ q] by simp
    then have "live_after (out ''RocksDB database opened successfully!'' (did (Opened s' hs db) w' q))
        = Some (hs, Some db, Some e)" by simp
    from alive_delete_all [OF this, of api] alive_delete_engine show ?thesis
      using True l o' by (simp add: load_restored_def Let_def q_def)
  next
    case False
    with q l o' show ?thesis
      by (auto simp: load_restored_def Let_def alive_delete_engine q_def)
  qed
qed

lemma alive_load_with_engine:
  assumes "opens_distinct api" and "live_after p = Some ([], None, Some e)"
  shows "live_after (snd (load_with_engine api path ident e p)) = Some ([], None, None)"
  using assms
  by (auto simp: load_with_engine_def Let_def alive_delete_engine alive_load_restored
      split: prod.splits)

section \<open>What a successful run did\<close>

text \<open>The calls and deletions of a trace, in order, with the statuses erased.\<close>

fun with_ok :: "action \<Rightarrow> action" where
  "with_ok (Opened s hs d) = Opened Status_OK hs d"
| "with_ok (Flushed s d h) = Flushed Status_OK d h"
| "with_ok (EngineOpened s e) = EngineOpened Status_OK e"
| "with_ok (Created s e d) = Created Status_OK e d"
| "with_ok (Restored s e i) = Restored Status_OK e i"
| "with_ok (Listed s names) = Listed Status_OK names"
| "with_ok a = a"

fun printing :: "action \<Rightarrow> bool" where
  "printing (Out s) = True"
| "printing (Err s) = True"
| "printing a = False"

fun status_of :: "action \<Rightarrow> Status option" where
  "status_of (Opened s hs d) = Some s"
| "status_of (Flushed s d h) = Some s"
| "status_of (EngineOpened s e) = Some s"
| "status_of (Created s e d) = Some s"
| "status_of (Restored s e i) = Some s"
| "status_of (Listed s names) = Some s"
| "status_of a = None"

definition work :: "'w proc \<Rightarrow> action list" where
  "work p = map with_ok (filter (\<lambda>a. \<not> printing a) (trace p))"

definition all_ok :: "'w proc \<Rightarrow> bool" where
  "all_ok p \<longleftrightarrow> (\<forall>s. Some s \<in> status_of ` set (trace p) \<longrightarrow> status_ok s)"

definition step_ok :: "action \<Rightarrow> bool" where
  "step_ok a \<longleftrightarrow> (case status_of a of None \<Rightarrow> True | Some s \<Rightarrow> status_ok s)"

lemma step_ok_simps [simp]:
  "step_ok (Out t)" "step_ok (Err t)" "step_ok (InfoRead e)" "step_ok (DelHandle h)"
  "step_ok (DelDB d)" "step_ok (DelEngine e)"
  "step_ok (Opened s hs d) = status_ok s" "step_ok (Flushed s d h) = status_ok s"
  "step_ok (EngineOpened s e) = status_ok s" "step_ok (Created s e d) = status_ok s"
  "step_ok (Restored s e i) = status_ok s" "step_ok (Listed s names) = status_ok s"
  by (simp_all add: step_ok_def)

lemma all_ok_emit [simp]: "all_ok (emit a p) \<longleftrightarrow> all_ok p \<and> step_ok a"
  by (auto simp: all_ok_def emit_def step_ok_def split: option.splits)

lemma work_emit [simp]:
  "work (emit a p) = work p @ (if printing a then [] else [with_ok a])"
  by (simp add: work_def emit_def)

lemma observe_world [simp]: "all_ok (p\<lparr>world := w\<rparr>) = all_ok p" "work (p\<lparr>world := w\<rparr>) = work p"
  by (simp_all add: all_ok_def work_def)

lemma all_ok_did [simp]: "all_ok (did a w p) \<longleftrightarrow> all_ok p \<and> step_ok a"
  and work_did [simp]: "work (did a w p) = work p @ (if printing a then [] else [with_ok a])"
  by (simp_all add: did_def)

lemma observe_print [simp]:
  "all_ok (out s p) = all_ok p" "all_ok (err s p) = all_ok p"
  "work (out s p) = work p" "work (err s p) = work p"
  by (simp_all add: out_def err_def)

lemma observe_print_all [simp]:
  "all_ok (fold (\<lambda>x. out (f x)) xs p) = all_ok p" "work (fold (\<lambda>x. out (f x)) xs p) = work p"
  by (induction xs arbitrary: p) auto

lemma observe_delete [simp]:
  "all_ok (delete_handles api hs p) = all_ok p" "all_ok (delete_db api d p) = all_ok p"
  "all_ok (delete_engine api e p) = all_ok p"
  "work (delete_handles api hs p) = work p @ map DelHandle hs"
  "work (delete_db api d p) = work p @ [DelDB d]"
  "work (delete_engine api e p) = work p @ [DelEngine e]"
proof -
  show "all_ok (delete_handles api hs p) = all_ok p"
    by (induction hs arbitrary: p) (auto simp: delete_handles_def delete_handle_def)
  show "work (delete_handles api hs p) = work p @ map DelHandle hs"
    by (induction hs arbitrary: p) (auto simp: delete_handles_def delete_handle_def)
qed (simp_all add: delete_db_def delete_engine_def)

lemma flush_all_ok:
  "flush_all api db hs p = (None, p') \<Longrightarrow>
     (all_ok p' \<longleftrightarrow> all_ok p) \<and> work p' = work p @ map (Flushed Status_OK db) hs"
  by (induction api db hs p rule: flush_all.induct) (auto simp: Let_def split: prod.splits if_splits)

lemma flush_all_failed: "flush_all api db hs p = (Some s, p') \<Longrightarrow> \<not> status_ok s \<and> \<not> all_ok p'"
  by (induction api db hs p rule: flush_all.induct) (auto simp: Let_def split: prod.splits if_splits)

lemma backup_with_engine_result:
  assumes "backup_with_engine api hs db e p = (oc, p')" and "all_ok p"
  shows "oc = (if all_ok p' then Exit 0 else Exit 1)"
    and "oc = Exit 0 \<Longrightarrow>
      work p' = work p @ [Created Status_OK e db] @ map DelHandle hs @ [DelDB db, DelEngine e]"
  using assms by (auto simp: backup_with_engine_def Let_def split: prod.splits if_splits)

lemma backup_with_db_result:
  assumes "backup_with_db api path hs db p = Some (oc, p')" and "all_ok p"
  shows "oc = (if all_ok p' then Exit 0 else Exit 1) \<and>
    (oc = Exit 0 \<longrightarrow> (\<exists>e. work p' = work p @ map (Flushed Status_OK db) hs @
       [EngineOpened Status_OK e, Created Status_OK e db] @ map DelHandle hs @ [DelDB db, DelEngine e]))"
proof -
  obtain f q where f: "flush_all api db hs p = (f, q)" by fastforce
  show ?thesis
  proof (cases f)
    case (Some s)
    with assms f flush_all_failed [of api db hs p s q] show ?thesis
      by (auto simp: backup_with_db_def Let_def)
  next
    case None
    obtain opts where opts: "(BackupEngineOptions_dir path :: (unit, unit, unit) BackupEngineOptions option)
        = Some opts"
      using BackupEngineOptions_dir_fields by blast
    obtain s e w where o': "BackupEngine_Open_compat (engine_open api) () opts (world q) = (s, e, w)"
      by (metis prod_cases3)
    from f None have q: "all_ok q" "work q = work p @ map (Flushed Status_OK db) hs"
      using flush_all_ok [of api db hs p q] assms(2) by simp_all
    show ?thesis
    proof (cases "status_ok s")
      case True
      then have run: "backup_with_engine api hs db e (did (EngineOpened s e) w q) = (oc, p')"
        using assms f None opts o' by (simp add: backup_with_db_def Let_def)
      show ?thesis using backup_with_engine_result [OF run] q True by auto
    next
      case False
      with assms f None opts o' q show ?thesis by (auto simp: backup_with_db_def Let_def)
    qed
  qed
qed

lemma usertable_in_iff: "usertable_in names \<longleftrightarrow> ''usertable'' \<in> set names"
  by (induction names) auto

text \<open>A run that restored and listed; \<open>lists_usertable\<close> is what the trace says of the listing.\<close>

definition lists_usertable :: "'w proc \<Rightarrow> bool" where
  "lists_usertable p \<longleftrightarrow>
     (\<forall>a \<in> set (trace p). case a of Listed s names \<Rightarrow> ''usertable'' \<in> set names | _ \<Rightarrow> True)"

lemma lists_usertable_emit [simp]:
  "lists_usertable (emit a p) \<longleftrightarrow> lists_usertable p \<and>
     (case a of Listed s names \<Rightarrow> ''usertable'' \<in> set names | _ \<Rightarrow> True)"
  by (auto simp: lists_usertable_def emit_def)

lemma lists_usertable_world [simp]: "lists_usertable (p\<lparr>world := w\<rparr>) = lists_usertable p"
  by (simp add: lists_usertable_def)

lemma lists_usertable_steps [simp]:
  "lists_usertable (did a w p) \<longleftrightarrow> lists_usertable p \<and>
     (case a of Listed s names \<Rightarrow> ''usertable'' \<in> set names | _ \<Rightarrow> True)"
  "lists_usertable (out s p) = lists_usertable p" "lists_usertable (err s p) = lists_usertable p"
  "lists_usertable (delete_db api d p) = lists_usertable p"
  "lists_usertable (delete_engine api e p) = lists_usertable p"
  by (simp_all add: did_def out_def err_def delete_db_def delete_engine_def)

lemma lists_usertable_folds [simp]:
  "lists_usertable (fold (\<lambda>x. out (f x)) xs p) = lists_usertable p"
  "lists_usertable (delete_handles api hs p) = lists_usertable p"
proof -
  show "lists_usertable (fold (\<lambda>x. out (f x)) xs p) = lists_usertable p"
    by (induction xs arbitrary: p) auto
  show "lists_usertable (delete_handles api hs p) = lists_usertable p"
    by (induction hs arbitrary: p) (auto simp: delete_handles_def delete_handle_def)
qed

lemma load_restored_result:
  assumes "load_restored api path e p = (oc, p')" and "all_ok p" "lists_usertable p"
  shows "oc = (if all_ok p' \<and> lists_usertable p' then Exit 0 else Exit 1)"
    and "oc = Exit 0 \<Longrightarrow> \<exists>names hs db. ''usertable'' \<in> set names \<and>
      work p' = work p @ [Listed Status_OK names, Opened Status_OK hs db] @ map DelHandle hs @
        [DelDB db, DelEngine e]"
  using assms
  by (auto simp: load_restored_def Let_def usertable_in_iff split: prod.splits if_splits)

lemma load_with_engine_result:
  assumes "load_with_engine api path ident e p = (oc, p')" and "all_ok p" "lists_usertable p"
  shows "oc = (if all_ok p' \<and> lists_usertable p' then Exit 0 else Exit 1) \<and>
    (oc = Exit 0 \<longrightarrow> (\<exists>names hs db. ''usertable'' \<in> set names \<and>
      work p' = work p @ [InfoRead e, Restored Status_OK e ident, Listed Status_OK names,
        Opened Status_OK hs db] @ map DelHandle hs @ [DelDB db, DelEngine e]))"
proof -
  define q where "q = fold (\<lambda>info. out (info_line info)) (get_backup_info api e (world p))
    (out ''Available backups:'' (emit (InfoRead e) p))"
  obtain s w where r: "RestoreDBFromBackup_compat (restore_backup api e) ident path path
      (RestoreOptions_new False) (world q) = (s, w)" by fastforce
  have q: "all_ok q" "lists_usertable q" "work q = work p @ [InfoRead e]"
    using assms by (simp_all add: q_def)
  show ?thesis
  proof (cases "status_ok s")
    case True
    then have run: "load_restored api path e (did (Restored s e ident) w q) = (oc, p')"
      using assms r by (simp add: load_with_engine_def Let_def q_def)
    show ?thesis using load_restored_result [OF run] q True by auto
  next
    case False
    with assms r q show ?thesis by (auto simp: load_with_engine_def Let_def q_def)
  qed
qed

section \<open>Reading the backup id\<close>

lemma takeWhile_digits: "\<forall>c \<in> set s. digit c \<Longrightarrow> t = [] \<or> \<not> digit (hd t) \<Longrightarrow>
    takeWhile digit (s @ t) = s"
  by (cases t) (auto simp: takeWhile_append)

lemma digit_plain: "digit c \<Longrightarrow> \<not> is_space c \<and> c \<noteq> CHR ''-'' \<and> c \<noteq> CHR ''+''"
  by (auto simp: digit_def is_space_def less_eq_char_def)

lemma stoi_show_nat:
  assumes "t = [] \<or> \<not> digit (hd t)"
  shows "stoi (show_nat n @ t) = (if int n > INT_MAX then Inl out_of_range else Inr (int n))"
proof -
  obtain c r where s: "show_nat n = c # r"
    using show_nat_nonempty by (metis neq_Nil_conv)
  have d: "\<forall>c \<in> set (show_nat n). digit c" by (rule show_nat_digits)
  then have "\<not> is_space c \<and> c \<noteq> CHR ''-'' \<and> c \<noteq> CHR ''+''" using digit_plain s by simp
  moreover have "takeWhile digit (show_nat n @ t) = show_nat n"
    using takeWhile_digits [OF d assms] .
  ultimately show ?thesis
    using read_show_nat [of n] by (auto simp: stoi_def Let_def s INT_MAX_def)
qed

lemma stoi_negative:
  "stoi (CHR ''-'' # show_nat n) =
     (if int n > 2 ^ 31 then Inl out_of_range else Inr (- int n))"
proof -
  have d: "\<forall>c \<in> set (show_nat n). digit c" by (rule show_nat_digits)
  have tw: "takeWhile digit (show_nat n) = show_nat n" using takeWhile_digits [OF d, of "[]"] by simp
  have "\<not> is_space (CHR ''-'')" by (simp add: is_space_def less_eq_char_def)
  then show ?thesis
    by (simp add: stoi_def Let_def INT_MAX_def tw read_show_nat show_nat_nonempty)
qed

section \<open>Properties\<close>

text \<open>A library in which every call succeeds, for the witnesses.\<close>

definition sample_api :: "nat rocksdb_api" where
  "sample_api = \<lparr>db_open = (\<lambda>path names w. (Status_OK, [1, 2], 3, w + 1)),
     db_flush = (\<lambda>db h w. (Status_OK, w + 1)), engine_open = (\<lambda>o' env w. (Status_OK, 4, w + 1)),
     create_backup = (\<lambda>e o' db meta n w. (Status_OK, None, w + 1)),
     get_backup_info = (\<lambda>e w. [BackupInfo_default]),
     restore_backup = (\<lambda>e o' ident db wal w. (Status_OK, w + 1)),
     list_column_families = (\<lambda>path w. (Status_OK, [''default'', ''usertable''], w + 1)),
     status_string = (\<lambda>s. ''OK''), destroy_handle = (\<lambda>h w. w + 1), destroy_db = (\<lambda>d w. w + 1),
     destroy_engine = (\<lambda>e w. w + 1)\<rparr>"

definition start :: "nat proc" where
  "start = \<lparr>world = 0, trace = []\<rparr>"

lemma sample_start: "opens_distinct sample_api" "trace start = []" "all_ok start"
  by (simp_all add: opens_distinct_def sample_api_def start_def all_ok_def)

lemma live_after_start: "trace p = [] \<Longrightarrow> live_after p = Some ([], None, None)"
  by (simp add: live_after_def)

lemma start_observed: "trace p = [] \<Longrightarrow> all_ok p \<and> work p = [] \<and> lists_usertable p"
  by (simp add: all_ok_def work_def lists_usertable_def)

lemma backup_with_db_defined: "\<exists>oc p'. backup_with_db api path hs db p = Some (oc, p')"
proof -
  obtain opts where "(BackupEngineOptions_dir path :: (unit, unit, unit) BackupEngineOptions option)
      = Some opts"
    using BackupEngineOptions_dir_fields by blast
  then show ?thesis
    by (auto simp: backup_with_db_def Let_def split: prod.splits option.splits)
qed

lemma backup_main_cases:
  assumes "argv \<noteq> []"
  obtains (usage) m where "length argv < 3" "backup_main api argv p = Some (Exit 1, err m p)"
  | (failed) s hs db w m where "3 \<le> length argv" "\<not> status_ok s"
      "db_open api (argv ! 1) backup_column_families (world p) = (s, hs, db, w)"
      "backup_main api argv p = Some (Exit 1, err m (did (Opened s hs db) w p))"
  | (opened) s hs db w where "3 \<le> length argv" "status_ok s"
      "db_open api (argv ! 1) backup_column_families (world p) = (s, hs, db, w)"
      "backup_main api argv p = backup_with_db api (argv ! 2) hs db (did (Opened s hs db) w p)"
proof (cases "length argv < 3")
  case True
  with assms usage show ?thesis by (cases argv) (auto simp: backup_main_def)
next
  case False
  obtain s hs db w where o': "db_open api (argv ! 1) backup_column_families (world p) = (s, hs, db, w)"
    by (metis prod_cases4)
  show ?thesis
  proof (cases "status_ok s")
    case True
    with o' False show ?thesis by (intro opened [of s hs db w]) (auto simp: backup_main_def Let_def)
  next
    case no: False
    with o' False show ?thesis by (intro failed [of s hs db w]) (auto simp: backup_main_def Let_def)
  qed
qed

text \<open>
  C1. backup\_rocksdb.cc never leaks and never uses an object after its deletion: whatever the
  library answers, the run ends, and afterwards every handle, the database and the engine that
  were opened have been deleted exactly once, handles before their database, and each use was of
  a live object.
\<close>

theorem backup_releases_everything:
  assumes "opens_distinct api" "argv \<noteq> []" "trace p = []"
  shows "\<exists>oc p'. backup_main api argv p = Some (oc, p') \<and> live_after p' = Some ([], None, None)"
  using assms(2)
proof (cases rule: backup_main_cases [where api = api and p = p])
  case (opened s hs db w)
  note start = live_after_start [OF assms(3)]
  obtain oc p' where run: "backup_with_db api (argv ! 2) hs db (did (Opened s hs db) w p) = Some (oc, p')"
    using backup_with_db_defined by blast
  from alive_backup_with_db [OF run alive_opened [OF assms(1) opened(3,2) start]] run opened(4)
  show ?thesis by simp
qed (use live_after_start [OF assms(3)] in auto)

theorem backup_releases_everything_witness:
  "\<exists>oc p'. backup_main sample_api [''backup'', ''db'', ''bk''] start = Some (oc, p') \<and>
     live_after p' = Some ([], None, None)"
  by (rule backup_releases_everything) (simp_all add: sample_start)

text \<open>
  C2. backup\_rocksdb.cc exits with 0 exactly when it was given both paths and every library call
  it made succeeded; otherwise it exits with 1.
\<close>

theorem backup_exit_status:
  assumes "trace p = []" "backup_main api argv p = Some (oc, p')"
  shows "oc = (if 3 \<le> length argv \<and> all_ok p' then Exit 0 else Exit 1)"
proof -
  have "argv \<noteq> []" using assms(2) by (auto simp: backup_main_def)
  then show ?thesis
  proof (cases rule: backup_main_cases [where api = api and p = p])
    case (opened s hs db w)
    then have "all_ok (did (Opened s hs db) w p)" using start_observed [OF assms(1)] by simp
    with backup_with_db_result [of api "argv ! 2" hs db "did (Opened s hs db) w p" oc p'] opened assms
    show ?thesis by simp
  qed (use assms in auto)
qed

theorem backup_exit_status_witness:
  "\<exists>oc p'. backup_main sample_api [''backup''] start = Some (oc, p') \<and> oc = Exit 1"
  using backup_exit_status [of start sample_api "[''backup'']" "Exit 1"]
  by (simp add: sample_start backup_main_def)

text \<open>
  C3. A successful backup did exactly this, in this order: it opened the database with its
  handles, flushed every column family, opened the engine, created one backup of that database,
  and deleted the handles, the database and the engine.
\<close>

theorem backup_success_trace:
  assumes "trace p = []" "backup_main api argv p = Some (Exit 0, p')"
  shows "\<exists>hs db e. work p' = [Opened Status_OK hs db] @ map (Flushed Status_OK db) hs @
     [EngineOpened Status_OK e, Created Status_OK e db] @ map DelHandle hs @ [DelDB db, DelEngine e]"
proof -
  have "argv \<noteq> []" using assms(2) by (auto simp: backup_main_def)
  then show ?thesis
  proof (cases rule: backup_main_cases [where api = api and p = p])
    case (opened s hs db w)
    have o': "all_ok (did (Opened s hs db) w p)" "work (did (Opened s hs db) w p) = [Opened Status_OK hs db]"
      using start_observed [OF assms(1)] opened by simp_all
    from backup_with_db_result [of api "argv ! 2" hs db "did (Opened s hs db) w p" "Exit 0" p'] opened assms o'
    show ?thesis by auto
  qed (use assms in auto)
qed

theorem backup_success_trace_witness:
  "\<exists>p' hs db e. backup_main sample_api [''backup'', ''db'', ''bk''] start = Some (Exit 0, p') \<and>
     work p' = [Opened Status_OK hs db] @ map (Flushed Status_OK db) hs @
       [EngineOpened Status_OK e, Created Status_OK e db] @ map DelHandle hs @ [DelDB db, DelEngine e]"
proof -
  have "map_option fst (backup_main sample_api [''backup'', ''db'', ''bk''] start) = Some (Exit 0)"
    by code_simp
  then have "\<exists>p'. backup_main sample_api [''backup'', ''db'', ''bk''] start = Some (Exit 0, p')"
    by auto
  with backup_success_trace [OF sample_start(2), of sample_api "[''backup'', ''db'', ''bk'']"]
  show ?thesis by blast
qed

text \<open>How a run of load\_rocksdb.cc goes, up to its engine.\<close>

lemma load_main_cases:
  assumes "argv \<noteq> []"
  obtains (usage) m where "length argv \<noteq> 4" "load_main api argv p = Some (Exit 1, err m p)"
  | (bad_id) e where "length argv = 4" "stoi (argv ! 3) = Inl e"
      "load_main api argv p = Some (Uncaught e, p)"
  | (failed) i s e w m where "length argv = 4" "stoi (argv ! 3) = Inr i" "\<not> status_ok s"
      "load_main api argv p = Some (Exit 1, err m (did (EngineOpened s e) w p))"
  | (opened) i s e w where "length argv = 4" "stoi (argv ! 3) = Inr i" "status_ok s"
      "load_main api argv p =
         Some (load_with_engine api (argv ! 1) (word_of_int i) e (did (EngineOpened s e) w p))"
proof (cases "length argv = 4")
  case False
  with assms usage show ?thesis by (cases argv) (auto simp: load_main_def)
next
  case len: True
  show ?thesis
  proof (cases "stoi (argv ! 3)")
    case (Inl e)
    with len bad_id show ?thesis by (simp add: load_main_def)
  next
    case (Inr i)
    obtain opts where opts: "(BackupEngineOptions_dir (argv ! 2) ::
        (unit, unit, unit) BackupEngineOptions option) = Some opts"
      using BackupEngineOptions_dir_fields by blast
    obtain s e w where o': "BackupEngine_Open_compat (engine_open api) () opts (world p) = (s, e, w)"
      by (metis prod_cases3)
    show ?thesis
    proof (cases "status_ok s")
      case True
      with len Inr opts o' show ?thesis
        by (intro opened [of i s e w]) (simp_all add: load_main_def Let_def)
    next
      case no: False
      with len Inr opts o' show ?thesis
        by (intro failed [where i = i and s = s and e = e and w = w]) (simp_all add: load_main_def Let_def)
    qed
  qed
qed

text \<open>
  C4. load\_rocksdb.cc never leaks and never uses an object after its deletion, and it restores
  only while no database is open: whatever the library answers, the run ends, and afterwards
  nothing that was opened is left.
\<close>

theorem load_releases_everything:
  assumes "opens_distinct api" "argv \<noteq> []" "trace p = []"
  shows "\<exists>oc p'. load_main api argv p = Some (oc, p') \<and> live_after p' = Some ([], None, None)"
proof -
  note start = live_after_start [OF assms(3)]
  show ?thesis
    using assms(2)
  proof (cases rule: load_main_cases [where api = api and p = p])
    case (opened i s e w)
    then have "live_after (did (EngineOpened s e) w p) = Some ([], None, Some e)" using start by simp
    from alive_load_with_engine [OF assms(1) this, of "argv ! 1" "word_of_int i"] opened(4)
    show ?thesis by (metis prod.collapse)
  qed (use start in auto)
qed

theorem load_releases_everything_witness:
  "\<exists>oc p'. load_main sample_api [''load'', ''db'', ''bk'', ''7''] start = Some (oc, p') \<and>
     live_after p' = Some ([], None, None)"
  by (rule load_releases_everything) (simp_all add: sample_start)

text \<open>
  C5. load\_rocksdb.cc exits with 0 exactly when it has three arguments, the id is a number that
  fits an \<open>int\<close>, every library call it made succeeded and the restored database lists
  \<open>usertable\<close>; a number that does not parse or does not fit ends it by an uncaught exception.
\<close>

theorem load_exit_status:
  assumes "trace p = []" "load_main api argv p = Some (oc, p')"
  shows "oc = (if length argv \<noteq> 4 then Exit 1
    else case stoi (argv ! 3) of
        Inl e \<Rightarrow> Uncaught e
      | Inr i \<Rightarrow> if all_ok p' \<and> lists_usertable p' then Exit 0 else Exit 1)"
proof -
  have "argv \<noteq> []" using assms(2) by (auto simp: load_main_def)
  then show ?thesis
  proof (cases rule: load_main_cases [where api = api and p = p])
    case (opened i s e w)
    then have o': "all_ok (did (EngineOpened s e) w p)" "lists_usertable (did (EngineOpened s e) w p)"
      using start_observed [OF assms(1)] by simp_all
    from opened assms have "load_with_engine api (argv ! 1) (word_of_int i) e (did (EngineOpened s e) w p)
        = (oc, p')" by simp
    from load_with_engine_result [OF this o'] opened show ?thesis by simp
  qed (use assms in auto)
qed

theorem load_exit_status_witness:
  "\<exists>oc p'. load_main sample_api [''load'', ''db'', ''bk'', ''x''] start = Some (oc, p') \<and>
     oc = Uncaught invalid_argument"
proof -
  have "load_main sample_api [''load'', ''db'', ''bk'', ''x''] start
      = Some (Uncaught invalid_argument, start)" by code_simp
  from load_exit_status [OF sample_start(2) this] this show ?thesis by auto
qed

text \<open>
  C6. A successful restore did exactly this, in this order: it opened the engine, read the list of
  backups, restored the given id (as 32 bits), listed the column families, found \<open>usertable\<close>
  among them, opened the database, and deleted the handles, the database and the engine.
\<close>

theorem load_success_trace:
  assumes "trace p = []" "load_main api argv p = Some (Exit 0, p')"
  shows "\<exists>i e names hs db. stoi (argv ! 3) = Inr i \<and> ''usertable'' \<in> set names \<and>
    work p' = [EngineOpened Status_OK e, InfoRead e, Restored Status_OK e (word_of_int i),
      Listed Status_OK names, Opened Status_OK hs db] @ map DelHandle hs @ [DelDB db, DelEngine e]"
proof -
  have "argv \<noteq> []" using assms(2) by (auto simp: load_main_def)
  then show ?thesis
  proof (cases rule: load_main_cases [where api = api and p = p])
    case (opened i s e w)
    then have o': "all_ok (did (EngineOpened s e) w p)" "lists_usertable (did (EngineOpened s e) w p)"
        "work (did (EngineOpened s e) w p) = [EngineOpened Status_OK e]"
      using start_observed [OF assms(1)] by simp_all
    from opened assms have "load_with_engine api (argv ! 1) (word_of_int i) e (did (EngineOpened s e) w p)
        = (Exit 0, p')" by simp
    from load_with_engine_result [OF this o'(1,2)] o'(3) opened(2) show ?thesis by auto
  qed (use assms in auto)
qed

theorem load_success_trace_witness:
  "\<exists>p' i e names hs db. load_main sample_api [''load'', ''db'', ''bk'', ''7''] start = Some (Exit 0, p') \<and>
     stoi ''7'' = Inr i \<and> ''usertable'' \<in> set names \<and>
     work p' = [EngineOpened Status_OK e, InfoRead e, Restored Status_OK e (word_of_int i),
       Listed Status_OK names, Opened Status_OK hs db] @ map DelHandle hs @ [DelDB db, DelEngine e]"
proof -
  have "map_option fst (load_main sample_api [''load'', ''db'', ''bk'', ''7''] start) = Some (Exit 0)"
    by code_simp
  then obtain p' where p': "load_main sample_api [''load'', ''db'', ''bk'', ''7''] start = Some (Exit 0, p')"
    by auto
  from load_success_trace [OF sample_start(2) p'] p' show ?thesis by auto
qed

text \<open>
  The id argument: a decimal number up to \<open>INT_MAX\<close>, whatever follows its digits, is read as
  that id; a larger one, although the id is an unsigned 32-bit number, ends the program by an
  uncaught exception; a negative one within the range of \<open>int\<close> wraps to the top of the ids.
\<close>

theorem load_backup_id:
  assumes "junk = [] \<or> \<not> digit (hd junk)"
  shows "(if int n \<le> INT_MAX
      then \<exists>i. stoi (show_nat n @ junk) = Inr i \<and> unat (word_of_int i :: BackupID) = n
      else load_main api [prog, db, bk, show_nat n @ junk] p = Some (Uncaught out_of_range, p))
    \<and> (if 0 < n \<and> int n \<le> 2 ^ 31
       then \<exists>i. stoi (CHR ''-'' # show_nat n) = Inr i \<and> unat (word_of_int i :: BackupID) = 2 ^ 32 - n
       else True)"
proof -
  have pos: "unat (word_of_int (int n) :: BackupID) = n" if "int n \<le> INT_MAX"
    using that by (intro of_nat_inverse) (simp_all add: INT_MAX_def)
  have neg: "unat (word_of_int (- int n) :: BackupID) = 2 ^ 32 - n" if "0 < n" "int n \<le> 2 ^ 31"
  proof -
    have "(word_of_int (- int n) :: BackupID) = of_nat (2 ^ 32 - n)"
      using that by (simp add: of_nat_diff)
    then show ?thesis using that by (intro of_nat_inverse) simp_all
  qed
  show ?thesis
    using pos neg stoi_show_nat [OF assms, of n] stoi_negative [of n]
    by (auto simp: load_main_def)
qed

theorem load_backup_id_witness:
  "load_main sample_api [''load'', ''db'', ''bk'', show_nat 3000000000 @ ''x''] start
     = Some (Uncaught out_of_range, start)"
proof -
  have "\<not> int 3000000000 \<le> INT_MAX" by (simp add: INT_MAX_def)
  with load_backup_id [of "''x''" 3000000000 sample_api "''load''" "''db''" "''bk''" start]
  show ?thesis by (simp add: digit_def)
qed

text \<open>
  test.cc makes one call, opens nothing, and its exit code says only whether the column
  families could be listed: it is 0 also where \<open>usertable\<close> is missing.
\<close>

theorem test_exit_status:
  "fst (test_main api p) =
     (if status_ok (fst (list_column_families api ''/tmp/rocksdb_restore'' (world p)))
      then Exit 0 else Exit 1) \<and>
   work (snd (test_main api p)) = work p @
     [Listed Status_OK (fst (snd (list_column_families api ''/tmp/rocksdb_restore'' (world p))))] \<and>
   live_after (snd (test_main api p)) = live_after p"
  by (cases "live_after p"; cases "list_column_families api ''/tmp/rocksdb_restore'' (world p)")
    (auto simp: test_main_def Let_def)

end
