(* ===== verification/Spec2Isabelle.thy ===== *)
theory Spec2Isabelle
  imports OptionCollections CustomizableModel ComparatorModel CompactionFilterModel WriteBuffer
    EnvMirrorModel TransactionDBModel IndexedBatchModel CacheOptionsModel DBOptionsModel
    EventModel TraceModel UtilityModel Tools
begin

text \<open>
  A verification development for the C++ part of the repository, src/rocksdb_dumpandload: three
  command line tools that back up, restore and check a RocksDB database, and the headers of the
  RocksDB library they are written against (include/rocksdb). Paths below are relative to that
  directory, header names to include/rocksdb.

  \<^bold>\<open>How the program is put together.\<close> The tools open a database, take or restore a backup through a
  backup engine and end with an exit code; every call answers with a \<open>Status\<close>. Of the library only
  the headers are in the repository. They hold the value types (\<open>Slice\<close>, \<open>Status\<close>, \<open>PinnableSlice\<close>,
  \<open>PinnableWideColumns\<close>, the option and metadata structs), the templates that parse and print options
  and create configured objects by name, the interfaces (\<open>DB\<close>, \<open>Env\<close>, \<open>FileSystem\<close>, files, clock) with
  the defaults of their virtual functions, and the wrappers that forward every call to another
  object. All of this is inline code and is modelled here; what a header only declares is a parameter
  of the definitions that use it, with the documented behaviour it is relied on for as a hypothesis
  of the theorems.

  \<^bold>\<open>Theories and the code they model.\<close>
    \<^item> \<open>Prelude\<close>: bytes, \<open>memcmp\<close>, \<open>strlen\<close>, decimal numbers, \<open>asserting\<close> (an assertion of the code: None
      when it fails), generic lemmas. No code of the repository.
    \<^item> \<open>SliceData\<close> (slice.h), \<open>Pinnable\<close> (cleanable.h, \<open>PinnableSlice\<close>): slices over explicit readable
      memory, cleanup lists, pinning. Reads out of range and failed assertions are None.
    \<^item> \<open>StatusModel\<close> (status.h), \<open>IOStatusModel\<close> (io_status.h): all fields, factories and predicates.
    \<^item> \<open>EnumSet\<close> (data_structure.h with the enumerations of types.h, cache.h and options.h it is used
      with): the bit set and its iterator.
    \<^item> \<open>MetadataModel\<close> (metadata.h), \<open>OptionRecords\<close> (options.h, compression_type.h,
      universal_compaction.h, advanced_options.h), \<open>BackupEngineModel\<close> (utilities/backup_engine.h): the
      structs with their constructors and defaults.
    \<^item> \<open>OptionType\<close>, \<open>OptionCollections\<close> (utilities/options_type.h, convenience.h): option descriptors,
      and parsing and printing of arrays and vectors, whose loops are \<open>partial_function (option)\<close>, so that
      a loop that does not end is None.
    \<^item> \<open>ObjectRegistry\<close> (utilities/object_registry.h), \<open>CustomizableModel\<close> (customizable.h,
      utilities/customizable_util.h): name patterns, factory lookup along the chain of registries,
      managed objects, the New and Load functions.
    \<^item> \<open>ComparatorModel\<close> (comparator.h), \<open>CompactionFilterModel\<close> (compaction_filter.h), \<open>WriteBuffer\<close>
      (write_buffer_manager.h, rate_limiter.h).
    \<^item> \<open>WideColumnsModel\<close>, \<open>PinnableColumns\<close> (wide_columns.h), \<open>AttributeGroups\<close> (attribute_groups.h): columns
      that point into the serialized value they were parsed from.
    \<^item> \<open>Forwarding\<close>: the contract of a wrapper (locale \<open>forwarding\<close>), interpreted for every wrapper below.
    \<^item> \<open>FileSystemModel\<close>, \<open>FileWrappers\<close> (file_system.h), \<open>EnvWrappers\<close> (env.h, system_clock.h): the file layer.
    \<^item> \<open>EnvMirrorModel\<close> (utilities/env_mirror.h): two environments driven in step (locale \<open>alike\<close>,
      interpreted for a wrapper and its target).
    \<^item> \<open>DatabaseModel\<close> (db.h), \<open>StackableModel\<close> (utilities/stackable_db.h): the database interface and the
      wrapper around it.
    \<^item> \<open>TransactionModel\<close> (utilities/transaction.h), \<open>TransactionDBModel\<close> (utilities/transaction_db.h,
      utilities/optimistic_transaction_db.h), \<open>WriteBatchModel\<close> (write_batch.h, write_batch_base.h): reads
      of a transaction through pinnable slices, the database of transactions as a stackable database,
      batches and the handlers that read them. \<open>IndexedBatchModel\<close> (utilities/write_batch_with_index.h,
      transaction_log.h): the batch with an index, and what it does not support.
    \<^item> \<open>CacheModel\<close> (advanced_cache.h, secondary_cache.h): item helpers, caches and their wrappers.
    \<^item> \<open>CacheOptionsModel\<close> (cache.h, table.h, memory_allocator.h), \<open>DBOptionsModel\<close> (options.h,
      advanced_options.h): the option structs of caches, tables, column families and databases; structs
      that derive from another are record extensions.
    \<^item> \<open>EventModel\<close> (listener.h, table_properties.h, compaction_job_stats.h, sst_file_writer.h): what a
      database reports, the listeners and the collectors of table properties.
    \<^item> \<open>TraceModel\<close> (trace_record.h, trace_record_result.h, block_cache_trace_writer.h, thread_status.h,
      iostats_context.h and others): traces, the status of threads, counters.
    \<^item> \<open>UtilityModel\<close> (experimental.h, utilities/ldb_cmd.h, slice_transform.h and other small headers).
    \<^item> \<open>PluginModel\<close> (memtablerep.h, statistics.h, iterator.h, wal_filter.h, merge_operator.h,
      utilities/ldb_cmd_execute_result.h): defaults of interfaces that users implement.
    \<^item> \<open>Tools\<close> (backup_rocksdb.cc, load_rocksdb.cc, test.cc): the mains over an abstract library (the
      record \<open>rocksdb_api\<close>) and an abstract world. A run yields the printed output, the trace of
      opened, used and deleted objects, and the exit code or the uncaught exception.

  \<^bold>\<open>How objects are modelled.\<close> The virtual functions of a class are the constructors of a datatype
  applied to the arguments of the call (\<open>FileSystem_call\<close>, \<open>Env_call\<close>, \<open>Write_call\<close>, \<dots>); output parameters
  are in the reply. An object is a function from calls and states to replies and states. What a
  class overrides is a partial map; \<open>\<dots>_base\<close> is the base class and \<open>\<dots>_object\<close> the dispatch between the
  two. Functions of a base class that call other virtual functions do so through the map, so that an
  override is seen. In db.h overloads call each other at most twice in a row; \<open>DB_object\<close> takes the
  object the last call goes to as the argument \<open>self\<close>, and the theorems hold for every \<open>self\<close>.

  \<^bold>\<open>What the lemmas show.\<close> Each theory first proves the laws of its own operations and collects them
  (\<open>status_simps\<close>, \<open>fs_wrapper_simps\<close>, \<dots>); the theorems that the development is for follow them.
    \<^item> The tools: nothing leaks and nothing is used after its deletion, the exit code says whether
      everything succeeded, and a success made exactly the calls it should have made.
    \<^item> Option values: the loops end; parse and print are inverse except for empty elements, also through
      the handlers of a descriptor.
    \<^item> Registry and creation: lookup order, stability of managed objects, what each failure leaves.
    \<^item> Sets, slices, columns: refinement of finite sets and of byte strings; a move neither loses nor
      invalidates a column; cleanups run exactly once.
    \<^item> The file layer: the default implementations meet their documentation, preallocation tiles the
      file, wrappers are transparent (and where they are not), the mirror never fails over two
      environments that agree.
    \<^item> The database: overloads agree with the calls they stand for, a stack of wrappers of any height
      is the database it wraps, and what such a stack hides; a transaction database in such a stack is
      transparent except for range deletions, which it rejects whatever is below.
    \<^item> Transactions and batches: reading into a pinnable slice agrees with reading into a string,
      \<open>MultiGet\<close> with reading key by key; handlers of the old interface see exactly the updates of the
      default column family.
    \<^item> Caches and memtables: item helpers are well formed by construction, wrappers are transparent on
      what they forward, the variants of an insertion insert once; the ways of making a cache agree.
    \<^item> Events and traces: a listener's state changes by the events it overrides only, an old collector sees
      keys and values, the severity of an I/O error is lost on the way to a listener, a thread status
      copies six properties and reads no more, latencies wrap at 64 bits.
    \<^item> Options: the initialisers fit together, and where they differ from their comments.

  \<^bold>\<open>Bounds.\<close> Machine integers are words of their width where arithmetic on them matters (64 bits for
  \<open>size_t\<close> and \<open>uint64_t\<close>), so overflow wraps as in the code; theorems that need the absence of overflow
  say so. Plain counters and sizes that are only passed on are naturals. No definition uses fuel.

  \<^bold>\<open>Not modelled.\<close> Everything a header only declares (the library itself); the C bindings (c.h),
  which are declarations only; the names of tickers and \<open>PerfContextBase\<close> (plain counters); headers that
  hold declarations and pure virtual functions only (filter_policy.h, persistent_cache.h,
  sst_file_manager.h, most of configurable.h); threads and locks:
  the modelled functions are sequential, except that \<open>lock\<close> of a weak pointer is a parameter. The YCSB
  benchmark itself is written in Java and the experiment scripts in shell and Python; both are
  outside this development.
\<close>

end
